(* ===== verification/Go_Strings.thy ===== *)
theory Go_Strings
  imports Main "HOL-Library.Sublist" "HOL-Library.Char_ord" "HOL-Library.List_Lexorder"
begin

section \<open>The parts of Go's strings and strconv packages that k3OS uses\<close>

text \<open>
  A Go string is a sequence of bytes, here a \<open>char list\<close>. The functions below follow the
  documentation of the standard packages \<open>strings\<close>, \<open>unicode\<close> and \<open>strconv\<close> on ASCII text:
  white space is space, \<open>\t\<close>, \<open>\n\<close>, \<open>\v\<close>, \<open>\f\<close> and \<open>\r\<close>, letters are \<open>A\<close> to \<open>Z\<close> and
  \<open>a\<close> to \<open>z\<close>, digits \<open>0\<close> to \<open>9\<close>. Bytes above 127 belong to no class, which is exact for
  byte-wise functions (\<open>HasPrefix\<close>, \<open>Split\<close>, \<open>ReplaceAll\<close>, \<open>Contains\<close>) and a bound on the
  others (a multi-byte rune that Unicode counts as a space or a letter is not one here).
  The collection \<open>gostr\<close> gathers the evaluation lemmas.
\<close>

named_theorems gostr

subsection \<open>Characters\<close>

abbreviation newline :: char where
  "newline \<equiv> CHR 0x0A"

definition is_space :: "char \<Rightarrow> bool" where
  "is_space c \<longleftrightarrow> c = CHR 0x20 \<or> c = CHR 0x09 \<or> c = CHR 0x0A \<or> c = CHR 0x0B
     \<or> c = CHR 0x0C \<or> c = CHR 0x0D"

definition is_digit :: "char \<Rightarrow> bool" where
  "is_digit c \<longleftrightarrow> CHR ''0'' \<le> c \<and> c \<le> CHR ''9''"

definition is_upper :: "char \<Rightarrow> bool" where
  "is_upper c \<longleftrightarrow> CHR ''A'' \<le> c \<and> c \<le> CHR ''Z''"

definition is_lower :: "char \<Rightarrow> bool" where
  "is_lower c \<longleftrightarrow> CHR ''a'' \<le> c \<and> c \<le> CHR ''z''"

definition to_lower :: "char \<Rightarrow> char" where
  "to_lower c = (if is_upper c then char_of (of_char c + 32 :: nat) else c)"

definition to_upper :: "char \<Rightarrow> char" where
  "to_upper c = (if is_lower c then char_of (of_char c - 32 :: nat) else c)"

definition ToLower :: "string \<Rightarrow> string" where
  "ToLower s = map to_lower s"

definition ToUpper :: "string \<Rightarrow> string" where
  "ToUpper s = map to_upper s"

subsection \<open>Prefixes, substrings, replacement\<close>

definition HasPrefix :: "string \<Rightarrow> string \<Rightarrow> bool" where
  "HasPrefix s p \<longleftrightarrow> take (length p) s = p"

definition HasSuffix :: "string \<Rightarrow> string \<Rightarrow> bool" where
  "HasSuffix s p \<longleftrightarrow> length p \<le> length s \<and> drop (length s - length p) s = p"

definition TrimPrefix :: "string \<Rightarrow> string \<Rightarrow> string" where
  "TrimPrefix s p = (if HasPrefix s p then drop (length p) s else s)"

fun Contains :: "string \<Rightarrow> string \<Rightarrow> bool" where
  "Contains [] t = (t = [])"
| "Contains (c # cs) t = (HasPrefix (c # cs) t \<or> Contains cs t)"

text \<open>\<open>strings.ReplaceAll\<close> for a non-empty pattern, scanning left to right without overlap.\<close>

function ReplaceAll :: "string \<Rightarrow> string \<Rightarrow> string \<Rightarrow> string" where
  "ReplaceAll [] old new = []"
| "ReplaceAll (c # cs) old new =
     (if old \<noteq> [] \<and> HasPrefix (c # cs) old
      then new @ ReplaceAll (drop (length old) (c # cs)) old new
      else c # ReplaceAll cs old new)"
  by pat_completeness auto
termination
  by (relation "measure (\<lambda>(s, old, new). length s)") auto

subsection \<open>Splitting, joining, trimming\<close>

text \<open>\<open>strings.Split\<close> with a one-byte separator.\<close>

fun Split :: "char \<Rightarrow> string \<Rightarrow> string list" where
  "Split d [] = [[]]"
| "Split d (c # cs) =
     (if c = d then [] # Split d cs
      else case Split d cs of [] \<Rightarrow> [[c]] | w # ws \<Rightarrow> (c # w) # ws)"

text \<open>\<open>strings.SplitN\<close> with a one-byte separator: at most \<open>n\<close> pieces, for \<open>n > 0\<close>.\<close>

fun SplitN :: "char \<Rightarrow> nat \<Rightarrow> string \<Rightarrow> string list" where
  "SplitN d 0 s = []"
| "SplitN d (Suc 0) s = [s]"
| "SplitN d (Suc (Suc n)) s =
     (case dropWhile (\<lambda>c. c \<noteq> d) s of
        [] \<Rightarrow> [s]
      | _ # rest \<Rightarrow> takeWhile (\<lambda>c. c \<noteq> d) s # SplitN d (Suc n) rest)"

fun Join :: "string \<Rightarrow> string list \<Rightarrow> string" where
  "Join sep [] = []"
| "Join sep [w] = w"
| "Join sep (w # v # ws) = w @ sep @ Join sep (v # ws)"

definition TrimLeftFunc :: "(char \<Rightarrow> bool) \<Rightarrow> string \<Rightarrow> string" where
  "TrimLeftFunc P s = dropWhile P s"

definition TrimRightFunc :: "(char \<Rightarrow> bool) \<Rightarrow> string \<Rightarrow> string" where
  "TrimRightFunc P s = rev (dropWhile P (rev s))"

definition TrimFunc :: "(char \<Rightarrow> bool) \<Rightarrow> string \<Rightarrow> string" where
  "TrimFunc P s = TrimRightFunc P (TrimLeftFunc P s)"

definition TrimSpace :: "string \<Rightarrow> string" where
  "TrimSpace s = TrimFunc is_space s"

text \<open>\<open>strings.Trim(s, cutset)\<close>.\<close>

definition Trim :: "string \<Rightarrow> string \<Rightarrow> string" where
  "Trim s cutset = TrimFunc (\<lambda>c. c \<in> set cutset) s"

text \<open>
  \<open>strings.FieldsFunc\<close> with a predicate that carries state (the closures of the command-line
  tokenisers do): \<open>fields_state f q cur s\<close> has read the field \<open>cur\<close> (reversed) so far and the
  closure is in state \<open>q\<close>. Maximal runs of bytes the predicate rejects are the fields.
\<close>

fun fields_state :: "('q \<Rightarrow> char \<Rightarrow> 'q \<times> bool) \<Rightarrow> 'q \<Rightarrow> string \<Rightarrow> string \<Rightarrow> string list" where
  "fields_state f q cur [] = (if cur = [] then [] else [rev cur])"
| "fields_state f q cur (c # cs) =
     (if snd (f q c) then (if cur = [] then [] else [rev cur]) @ fields_state f (fst (f q c)) [] cs
      else fields_state f (fst (f q c)) (c # cur) cs)"

definition FieldsFunc :: "(char \<Rightarrow> bool) \<Rightarrow> string \<Rightarrow> string list" where
  "FieldsFunc P s = fields_state (\<lambda>_ c. ((), P c)) () [] s"

definition Fields :: "string \<Rightarrow> string list" where
  "Fields s = FieldsFunc is_space s"

text \<open>
  The lines a \<open>bufio.Scanner\<close> yields: the text between newlines, one trailing \<open>\r\<close> dropped
  from each line, no empty line after a final newline.
\<close>

definition drop_cr :: "string \<Rightarrow> string" where
  "drop_cr l = (if l \<noteq> [] \<and> last l = CHR 0x0D then butlast l else l)"

definition ScanLines :: "string \<Rightarrow> string list" where
  "ScanLines s = (let ls = Split newline s
                  in map drop_cr (if last ls = [] then butlast ls else ls))"

subsection \<open>Numbers\<close>

definition digit_val :: "char \<Rightarrow> nat" where
  "digit_val c = of_char c - 48"

definition digits_val :: "nat \<Rightarrow> string \<Rightarrow> nat" where
  "digits_val base s = foldl (\<lambda>n c. base * n + digit_val c) 0 s"

definition digits_ok :: "nat \<Rightarrow> string \<Rightarrow> bool" where
  "digits_ok base s \<longleftrightarrow> s \<noteq> [] \<and> list_all (\<lambda>c. is_digit c \<and> digit_val c < base) s"

text \<open>
  \<open>strconv.ParseUint(s, base, bits)\<close> and \<open>strconv.ParseInt(s, base, bits)\<close> for a base from 2 to
  10: \<open>None\<close> is a syntax or range error. \<open>strconv.Atoi\<close> is \<open>ParseInt(s, 10, 64)\<close>, since Go's
  \<open>int\<close> has 64 bits on the platforms k3OS is built for.
\<close>

definition ParseUint :: "string \<Rightarrow> nat \<Rightarrow> nat \<Rightarrow> nat option" where
  "ParseUint s base bits =
     (if digits_ok base s \<and> digits_val base s < 2 ^ bits then Some (digits_val base s) else None)"

definition ParseInt :: "string \<Rightarrow> nat \<Rightarrow> nat \<Rightarrow> int option" where
  "ParseInt s base bits =
     (let neg = HasPrefix s ''-'';
          body = (if neg \<or> HasPrefix s ''+'' then tl s else s);
          v = digits_val base body
      in if \<not> digits_ok base body then None
         else if neg then (if v \<le> 2 ^ (bits - 1) then Some (- int v) else None)
         else (if v < 2 ^ (bits - 1) then Some (int v) else None))"

definition Atoi :: "string \<Rightarrow> int option" where
  "Atoi s = ParseInt s 10 64"

definition digit_char :: "nat \<Rightarrow> char" where
  "digit_char d = char_of (48 + d)"

fun show_nat :: "nat \<Rightarrow> string" where
  "show_nat n = (if n < 10 then [digit_char n] else show_nat (n div 10) @ [digit_char (n mod 10)])"

declare show_nat.simps [simp del]

definition Itoa :: "int \<Rightarrow> string" where
  "Itoa i = (if i < 0 then ''-'' @ show_nat (nat (- i)) else show_nat (nat i))"

text \<open>The definitions that evaluate string functions on literals by \<open>simp\<close>.\<close>

lemmas string_eval = HasPrefix_def HasSuffix_def TrimPrefix_def is_space_def is_digit_def is_upper_def
  is_lower_def to_lower_def to_upper_def ToLower_def ToUpper_def TrimLeftFunc_def TrimRightFunc_def
  TrimFunc_def TrimSpace_def Trim_def FieldsFunc_def Fields_def drop_cr_def ScanLines_def
  digit_val_def digits_val_def digits_ok_def ParseUint_def ParseInt_def Atoi_def Let_def

end
