(* ===== verification/Go_Path.thy ===== *)
theory Go_Path
  imports Go_Strings
begin

section \<open>Go's path/filepath on Unix, and internal/system/system.go\<close>

text \<open>
  \<open>filepath.Clean\<close>, \<open>Join\<close>, \<open>Dir\<close>, \<open>Base\<close> and \<open>path.Split\<close> as documented for Unix (the package
  \<open>path\<close> has the same functions there), and the three path builders of
  \<open>internal/system/system.go\<close>. The lemmas show how a joined path looks when its elements are
  plain file names, which is what the callers rely on.
\<close>

text \<open>
  The components of the cleaned path, in reverse: empty and \<open>.\<close> components vanish, \<open>..\<close> removes
  the component before it, and at the root of a rooted path it vanishes too.
\<close>

fun clean_comps :: "bool \<Rightarrow> string list \<Rightarrow> string list \<Rightarrow> string list" where
  "clean_comps rooted acc [] = acc"
| "clean_comps rooted acc (w # ws) =
     (if w = [] \<or> w = ''.'' then clean_comps rooted acc ws
      else if w = ''..'' then
        (case acc of
           [] \<Rightarrow> clean_comps rooted (if rooted then [] else [w]) ws
         | a # as \<Rightarrow> if a = ''..'' then clean_comps rooted (w # acc) ws
                     else clean_comps rooted as ws)
      else clean_comps rooted (w # acc) ws)"

definition Clean :: "string \<Rightarrow> string" where
  "Clean p =
     (let rooted = HasPrefix p ''/'';
          comps = rev (clean_comps rooted [] (Split CHR ''/'' p));
          body = Join ''/'' comps
      in if rooted then CHR ''/'' # body else if body = [] then ''.'' else body)"

fun PathJoin :: "string list \<Rightarrow> string" where
  "PathJoin [] = []"
| "PathJoin (e # es) = (if e = [] then PathJoin es else Clean (Join ''/'' (e # es)))"

text \<open>\<open>path.Split\<close>: the text up to and including the final slash, and the rest.\<close>

definition PathSplit :: "string \<Rightarrow> string \<times> string" where
  "PathSplit p = (rev (dropWhile (\<lambda>c. c \<noteq> CHR ''/'') (rev p)),
                  rev (takeWhile (\<lambda>c. c \<noteq> CHR ''/'') (rev p)))"

definition Dir :: "string \<Rightarrow> string" where
  "Dir p = Clean (fst (PathSplit p))"

definition Base :: "string \<Rightarrow> string" where
  "Base p =
     (if p = [] then ''.''
      else let q = TrimRightFunc (\<lambda>c. c = CHR ''/'') p
           in if q = [] then ''/'' else snd (PathSplit q))"

definition IsAbs :: "string \<Rightarrow> bool" where
  "IsAbs p = HasPrefix p ''/''"

subsection \<open>internal/system/system.go\<close>

definition rootDirectory :: string where
  "rootDirectory = ''/k3os/system''"

definition localDirectory :: string where
  "localDirectory = ''/var/lib/rancher/k3os''"

definition stateDirectory :: string where
  "stateDirectory = ''/run/k3os''"

definition RootPath :: "string list \<Rightarrow> string" where
  "RootPath elem = PathJoin [rootDirectory, PathJoin elem]"

definition LocalPath :: "string list \<Rightarrow> string" where
  "LocalPath elem = PathJoin [localDirectory, PathJoin elem]"

definition StatePath :: "string list \<Rightarrow> string" where
  "StatePath elem = PathJoin [stateDirectory, PathJoin elem]"

subsection \<open>Lemmas\<close>

text \<open>A plain file name: what a directory listing can contain.\<close>

definition plain_name :: "string \<Rightarrow> bool" where
  "plain_name n \<longleftrightarrow> n \<noteq> [] \<and> n \<noteq> ''.'' \<and> n \<noteq> ''..'' \<and> CHR ''/'' \<notin> set n"

lemma HasPrefix_iff: "HasPrefix s p \<longleftrightarrow> (\<exists>r. s = p @ r)"
  unfolding HasPrefix_def by (metis append_eq_conv_conj append_take_drop_id)

lemma Split_nonempty [simp]: "Split d s \<noteq> []"
  by (cases s) (auto split: list.splits)

lemma Split_no_sep: "d \<notin> set s \<Longrightarrow> Split d s = [s]"
  by (induction s) auto

lemma Split_append_sep: "d \<notin> set w \<Longrightarrow> Split d (w @ d # s) = w # Split d s"
  by (induction w) auto

lemma Split_Join:
  "ws \<noteq> [] \<Longrightarrow> (\<And>w. w \<in> set ws \<Longrightarrow> d \<notin> set w) \<Longrightarrow> Split d (Join [d] ws) = ws"
  by (induction "[d]" ws rule: Join.induct) (auto simp: Split_no_sep Split_append_sep)

lemma Join_Cons_head: "Join sep ((c # w) # ws) = c # Join sep (w # ws)"
  by (cases ws) auto

lemma Join_Nil_head: "ws \<noteq> [] \<Longrightarrow> Join sep ([] # ws) = sep @ Join sep ws"
  by (cases ws) auto

lemma Join_Split: "Join [d] (Split d s) = s"
proof (induction s)
  case (Cons c cs)
  then show ?case
    by (cases "Split d cs") (auto simp: Join_Cons_head Join_Nil_head)
qed simp

lemma Split_no_sep_in: "w \<in> set (Split d s) \<Longrightarrow> d \<notin> set w"
  by (induction s arbitrary: w) (auto split: list.splits if_splits)

lemma Split_append_at: "Split d (s @ d # t) = Split d s @ Split d t"
  by (induction s) (auto split: list.splits)

lemma Split_snoc_sep: "Split d (s @ [d]) = Split d s @ [[]]"
  by (simp add: Split_append_at)

lemma Split_snoc_other:
  "c \<noteq> d \<Longrightarrow> Split d (s @ [c]) = butlast (Split d s) @ [last (Split d s) @ [c]]"
  by (induction s) (auto split: list.splits)

lemma last_Split_Nil: "last (Split d s) = [] \<longleftrightarrow> s = [] \<or> last s = d"
proof (cases s rule: rev_cases)
  case (snoc xs x)
  then show ?thesis by (cases "x = d") (simp_all add: Split_snoc_other Split_snoc_sep)
qed simp

lemma Split_butlast_sep: "s \<noteq> [] \<Longrightarrow> last s = d \<Longrightarrow> Split d (butlast s) = butlast (Split d s)"
  by (metis Split_snoc_sep append_butlast_last_id butlast_snoc)

lemma clean_comps_plain:
  "(\<And>w. w \<in> set ws \<Longrightarrow> plain_name w) \<Longrightarrow> clean_comps r acc ws = rev ws @ acc"
  by (induction ws arbitrary: acc) (auto simp: plain_name_def)

text \<open>A rooted path of plain names is clean, and joining a plain name appends a component.\<close>

definition rooted_path :: "string list \<Rightarrow> string" where
  "rooted_path ws = CHR ''/'' # Join ''/'' ws"

lemma Join_snoc: "ws \<noteq> [] \<Longrightarrow> Join sep (ws @ [w]) = Join sep ws @ sep @ w"
  by (induction sep ws rule: Join.induct) auto

lemma Join_append: "us \<noteq> [] \<Longrightarrow> ws \<noteq> [] \<Longrightarrow> Join sep (us @ ws) = Join sep us @ sep @ Join sep ws"
  by (induction sep us rule: Join.induct) (auto simp: neq_Nil_conv)

lemma Split_rooted:
  assumes "ws \<noteq> []" and "\<And>w. w \<in> set ws \<Longrightarrow> plain_name w"
  shows "Split CHR ''/'' (rooted_path ws) = [] # ws"
proof -
  have "Split CHR ''/'' (Join ''/'' ws) = ws"
    using assms by (intro Split_Join) (auto simp: plain_name_def)
  then show ?thesis by (simp add: rooted_path_def)
qed

lemma Clean_rooted:
  assumes "ws \<noteq> []" and "\<And>w. w \<in> set ws \<Longrightarrow> plain_name w"
  shows "Clean (rooted_path ws) = rooted_path ws"
proof -
  have "clean_comps True [] (Split CHR ''/'' (rooted_path ws)) = rev ws"
    using assms(2) by (simp add: Split_rooted [OF assms] clean_comps_plain)
  moreover have "HasPrefix (rooted_path ws) ''/''"
    by (simp add: HasPrefix_def rooted_path_def)
  ultimately show ?thesis by (simp add: Clean_def Let_def) (simp add: rooted_path_def)
qed

lemma PathJoin_rooted:
  assumes "ds \<noteq> []" and "ns \<noteq> []"
    and "\<And>w. w \<in> set ds \<Longrightarrow> plain_name w" and "\<And>w. w \<in> set ns \<Longrightarrow> plain_name w"
  shows "PathJoin [rooted_path ds, Join ''/'' ns] = rooted_path (ds @ ns)"
proof -
  have "Join ''/'' [rooted_path ds, Join ''/'' ns] = rooted_path (ds @ ns)"
    using assms(1,2) by (simp add: rooted_path_def Join_append)
  moreover have "Clean (rooted_path (ds @ ns)) = rooted_path (ds @ ns)"
    using assms by (intro Clean_rooted) auto
  ultimately show ?thesis by (simp add: rooted_path_def)
qed

text \<open>Removing the tree at \<open>p\<close> removes what is at \<open>q\<close>: the same path or one below it.\<close>

definition wipes :: "string \<Rightarrow> string \<Rightarrow> bool" where
  "wipes p q \<longleftrightarrow> q = p \<or> HasPrefix q (p @ ''/'')"

lemma wipes_rooted:
  assumes "xs \<noteq> []" and "ys \<noteq> []"
    and "\<And>w. w \<in> set xs \<Longrightarrow> plain_name w" and "\<And>w. w \<in> set ys \<Longrightarrow> plain_name w"
  shows "wipes (rooted_path xs) (rooted_path ys) \<longleftrightarrow> prefix xs ys"
proof
  note split = Split_rooted [OF assms(1,3)] Split_rooted [OF assms(2,4)]
  assume "wipes (rooted_path xs) (rooted_path ys)"
  then consider "rooted_path ys = rooted_path xs"
    | r where "rooted_path ys = rooted_path xs @ CHR ''/'' # r"
    by (auto simp: wipes_def HasPrefix_iff)
  then show "prefix xs ys"
  proof cases
    case 1
    then show ?thesis using split by simp
  next
    case 2
    then have "[] # ys = ([] # xs) @ Split CHR ''/'' r"
      using split by (metis Split_append_at)
    then show ?thesis by simp
  qed
next
  assume "prefix xs ys"
  then obtain zs where "ys = xs @ zs" by (auto simp: prefix_def)
  then show "wipes (rooted_path xs) (rooted_path ys)"
    using assms(1) by (cases "zs = []")
      (auto simp: wipes_def HasPrefix_iff rooted_path_def Join_append)
qed

lemma RootPath_nil: "RootPath [] = rootDirectory"
  by code_simp

lemma StatePath_nil: "StatePath [] = stateDirectory"
  by code_simp

declare PathJoin.simps [simp del]

end
