(* ===== verification/Go_Effects.thy ===== *)
theory Go_Effects
  imports Go_Path
begin

section \<open>Effects: errors, operating-system calls and the iface boundaries\<close>

text \<open>
  Every effect of k3OS goes through an injected boundary (\<open>internal/iface/iface.go\<close>) or an
  \<open>os\<close>/\<open>syscall\<close> function. The world behind it is not part of the program, so the model keeps
  it abstract: the world is a function of the history of calls made so far. An action takes the
  history and returns its value and the list of events it adds, an event being a call together
  with whether it succeeded. A theorem that quantifies over the boundary records therefore holds
  for every behaviour of the operating system, and the events of an action are the observable
  order of its effects. Logging (\<open>slog\<close>, \<open>log\<close>) is not modelled.

  \<open>bnd\<close> is sequencing; \<open>check\<close> is \<open>if err != nil { return fmt.Errorf("ctx: %w", err) }\<close>, \<open>pass\<close>
  returns the error as it is, \<open>ignore\<close> is \<open>_ = call()\<close>.
\<close>

named_theorems emits_intros
named_theorems yields_intros

subsection \<open>Errors\<close>

datatype errno = ENOENT | EEXIST | EOTHER

text \<open>
  \<open>OsErr\<close> is an error of the operating system with its text, \<open>Msg\<close> one made by \<open>errors.New\<close> or
  \<open>fmt.Errorf\<close> without \<open>%w\<close>, \<open>Wrap c e\<close> is \<open>fmt.Errorf("c: %w", e)\<close>, \<open>JoinErr\<close> is \<open>errors.Join\<close>.
  \<open>ErrExecCalled\<close> and \<open>ErrSilentSkip\<close> are the program's own error values. \<open>Diverges\<close> is no value of
  the program: a loop modelled with fuel has it as its outcome when the fuel runs out, and the
  component states how much fuel excludes it.
\<close>

datatype err =
    OsErr errno string
  | Msg string
  | Wrap string err
  | JoinErr "err list"
  | ErrExecCalled string "string list" "string list"
  | ErrSilentSkip
  | Diverges

text \<open>
  \<open>os.IsNotExist\<close> and \<open>os.IsExist\<close> look through path errors only, never through \<open>%w\<close>;
  \<open>errors.Is\<close> looks through \<open>%w\<close> and \<open>errors.Join\<close>.
\<close>

fun IsNotExist :: "err \<Rightarrow> bool" where
  "IsNotExist (OsErr n _) = (n = ENOENT)"
| "IsNotExist _ = False"

fun IsExist :: "err \<Rightarrow> bool" where
  "IsExist (OsErr n _) = (n = EEXIST)"
| "IsExist _ = False"

fun errors_Is :: "(err \<Rightarrow> bool) \<Rightarrow> err \<Rightarrow> bool" where
  "errors_Is t (Wrap c e) = (t (Wrap c e) \<or> errors_Is t e)"
| "errors_Is t (JoinErr es) = (t (JoinErr es) \<or> list_ex (errors_Is t) es)"
| "errors_Is t e = t e"

subsection \<open>File information\<close>

record FileInfo =
  fi_Name :: string
  fi_IsDir :: bool
  fi_IsSymlink :: bool
  fi_IsRegular :: bool
  fi_Perm :: nat
  fi_Size :: nat

record DirEntry =
  de_Name :: string
  de_IsDir :: bool
  de_Info :: "err + FileInfo"

abbreviation mode_755 :: nat where "mode_755 \<equiv> 493"
abbreviation mode_644 :: nat where "mode_644 \<equiv> 420"
abbreviation mode_700 :: nat where "mode_700 \<equiv> 448"
abbreviation mode_600 :: nat where "mode_600 \<equiv> 384"
abbreviation mode_640 :: nat where "mode_640 \<equiv> 416"
abbreviation mode_440 :: nat where "mode_440 \<equiv> 288"

subsection \<open>Calls, events, histories\<close>

datatype (plugins only: code size) call =
    CStat string | CLstat string | CReadFile string | CWriteFile string string nat
  | CMkdirAll string nat | CRemove string | CRemoveAll string | CRename string string
  | CSymlink string string | CReadlink string | CReadDir string | CChmod string nat
  | CChown string int int | COpen string | CCreate string | CCreateTemp string string
  | CFileWrite string string | CFileClose string | CHostname | CSetHostname string
  | CRun string "string list" | CRunShell string | CRunWithEnv "string list" string "string list"
  | CMount string string string string | CForceMount string string string string
  | CMounted string | CUnmount string int
  | CFindByLabel string | CListDisks | CProbeFS string
  | CDetachPath string | CAttach string nat bool | CSetAutoclear string
  | CGrowPartition string int
  | CPivotRoot string string | CExec string "string list" "string list"
  | CCopyDir string string | CManifestCopy string string
  | CSleep nat | CNow | CCancelled | CGetenv string | CEnviron | CStatfs string
  | CCmdlineFlag string | CCmdlineContains string | CCmdlineRaw
  | CRand | CVirtDetect | CConfigRun | CRCRun
  | CRescue | CConsoleRedirect | CSys string "string list" "nat list"

text \<open>
  \<open>CSys name strings numbers\<close> stands for the less frequent calls: a system call or an injected
  function by its name, with its string and its numeric arguments.
\<close>

abbreviation CSysMount :: "string \<Rightarrow> string \<Rightarrow> string \<Rightarrow> nat \<Rightarrow> string \<Rightarrow> call" where
  "CSysMount device target fstype flags data \<equiv> CSys ''mount'' [device, target, fstype, data] [flags]"

abbreviation CMknod :: "string \<Rightarrow> nat \<Rightarrow> nat \<Rightarrow> call" where
  "CMknod path mode dev \<equiv> CSys ''mknod'' [path] [mode, dev]"

type_synonym event = "call \<times> bool"
type_synonym hist = "event list"
type_synonym 'a io = "hist \<Rightarrow> 'a \<times> hist"
type_synonym 'a go = "hist \<Rightarrow> (err + 'a) \<times> hist"

subsection \<open>Actions\<close>

definition ret :: "'a \<Rightarrow> 'a io" where
  "ret x h = (x, [])"

definition bnd :: "'a io \<Rightarrow> ('a \<Rightarrow> 'b io) \<Rightarrow> 'b io" where
  "bnd m f h = (let (a, t) = m h; (b, u) = f a (h @ t) in (b, t @ u))"

definition perform :: "call \<Rightarrow> (hist \<Rightarrow> err + 'a) \<Rightarrow> 'a go" where
  "perform c answer h = (answer h, [(c, \<not> isl (answer h))])"

definition observe :: "call \<Rightarrow> (hist \<Rightarrow> 'a) \<Rightarrow> 'a io" where
  "observe c answer h = (answer h, [(c, True)])"

abbreviation ok :: "'a \<Rightarrow> 'a go" where
  "ok x \<equiv> ret (Inr x)"

abbreviation fail :: "err \<Rightarrow> 'a go" where
  "fail e \<equiv> ret (Inl e)"

definition check :: "string \<Rightarrow> 'a go \<Rightarrow> ('a \<Rightarrow> 'b go) \<Rightarrow> 'b go" where
  "check ctx m k = bnd m (\<lambda>r. case r of Inl e \<Rightarrow> fail (Wrap ctx e) | Inr v \<Rightarrow> k v)"

definition pass :: "'a go \<Rightarrow> ('a \<Rightarrow> 'b go) \<Rightarrow> 'b go" where
  "pass m k = bnd m (\<lambda>r. case r of Inl e \<Rightarrow> fail e | Inr v \<Rightarrow> k v)"

definition ignore :: "'a io \<Rightarrow> 'b io \<Rightarrow> 'b io" where
  "ignore m k = bnd m (\<lambda>_. k)"

text \<open>A \<open>for range\<close> loop without early exit, and one that returns at the first error.\<close>

fun foreach :: "'a list \<Rightarrow> ('a \<Rightarrow> unit io) \<Rightarrow> unit io" where
  "foreach [] f = ret ()"
| "foreach (x # xs) f = ignore (f x) (foreach xs f)"

fun foreach_go :: "'a list \<Rightarrow> ('a \<Rightarrow> unit go) \<Rightarrow> unit go" where
  "foreach_go [] f = ok ()"
| "foreach_go (x # xs) f = pass (f x) (\<lambda>_. foreach_go xs f)"

subsection \<open>The boundary records of internal/iface/iface.go\<close>

record FileSystem =
  fs_WriteFile :: "hist \<Rightarrow> string \<Rightarrow> string \<Rightarrow> nat \<Rightarrow> err + unit"
  fs_ReadFile :: "hist \<Rightarrow> string \<Rightarrow> err + string"
  fs_MkdirAll :: "hist \<Rightarrow> string \<Rightarrow> nat \<Rightarrow> err + unit"
  fs_Stat :: "hist \<Rightarrow> string \<Rightarrow> err + FileInfo"
  fs_Lstat :: "hist \<Rightarrow> string \<Rightarrow> err + FileInfo"
  fs_Open :: "hist \<Rightarrow> string \<Rightarrow> err + string"
  fs_Create :: "hist \<Rightarrow> string \<Rightarrow> err + string"
  fs_CreateTemp :: "hist \<Rightarrow> string \<Rightarrow> string \<Rightarrow> err + string"
  fs_FileWrite :: "hist \<Rightarrow> string \<Rightarrow> string \<Rightarrow> err + unit"
  fs_FileClose :: "hist \<Rightarrow> string \<Rightarrow> err + unit"
  fs_Chown :: "hist \<Rightarrow> string \<Rightarrow> int \<Rightarrow> int \<Rightarrow> err + unit"
  fs_Chmod :: "hist \<Rightarrow> string \<Rightarrow> nat \<Rightarrow> err + unit"
  fs_Rename :: "hist \<Rightarrow> string \<Rightarrow> string \<Rightarrow> err + unit"
  fs_Remove :: "hist \<Rightarrow> string \<Rightarrow> err + unit"
  fs_RemoveAll :: "hist \<Rightarrow> string \<Rightarrow> err + unit"
  fs_Symlink :: "hist \<Rightarrow> string \<Rightarrow> string \<Rightarrow> err + unit"
  fs_Readlink :: "hist \<Rightarrow> string \<Rightarrow> err + string"
  fs_ReadDir :: "hist \<Rightarrow> string \<Rightarrow> err + DirEntry list"
  fs_Hostname :: "hist \<Rightarrow> err + string"

record CommandRunner =
  cr_Run :: "hist \<Rightarrow> string \<Rightarrow> string list \<Rightarrow> err + unit"
  cr_RunOutput :: "hist \<Rightarrow> string \<Rightarrow> string list \<Rightarrow> err + string"
  cr_RunWithStdin :: "hist \<Rightarrow> string \<Rightarrow> string \<Rightarrow> string list \<Rightarrow> err + unit"
  cr_RunShell :: "hist \<Rightarrow> string \<Rightarrow> err + unit"
  cr_RunWithEnv :: "hist \<Rightarrow> string list \<Rightarrow> string \<Rightarrow> string list \<Rightarrow> err + unit"

record Mounter =
  mt_Mount :: "hist \<Rightarrow> string \<Rightarrow> string \<Rightarrow> string \<Rightarrow> string \<Rightarrow> err + unit"
  mt_ForceMount :: "hist \<Rightarrow> string \<Rightarrow> string \<Rightarrow> string \<Rightarrow> string \<Rightarrow> err + unit"
  mt_Mounted :: "hist \<Rightarrow> string \<Rightarrow> err + bool"

record BlockProber =
  bp_FindByLabel :: "hist \<Rightarrow> string \<Rightarrow> err + string"
  bp_ListDisks :: "hist \<Rightarrow> err + string list"
  bp_ProbeFS :: "hist \<Rightarrow> string \<Rightarrow> string"

record LoopDetacher =
  ld_DetachPath :: "hist \<Rightarrow> string \<Rightarrow> err + unit"

text \<open>A \<open>LoopDevice\<close> is named by its path, which \<open>Attach\<close> returns.\<close>

record LoopAttacher =
  la_Attach :: "hist \<Rightarrow> string \<Rightarrow> nat \<Rightarrow> bool \<Rightarrow> err + string"
  la_SetAutoclear :: "hist \<Rightarrow> string \<Rightarrow> err + unit"

record PartitionGrower =
  pg_GrowPartition :: "hist \<Rightarrow> string \<Rightarrow> int \<Rightarrow> err + unit"

record CmdlineParser =
  cp_Flag :: "hist \<Rightarrow> string \<Rightarrow> string option"
  cp_Contains :: "hist \<Rightarrow> string \<Rightarrow> bool"
  cp_Consoles :: "hist \<Rightarrow> string list"
  cp_Raw :: "hist \<Rightarrow> string"

record ProcessExecutor =
  pe_PivotRoot :: "hist \<Rightarrow> string \<Rightarrow> string \<Rightarrow> err + unit"
  pe_Exec :: "hist \<Rightarrow> string \<Rightarrow> string list \<Rightarrow> string list \<Rightarrow> err + unit"

subsection \<open>Method calls\<close>

definition WriteFile :: "FileSystem \<Rightarrow> string \<Rightarrow> string \<Rightarrow> nat \<Rightarrow> unit go" where
  "WriteFile fs n d p = perform (CWriteFile n d p) (\<lambda>h. fs_WriteFile fs h n d p)"

definition ReadFile :: "FileSystem \<Rightarrow> string \<Rightarrow> string go" where
  "ReadFile fs n = perform (CReadFile n) (\<lambda>h. fs_ReadFile fs h n)"

definition MkdirAll :: "FileSystem \<Rightarrow> string \<Rightarrow> nat \<Rightarrow> unit go" where
  "MkdirAll fs n p = perform (CMkdirAll n p) (\<lambda>h. fs_MkdirAll fs h n p)"

definition Stat :: "FileSystem \<Rightarrow> string \<Rightarrow> FileInfo go" where
  "Stat fs n = perform (CStat n) (\<lambda>h. fs_Stat fs h n)"

definition Lstat :: "FileSystem \<Rightarrow> string \<Rightarrow> FileInfo go" where
  "Lstat fs n = perform (CLstat n) (\<lambda>h. fs_Lstat fs h n)"

definition Open :: "FileSystem \<Rightarrow> string \<Rightarrow> string go" where
  "Open fs n = perform (COpen n) (\<lambda>h. fs_Open fs h n)"

definition Create :: "FileSystem \<Rightarrow> string \<Rightarrow> string go" where
  "Create fs n = perform (CCreate n) (\<lambda>h. fs_Create fs h n)"

definition CreateTemp :: "FileSystem \<Rightarrow> string \<Rightarrow> string \<Rightarrow> string go" where
  "CreateTemp fs d p = perform (CCreateTemp d p) (\<lambda>h. fs_CreateTemp fs h d p)"

definition FileWrite :: "FileSystem \<Rightarrow> string \<Rightarrow> string \<Rightarrow> unit go" where
  "FileWrite fs f d = perform (CFileWrite f d) (\<lambda>h. fs_FileWrite fs h f d)"

definition FileClose :: "FileSystem \<Rightarrow> string \<Rightarrow> unit go" where
  "FileClose fs f = perform (CFileClose f) (\<lambda>h. fs_FileClose fs h f)"

definition Chown :: "FileSystem \<Rightarrow> string \<Rightarrow> int \<Rightarrow> int \<Rightarrow> unit go" where
  "Chown fs n u g = perform (CChown n u g) (\<lambda>h. fs_Chown fs h n u g)"

definition Chmod :: "FileSystem \<Rightarrow> string \<Rightarrow> nat \<Rightarrow> unit go" where
  "Chmod fs n p = perform (CChmod n p) (\<lambda>h. fs_Chmod fs h n p)"

definition Rename :: "FileSystem \<Rightarrow> string \<Rightarrow> string \<Rightarrow> unit go" where
  "Rename fs a b = perform (CRename a b) (\<lambda>h. fs_Rename fs h a b)"

definition Remove :: "FileSystem \<Rightarrow> string \<Rightarrow> unit go" where
  "Remove fs n = perform (CRemove n) (\<lambda>h. fs_Remove fs h n)"

definition RemoveAll :: "FileSystem \<Rightarrow> string \<Rightarrow> unit go" where
  "RemoveAll fs n = perform (CRemoveAll n) (\<lambda>h. fs_RemoveAll fs h n)"

definition Symlink :: "FileSystem \<Rightarrow> string \<Rightarrow> string \<Rightarrow> unit go" where
  "Symlink fs a b = perform (CSymlink a b) (\<lambda>h. fs_Symlink fs h a b)"

definition Readlink :: "FileSystem \<Rightarrow> string \<Rightarrow> string go" where
  "Readlink fs n = perform (CReadlink n) (\<lambda>h. fs_Readlink fs h n)"

definition ReadDir :: "FileSystem \<Rightarrow> string \<Rightarrow> DirEntry list go" where
  "ReadDir fs n = perform (CReadDir n) (\<lambda>h. fs_ReadDir fs h n)"

definition Hostname :: "FileSystem \<Rightarrow> string go" where
  "Hostname fs = perform CHostname (fs_Hostname fs)"

definition Run :: "CommandRunner \<Rightarrow> string \<Rightarrow> string list \<Rightarrow> unit go" where
  "Run cr n args = perform (CRun n args) (\<lambda>h. cr_Run cr h n args)"

definition RunShell :: "CommandRunner \<Rightarrow> string \<Rightarrow> unit go" where
  "RunShell cr c = perform (CRunShell c) (\<lambda>h. cr_RunShell cr h c)"

definition RunWithEnv :: "CommandRunner \<Rightarrow> string list \<Rightarrow> string \<Rightarrow> string list \<Rightarrow> unit go" where
  "RunWithEnv cr vars n args =
     perform (CRunWithEnv vars n args) (\<lambda>h. cr_RunWithEnv cr h vars n args)"

definition MountFS :: "Mounter \<Rightarrow> string \<Rightarrow> string \<Rightarrow> string \<Rightarrow> string \<Rightarrow> unit go" where
  "MountFS mt d t ty opts = perform (CMount d t ty opts) (\<lambda>h. mt_Mount mt h d t ty opts)"

definition ForceMount :: "Mounter \<Rightarrow> string \<Rightarrow> string \<Rightarrow> string \<Rightarrow> string \<Rightarrow> unit go" where
  "ForceMount mt d t ty opts =
     perform (CForceMount d t ty opts) (\<lambda>h. mt_ForceMount mt h d t ty opts)"

definition Mounted :: "Mounter \<Rightarrow> string \<Rightarrow> bool go" where
  "Mounted mt t = perform (CMounted t) (\<lambda>h. mt_Mounted mt h t)"

definition FindByLabel :: "BlockProber \<Rightarrow> string \<Rightarrow> string go" where
  "FindByLabel bp l = perform (CFindByLabel l) (\<lambda>h. bp_FindByLabel bp h l)"

definition ListDisks :: "BlockProber \<Rightarrow> string list go" where
  "ListDisks bp = perform CListDisks (bp_ListDisks bp)"

definition ProbeFS :: "BlockProber \<Rightarrow> string \<Rightarrow> string io" where
  "ProbeFS bp d = observe (CProbeFS d) (\<lambda>h. bp_ProbeFS bp h d)"

definition DetachPath :: "LoopDetacher \<Rightarrow> string \<Rightarrow> unit go" where
  "DetachPath ld d = perform (CDetachPath d) (\<lambda>h. ld_DetachPath ld h d)"

definition Attach :: "LoopAttacher \<Rightarrow> string \<Rightarrow> nat \<Rightarrow> bool \<Rightarrow> string go" where
  "Attach la f off ro = perform (CAttach f off ro) (\<lambda>h. la_Attach la h f off ro)"

definition SetAutoclear :: "LoopAttacher \<Rightarrow> string \<Rightarrow> unit go" where
  "SetAutoclear la d = perform (CSetAutoclear d) (\<lambda>h. la_SetAutoclear la h d)"

definition GrowPartition :: "PartitionGrower \<Rightarrow> string \<Rightarrow> int \<Rightarrow> unit go" where
  "GrowPartition pg d n = perform (CGrowPartition d n) (\<lambda>h. pg_GrowPartition pg h d n)"

definition Flag :: "CmdlineParser \<Rightarrow> string \<Rightarrow> string option io" where
  "Flag cp n = observe (CCmdlineFlag n) (\<lambda>h. cp_Flag cp h n)"

definition CmdlineContains :: "CmdlineParser \<Rightarrow> string \<Rightarrow> bool io" where
  "CmdlineContains cp n = observe (CCmdlineContains n) (\<lambda>h. cp_Contains cp h n)"

definition Raw :: "CmdlineParser \<Rightarrow> string io" where
  "Raw cp = observe CCmdlineRaw (cp_Raw cp)"

definition PivotRoot :: "ProcessExecutor \<Rightarrow> string \<Rightarrow> string \<Rightarrow> unit go" where
  "PivotRoot pe a b = perform (CPivotRoot a b) (\<lambda>h. pe_PivotRoot pe h a b)"

definition Exec :: "ProcessExecutor \<Rightarrow> string \<Rightarrow> string list \<Rightarrow> string list \<Rightarrow> unit go" where
  "Exec pe p args vars = perform (CExec p args vars) (\<lambda>h. pe_Exec pe h p args vars)"

definition Sleep :: "nat \<Rightarrow> unit io" where
  "Sleep d = observe (CSleep d) (\<lambda>_. ())"

lemmas method_defs = WriteFile_def ReadFile_def MkdirAll_def Stat_def Lstat_def Open_def
  Create_def CreateTemp_def FileWrite_def FileClose_def Chown_def Chmod_def Rename_def Remove_def
  RemoveAll_def Symlink_def Readlink_def ReadDir_def Hostname_def Run_def RunShell_def
  RunWithEnv_def MountFS_def ForceMount_def Mounted_def FindByLabel_def ListDisks_def ProbeFS_def
  DetachPath_def Attach_def SetAutoclear_def GrowPartition_def Flag_def CmdlineContains_def
  Raw_def PivotRoot_def Exec_def Sleep_def

subsection \<open>Values and events of composed actions\<close>

lemma ret_run [simp]: "ret x h = (x, [])"
  by (simp add: ret_def)

lemma fst_bnd [simp]: "fst (bnd m f h) = fst (f (fst (m h)) (h @ snd (m h)))"
  by (simp add: bnd_def case_prod_beta Let_def)

lemma snd_bnd [simp]: "snd (bnd m f h) = snd (m h) @ snd (f (fst (m h)) (h @ snd (m h)))"
  by (simp add: bnd_def case_prod_beta Let_def)

lemma perform_run [simp]: "perform c f h = (f h, [(c, \<not> isl (f h))])"
  by (simp add: perform_def)

lemma observe_run [simp]: "observe c f h = (f h, [(c, True)])"
  by (simp add: observe_def)

lemma bnd_eqI: "(\<And>h. fst (m h) = fst (n h)) \<Longrightarrow> (\<And>h. snd (m h) = snd (n h)) \<Longrightarrow> m = n"
  by (rule ext) (simp add: prod_eq_iff)

lemma bnd_ret_left: "bnd (ret x) f = f x"
  by (rule bnd_eqI) simp_all

lemma bnd_ret_right: "bnd m ret = m"
  by (rule bnd_eqI) simp_all

lemma bnd_assoc: "bnd (bnd m f) g = bnd m (\<lambda>x. bnd (f x) g)"
  by (rule bnd_eqI) simp_all

lemma fst_check [simp]:
  "fst (check ctx m k h) =
     (case fst (m h) of Inl e \<Rightarrow> Inl (Wrap ctx e) | Inr v \<Rightarrow> fst (k v (h @ snd (m h))))"
  by (simp add: check_def split: sum.split)

lemma snd_check [simp]:
  "snd (check ctx m k h) =
     snd (m h) @ (case fst (m h) of Inl e \<Rightarrow> [] | Inr v \<Rightarrow> snd (k v (h @ snd (m h))))"
  by (simp add: check_def split: sum.split)

lemma fst_pass [simp]:
  "fst (pass m k h) =
     (case fst (m h) of Inl e \<Rightarrow> Inl e | Inr v \<Rightarrow> fst (k v (h @ snd (m h))))"
  by (simp add: pass_def split: sum.split)

lemma snd_pass [simp]:
  "snd (pass m k h) =
     snd (m h) @ (case fst (m h) of Inl e \<Rightarrow> [] | Inr v \<Rightarrow> snd (k v (h @ snd (m h))))"
  by (simp add: pass_def split: sum.split)

text \<open>When a composed action succeeds, so did its parts.\<close>

lemma pass_Inr: "fst (pass m k h) = Inr v \<longleftrightarrow> (\<exists>x. fst (m h) = Inr x \<and> fst (k x (h @ snd (m h))) = Inr v)"
  by (simp split: sum.split)

lemma check_Inr: "fst (check c m k h) = Inr v \<longleftrightarrow> (\<exists>x. fst (m h) = Inr x \<and> fst (k x (h @ snd (m h))) = Inr v)"
  by (simp split: sum.split)

lemma fst_ignore [simp]: "fst (ignore m k h) = fst (k (h @ snd (m h)))"
  by (simp add: ignore_def)

lemma snd_ignore [simp]: "snd (ignore m k h) = snd (m h) @ snd (k (h @ snd (m h)))"
  by (simp add: ignore_def)

text \<open>A loop that stops at the first error succeeds exactly when each of its steps does.\<close>

lemma foreach_go_append:
  "foreach_go (xs @ ys) f = pass (foreach_go xs f) (\<lambda>_. foreach_go ys f)"
proof (induction xs)
  case Nil
  show ?case by (rule bnd_eqI) simp_all
next
  case (Cons x xs)
  show ?case
    by (rule bnd_eqI) (simp_all add: Cons split: sum.split)
qed

subsection \<open>Trace predicates\<close>

text \<open>\<open>emits P m\<close>: whatever the history, every event \<open>m\<close> adds satisfies \<open>P\<close>.\<close>

definition emits :: "(event \<Rightarrow> bool) \<Rightarrow> 'a io \<Rightarrow> bool" where
  "emits P m \<longleftrightarrow> (\<forall>h. list_all P (snd (m h)))"

text \<open>\<open>yields R m\<close>: whatever the history, the value of \<open>m\<close> satisfies \<open>R\<close>.\<close>

definition yields :: "('a \<Rightarrow> bool) \<Rightarrow> 'a io \<Rightarrow> bool" where
  "yields R m \<longleftrightarrow> (\<forall>h. R (fst (m h)))"

lemma emitsD: "emits P m \<Longrightarrow> ev \<in> set (snd (m h)) \<Longrightarrow> P ev"
  by (auto simp: emits_def list_all_iff)

lemma yieldsD: "yields R m \<Longrightarrow> R (fst (m h))"
  by (simp add: yields_def)

lemma emits_ret [emits_intros]: "emits P (ret x)"
  by (simp add: emits_def)

lemma emits_perform [emits_intros]: "(\<And>b. P (c, b)) \<Longrightarrow> emits P (perform c f)"
  by (simp add: emits_def)

lemma emits_observe [emits_intros]: "P (c, True) \<Longrightarrow> emits P (observe c f)"
  by (simp add: emits_def)

lemma emits_bnd [emits_intros]: "emits P m \<Longrightarrow> (\<And>x. emits P (f x)) \<Longrightarrow> emits P (bnd m f)"
  by (simp add: emits_def)

lemma emits_bnd_val: "emits P m \<Longrightarrow> yields R m \<Longrightarrow> (\<And>x. R x \<Longrightarrow> emits P (f x)) \<Longrightarrow> emits P (bnd m f)"
  by (simp add: emits_def yields_def)

lemma emits_check [emits_intros]:
  "emits P m \<Longrightarrow> (\<And>x. emits P (k x)) \<Longrightarrow> emits P (check c m k)"
  by (simp add: emits_def split: sum.split)

lemma emits_pass [emits_intros]:
  "emits P m \<Longrightarrow> (\<And>x. emits P (k x)) \<Longrightarrow> emits P (pass m k)"
  by (simp add: emits_def split: sum.split)

lemma emits_ignore [emits_intros]: "emits P m \<Longrightarrow> emits P k \<Longrightarrow> emits P (ignore m k)"
  by (simp add: emits_def)

lemma emits_foreach [emits_intros]:
  "(\<And>x. x \<in> set xs \<Longrightarrow> emits P (f x)) \<Longrightarrow> emits P (foreach xs f)"
  by (induction xs) (auto intro: emits_intros)

lemma emits_foreach_go [emits_intros]:
  "(\<And>x. x \<in> set xs \<Longrightarrow> emits P (f x)) \<Longrightarrow> emits P (foreach_go xs f)"
  by (induction xs) (auto intro: emits_intros)

lemma emits_if [emits_intros]:
  "(b \<Longrightarrow> emits P m) \<Longrightarrow> (\<not> b \<Longrightarrow> emits P n) \<Longrightarrow> emits P (if b then m else n)"
  by simp

lemma emits_case_sum [emits_intros]:
  "(\<And>e. x = Inl e \<Longrightarrow> emits P (f e)) \<Longrightarrow> (\<And>v. x = Inr v \<Longrightarrow> emits P (g v)) \<Longrightarrow>
     emits P (case x of Inl e \<Rightarrow> f e | Inr v \<Rightarrow> g v)"
  by (simp split: sum.split)

lemma emits_case_option [emits_intros]:
  "(x = None \<Longrightarrow> emits P m) \<Longrightarrow> (\<And>v. x = Some v \<Longrightarrow> emits P (g v)) \<Longrightarrow>
     emits P (case x of None \<Rightarrow> m | Some v \<Rightarrow> g v)"
  by (simp split: option.split)

lemma emits_case_list [emits_intros]:
  "(x = [] \<Longrightarrow> emits P m) \<Longrightarrow> (\<And>y ys. x = y # ys \<Longrightarrow> emits P (g y ys)) \<Longrightarrow>
     emits P (case x of [] \<Rightarrow> m | y # ys \<Rightarrow> g y ys)"
  by (simp split: list.split)

lemma emits_weaken: "emits P m \<Longrightarrow> (\<And>ev. P ev \<Longrightarrow> Q ev) \<Longrightarrow> emits Q m"
  by (auto simp: emits_def list_all_iff)

text \<open>
  \<open>guarded P Q tr\<close>: every event of \<open>tr\<close> that satisfies \<open>P\<close> comes after one that satisfies \<open>Q\<close>.
\<close>

fun guarded :: "(event \<Rightarrow> bool) \<Rightarrow> (event \<Rightarrow> bool) \<Rightarrow> hist \<Rightarrow> bool" where
  "guarded P Q [] = True"
| "guarded P Q (ev # tr) = (\<not> P ev \<and> (Q ev \<or> guarded P Q tr))"

lemma guarded_append [simp]:
  "guarded P Q (xs @ ys) \<longleftrightarrow> guarded P Q xs \<and> (list_ex Q xs \<or> guarded P Q ys)"
  by (induction xs) auto

lemma guarded_none: "list_all (\<lambda>ev. \<not> P ev) tr \<Longrightarrow> guarded P Q tr"
  by (induction tr) auto

lemma guardedD: "guarded P Q (xs @ ev # ys) \<Longrightarrow> P ev \<Longrightarrow> list_ex Q xs"
  by simp

lemma guardedI:
  "(\<And>xs ev ys. tr = xs @ ev # ys \<Longrightarrow> P ev \<Longrightarrow> list_ex Q xs) \<Longrightarrow> guarded P Q tr"
proof (induction tr)
  case (Cons ev tr)
  have "guarded P Q tr" if "\<not> Q ev"
  proof (rule Cons.IH)
    fix xs ev' ys assume "tr = xs @ ev' # ys" and "P ev'"
    then show "list_ex Q xs" using Cons.prems [of "ev # xs" ev' ys] that by simp
  qed
  then show ?case using Cons.prems [of "[]" ev tr] by auto
qed simp

lemma yields_ret [yields_intros]: "R x \<Longrightarrow> yields R (ret x)"
  by (simp add: yields_def)

lemma yields_bnd [yields_intros]: "(\<And>x. yields R (f x)) \<Longrightarrow> yields R (bnd m f)"
  by (simp add: yields_def)

lemma yields_check [yields_intros]:
  "(\<And>e. R (Inl (Wrap c e))) \<Longrightarrow> (\<And>x. yields R (k x)) \<Longrightarrow> yields R (check c m k)"
  by (simp add: yields_def split: sum.split)

lemma yields_pass [yields_intros]:
  "(\<And>e. R (Inl e)) \<Longrightarrow> (\<And>x. yields R (k x)) \<Longrightarrow> yields R (pass m k)"
  by (simp add: yields_def split: sum.split)

lemma yields_ignore [yields_intros]: "yields R k \<Longrightarrow> yields R (ignore m k)"
  by (simp add: yields_def)

lemma yields_if [yields_intros]:
  "(b \<Longrightarrow> yields R m) \<Longrightarrow> (\<not> b \<Longrightarrow> yields R n) \<Longrightarrow> yields R (if b then m else n)"
  by simp

lemma yields_case_sum [yields_intros]:
  "(\<And>e. x = Inl e \<Longrightarrow> yields R (f e)) \<Longrightarrow> (\<And>v. x = Inr v \<Longrightarrow> yields R (g v)) \<Longrightarrow>
     yields R (case x of Inl e \<Rightarrow> f e | Inr v \<Rightarrow> g v)"
  by (simp split: sum.split)

lemma yields_perform: "(\<And>h. R (f h)) \<Longrightarrow> yields R (perform c f)"
  by (simp add: yields_def)

subsection \<open>Directory listings\<close>

text \<open>A file system whose directory listings contain plain names, as \<open>readdir\<close> promises.\<close>

definition plain_listings :: "FileSystem \<Rightarrow> bool" where
  "plain_listings fs \<longleftrightarrow>
     (\<forall>h d es. fs_ReadDir fs h d = Inr es \<longrightarrow> list_all (\<lambda>e. plain_name (de_Name e)) es)"

definition plain_result :: "err + DirEntry list \<Rightarrow> bool" where
  "plain_result r \<longleftrightarrow> (\<forall>es. r = Inr es \<longrightarrow> list_all (\<lambda>e. plain_name (de_Name e)) es)"

lemma ReadDir_plain: "plain_listings fs \<Longrightarrow> yields plain_result (ReadDir fs d)"
  unfolding ReadDir_def by (rule yields_perform) (auto simp: plain_listings_def plain_result_def)

end
