(* ===== verification/Go_Fixtures.thy ===== *)
theory Go_Fixtures
  imports Go_Effects
begin

section \<open>Concrete boundaries for witnesses\<close>

text \<open>
  Small executable instances of the boundary records. They stand for one possible operating
  system each and are used only to show that the hypotheses of a property can hold; no property
  is about them. \<open>fs_ok\<close> is a file system on which every call succeeds, \<open>cmd_ok\<close>, \<open>mounter_ok\<close>,
  \<open>prober_ok\<close> and \<open>proc_ok\<close> likewise.
\<close>

definition info_file :: FileInfo where
  "info_file = \<lparr>fi_Name = ''f'', fi_IsDir = False, fi_IsSymlink = False, fi_IsRegular = True,
     fi_Perm = mode_644, fi_Size = 0\<rparr>"

definition info_dir :: FileInfo where
  "info_dir = \<lparr>fi_Name = ''d'', fi_IsDir = True, fi_IsSymlink = False, fi_IsRegular = False,
     fi_Perm = mode_755, fi_Size = 0\<rparr>"

definition enoent :: err where
  "enoent = OsErr ENOENT ''no such file or directory''"

definition eio :: err where
  "eio = OsErr EOTHER ''input/output error''"

definition fs_ok :: FileSystem where
  "fs_ok = \<lparr>fs_WriteFile = (\<lambda>_ _ _ _. Inr ()), fs_ReadFile = (\<lambda>_ _. Inr []),
     fs_MkdirAll = (\<lambda>_ _ _. Inr ()), fs_Stat = (\<lambda>_ _. Inr info_dir),
     fs_Lstat = (\<lambda>_ _. Inr info_dir), fs_Open = (\<lambda>_ n. Inr n), fs_Create = (\<lambda>_ n. Inr n),
     fs_CreateTemp = (\<lambda>_ d p. Inr (d @ ''/tmp'')), fs_FileWrite = (\<lambda>_ _ _. Inr ()),
     fs_FileClose = (\<lambda>_ _. Inr ()), fs_Chown = (\<lambda>_ _ _ _. Inr ()), fs_Chmod = (\<lambda>_ _ _. Inr ()),
     fs_Rename = (\<lambda>_ _ _. Inr ()), fs_Remove = (\<lambda>_ _. Inr ()), fs_RemoveAll = (\<lambda>_ _. Inr ()),
     fs_Symlink = (\<lambda>_ _ _. Inr ()), fs_Readlink = (\<lambda>_ _. Inr ''x''), fs_ReadDir = (\<lambda>_ _. Inr []),
     fs_Hostname = (\<lambda>_. Inr ''k3os'')\<rparr>"

definition cmd_ok :: CommandRunner where
  "cmd_ok = \<lparr>cr_Run = (\<lambda>_ _ _. Inr ()), cr_RunOutput = (\<lambda>_ _ _. Inr []), cr_RunWithStdin = (\<lambda>_ _ _ _. Inr ()), cr_RunShell = (\<lambda>_ _. Inr ()),
     cr_RunWithEnv = (\<lambda>_ _ _ _. Inr ())\<rparr>"

definition mounter_ok :: Mounter where
  "mounter_ok = \<lparr>mt_Mount = (\<lambda>_ _ _ _ _. Inr ()), mt_ForceMount = (\<lambda>_ _ _ _ _. Inr ()),
     mt_Mounted = (\<lambda>_ _. Inr False)\<rparr>"

definition prober_ok :: BlockProber where
  "prober_ok = \<lparr>bp_FindByLabel = (\<lambda>_ _. Inr ''/dev/sda2''), bp_ListDisks = (\<lambda>_. Inr [''sda'']),
     bp_ProbeFS = (\<lambda>_ _. ''ext4'')\<rparr>"

definition proc_ok :: ProcessExecutor where
  "proc_ok = \<lparr>pe_PivotRoot = (\<lambda>_ _ _. Inr ()), pe_Exec = (\<lambda>_ _ _ _. Inr ())\<rparr>"

definition grower_ok :: PartitionGrower where
  "grower_ok = \<lparr>pg_GrowPartition = (\<lambda>_ _ _. Inr ())\<rparr>"

definition detacher_ok :: LoopDetacher where
  "detacher_ok = \<lparr>ld_DetachPath = (\<lambda>_ _. Inr ())\<rparr>"

definition attacher_ok :: LoopAttacher where
  "attacher_ok = \<lparr>la_Attach = (\<lambda>_ _ _ _. Inr ''/dev/loop0''), la_SetAutoclear = (\<lambda>_ _. Inr ())\<rparr>"

definition cmdline_none :: CmdlineParser where
  "cmdline_none = \<lparr>cp_Flag = (\<lambda>_ _. None), cp_Contains = (\<lambda>_ _. False), cp_Consoles = (\<lambda>_. []), cp_Raw = (\<lambda>_. [])\<rparr>"

lemmas fixture_defs = info_file_def info_dir_def enoent_def eio_def fs_ok_def cmd_ok_def
  mounter_ok_def prober_ok_def proc_ok_def grower_ok_def detacher_ok_def attacher_ok_def
  cmdline_none_def

subsection \<open>Actions that cannot fail\<close>

text \<open>
  On a machine where every call succeeds an action succeeds by its structure alone, without
  evaluating its history.
\<close>

named_theorems never_fails_intros

definition never_fails :: "'a go \<Rightarrow> bool" where
  "never_fails m \<longleftrightarrow> (\<forall>h. \<not> isl (fst (m h)))"

lemma never_failsD: "never_fails m \<Longrightarrow> \<not> isl (fst (m h))"
  by (simp add: never_fails_def)

lemma never_fails_ok [never_fails_intros]: "never_fails (ok x)"
  by (simp add: never_fails_def)

lemma never_fails_perform [never_fails_intros]: "(\<And>h. \<not> isl (f h)) \<Longrightarrow> never_fails (perform c f)"
  by (simp add: never_fails_def)

lemma never_fails_bnd [never_fails_intros]: "(\<And>x. never_fails (f x)) \<Longrightarrow> never_fails (bnd m f)"
  by (simp add: never_fails_def)

lemma never_fails_ignore [never_fails_intros]: "never_fails k \<Longrightarrow> never_fails (ignore m k)"
  by (simp add: never_fails_def)

lemma never_fails_check [never_fails_intros]:
  "never_fails m \<Longrightarrow> (\<And>x. never_fails (k x)) \<Longrightarrow> never_fails (check c m k)"
  by (auto simp: never_fails_def isl_def split: sum.split)

lemma never_fails_pass [never_fails_intros]:
  "never_fails m \<Longrightarrow> (\<And>x. never_fails (k x)) \<Longrightarrow> never_fails (pass m k)"
  by (auto simp: never_fails_def isl_def split: sum.split)

lemma never_fails_if [never_fails_intros]:
  "(b \<Longrightarrow> never_fails m) \<Longrightarrow> (\<not> b \<Longrightarrow> never_fails n) \<Longrightarrow> never_fails (if b then m else n)"
  by simp

lemma never_fails_case_sum [never_fails_intros]:
  "(\<And>e. x = Inl e \<Longrightarrow> never_fails (f e)) \<Longrightarrow> (\<And>v. x = Inr v \<Longrightarrow> never_fails (g v)) \<Longrightarrow>
     never_fails (case x of Inl e \<Rightarrow> f e | Inr v \<Rightarrow> g v)"
  by (simp split: sum.split)

lemma never_fails_case_option [never_fails_intros]:
  "(x = None \<Longrightarrow> never_fails m) \<Longrightarrow> (\<And>v. x = Some v \<Longrightarrow> never_fails (g v)) \<Longrightarrow>
     never_fails (case x of None \<Rightarrow> m | Some v \<Rightarrow> g v)"
  by (simp split: option.split)

lemma never_fails_foreach_go [never_fails_intros]:
  "(\<And>x. x \<in> set xs \<Longrightarrow> never_fails (f x)) \<Longrightarrow> never_fails (foreach_go xs f)"
  by (induction xs) (auto intro: never_fails_intros)

lemma never_fails_boundary [never_fails_intros]:
  "never_fails (WriteFile fs_ok n d p)" "never_fails (ReadFile fs_ok n)" "never_fails (MkdirAll fs_ok n p)"
  "never_fails (Stat fs_ok n)" "never_fails (Chmod fs_ok n p)" "never_fails (Remove fs_ok n)"
  "never_fails (Symlink fs_ok n d)" "never_fails (ReadDir fs_ok n)" "never_fails (Run cmd_ok n args)"
  "never_fails (MountFS mounter_ok n d t opts)" "never_fails (ForceMount mounter_ok n d t opts)"
  "never_fails (GrowPartition grower_ok n i)" "never_fails (Attach attacher_ok n o' b)"
  by (simp_all add: never_fails_def method_defs fixture_defs)

end
