(* ===== verification/Partition_Names.thy ===== *)
theory Partition_Names
  imports Go_Fixtures
begin

section \<open>Partition device names\<close>

text \<open>
  Two components take a partition device path apart: the disk boot mode
  (\<open>stripPartitionNumber\<close> and \<open>extractPartitionNumber\<close> of \<open>internal/boot/modes/disk.go\<close>) and the
  finalizer (\<open>splitPartition\<close> of \<open>internal/boot/finalize/grow.go\<close>). The contract both implement is
  the locale \<open>partition_splitter\<close>: a path built by the kernel's naming rule (a \<open>p\<close> between a disk
  name that ends in a digit and the partition number) is taken apart into the same disk and
  number. Each is an interpretation of it, and both agree on every path with a non-digit.
\<close>

subsection \<open>internal/boot/modes/disk.go\<close>

text \<open>The loop from the last byte down: \<open>strip_loop dev rp\<close> has \<open>rp\<close>, reversed, still to look at.\<close>

fun strip_loop :: "string \<Rightarrow> string \<Rightarrow> string" where
  "strip_loop device [] = device"
| "strip_loop device (c # rest) =
     (if \<not> is_digit c then
        (if c = CHR ''p'' \<and> rest \<noteq> [] \<and> is_digit (hd rest) then rev rest else rev (c # rest))
      else strip_loop device rest)"

definition stripPartitionNumber :: "string \<Rightarrow> string" where
  "stripPartitionNumber device = strip_loop device (rev device)"

fun extract_loop :: "string \<Rightarrow> string \<Rightarrow> string" where
  "extract_loop [] num = []"
| "extract_loop (c # rest) num = (if \<not> is_digit c then num else extract_loop rest (c # num))"

definition extractPartitionNumber :: "string \<Rightarrow> string" where
  "extractPartitionNumber device = extract_loop (rev device) []"

subsection \<open>internal/boot/finalize/grow.go\<close>

text \<open>The loop that moves \<open>i\<close> below the last group of digits: the reversed prefix and the digits.\<close>

fun split_loop :: "string \<Rightarrow> string \<Rightarrow> string \<times> string" where
  "split_loop [] num = ([], num)"
| "split_loop (c # rest) num = (if is_digit c then split_loop rest (c # num) else (c # rest, num))"

definition splitPartition :: "string \<Rightarrow> string \<times> string" where
  "splitPartition part =
     (let (rdev, num) = split_loop (rev part) []; dev = rev rdev; i = int (length dev) - 1 in
      if dev \<noteq> [] \<and> last dev = CHR ''p'' \<and> i > 0 \<and> is_digit (dev ! nat (i - 1))
      then (take (length dev - 1) dev, num) else (dev, num))"

subsection \<open>The contract\<close>

definition partition_path :: "string \<Rightarrow> string \<Rightarrow> string" where
  "partition_path disk num = (if is_digit (last disk) then disk @ ''p'' @ num else disk @ num)"

text \<open>A disk name: not empty, and not itself of the form of a partition of another disk.\<close>

definition disk_name :: "string \<Rightarrow> bool" where
  "disk_name d \<longleftrightarrow> d \<noteq> [] \<and> \<not> list_all is_digit d
     \<and> \<not> (last d = CHR ''p'' \<and> butlast d \<noteq> [] \<and> is_digit (last (butlast d)))"

definition part_num :: "string \<Rightarrow> bool" where
  "part_num n \<longleftrightarrow> n \<noteq> [] \<and> list_all is_digit n"

locale partition_splitter =
  fixes disk_of :: "string \<Rightarrow> string" and num_of :: "string \<Rightarrow> string"
  assumes disk_of_path: "disk_name d \<Longrightarrow> part_num n \<Longrightarrow> disk_of (partition_path d n) = d"
    and num_of_path: "disk_name d \<Longrightarrow> part_num n \<Longrightarrow> num_of (partition_path d n) = n"
begin

lemma path_injective:
  assumes "disk_name d" "part_num n" "disk_name d'" "part_num n'"
    and "partition_path d n = partition_path d' n'"
  shows "d = d' \<and> n = n'"
  using assms disk_of_path num_of_path by metis

lemma rebuild: "disk_name d \<Longrightarrow> part_num n \<Longrightarrow>
  partition_path (disk_of (partition_path d n)) (num_of (partition_path d n)) = partition_path d n"
  by (simp add: disk_of_path num_of_path)

end

subsection \<open>Both implementations through the trailing digits\<close>

definition non_digit_head :: "string \<Rightarrow> string" where
  "non_digit_head s = rev (dropWhile is_digit (rev s))"

definition trailing_digits :: "string \<Rightarrow> string" where
  "trailing_digits s = rev (takeWhile is_digit (rev s))"

definition drop_p :: "string \<Rightarrow> string" where
  "drop_p dev = (if dev \<noteq> [] \<and> last dev = CHR ''p'' \<and> butlast dev \<noteq> [] \<and> is_digit (last (butlast dev))
     then butlast dev else dev)"

lemma strip_loop_eq:
  "strip_loop device rp =
     (case dropWhile is_digit rp of [] \<Rightarrow> device
      | c # rest \<Rightarrow> if c = CHR ''p'' \<and> rest \<noteq> [] \<and> is_digit (hd rest) then rev rest else rev (c # rest))"
  by (induction rp) auto

lemma extract_loop_eq:
  "extract_loop rp num = (if dropWhile is_digit rp = [] then [] else rev (takeWhile is_digit rp) @ num)"
  by (induction rp arbitrary: num) auto

lemma split_loop_eq: "split_loop rp num = (dropWhile is_digit rp, rev (takeWhile is_digit rp) @ num)"
  by (induction rp arbitrary: num) auto

lemma all_digits_head: "list_all is_digit s \<longleftrightarrow> non_digit_head s = []"
  by (auto simp: non_digit_head_def list_all_iff dropWhile_eq_Nil_conv)

lemma stripPartitionNumber_eq:
  "stripPartitionNumber s = (if list_all is_digit s then s else drop_p (non_digit_head s))"
proof (cases "non_digit_head s" rule: rev_cases)
  case Nil
  then have "dropWhile is_digit (rev s) = []" by (simp add: non_digit_head_def)
  then show ?thesis using Nil
    unfolding stripPartitionNumber_def strip_loop_eq all_digits_head by (simp only: list.case simp_thms if_True)
next
  case (snoc d c)
  then have "dropWhile is_digit (rev s) = c # rev d"
    unfolding non_digit_head_def by (metis rev_rev_ident rev_append rev_singleton_conv append_Cons append_Nil rev.simps)
  then show ?thesis using snoc
    unfolding stripPartitionNumber_def strip_loop_eq all_digits_head
    by (simp add: drop_p_def hd_rev)
qed

lemma extractPartitionNumber_eq:
  "extractPartitionNumber s = (if list_all is_digit s then [] else trailing_digits s)"
  by (auto simp: extractPartitionNumber_def extract_loop_eq trailing_digits_def list_all_iff
      dropWhile_eq_Nil_conv)

lemma nth_before_last: "xs \<noteq> [] \<Longrightarrow> butlast xs \<noteq> [] \<Longrightarrow> xs ! nat (int (length xs) - 1 - 1) = last (butlast xs)"
proof (cases xs rule: rev_cases)
  case (snoc ys y)
  assume "butlast xs \<noteq> []"
  with snoc obtain zs z where "ys = zs @ [z]" by (cases ys rule: rev_cases) auto
  with snoc show ?thesis by (simp add: nth_append butlast_append)
qed simp

lemma splitPartition_eq: "splitPartition s = (drop_p (non_digit_head s), trailing_digits s)"
proof -
  let ?d = "non_digit_head s"
  have len: "int (length ?d) - 1 > 0 \<longleftrightarrow> butlast ?d \<noteq> []"
    by (cases ?d rule: rev_cases) auto
  have loop: "split_loop (rev s) [] = (rev ?d, trailing_digits s)"
    by (simp add: split_loop_eq non_digit_head_def trailing_digits_def)
  have "splitPartition s = (if ?d \<noteq> [] \<and> last ?d = CHR ''p'' \<and> int (length ?d) - 1 > 0
      \<and> is_digit (?d ! nat (int (length ?d) - 1 - 1))
      then (take (length ?d - 1) ?d, trailing_digits s) else (?d, trailing_digits s))"
    by (simp only: splitPartition_def loop Let_def split rev_rev_ident)
  then show ?thesis
    using nth_before_last [of ?d] by (auto simp: drop_p_def butlast_conv_take len)
qed

lemma trailing_digits_append:
  "list_all is_digit n \<Longrightarrow> \<not> is_digit c \<Longrightarrow> trailing_digits (d @ c # n) = n"
  by (simp add: trailing_digits_def takeWhile_append list_all_iff)

lemma non_digit_head_append:
  "list_all is_digit n \<Longrightarrow> \<not> is_digit c \<Longrightarrow> non_digit_head (d @ c # n) = d @ [c]"
  by (simp add: non_digit_head_def dropWhile_append list_all_iff)

lemma partition_path_cases:
  assumes "disk_name d" and "part_num n"
  obtains c d' where "partition_path d n = d' @ c # n" and "\<not> is_digit c" and "drop_p (d' @ [c]) = d"
proof (cases "is_digit (last d)")
  case True
  then have "partition_path d n = d @ CHR ''p'' # n" by (simp add: partition_path_def)
  moreover have "\<not> is_digit CHR ''p''" by (simp add: is_digit_def less_eq_char_def)
  moreover have "drop_p (d @ ''p'') = d"
    using True assms by (simp add: drop_p_def disk_name_def)
  ultimately show thesis by (rule that)
next
  case False
  from assms have "d \<noteq> []" by (simp add: disk_name_def)
  then have d: "d = butlast d @ [last d]" by simp
  with False have "partition_path d n = butlast d @ last d # n"
    by (simp add: partition_path_def)
  moreover have "drop_p (butlast d @ [last d]) = d"
    using assms d by (auto simp: drop_p_def disk_name_def)
  ultimately show thesis using False that by blast
qed

lemma split_path:
  assumes "disk_name d" and "part_num n"
  shows "drop_p (non_digit_head (partition_path d n)) = d"
    and "trailing_digits (partition_path d n) = n"
    and "\<not> list_all is_digit (partition_path d n)"
proof -
  obtain c d' where "partition_path d n = d' @ c # n" "\<not> is_digit c" "drop_p (d' @ [c]) = d"
    using assms by (rule partition_path_cases)
  moreover have "list_all is_digit n" using assms(2) by (simp add: part_num_def)
  ultimately show "drop_p (non_digit_head (partition_path d n)) = d"
    "trailing_digits (partition_path d n) = n" "\<not> list_all is_digit (partition_path d n)"
    by (simp_all add: non_digit_head_append trailing_digits_append)
qed

interpretation disk_split: partition_splitter stripPartitionNumber extractPartitionNumber
  by unfold_locales (simp_all add: stripPartitionNumber_eq extractPartitionNumber_eq split_path)

interpretation fin_split: partition_splitter "\<lambda>p. fst (splitPartition p)" "\<lambda>p. snd (splitPartition p)"
  by unfold_locales (simp_all add: splitPartition_eq split_path)

subsection \<open>Properties\<close>

text \<open>Taking a partition path apart is the inverse of building it: for a disk name and a partition
  number, the disk mode's stripPartitionNumber and extractPartitionNumber and the finalizer's
  splitPartition all recover exactly the disk and the number, with and without the p separator
  that names ending in a digit (nvme0n1) need.\<close>

theorem partition_path_roundtrip:
  assumes "disk_name d" and "part_num n"
  shows "stripPartitionNumber (partition_path d n) = d \<and> extractPartitionNumber (partition_path d n) = n
    \<and> splitPartition (partition_path d n) = (d, n)"
  using disk_split.disk_of_path [OF assms] disk_split.num_of_path [OF assms]
    fin_split.disk_of_path [OF assms] fin_split.num_of_path [OF assms]
  by (simp add: prod_eq_iff)

theorem partition_path_roundtrip_witness:
  "stripPartitionNumber (partition_path ''/dev/nvme0n1'' ''2'') = ''/dev/nvme0n1''
   \<and> extractPartitionNumber (partition_path ''/dev/nvme0n1'' ''2'') = ''2''
   \<and> splitPartition (partition_path ''/dev/nvme0n1'' ''2'') = (''/dev/nvme0n1'', ''2'')"
proof (rule partition_path_roundtrip)
  show "disk_name ''/dev/nvme0n1''" by code_simp
  show "part_num ''2''" by code_simp
qed

text \<open>The two independent implementations agree exactly on the paths that are empty or have a
  non-digit: there splitPartition of the finalizer returns what the disk mode's two functions
  return. On a path of digits only they differ (the disk mode keeps it as device, without number).\<close>

theorem partition_split_agree:
  "splitPartition s = (stripPartitionNumber s, extractPartitionNumber s)
     \<longleftrightarrow> s = [] \<or> list_ex (\<lambda>c. \<not> is_digit c) s"
proof (cases "list_all is_digit s")
  case True
  then have "\<not> list_ex (\<lambda>c. \<not> is_digit c) s" by (auto simp: list_all_iff list_ex_iff)
  moreover have "non_digit_head s = []" using True by (simp add: all_digits_head)
  moreover have "s \<noteq> [] \<Longrightarrow> trailing_digits s \<noteq> []"
    using True by (cases s rule: rev_cases) (auto simp: trailing_digits_def)
  ultimately show ?thesis using True
    by (auto simp: splitPartition_eq stripPartitionNumber_eq extractPartitionNumber_eq drop_p_def
        trailing_digits_def)
next
  case False
  then have "list_ex (\<lambda>c. \<not> is_digit c) s" by (auto simp: list_all_iff list_ex_iff)
  with False show ?thesis
    by (simp add: splitPartition_eq stripPartitionNumber_eq extractPartitionNumber_eq)
qed

end
