(* ===== verification/Boot_Detect.thy ===== *)
theory Boot_Detect
  imports Go_Fixtures
begin

section \<open>Boot mode detection: internal/mode\<close>

text \<open>
  \<open>Detector\<close> is the struct of \<open>internal/mode/detect.go\<close>; its injected functions are functions of
  the history. The retry loop of \<open>Detect\<close> ends when a probe answers or when the clock has passed
  the deadline, so it is modelled with fuel, \<open>None\<close> meaning that the fuel ran out;
  \<open>Detect_terminates\<close> shows how much is enough when sleeping advances the clock.
  Durations and instants are nanoseconds.
\<close>

subsection \<open>Definitions\<close>

definition ValidModes :: "string list" where
  "ValidModes = [''disk'', ''local'', ''live'', ''install'', ''shell'']"

record Detector =
  d_Cmdline :: CmdlineParser
  d_BlockProber :: "hist \<Rightarrow> string \<Rightarrow> err + string"
  d_StatfsChecker :: "hist \<Rightarrow> string \<Rightarrow> err + string"
  d_EnvReader :: "hist \<Rightarrow> string \<Rightarrow> string"
  d_FileWriter :: "hist \<Rightarrow> string \<Rightarrow> string \<Rightarrow> nat \<Rightarrow> err + unit"
  d_MkdirAll :: "hist \<Rightarrow> string \<Rightarrow> nat \<Rightarrow> err + unit"
  d_Now :: "hist \<Rightarrow> int"
  d_Cancelled :: "hist \<Rightarrow> bool"
  d_Timeout :: nat
  d_SleepInterval :: nat
  d_StateDir :: string

definition detectOnce :: "Detector \<Rightarrow> string \<Rightarrow> string io" where
  "detectOnce d fallbackMode =
     bnd (perform (CFindByLabel ''K3OS_STATE'') (\<lambda>h. d_BlockProber d h ''K3OS_STATE'')) (\<lambda>r.
     let mode = (case r of Inr dev \<Rightarrow> if dev \<noteq> [] then ''disk'' else [] | Inl _ \<Rightarrow> []) in
     bnd (observe (CGetenv ''K3OS_MODE'') (\<lambda>h. d_EnvReader d h ''K3OS_MODE'')) (\<lambda>envMode.
     let mode = (if envMode \<noteq> [] then envMode else mode);
         mode = (if mode = [] then fallbackMode else mode) in
     if mode = [] then
       bnd (perform (CStatfs ''/'') (\<lambda>h. d_StatfsChecker d h ''/'')) (\<lambda>s.
         ret (case s of Inr fsType \<Rightarrow> if fsType \<noteq> ''tmpfs'' then ''local'' else mode
                      | Inl _ \<Rightarrow> mode))
     else ret mode))"

definition Detector_stateDir :: "Detector \<Rightarrow> string" where
  "Detector_stateDir d = (if d_StateDir d = [] then StatePath [] else d_StateDir d)"

definition Detector_finalize :: "Detector \<Rightarrow> string \<Rightarrow> string go" where
  "Detector_finalize d mode =
     (if mode \<notin> set ValidModes then fail (Msg ''invalid mode'')
      else let stateDir = Detector_stateDir d in
        check ''creating state dir''
          (perform (CMkdirAll stateDir mode_755) (\<lambda>h. d_MkdirAll d h stateDir mode_755)) (\<lambda>_.
        let modePath = PathJoin [stateDir, ''mode''] in
        check ''writing mode file''
          (perform (CWriteFile modePath mode mode_644)
             (\<lambda>h. d_FileWriter d h modePath mode mode_644)) (\<lambda>_.
        ok mode)))"

fun detect_loop :: "nat \<Rightarrow> Detector \<Rightarrow> string \<Rightarrow> int \<Rightarrow> (err + string) option io" where
  "detect_loop 0 d fallback deadline = ret None"
| "detect_loop (Suc fuel) d fallback deadline =
     bnd (detectOnce d fallback) (\<lambda>detected.
     if detected \<noteq> [] then bnd (Detector_finalize d detected) (\<lambda>r. ret (Some r))
     else
       bnd (observe CNow (d_Now d)) (\<lambda>now.
       if now > deadline then ret (Some (Inl (Msg ''failed to determine boot mode'')))
       else
         bnd (observe CCancelled (d_Cancelled d)) (\<lambda>cancelled.
         if cancelled then ret (Some (Inl (Wrap ''mode detection cancelled'' (Msg ''context''))))
         else ignore (Sleep (d_SleepInterval d)) (detect_loop fuel d fallback deadline))))"

definition Detect :: "nat \<Rightarrow> Detector \<Rightarrow> (err + string) option io" where
  "Detect fuel d =
     bnd (Flag (d_Cmdline d) ''k3os.mode'') (\<lambda>f.
     let mode = (case f of Some v \<Rightarrow> v | None \<Rightarrow> []) in
     bnd (CmdlineContains (d_Cmdline d) ''rescue'') (\<lambda>rescue.
     let mode = (if rescue then ''shell'' else mode) in
     bnd (Flag (d_Cmdline d) ''k3os.fallback_mode'') (\<lambda>g.
     let fallback = (case g of Some v \<Rightarrow> v | None \<Rightarrow> []) in
     if mode \<noteq> [] then bnd (Detector_finalize d mode) (\<lambda>r. ret (Some r))
     else
       bnd (observe CNow (d_Now d)) (\<lambda>now.
       detect_loop fuel d fallback (now + int (d_Timeout d))))))"

text \<open>\<open>internal/mode/mode.go\<close>: the mode the system runs in, read back from the state file.\<close>

definition mode_Get :: "FileSystem \<Rightarrow> string list \<Rightarrow> string go" where
  "mode_Get fs pre =
     bnd (ReadFile fs (PathJoin [PathJoin pre, StatePath [''mode'']])) (\<lambda>r.
     case r of
       Inl e \<Rightarrow> if IsNotExist e then ok [] else fail e
     | Inr bytes \<Rightarrow> ok (TrimSpace bytes))"

subsection \<open>Precedence of the probes\<close>

text \<open>The abstract rule: the first non-empty answer of a list of sources, in order.\<close>

fun first_nonempty :: "string list \<Rightarrow> string" where
  "first_nonempty [] = []"
| "first_nonempty (s # ss) = (if s \<noteq> [] then s else first_nonempty ss)"

definition probe_order :: "Detector \<Rightarrow> string \<Rightarrow> hist \<Rightarrow> string list" where
  "probe_order d fallback h =
     (let r1 = d_BlockProber d h ''K3OS_STATE'';
          h1 = h @ [(CFindByLabel ''K3OS_STATE'', \<not> isl r1)];
          h2 = h1 @ [(CGetenv ''K3OS_MODE'', True)]
      in [d_EnvReader d h1 ''K3OS_MODE'',
          (case r1 of Inr dev \<Rightarrow> if dev \<noteq> [] then ''disk'' else [] | Inl _ \<Rightarrow> []),
          fallback,
          (case d_StatfsChecker d h2 ''/'' of
             Inr t \<Rightarrow> if t \<noteq> ''tmpfs'' then ''local'' else [] | Inl _ \<Rightarrow> [])])"

lemma detectOnce_precedence:
  "fst (detectOnce d fallback h) = first_nonempty (probe_order d fallback h)"
  by (simp add: detectOnce_def probe_order_def Let_def split: sum.split)

subsection \<open>What a successful detection has done\<close>

definition mode_recorded :: "Detector \<Rightarrow> string \<Rightarrow> hist \<Rightarrow> bool" where
  "mode_recorded d m tr \<longleftrightarrow>
     (\<exists>pre. tr = pre @ [(CMkdirAll (Detector_stateDir d) mode_755, True),
                        (CWriteFile (PathJoin [Detector_stateDir d, ''mode'']) m mode_644, True)])"

lemma finalize_success:
  assumes "fst (Detector_finalize d m h) = Inr m'"
  shows "m' = m \<and> m \<in> set ValidModes \<and> mode_recorded d m (snd (Detector_finalize d m h))"
  using assms
  by (auto simp: Detector_finalize_def mode_recorded_def Let_def split: if_splits sum.splits)

lemma finalize_invalid: "m \<notin> set ValidModes \<Longrightarrow> Detector_finalize d m h = (Inl (Msg ''invalid mode''), [])"
  by (simp add: Detector_finalize_def)

lemma mode_recorded_append: "mode_recorded d m tr \<Longrightarrow> mode_recorded d m (us @ tr)"
  unfolding mode_recorded_def by (metis append.assoc)

lemmas mode_recorded_Cons = mode_recorded_append [where us = "[x]" for x, simplified]

lemma detect_loop_success:
  "fst (detect_loop fuel d fb dl h) = Some (Inr m) \<Longrightarrow>
     m \<in> set ValidModes \<and> mode_recorded d m (snd (detect_loop fuel d fb dl h))"
proof (induction fuel arbitrary: h)
  case 0
  then show ?case by simp
next
  case (Suc fuel)
  show ?case
  proof (cases "fst (detectOnce d fb h) = []")
    case True
    with Suc show ?thesis
      by (auto simp: Sleep_def intro!: mode_recorded_append mode_recorded_Cons split: if_splits)
  next
    case False
    let ?h = "h @ snd (detectOnce d fb h)"
    from Suc.prems False
    have *: "fst (Detector_finalize d (fst (detectOnce d fb h)) ?h) = Inr m"
      by simp
    from finalize_success [OF *] False show ?thesis
      by (auto intro: mode_recorded_append)
  qed
qed

subsection \<open>The loop ends\<close>

text \<open>How long the events of a trace have slept, and what the clock promises.\<close>

fun slept :: "hist \<Rightarrow> nat" where
  "slept [] = 0"
| "slept ((CSleep n, _) # tr) = n + slept tr"
| "slept (_ # tr) = slept tr"

definition clock_advances :: "Detector \<Rightarrow> bool" where
  "clock_advances d \<longleftrightarrow> (\<forall>h tr. d_Now d h + int (slept tr) \<le> d_Now d (h @ tr))"

lemma slept_append: "slept (xs @ ys) = slept xs + slept ys"
  by (induction xs rule: slept.induct) auto

lemma clock_advancesD: "clock_advances d \<Longrightarrow> d_Now d h + int (slept tr) \<le> d_Now d (h @ tr)"
  by (simp add: clock_advances_def)

lemma clock_mono: "clock_advances d \<Longrightarrow> d_Now d h \<le> d_Now d (h @ tr)"
  using clock_advancesD [of d h tr] by simp

lemma detect_loop_returns:
  assumes "clock_advances d" and "dl < d_Now d h + int (fuel * d_SleepInterval d)"
    and "fuel < n"
  shows "\<exists>r. fst (detect_loop n d fb dl h) = Some r"
  using assms(2,3)
proof (induction n arbitrary: h fuel)
  case 0
  then show ?case by simp
next
  case (Suc n)
  let ?h1 = "h @ snd (detectOnce d fb h)"
  show ?case
  proof (cases "fst (detectOnce d fb h) = [] \<and> \<not> d_Now d ?h1 > dl
      \<and> \<not> d_Cancelled d (?h1 @ [(CNow, True)])")
    case True
    let ?h2 = "?h1 @ [(CNow, True), (CCancelled, True), (CSleep (d_SleepInterval d), True)]"
    have mono: "d_Now d h \<le> d_Now d ?h1"
      using assms(1) by (rule clock_mono)
    have "d_Now d h + int (slept (snd (detectOnce d fb h)
        @ [(CNow, True), (CCancelled, True), (CSleep (d_SleepInterval d), True)])) \<le> d_Now d ?h2"
      using clock_advancesD [OF assms(1)] by (metis append.assoc)
    then have adv: "d_Now d h + int (d_SleepInterval d) \<le> d_Now d ?h2"
      by (simp add: slept_append)
    from True mono Suc.prems(1) have "fuel \<noteq> 0" by (cases fuel) auto
    then obtain f where f: "fuel = Suc f" by (cases fuel) auto
    have "\<exists>r. fst (detect_loop n d fb dl ?h2) = Some r"
      by (rule Suc.IH [of _ f]) (use Suc.prems adv f in \<open>auto simp: algebra_simps\<close>)
    with True show ?thesis by (simp add: Sleep_def)
  qed auto
qed

text \<open>C14: The retry loop of mode detection always ends. When sleeping advances the clock and the sleep
  interval is positive, Detect returns (a mode or an error, never exhausting its fuel) after at
  most Timeout/SleepInterval + 2 rounds, whatever the probes answer.\<close>

theorem Detect_terminates:
  assumes "clock_advances d" and "0 < d_SleepInterval d"
    and "d_Timeout d div d_SleepInterval d + 2 \<le> fuel"
  shows "\<exists>r. fst (Detect fuel d h) = Some r"
proof -
  let ?n = "d_Timeout d div d_SleepInterval d + 1"
  have lim: "d_Timeout d < ?n * d_SleepInterval d"
    using assms(2) by (simp add: dividend_less_div_times)
  have "\<exists>r. fst (detect_loop fuel d fb (d_Now d (h @ tr) + int (d_Timeout d))
      (h @ tr @ [(CNow, True)])) = Some r" for fb tr
  proof (rule detect_loop_returns [OF assms(1), where fuel = ?n])
    show "d_Now d (h @ tr) + int (d_Timeout d)
        < d_Now d (h @ tr @ [(CNow, True)]) + int (?n * d_SleepInterval d)"
      using clock_mono [OF assms(1), of "h @ tr" "[(CNow, True)]"] lim
      by (simp only: append_assoc)
    show "?n < fuel" using assms(3) by simp
  qed
  from this [of _ "[(CCmdlineFlag ''k3os.mode'', True), (CCmdlineContains ''rescue'', True),
    (CCmdlineFlag ''k3os.fallback_mode'', True)]"]
  show ?thesis by (simp add: Detect_def Let_def Flag_def CmdlineContains_def)
qed

lemma Detect_result:
  assumes "fst (Detect fuel d h) = Some (Inr m)"
  shows "m \<in> set ValidModes \<and> mode_recorded d m (snd (Detect fuel d h))"
proof -
  define h1 where "h1 = h @ [(CCmdlineFlag ''k3os.mode'', True), (CCmdlineContains ''rescue'', True),
    (CCmdlineFlag ''k3os.fallback_mode'', True)]"
  obtain x fb where
    "x \<noteq> [] \<and> fst (Detector_finalize d x h1) = Inr m
       \<and> snd (Detect fuel d h) = drop (length h) h1 @ snd (Detector_finalize d x h1)
     \<or> fst (detect_loop fuel d fb (d_Now d h1 + int (d_Timeout d)) (h1 @ [(CNow, True)])) = Some (Inr m)
       \<and> snd (Detect fuel d h) = (drop (length h) h1 @ [(CNow, True)])
          @ snd (detect_loop fuel d fb (d_Now d h1 + int (d_Timeout d)) (h1 @ [(CNow, True)]))"
    using assms by (auto simp: Detect_def Let_def h1_def Flag_def CmdlineContains_def split: if_splits)
  then show ?thesis
    by (auto dest: finalize_success detect_loop_success intro!: mode_recorded_append mode_recorded_Cons)
qed

lemma Detect_valid: "fst (Detect fuel d h) = Some (Inr m) \<Longrightarrow> m \<in> set ValidModes"
  using Detect_result by blast

text \<open>Whatever the environment answers, a mode that Detect returns is one of the five valid
  modes, and before returning it has created the state directory and written exactly that mode
  to its mode file, as its last two calls.\<close>

theorem Detect_success:
  assumes "fst (Detect fuel d h) = Some (Inr m)"
  shows "m \<in> set ValidModes \<and> mode_recorded d m (snd (Detect fuel d h))"
  using assms by (rule Detect_result)

text \<open>A rescue flag on the kernel command line always wins: detection then never probes and
  never sleeps, and any mode it returns is shell, whatever k3os.mode or the environment say.\<close>

theorem Detect_rescue:
  assumes "cp_Contains (d_Cmdline d) (h @ [(CCmdlineFlag ''k3os.mode'', True)]) ''rescue''"
  shows "\<exists>r. fst (Detect fuel d h) = Some r \<and> (\<forall>m. r = Inr m \<longrightarrow> m = ''shell'')
    \<and> (\<forall>ev \<in> set (snd (Detect fuel d h)). fst ev \<noteq> CFindByLabel ''K3OS_STATE'' \<and> (\<forall>n. fst ev \<noteq> CSleep n))"
  using assms finalize_success [of d "''shell''"]
  by (auto simp: Detect_def Let_def Flag_def CmdlineContains_def Detector_finalize_def
      split: sum.splits)

subsection \<open>Witnesses\<close>

text \<open>A machine whose K3OS_STATE label is found and whose clock runs by what is slept.\<close>

definition detector_disk :: Detector where
  "detector_disk = \<lparr>d_Cmdline = cmdline_none, d_BlockProber = (\<lambda>_ _. Inr ''/dev/sda2''),
     d_StatfsChecker = (\<lambda>_ _. Inr ''tmpfs''), d_EnvReader = (\<lambda>_ _. []),
     d_FileWriter = (\<lambda>_ _ _ _. Inr ()), d_MkdirAll = (\<lambda>_ _ _. Inr ()),
     d_Now = (\<lambda>h. int (slept h)), d_Cancelled = (\<lambda>_. False), d_Timeout = 30, d_SleepInterval = 1,
     d_StateDir = []\<rparr>"

definition detector_rescue :: Detector where
  "detector_rescue = detector_disk
     \<lparr>d_Cmdline := cmdline_none\<lparr>cp_Contains := (\<lambda>_ n. n = ''rescue'')\<rparr>\<rparr>"

lemma detector_disk_clock: "clock_advances detector_disk"
  by (simp add: clock_advances_def detector_disk_def slept_append)

theorem Detect_terminates_witness:
  "\<exists>r. fst (Detect 32 detector_disk []) = Some r"
  by (rule Detect_terminates [OF detector_disk_clock]) (simp_all add: detector_disk_def)

theorem Detect_success_witness:
  "fst (Detect 32 detector_disk []) = Some (Inr ''disk'')
   \<and> ''disk'' \<in> set ValidModes \<and> mode_recorded detector_disk ''disk'' (snd (Detect 32 detector_disk []))"
proof -
  have "fst (Detect 32 detector_disk []) = Some (Inr ''disk'')"
    by code_simp
  then show ?thesis using Detect_success by blast
qed

theorem Detect_rescue_witness:
  "\<exists>r. fst (Detect 0 detector_rescue []) = Some r \<and> (\<forall>m. r = Inr m \<longrightarrow> m = ''shell'')
    \<and> (\<forall>ev \<in> set (snd (Detect 0 detector_rescue [])).
         fst ev \<noteq> CFindByLabel ''K3OS_STATE'' \<and> (\<forall>n. fst ev \<noteq> CSleep n))"
  by (rule Detect_rescue) (simp add: detector_rescue_def)

end
