(* ===== verification/Boot_Modes.thy ===== *)
theory Boot_Modes
  imports Partition_Names Boot_Detect
begin

section \<open>Boot mode handlers: internal/boot/modes\<close>

text \<open>
  The handlers of the five boot modes. \<open>Deps\<close> is the struct every handler shares; an optional
  dependency (\<open>PartitionGrower\<close>, \<open>LoopDetacher\<close>) that may be \<open>nil\<close> is an \<open>option\<close>. A method
  \<open>(h *DiskHandler) M\<close> is the definition \<open>Disk_M\<close>, and likewise \<open>Live_\<close>, \<open>Local_\<close>, \<open>Shell_\<close>.
  Theory \<open>Boot_Disk_Props\<close> has the properties of the disk mode.
\<close>

record Deps =
  dp_FS :: FileSystem
  dp_Cmd :: CommandRunner
  dp_Mounter :: Mounter
  dp_BlockProber :: BlockProber
  dp_PartitionGrower :: "PartitionGrower option"
  dp_LoopDetacher :: "LoopDetacher option"
  dp_Proc :: ProcessExecutor
  dp_CopyDir :: "hist \<Rightarrow> string \<Rightarrow> string \<Rightarrow> err + unit"
  dp_KernelVersion :: string
  dp_VersionID :: string
  dp_Environ :: "hist \<Rightarrow> string list"

definition Environ :: "Deps \<Rightarrow> string list io" where
  "Environ dp = observe CEnviron (dp_Environ dp)"

subsection \<open>live.go\<close>

definition baseDir :: string where
  "baseDir = ''/.base''"

definition maxRetries :: nat where
  "maxRetries = 5"

text \<open>One second, in nanoseconds.\<close>

definition second :: nat where
  "second = 1000000000"

definition motdPath :: string where
  "motdPath = ''/etc/motd''"

definition dquote :: string where
  "dquote = [CHR 0x22]"

definition motdContent :: string where
  "motdContent = [newline] @ ''You can configure this system or install to disk using ''
     @ dquote @ ''sudo k3os install'' @ dquote @ [newline]"

fun live_try_disks :: "Deps \<Rightarrow> string list \<Rightarrow> bool io" where
  "live_try_disks dp [] = ret False"
| "live_try_disks dp (name # names) =
     bnd (MountFS (dp_Mounter dp) (''/dev/'' @ name) baseDir [] []) (\<lambda>r.
     case r of Inr _ \<Rightarrow> ret True | Inl _ \<Rightarrow> live_try_disks dp names)"

fun live_probe_usb :: "nat \<Rightarrow> Deps \<Rightarrow> unit go" where
  "live_probe_usb 0 dp = fail (Msg ''failed to mount base filesystem'')"
| "live_probe_usb (Suc n) dp =
     bnd (ListDisks (dp_BlockProber dp)) (\<lambda>r.
     bnd (case r of Inl _ \<Rightarrow> ret False | Inr diskNames \<Rightarrow> live_try_disks dp diskNames) (\<lambda>mounted.
     if mounted then ok ()
     else ignore (Sleep second) (live_probe_usb n dp)))"

definition Live_SetupBase :: "Deps \<Rightarrow> unit go" where
  "Live_SetupBase dp =
     bnd (FindByLabel (dp_BlockProber dp) ''K3OS'') (\<lambda>r.
     let device = (case r of Inr d \<Rightarrow> d | Inl _ \<Rightarrow> []) in
     if device \<noteq> [] then
       check ''mount K3OS ISO'' (MountFS (dp_Mounter dp) device baseDir [] ''ro'') (\<lambda>_. ok ())
     else live_probe_usb maxRetries dp)"

definition Live_SetupKernel :: "Deps \<Rightarrow> unit go" where
  "Live_SetupKernel dp =
     (let kernelPath = RootPath [''kernel'', dp_KernelVersion dp, ''kernel.squashfs''] in
      bnd (Stat (dp_FS dp) kernelPath) (\<lambda>r.
      case r of Inl _ \<Rightarrow> ok () | Inr _ \<Rightarrow>
      check ''mkdir kernel'' (MkdirAll (dp_FS dp) ''/run/k3os/kernel'' mode_755) (\<lambda>_.
      check ''mount squashfs'' (MountFS (dp_Mounter dp) kernelPath ''/run/k3os/kernel'' ''squashfs'' []) (\<lambda>_.
      check ''bind mount modules''
        (MountFS (dp_Mounter dp) ''/run/k3os/kernel/lib/modules'' ''/lib/modules'' [] ''bind'') (\<lambda>_.
      check ''bind mount firmware''
        (MountFS (dp_Mounter dp) ''/run/k3os/kernel/lib/firmware'' ''/lib/firmware'' [] ''bind'') (\<lambda>_.
      check ''umount kernel'' (Run (dp_Cmd dp) ''umount'' [''/run/k3os/kernel'']) (\<lambda>_. ok ())))))))"

definition Live_SetupPasswd :: "Deps \<Rightarrow> unit go" where
  "Live_SetupPasswd dp =
     check ''passwd -d rancher'' (Run (dp_Cmd dp) ''passwd'' [''-d'', ''rancher'']) (\<lambda>_. ok ())"

definition Live_SetupMotd :: "Deps \<Rightarrow> unit go" where
  "Live_SetupMotd dp =
     bnd (ReadFile (dp_FS dp) motdPath) (\<lambda>r.
     let existing = (case r of Inr s \<Rightarrow> s | Inl _ \<Rightarrow> []) in
     check ''write motd'' (WriteFile (dp_FS dp) motdPath (existing @ motdContent) mode_644) (\<lambda>_. ok ()))"

definition LiveSetup_Run :: "Deps \<Rightarrow> unit go" where
  "LiveSetup_Run dp =
     check ''setup base'' (Live_SetupBase dp) (\<lambda>_.
     check ''setup kernel'' (Live_SetupKernel dp) (\<lambda>_.
     check ''setup passwd'' (Live_SetupPasswd dp) (\<lambda>_.
     check ''setup motd'' (Live_SetupMotd dp) (\<lambda>_. ok ()))))"

definition LiveHandler_Execute :: "Deps \<Rightarrow> unit go" where
  "LiveHandler_Execute dp = LiveSetup_Run dp"

definition InstallHandler_Execute :: "Deps \<Rightarrow> unit go" where
  "InstallHandler_Execute dp = LiveSetup_Run dp"

subsection \<open>shell.go\<close>

definition ShellHandler_Execute :: "Deps \<Rightarrow> unit go" where
  "ShellHandler_Execute dp =
     check ''live setup'' (LiveSetup_Run dp) (\<lambda>_.
     bnd (Environ dp) (\<lambda>env.
     check ''exec bash'' (Exec (dp_Proc dp) ''/bin/bash'' [''/bin/bash''] env) (\<lambda>_.
     bnd (Environ dp) (\<lambda>env'.
     fail (ErrExecCalled ''/bin/bash'' [''/bin/bash''] env')))))"

subsection \<open>local.go\<close>

definition Local_SetupSSH :: "Deps \<Rightarrow> unit go" where
  "Local_SetupSSH dp =
     (let persistDir = ''/var/lib/rancher/k3os/ssh''; etcSSH = ''/etc/ssh'' in
      bnd (Stat (dp_FS dp) persistDir) (\<lambda>r.
      pass (case r of
              Inr _ \<Rightarrow> ok ()
            | Inl _ \<Rightarrow>
                check ''mkdir rancher dir'' (MkdirAll (dp_FS dp) ''/var/lib/rancher/k3os'' mode_755) (\<lambda>_.
                check ''copy ssh keys''
                  (perform (CCopyDir etcSSH persistDir) (\<lambda>h. dp_CopyDir dp h etcSSH persistDir))
                  (\<lambda>_. ok ()))) (\<lambda>_.
      check ''remove /etc/ssh'' (RemoveAll (dp_FS dp) etcSSH) (\<lambda>_.
      check ''symlink ssh'' (Symlink (dp_FS dp) persistDir etcSSH) (\<lambda>_. ok ())))))"

definition Local_SetupRancherNode :: "Deps \<Rightarrow> unit go" where
  "Local_SetupRancherNode dp =
     (let etcRancher = ''/etc/rancher''; nodeDir = ''/var/lib/rancher/k3os/node'';
          nodeLink = ''/etc/rancher/node'' in
      check ''mkdir /etc/rancher'' (MkdirAll (dp_FS dp) etcRancher mode_755) (\<lambda>_.
      check ''mkdir node dir'' (MkdirAll (dp_FS dp) nodeDir mode_755) (\<lambda>_.
      check ''symlink node'' (Symlink (dp_FS dp) nodeDir nodeLink) (\<lambda>_. ok ()))))"

definition LocalHandler_Execute :: "Deps \<Rightarrow> unit go" where
  "LocalHandler_Execute dp =
     check ''setup ssh'' (Local_SetupSSH dp) (\<lambda>_.
     check ''setup rancher node'' (Local_SetupRancherNode dp) (\<lambda>_. ok ()))"

subsection \<open>disk.go\<close>

definition targetDir :: string where
  "targetDir = ''/run/k3os/target''"

definition stateLabel :: string where
  "stateLabel = ''K3OS_STATE''"

definition stateMaxRetries :: nat where
  "stateMaxRetries = 10"

fun resolve_state :: "nat \<Rightarrow> Deps \<Rightarrow> string go" where
  "resolve_state 0 dp = fail (Msg ''device with label not found'')"
| "resolve_state (Suc n) dp =
     bnd (FindByLabel (dp_BlockProber dp) stateLabel) (\<lambda>r.
     let device = (case r of Inr d \<Rightarrow> d | Inl _ \<Rightarrow> []) in
     if device \<noteq> [] then ok device
     else ignore (Sleep second) (resolve_state n dp))"

definition resolveStateDevice :: "Deps \<Rightarrow> string go" where
  "resolveStateDevice dp = resolve_state stateMaxRetries dp"

definition growpartPath :: string where
  "growpartPath = PathJoin [targetDir, ''k3os/system/growpart'']"

text \<open>Lines 137 to 152 of \<open>SetupMounts\<close>: resize the partition, then the file system if that worked.\<close>

definition disk_resize :: "Deps \<Rightarrow> string \<Rightarrow> int \<Rightarrow> string \<Rightarrow> unit io" where
  "disk_resize dp dev partNumInt devNum =
     (case dp_PartitionGrower dp of
        None \<Rightarrow> ret ()
      | Some pg \<Rightarrow>
          bnd (GrowPartition pg dev partNumInt) (\<lambda>g.
          case g of
            Inl _ \<Rightarrow> ret ()
          | Inr _ \<Rightarrow> ignore (Run (dp_Cmd dp) ''e2fsck'' [''-fy'', devNum])
                       (ignore (Run (dp_Cmd dp) ''resize2fs'' [devNum]) (ret ()))))"

text \<open>Lines 124 to 160 of \<open>SetupMounts\<close>: unmount, grow, remount.\<close>

definition disk_grow :: "Deps \<Rightarrow> string \<Rightarrow> string \<Rightarrow> string \<Rightarrow> string \<Rightarrow> string \<Rightarrow> unit go" where
  "disk_grow dp device fsType dev num devNum =
     bnd (Stat (dp_FS dp) devNum) (\<lambda>r.
     case r of Inl _ \<Rightarrow> ok () | Inr _ \<Rightarrow>
     check ''umount for grow'' (Run (dp_Cmd dp) ''umount'' [targetDir]) (\<lambda>_.
     case Atoi num of
       None \<Rightarrow> fail (Wrap ''parse partition number'' (Msg ''strconv.Atoi: parsing''))
     | Some partNumInt \<Rightarrow>
         ignore (disk_resize dp dev partNumInt devNum)
          (check ''remount K3OS_STATE'' (MountFS (dp_Mounter dp) device targetDir fsType []) (\<lambda>_.
           ignore (Remove (dp_FS dp) growpartPath) (ok ())))))"

definition Disk_SetupMounts :: "Deps \<Rightarrow> unit go" where
  "Disk_SetupMounts dp =
     check ''mkdir target'' (MkdirAll (dp_FS dp) targetDir mode_755) (\<lambda>_.
     check ''mount K3OS_STATE'' (resolveStateDevice dp) (\<lambda>device.
     bnd (ProbeFS (dp_BlockProber dp) device) (\<lambda>fsType.
     check ''mount K3OS_STATE'' (MountFS (dp_Mounter dp) device targetDir fsType []) (\<lambda>_.
     bnd (ReadFile (dp_FS dp) growpartPath) (\<lambda>r.
     case r of Inl _ \<Rightarrow> ok () | Inr data \<Rightarrow>
     (case Fields data of
        dev # num # _ \<Rightarrow>
          bnd (Stat (dp_FS dp) (dev @ num)) (\<lambda>s.
          case s of
            Inr _ \<Rightarrow> disk_grow dp device fsType dev num (dev @ num)
          | Inl _ \<Rightarrow>
              bnd (FindByLabel (dp_BlockProber dp) ''K3OS_STATE'') (\<lambda>p.
              case p of
                Inl _ \<Rightarrow> ok ()
              | Inr part \<Rightarrow> disk_grow dp device fsType (stripPartitionNumber part)
                               (extractPartitionNumber part) part))
      | _ \<Rightarrow> ok ()))))))"

definition Disk_SetupKernelSquashfs :: "Deps \<Rightarrow> unit go" where
  "Disk_SetupKernelSquashfs dp =
     (let src = ''/.base/k3os/system/kernel/'' @ dp_KernelVersion dp @ ''/kernel.squashfs'';
          dst = PathJoin [targetDir, ''k3os/system/kernel'', dp_KernelVersion dp, ''kernel.squashfs''] in
      bnd (Stat (dp_FS dp) src) (\<lambda>r.
      case r of Inl _ \<Rightarrow> ok () | Inr _ \<Rightarrow>
      bnd (Stat (dp_FS dp) dst) (\<lambda>r.
      case r of Inr _ \<Rightarrow> ok () | Inl _ \<Rightarrow>
      check ''mkdir kernel dir'' (MkdirAll (dp_FS dp) (Dir dst) mode_755) (\<lambda>_.
      check ''copy kernel squashfs'' (Run (dp_Cmd dp) ''cp'' [''-r'', src, dst]) (\<lambda>_. ok ())))))"

definition Disk_SetupK3OS :: "Deps \<Rightarrow> unit go" where
  "Disk_SetupK3OS dp =
     (let currentK3OS = PathJoin [targetDir, ''k3os/system/k3os/current/k3os'']  in
      bnd (Stat (dp_FS dp) currentK3OS) (\<lambda>r.
      case r of Inr _ \<Rightarrow> ok () | Inl _ \<Rightarrow>
      let src = ''/.base/k3os/system/k3os/current/k3os'' in
      bnd (Stat (dp_FS dp) src) (\<lambda>r.
      case r of Inl _ \<Rightarrow> ok () | Inr _ \<Rightarrow>
      let dstFile = PathJoin [targetDir, ''k3os/system/k3os'', dp_VersionID dp, ''k3os''] in
      bnd (Stat (dp_FS dp) dstFile) (\<lambda>r.
      pass (case r of
              Inr _ \<Rightarrow> ok ()
            | Inl _ \<Rightarrow>
                check ''mkdir k3os dir'' (MkdirAll (dp_FS dp) (Dir dstFile) mode_755) (\<lambda>_.
                let tmpFile = dstFile @ ''.tmp'' in
                check ''copy k3os binary'' (Run (dp_Cmd dp) ''cp'' [''-f'', src, tmpFile]) (\<lambda>_.
                check ''rename k3os binary'' (Rename (dp_FS dp) tmpFile dstFile) (\<lambda>_. ok ())))) (\<lambda>_.
      let currentLink = PathJoin [targetDir, ''k3os/system/k3os/current''] in
      bnd (Symlink (dp_FS dp) (dp_VersionID dp) currentLink) (\<lambda>r.
      case r of Inr _ \<Rightarrow> ok () | Inl _ \<Rightarrow>
      ignore (Remove (dp_FS dp) currentLink)
       (check ''symlink k3os current'' (Symlink (dp_FS dp) (dp_VersionID dp) currentLink)
         (\<lambda>_. ok ()))))))))"

definition Disk_SetupInit :: "Deps \<Rightarrow> unit go" where
  "Disk_SetupInit dp =
     (let initPath = PathJoin [targetDir, ''sbin/init''] in
      bnd (Lstat (dp_FS dp) initPath) (\<lambda>r.
      case r of Inr _ \<Rightarrow> ok () | Inl _ \<Rightarrow>
      let sbinDir = PathJoin [targetDir, ''sbin''] in
      check ''mkdir sbin'' (MkdirAll (dp_FS dp) sbinDir mode_755) (\<lambda>_.
      check ''symlink init'' (Symlink (dp_FS dp) ''../k3os/system/k3os/current/k3os'' initPath)
        (\<lambda>_. ok ()))))"

text \<open>The first entry that is a real directory: entries without information are skipped.\<close>

fun latest_k3s :: "DirEntry list \<Rightarrow> string" where
  "latest_k3s [] = []"
| "latest_k3s (entry # entries) =
     (case de_Info entry of
        Inl _ \<Rightarrow> latest_k3s entries
      | Inr info \<Rightarrow> if fi_IsSymlink info then latest_k3s entries
                    else if de_IsDir entry then de_Name entry else latest_k3s entries)"

definition Disk_SetupK3s :: "Deps \<Rightarrow> unit go" where
  "Disk_SetupK3s dp =
     (let k3sCurrentBin = PathJoin [targetDir, ''k3os/system/k3s/current/k3s''] in
      bnd (Stat (dp_FS dp) k3sCurrentBin) (\<lambda>r.
      case r of Inr _ \<Rightarrow> ok () | Inl _ \<Rightarrow>
      let k3sDir = PathJoin [targetDir, ''k3os/system/k3s''] in
      bnd (ReadDir (dp_FS dp) k3sDir) (\<lambda>r.
      case r of Inl _ \<Rightarrow> ok () | Inr entries \<Rightarrow>
      let latest = latest_k3s entries in
      if latest = [] then ok ()
      else
        let currentLink = PathJoin [k3sDir, ''current''] in
        ignore (Remove (dp_FS dp) currentLink)
         (check ''symlink k3s current'' (Symlink (dp_FS dp) latest currentLink) (\<lambda>_. ok ())))))"

text \<open>The clean-up loops of \<open>Takeover\<close>: remove every entry of a directory that is not kept.\<close>

definition remove_except :: "Deps \<Rightarrow> string \<Rightarrow> (string \<Rightarrow> bool) \<Rightarrow> DirEntry list \<Rightarrow> unit io" where
  "remove_except dp dir keep entries =
     foreach entries (\<lambda>entry.
       if keep (de_Name entry) then ret ()
       else ignore (RemoveAll (dp_FS dp) (PathJoin [dir, de_Name entry])) (ret ()))"

definition sbinPath :: string where
  "sbinPath = PathJoin [targetDir, ''sbin'']"

definition bootDir :: string where
  "bootDir = PathJoin [targetDir, ''boot'']"

definition takeover_finish :: "Deps \<Rightarrow> unit go" where
  "takeover_finish dp =
     (let poweroffPath = PathJoin [targetDir, ''k3os/system/poweroff''] in
      bnd (Stat (dp_FS dp) poweroffPath) (\<lambda>r.
      case r of
        Inr _ \<Rightarrow>
          ignore (Remove (dp_FS dp) poweroffPath)
           (ignore (Run (dp_Cmd dp) ''sync'' [])
             (check ''poweroff -f failed'' (Run (dp_Cmd dp) ''poweroff'' [''-f'']) (\<lambda>_.
              fail (Msg ''poweroff -f returned unexpectedly''))))
      | Inl _ \<Rightarrow>
          check ''reboot -f failed'' (Run (dp_Cmd dp) ''reboot'' [''-f'']) (\<lambda>_.
          fail (Msg ''reboot -f returned unexpectedly''))))"

definition takeover_wipe :: "Deps \<Rightarrow> unit go" where
  "takeover_wipe dp =
     check ''read target dir'' (ReadDir (dp_FS dp) targetDir) (\<lambda>entries.
     ignore (remove_except dp targetDir (\<lambda>n. n \<in> {''boot'', ''k3os'', ''sbin''}) entries)
      (bnd (ReadDir (dp_FS dp) sbinPath) (\<lambda>r.
       ignore (case r of Inl _ \<Rightarrow> ret ()
               | Inr sbinEntries \<Rightarrow>
                   remove_except dp sbinPath (\<lambda>n. n \<in> {''init'', ''k3s'', ''k3os''}) sbinEntries)
        (bnd (ReadDir (dp_FS dp) bootDir) (\<lambda>r.
         ignore (case r of Inl _ \<Rightarrow> ret ()
                 | Inr bootEntries \<Rightarrow>
                     remove_except dp bootDir (\<lambda>n. HasPrefix n ''g'') bootEntries)
          (ok ()))))))"

definition Disk_Takeover :: "Deps \<Rightarrow> unit go" where
  "Disk_Takeover dp =
     (let takeoverPath = PathJoin [targetDir, ''k3os/system/takeover''] in
      bnd (Stat (dp_FS dp) takeoverPath) (\<lambda>r.
      case r of Inl _ \<Rightarrow> ok () | Inr _ \<Rightarrow>
      let factoryResetPath = PathJoin [targetDir, ''k3os/system/factory-reset''] in
      check ''write factory-reset marker'' (WriteFile (dp_FS dp) factoryResetPath [] mode_644) (\<lambda>_.
      bnd (Lstat (dp_FS dp) sbinPath) (\<lambda>l.
      ignore (case l of
                Inr info \<Rightarrow> if fi_IsSymlink info then ignore (Remove (dp_FS dp) sbinPath) (ret ())
                             else ret ()
              | Inl _ \<Rightarrow> ret ())
      (pass (takeover_wipe dp) (\<lambda>_.
       ignore (Remove (dp_FS dp) takeoverPath)
       (ignore (RemoveAll (dp_FS dp) (PathJoin [targetDir, ''k3os/data'']))
       (ignore (Run (dp_Cmd dp) ''sync'' [])
         (takeover_finish dp)))))))))"

definition Disk_CleanupEphemeral :: "Deps \<Rightarrow> unit go" where
  "Disk_CleanupEphemeral dp =
     (let factoryResetPath = PathJoin [targetDir, ''k3os/system/factory-reset''];
          ephemeralPath = PathJoin [targetDir, ''k3os/system/ephemeral''] in
      bnd (Stat (dp_FS dp) factoryResetPath) (\<lambda>fr.
      bnd (Stat (dp_FS dp) ephemeralPath) (\<lambda>eph.
      if isl fr \<and> isl eph then ok ()
      else ignore (RemoveAll (dp_FS dp) (PathJoin [targetDir, ''k3os/data'']))
            (ignore (Remove (dp_FS dp) factoryResetPath) (ok ())))))"

definition Disk_PivotAndExec :: "Deps \<Rightarrow> unit go" where
  "Disk_PivotAndExec dp =
     ignore (case dp_LoopDetacher dp of
               None \<Rightarrow> ret () | Some ld \<Rightarrow> ignore (DetachPath ld ''/dev/loop0'') (ret ()))
     (check ''make root private'' (ForceMount (dp_Mounter dp) [] ''/'' ''none'' ''rprivate'') (\<lambda>_.
      let dotRoot = PathJoin [targetDir, ''.root''] in
      check ''mkdir .root'' (MkdirAll (dp_FS dp) dotRoot mode_755) (\<lambda>_.
      check ''pivot_root'' (PivotRoot (dp_Proc dp) targetDir dotRoot) (\<lambda>_.
      bnd (Environ dp) (\<lambda>environ.
      let env = environ @ [''K3OS_MODE=local''] in
      check ''exec /sbin/init'' (Exec (dp_Proc dp) ''/sbin/init'' [''/sbin/init''] env) (\<lambda>_.
      fail (ErrExecCalled ''/sbin/init'' [''/sbin/init''] env)))))))"

definition DiskHandler_Execute :: "Deps \<Rightarrow> unit go" where
  "DiskHandler_Execute dp =
     check ''setup mounts'' (Disk_SetupMounts dp) (\<lambda>_.
     check ''setup k3os'' (Disk_SetupK3OS dp) (\<lambda>_.
     check ''setup kernel squashfs'' (Disk_SetupKernelSquashfs dp) (\<lambda>_.
     check ''setup init'' (Disk_SetupInit dp) (\<lambda>_.
     check ''setup k3s'' (Disk_SetupK3s dp) (\<lambda>_.
     check ''takeover'' (Disk_Takeover dp) (\<lambda>_.
     check ''cleanup ephemeral'' (Disk_CleanupEphemeral dp) (\<lambda>_.
     pass (Disk_PivotAndExec dp) (\<lambda>_. ok ()))))))))"

subsection \<open>handler.go: the registry\<close>

definition Registry_handlers :: "(string \<times> (Deps \<Rightarrow> unit go)) list" where
  "Registry_handlers =
     [(''disk'', DiskHandler_Execute), (''local'', LocalHandler_Execute),
      (''live'', LiveHandler_Execute), (''install'', InstallHandler_Execute),
      (''shell'', ShellHandler_Execute)]"

definition Registry_Get :: "string \<Rightarrow> err + (Deps \<Rightarrow> unit go)" where
  "Registry_Get mode =
     (case map_of Registry_handlers mode of
        None \<Rightarrow> Inl (Msg ''unknown mode'')
      | Some ctor \<Rightarrow> Inr ctor)"

end
