(* ===== verification/Boot_Disk_Props.thy ===== *)
theory Boot_Disk_Props
  imports Boot_Modes
begin

section \<open>Properties of the disk mode\<close>

text \<open>
  Mounting and growing the state partition, the takeover of an installed system, and the hand-over
  to the second boot stage. All statements quantify over the dependencies, hence over every answer
  of the operating system.
\<close>

subsection \<open>Handlers that replace the process never return success\<close>

lemma PivotAndExec_fails: "yields isl (Disk_PivotAndExec dp)"
  by (simp add: Disk_PivotAndExec_def Let_def yields_intros)

lemma DiskHandler_fails: "yields isl (DiskHandler_Execute dp)"
  using PivotAndExec_fails [of dp]
  by (auto simp: DiskHandler_Execute_def yields_def split: sum.split)
     (metis sum.disc(2))

lemma ShellHandler_fails: "yields isl (ShellHandler_Execute dp)"
  by (simp add: ShellHandler_Execute_def yields_intros)

text \<open>The disk and shell handlers replace the process, so they never report success to the boot
  sequence: whatever the system answers, Execute of either returns an error (the sentinel
  ErrExecCalled when exec itself came back without one), and finalization never runs after them.\<close>

theorem exec_handlers_never_succeed:
  "isl (fst (DiskHandler_Execute dp h)) \<and> isl (fst (ShellHandler_Execute dp h))"
  using DiskHandler_fails ShellHandler_fails by (blast dest: yieldsD)

subsection \<open>Mounting and growing the state partition\<close>

text \<open>Whether the target directory is mounted, after an event and after a trace.\<close>

definition mounted_step :: "bool \<Rightarrow> event \<Rightarrow> bool" where
  "mounted_step m ev =
     (case fst ev of
        CMount _ t _ _ \<Rightarrow> m \<or> (snd ev \<and> t = targetDir)
      | CRun c args \<Rightarrow> m \<and> \<not> (snd ev \<and> c = ''umount'' \<and> args = [targetDir])
      | _ \<Rightarrow> m)"

definition target_mounted :: "bool \<Rightarrow> hist \<Rightarrow> bool" where
  "target_mounted m tr = foldl mounted_step m tr"

definition resizes :: "event \<Rightarrow> bool" where
  "resizes ev =
     (case fst ev of
        CGrowPartition _ _ \<Rightarrow> True
      | CRun c _ \<Rightarrow> c = ''e2fsck'' \<or> c = ''resize2fs''
      | _ \<Rightarrow> False)"

text \<open>No resizing event happens while the target is mounted.\<close>

fun resize_safe :: "bool \<Rightarrow> hist \<Rightarrow> bool" where
  "resize_safe m [] = True"
| "resize_safe m (ev # tr) = ((resizes ev \<longrightarrow> \<not> m) \<and> resize_safe (mounted_step m ev) tr)"

lemma target_mounted_simps [simp]:
  "target_mounted m [] = m"
  "target_mounted m (ev # tr) = target_mounted (mounted_step m ev) tr"
  "target_mounted m (xs @ ys) = target_mounted (target_mounted m xs) ys"
  by (simp_all add: target_mounted_def)

lemma resize_safe_append [simp]:
  "resize_safe m (xs @ ys) \<longleftrightarrow> resize_safe m xs \<and> resize_safe (target_mounted m xs) ys"
  by (induction xs arbitrary: m) simp_all

lemmas mount_trace = mounted_step_def resizes_def method_defs

lemma resolve_state_quiet:
  "resize_safe m (snd (resolve_state n dp h)) \<and> target_mounted m (snd (resolve_state n dp h)) = m"
  by (induction n arbitrary: h) (simp_all add: mount_trace Let_def)

lemma disk_resize_safe:
  "resize_safe False (snd (disk_resize dp dev n part h)) \<and> \<not> target_mounted False (snd (disk_resize dp dev n part h))"
  by (simp add: disk_resize_def mount_trace split: option.split sum.split)

lemma disk_grow_safe:
  "resize_safe True (snd (disk_grow dp device t dev num part h)) \<and>
   (fst (disk_grow dp device t dev num part h) = Inr () \<longrightarrow>
      target_mounted True (snd (disk_grow dp device t dev num part h)))"
proof -
  have quiet: "resize_safe False (snd (disk_resize dp dev n part h'))"
      "\<not> target_mounted False (snd (disk_resize dp dev n part h'))" for n h'
    using disk_resize_safe by blast+
  show ?thesis
    by (simp add: disk_grow_def mounted_step_def resizes_def Stat_def Run_def MountFS_def Remove_def
        quiet split: sum.split option.split)
qed

text \<open>C8: Growing the state partition is safe and restores the mount: during SetupMounts of the disk
  mode the partition table is never grown, and e2fsck and resize2fs never run, while the target
  directory is mounted, and when SetupMounts succeeds the target directory is mounted.\<close>

theorem SetupMounts_grow_safe:
  "resize_safe False (snd (Disk_SetupMounts dp h)) \<and>
   (fst (Disk_SetupMounts dp h) = Inr () \<longrightarrow> target_mounted False (snd (Disk_SetupMounts dp h)))"
proof -
  have res: "resize_safe m (snd (resolveStateDevice dp h'))"
      "target_mounted m (snd (resolveStateDevice dp h')) = m" for m h'
    using resolve_state_quiet [of m stateMaxRetries dp h'] by (auto simp: resolveStateDevice_def)
  have grow: "resize_safe True (snd (disk_grow dp device t dev num part h'))"
      "fst (disk_grow dp device t dev num part h') = Inr u \<Longrightarrow>
         target_mounted True (snd (disk_grow dp device t dev num part h'))" for device t dev num part h' u
    using disk_grow_safe by (metis old.unit.exhaust)+
  show ?thesis
    by (simp add: Disk_SetupMounts_def mounted_step_def resizes_def MkdirAll_def ProbeFS_def MountFS_def
        ReadFile_def Stat_def FindByLabel_def res grow split: sum.split list.split)
qed

text \<open>A machine whose state partition carries a growpart marker for /dev/sda, partition 2.\<close>

definition deps_grow :: Deps where
  "deps_grow = \<lparr>dp_FS = fs_ok\<lparr>fs_ReadFile := (\<lambda>_ _. Inr ''/dev/sda 2'')\<rparr>, dp_Cmd = cmd_ok,
     dp_Mounter = mounter_ok, dp_BlockProber = prober_ok, dp_PartitionGrower = Some grower_ok,
     dp_LoopDetacher = Some detacher_ok, dp_Proc = proc_ok, dp_CopyDir = (\<lambda>_ _ _. Inr ()),
     dp_KernelVersion = ''5.15'', dp_VersionID = ''v1'', dp_Environ = (\<lambda>_. [''PATH=/sbin''])\<rparr>"

lemma deps_grow_fields:
  "dp_FS deps_grow = fs_ok\<lparr>fs_ReadFile := (\<lambda>_ _. Inr ''/dev/sda 2'')\<rparr>" "dp_Cmd deps_grow = cmd_ok"
  "dp_Mounter deps_grow = mounter_ok" "dp_BlockProber deps_grow = prober_ok"
  "dp_PartitionGrower deps_grow = Some grower_ok"
  by (simp_all add: deps_grow_def)

lemma deps_grow_run:
  "fst (Disk_SetupMounts deps_grow []) = Inr ()
   \<and> (CGrowPartition ''/dev/sda'' 2, True) \<in> set (snd (Disk_SetupMounts deps_grow []))"
proof -
  have dev: "resolveStateDevice deps_grow h = (Inr ''/dev/sda2'', [(CFindByLabel stateLabel, True)])" for h
    using resolve_state.simps(2) [of 9 deps_grow]
    by (simp add: resolveStateDevice_def stateMaxRetries_def FindByLabel_def deps_grow_def prober_ok_def
        prod_eq_iff Let_def)
  have "Fields ''/dev/sda 2'' = [''/dev/sda'', ''2'']" and "Atoi ''2'' = Some 2"
    by (simp_all add: string_eval)
  then show ?thesis
    by (simp add: Disk_SetupMounts_def dev disk_grow_def disk_resize_def method_defs deps_grow_fields
        fixture_defs)
qed

theorem SetupMounts_grow_safe_witness:
  "(CGrowPartition ''/dev/sda'' 2, True) \<in> set (snd (Disk_SetupMounts deps_grow []))
   \<and> resize_safe False (snd (Disk_SetupMounts deps_grow []))
   \<and> target_mounted False (snd (Disk_SetupMounts deps_grow []))"
  using SetupMounts_grow_safe [of deps_grow "[]"] deps_grow_run by blast

subsection \<open>Bounded retries\<close>

fun lookups :: "hist \<Rightarrow> nat" where
  "lookups [] = 0"
| "lookups ((CFindByLabel l, b) # tr) = Suc (lookups tr)"
| "lookups (ev # tr) = lookups tr"

lemma resolve_state_bounds:
  "lookups (snd (resolve_state n dp h)) \<le> n \<and> slept (snd (resolve_state n dp h)) \<le> n * second
   \<and> (isl (fst (resolve_state n dp h)) \<longrightarrow> lookups (snd (resolve_state n dp h)) = n)
   \<and> fst (resolve_state n dp h) \<noteq> Inr []"
proof (induction n arbitrary: h)
  case (Suc n)
  show ?case
    using Suc [of "h @ [(CFindByLabel stateLabel, b), (CSleep second, True)]" for b]
    by (simp add: FindByLabel_def Sleep_def Let_def)
qed simp

text \<open>C40: Waiting for the state device is bounded: resolveStateDevice looks the label up at most ten
  times and sleeps at most ten seconds in all; it gives up only after all ten look-ups, and a
  device it returns is never the empty path.\<close>

theorem resolveStateDevice_bounded:
  "lookups (snd (resolveStateDevice dp h)) \<le> 10 \<and> slept (snd (resolveStateDevice dp h)) \<le> 10 * second
   \<and> (if isl (fst (resolveStateDevice dp h)) then lookups (snd (resolveStateDevice dp h)) = 10
      else fst (resolveStateDevice dp h) \<noteq> Inr [])"
  using resolve_state_bounds [of 10 dp h] by (simp add: resolveStateDevice_def stateMaxRetries_def)

subsection \<open>Takeover\<close>

definition target_comps :: "string list" where
  "target_comps = [''run'', ''k3os'', ''target'']"

lemma targetDir_rooted: "targetDir = rooted_path target_comps"
  by code_simp

lemma target_comps_plain: "w \<in> set target_comps \<Longrightarrow> plain_name w"
  by (auto simp: target_comps_def plain_name_def)

lemma target_join:
  assumes "list_all plain_name ds" and "plain_name n"
  shows "PathJoin [rooted_path (target_comps @ ds), n] = rooted_path (target_comps @ ds @ [n])"
proof -
  have "PathJoin [rooted_path (target_comps @ ds), Join ''/'' [n]] = rooted_path ((target_comps @ ds) @ [n])"
    by (rule PathJoin_rooted) (use assms target_comps_plain in \<open>auto simp: list_all_iff target_comps_def\<close>)
  then show ?thesis by simp
qed

lemma target_dirs:
  "sbinPath = rooted_path (target_comps @ [''sbin''])"
  "bootDir = rooted_path (target_comps @ [''boot''])"
  "PathJoin [targetDir, ''k3os/data''] = rooted_path (target_comps @ [''k3os'', ''data''])"
  by code_simp+

text \<open>What a takeover may remove: a path below the target, outside the kept directories and files.\<close>

definition removable :: "string list \<Rightarrow> bool" where
  "removable cs \<longleftrightarrow> cs = [''k3os'', ''data'']
     \<or> (\<exists>n. plain_name n \<and> (cs = [n] \<and> n \<notin> {''boot'', ''k3os'', ''sbin''}
           \<or> cs = [''sbin'', n] \<and> n \<notin> {''init'', ''k3s'', ''k3os''}
           \<or> cs = [''boot'', n] \<and> \<not> HasPrefix n ''g''))"

definition removes_removable :: "event \<Rightarrow> bool" where
  "removes_removable ev \<longleftrightarrow>
     (\<forall>p. fst ev = CRemoveAll p \<longrightarrow> (\<exists>cs. p = rooted_path (target_comps @ cs) \<and> removable cs))"

lemma remove_except_removable:
  assumes "dir = rooted_path (target_comps @ ds)" and "list_all plain_name ds"
    and "list_all (\<lambda>e. plain_name (de_Name e)) es"
    and "\<And>n. plain_name n \<Longrightarrow> \<not> keep n \<Longrightarrow> removable (ds @ [n])"
  shows "emits removes_removable (remove_except dp dir keep es)"
  unfolding remove_except_def
proof (rule emits_foreach)
  fix e assume "e \<in> set es"
  then have "plain_name (de_Name e)" using assms(3) by (auto simp: list_all_iff)
  then show "emits removes_removable (if keep (de_Name e) then ret ()
      else ignore (RemoveAll (dp_FS dp) (PathJoin [dir, de_Name e])) (ret ()))"
    using assms(4) [of "de_Name e"]
    by (auto simp: RemoveAll_def removes_removable_def assms(1) target_join [OF assms(2)] intro!: emits_intros)
qed

lemma takeover_wipe_removable:
  assumes "plain_listings (dp_FS dp)"
  shows "emits removes_removable (takeover_wipe dp)"
proof -
  note removes = remove_except_removable [where dp = dp]
  have read: "emits removes_removable (ReadDir (dp_FS dp) d)" for d
    by (simp add: ReadDir_def removes_removable_def emits_perform)
  have rest: "emits removes_removable (case r of Inl _ \<Rightarrow> ret () | Inr es \<Rightarrow> remove_except dp d keep es)"
    if "plain_result r" and "d = rooted_path (target_comps @ ds)" and "list_all plain_name ds"
      and "\<And>n. plain_name n \<Longrightarrow> \<not> keep n \<Longrightarrow> removable (ds @ [n])" for r d keep ds
    using that by (auto simp: plain_result_def intro!: emits_case_sum emits_ret removes)
  note chain = emits_bnd_val [OF read ReadDir_plain [OF assms]] emits_ignore emits_ret
  have top: "emits removes_removable (remove_except dp targetDir (\<lambda>n. n \<in> {''boot'', ''k3os'', ''sbin''}) es)"
    if "list_all (\<lambda>e. plain_name (de_Name e)) es" for es
    by (rule removes [where ds = "[]"]) (use that in \<open>auto simp: targetDir_rooted removable_def\<close>)
  have tail: "emits removes_removable (bnd (ReadDir (dp_FS dp) sbinPath) (\<lambda>r.
       ignore (case r of Inl _ \<Rightarrow> ret ()
               | Inr es \<Rightarrow> remove_except dp sbinPath (\<lambda>n. n \<in> {''init'', ''k3s'', ''k3os''}) es)
        (bnd (ReadDir (dp_FS dp) bootDir) (\<lambda>r.
         ignore (case r of Inl _ \<Rightarrow> ret ()
                 | Inr es \<Rightarrow> remove_except dp bootDir (\<lambda>n. HasPrefix n ''g'') es)
          (ok ())))))"
    by (intro chain rest [OF _ target_dirs(1)] rest [OF _ target_dirs(2)])
       (auto simp: removable_def plain_name_def)
  show ?thesis
    unfolding takeover_wipe_def check_def
    by (rule chain(1)) (simp add: plain_result_def emits_ret emits_ignore top [simplified] tail [simplified] split: sum.split)
qed

lemma removable_data:
  "\<exists>cs. rooted_path (target_comps @ [''k3os'', ''data'']) = rooted_path (target_comps @ cs) \<and> removable cs"
  unfolding removable_def by blast

lemma Takeover_removable:
  assumes "plain_listings (dp_FS dp)"
  shows "emits removes_removable (Disk_Takeover dp)"
  unfolding Disk_Takeover_def takeover_finish_def Let_def target_dirs method_defs
  by (intro emits_intros takeover_wipe_removable [OF assms])
     (simp_all add: removes_removable_def removable_data)

text \<open>What must survive, relative to the target directory.\<close>

definition kept :: "string list \<Rightarrow> bool" where
  "kept cs \<longleftrightarrow> cs \<in> {[], [''boot''], [''k3os''], [''sbin''], [''sbin'', ''init''], [''sbin'', ''k3s''],
       [''sbin'', ''k3os'']}
     \<or> (\<exists>ws. cs = ''k3os'' # ''system'' # ws)
     \<or> (\<exists>n ws. cs = ''boot'' # n # ws \<and> HasPrefix n ''g'')"

lemma removable_not_kept: "removable xs \<Longrightarrow> kept ys \<Longrightarrow> \<not> prefix xs ys \<and> xs \<noteq> []"
  by (auto simp: removable_def kept_def)

lemma removable_plain: "removable xs \<Longrightarrow> list_all plain_name xs"
  by (auto simp: removable_def plain_name_def)


definition takeoverPath :: string where
  "takeoverPath = PathJoin [targetDir, ''k3os/system/takeover'']"

definition factoryResetPath :: string where
  "factoryResetPath = PathJoin [targetDir, ''k3os/system/factory-reset'']"

definition destroys :: "event \<Rightarrow> bool" where
  "destroys ev = (case fst ev of CRemoveAll _ \<Rightarrow> True | CRemove _ \<Rightarrow> True | _ \<Rightarrow> False)"

definition reset_marked :: "event \<Rightarrow> bool" where
  "reset_marked ev \<longleftrightarrow> ev = (CWriteFile factoryResetPath [] mode_644, True)"

lemma takeover_finish_fails: "yields isl (takeover_finish dp)"
  by (simp add: takeover_finish_def Let_def yields_intros)

text \<open>After the marker Takeover is a guarded run of an action that always fails.\<close>

lemma Disk_Takeover_shape:
  obtains wipe where "yields isl (wipe :: unit go)"
    and "Disk_Takeover dp = bnd (Stat (dp_FS dp) takeoverPath) (\<lambda>r.
       case r of Inl _ \<Rightarrow> ok () | Inr _ \<Rightarrow>
       check ''write factory-reset marker'' (WriteFile (dp_FS dp) factoryResetPath [] mode_644) (\<lambda>_. wipe))"
proof
  let ?wipe = "bnd (Lstat (dp_FS dp) sbinPath) (\<lambda>l.
      ignore (case l of
                Inr info \<Rightarrow> if fi_IsSymlink info then ignore (Remove (dp_FS dp) sbinPath) (ret ())
                             else ret ()
              | Inl _ \<Rightarrow> ret ())
      (pass (takeover_wipe dp) (\<lambda>_.
       ignore (Remove (dp_FS dp) takeoverPath)
       (ignore (RemoveAll (dp_FS dp) (PathJoin [targetDir, ''k3os/data'']))
       (ignore (Run (dp_Cmd dp) ''sync'' [])
         (takeover_finish dp))))))"
  show "yields isl ?wipe"
    by (intro yields_intros takeover_finish_fails) simp
  show "Disk_Takeover dp = bnd (Stat (dp_FS dp) takeoverPath) (\<lambda>r.
       case r of Inl _ \<Rightarrow> ok () | Inr _ \<Rightarrow>
       check ''write factory-reset marker'' (WriteFile (dp_FS dp) factoryResetPath [] mode_644) (\<lambda>_. ?wipe))"
    unfolding Disk_Takeover_def takeoverPath_def factoryResetPath_def Let_def ..
qed

text \<open>C13: The takeover marker decides. Without it Takeover does nothing but look; with it, Takeover
  never returns success, so the boot does not go on into the half-wiped system, and it removes
  nothing before the factory-reset marker has been written successfully.\<close>

theorem takeover_marker:
  "(if isl (fs_Stat (dp_FS dp) h takeoverPath)
    then Disk_Takeover dp h = (Inr (), [(CStat takeoverPath, False)])
    else isl (fst (Disk_Takeover dp h)))
   \<and> guarded destroys reset_marked (snd (Disk_Takeover dp h))"
proof -
  obtain wipe where wipe: "yields isl (wipe :: unit go)"
    and run: "Disk_Takeover dp = bnd (Stat (dp_FS dp) takeoverPath) (\<lambda>r.
       case r of Inl _ \<Rightarrow> ok () | Inr _ \<Rightarrow>
       check ''write factory-reset marker'' (WriteFile (dp_FS dp) factoryResetPath [] mode_644) (\<lambda>_. wipe))"
    by (rule Disk_Takeover_shape)
  note fails = yieldsD [OF wipe]
  show ?thesis
    unfolding run
    by (cases "fs_Stat (dp_FS dp) h takeoverPath")
       (auto simp: prod_eq_iff Stat_def WriteFile_def destroys_def reset_marked_def fails split: sum.split)
qed

subsection \<open>Hand-over to the second stage\<close>

text \<open>\<open>os.Getenv\<close> in the new process: the first entry of the environment with that key.\<close>

fun Getenv :: "string list \<Rightarrow> string \<Rightarrow> string" where
  "Getenv [] key = []"
| "Getenv (kv # kvs) key =
     (if HasPrefix kv (key @ ''='') then drop (length key + 1) kv else Getenv kvs key)"

lemma Getenv_append:
  "list_all (\<lambda>kv. \<not> HasPrefix kv (key @ ''='')) kvs \<Longrightarrow> Getenv (kvs @ ws) key = Getenv ws key"
  by (induction kvs) auto

definition execs :: "string \<Rightarrow> (string list \<Rightarrow> bool) \<Rightarrow> event \<Rightarrow> bool" where
  "execs path P ev = (case fst ev of CExec p args env \<Rightarrow> p = path \<and> P env | _ \<Rightarrow> False)"

definition pivoted :: "event \<Rightarrow> bool" where
  "pivoted ev \<longleftrightarrow> (\<exists>old. ev = (CPivotRoot targetDir old, True))"

lemma PivotAndExec_execs:
  "(CExec p args env, b) \<in> set (snd (Disk_PivotAndExec dp h)) \<Longrightarrow>
     p = ''/sbin/init'' \<and> (\<exists>h'. env = dp_Environ dp h' @ [''K3OS_MODE=local''])"
  by (auto simp: Disk_PivotAndExec_def Let_def Environ_def method_defs split: option.splits sum.splits)

text \<open>An action that replaces no process.\<close>

definition no_exec :: "event \<Rightarrow> bool" where
  "no_exec ev = (case fst ev of CExec _ _ _ \<Rightarrow> False | _ \<Rightarrow> True)"

lemma no_exec_event: "emits no_exec m \<Longrightarrow> (CExec p args env, b) \<notin> set (snd (m h))"
  using emitsD [of no_exec m "(CExec p args env, b)" h] by (auto simp: no_exec_def)

lemma resolve_state_no_exec: "emits no_exec (resolve_state n dp)"
proof (induction n)
  case 0
  show ?case unfolding resolve_state.simps by (rule emits_ret)
next
  case (Suc n)
  then show ?case
    unfolding resolve_state.simps Let_def method_defs
    by (intro emits_intros) (simp_all add: no_exec_def)
qed

lemma stages_no_exec:
  "emits no_exec (Disk_SetupMounts dp)" "emits no_exec (Disk_SetupK3OS dp)"
  "emits no_exec (Disk_SetupKernelSquashfs dp)" "emits no_exec (Disk_SetupInit dp)"
  "emits no_exec (Disk_SetupK3s dp)" "emits no_exec (Disk_Takeover dp)"
  "emits no_exec (Disk_CleanupEphemeral dp)"
  unfolding Disk_SetupMounts_def disk_grow_def disk_resize_def resolveStateDevice_def Disk_SetupK3OS_def
    Disk_SetupKernelSquashfs_def Disk_SetupInit_def Disk_SetupK3s_def Disk_Takeover_def takeover_wipe_def
    remove_except_def takeover_finish_def Disk_CleanupEphemeral_def Let_def method_defs
  by (intro emits_intros resolve_state_no_exec; simp add: no_exec_def)+

lemma Execute_execs:
  assumes "(CExec p args env, b) \<in> set (snd (DiskHandler_Execute dp h))"
  shows "p = ''/sbin/init'' \<and> (\<exists>h'. env = dp_Environ dp h' @ [''K3OS_MODE=local''])"
  using assms
  by (auto simp: DiskHandler_Execute_def stages_no_exec [THEN no_exec_event] dest: PivotAndExec_execs
      split: sum.splits)

text \<open>C9: The first boot stage hands over to the second: any process image the disk handler executes is
  /sbin/init, with an environment in which a fresh mode detection without a command-line mode
  settles on local (or on an error of its own writes), provided the handler's own environment
  does not already set K3OS_MODE.\<close>

theorem disk_handover:
  assumes "(CExec p args env, b) \<in> set (snd (DiskHandler_Execute dp h))"
    and "\<And>h'. list_all (\<lambda>kv. \<not> HasPrefix kv ''K3OS_MODE='') (dp_Environ dp h')"
    and "d_EnvReader d = (\<lambda>_. Getenv env)"
    and "\<And>h'. cp_Flag (d_Cmdline d) h' ''k3os.mode'' = None"
    and "\<And>h'. \<not> cp_Contains (d_Cmdline d) h' ''rescue''"
  shows "p = ''/sbin/init'' \<and> (\<exists>r. fst (Detect (Suc fuel) d h2) = Some r \<and> (\<forall>m. r = Inr m \<longrightarrow> m = ''local''))"
proof -
  from Execute_execs [OF assms(1)] obtain h' where p: "p = ''/sbin/init''"
    and env: "env = dp_Environ dp h' @ [''K3OS_MODE=local'']" by auto
  have "Getenv env ''K3OS_MODE'' = ''local''"
    using Getenv_append [of "''K3OS_MODE''"] assms(2) by (simp add: env HasPrefix_def)
  then have once: "fst (detectOnce d fb h') = ''local''" for fb h'
    by (simp add: detectOnce_precedence probe_order_def assms(3) Let_def)
  have "\<exists>r. fst (detect_loop (Suc fuel) d fb dl h') = Some r \<and> (\<forall>m. r = Inr m \<longrightarrow> m = ''local'')" for fb dl h'
    using finalize_success by (auto simp: once)
  then show ?thesis
    using assms(4,5) p by (simp add: Detect_def Let_def Flag_def CmdlineContains_def del: detect_loop.simps)
qed

subsection \<open>Witnesses\<close>

text \<open>A machine that has just been installed: no markers, all calls succeed.\<close>

definition fs_listing :: FileSystem where
  "fs_listing = fs_ok\<lparr>fs_ReadDir := (\<lambda>_ d. if d = targetDir
     then Inr [\<lparr>de_Name = ''home'', de_IsDir = True, de_Info = Inr info_dir\<rparr>,
               \<lparr>de_Name = ''boot'', de_IsDir = True, de_Info = Inr info_dir\<rparr>] else Inr [])\<rparr>"

definition deps_takeover :: Deps where
  "deps_takeover = deps_grow\<lparr>dp_FS := fs_listing\<rparr>"

lemma fs_listing_plain: "plain_listings (dp_FS deps_takeover)"
  by (auto simp: deps_takeover_def plain_listings_def fs_listing_def plain_name_def)

lemma takeover_removes_home:
  "(CRemoveAll ''/run/k3os/target/home'', True) \<in> set (snd (Disk_Takeover deps_takeover []))"
  by code_simp


definition deps_installed :: Deps where
  "deps_installed = deps_grow\<lparr>dp_FS := fs_ok\<lparr>fs_Stat := (\<lambda>_ _. Inl enoent), fs_ReadFile := (\<lambda>_ _. Inl enoent)\<rparr>\<rparr>"

definition init_env :: "string list" where
  "init_env = [''PATH=/sbin'', ''K3OS_MODE=local'']"

lemma deps_installed_execs:
  "(CExec ''/sbin/init'' [''/sbin/init''] init_env, True) \<in> set (snd (DiskHandler_Execute deps_installed []))"
  by code_simp

theorem disk_handover_witness:
  "''/sbin/init'' = ''/sbin/init'' \<and>
   (\<exists>r. fst (Detect (Suc 0) (detector_disk\<lparr>d_EnvReader := (\<lambda>_. Getenv init_env)\<rparr>) []) = Some r
     \<and> (\<forall>m. r = Inr m \<longrightarrow> m = ''local''))"
  by (rule disk_handover [OF deps_installed_execs])
     (simp_all add: deps_installed_def deps_grow_def detector_disk_def cmdline_none_def HasPrefix_def)

end
