(* ===== verification/Boot_Phases.thy ===== *)
theory Boot_Phases
  imports Go_Fixtures
begin

section \<open>Phases of named steps\<close>

text \<open>
  \<open>Bootstrapper.Run\<close> and \<open>Finalizer.Run\<close> both walk a table of named steps. \<open>run_steps\<close> is that loop;
  \<open>phase_runner\<close> is the contract a phase promises its caller, in terms of the trace the steps
  leave when run one after the other.
\<close>

type_synonym step = "string \<times> unit go"

fun run_steps :: "string \<Rightarrow> step list \<Rightarrow> unit go" where
  "run_steps label [] = ok ()"
| "run_steps label (s # ss) =
     check (label @ fst s) (snd s) (\<lambda>_. run_steps label ss)"

text \<open>The trace of running the steps in order, each on what the ones before it left.\<close>

fun steps_trace :: "step list \<Rightarrow> hist \<Rightarrow> hist" where
  "steps_trace [] h = []"
| "steps_trace (s # ss) h = (let t = snd (snd s h) in t @ steps_trace ss (h @ t))"

definition step_result :: "step list \<Rightarrow> nat \<Rightarrow> hist \<Rightarrow> err + unit" where
  "step_result steps n h = fst (snd (steps ! n) (h @ steps_trace (take n steps) h))"

text \<open>Every step before the \<open>n\<close>-th has succeeded.\<close>

definition succeeded_until :: "step list \<Rightarrow> nat \<Rightarrow> hist \<Rightarrow> bool" where
  "succeeded_until steps n h \<longleftrightarrow> (\<forall>i < n. \<not> isl (step_result steps i h))"

lemma steps_trace_append:
  "steps_trace (xs @ ys) h = steps_trace xs h @ steps_trace ys (h @ steps_trace xs h)"
  by (induction xs arbitrary: h) (simp_all add: Let_def)

locale phase_runner =
  fixes label :: string and steps :: "step list" and run :: "unit go"
  assumes stops: "\<lbrakk>n < length steps; succeeded_until steps n h; step_result steps n h = Inl e\<rbrakk> \<Longrightarrow>
      run h = (Inl (Wrap (label @ fst (steps ! n)) e), steps_trace (take (Suc n) steps) h)"
    and completes: "succeeded_until steps (length steps) h \<Longrightarrow> run h = (Inr (), steps_trace steps h)"
begin

lemma first_failure:
  assumes "\<not> succeeded_until steps (length steps) h"
  obtains n e where "n < length steps" and "succeeded_until steps n h" and "step_result steps n h = Inl e"
proof -
  define bad where "bad n \<longleftrightarrow> n < length steps \<and> isl (step_result steps n h)" for n
  from assms obtain n where "bad n" by (auto simp: succeeded_until_def bad_def)
  then have "bad (LEAST n. bad n)" by (rule LeastI)
  moreover have "succeeded_until steps (LEAST n. bad n) h"
    unfolding succeeded_until_def
  proof (intro allI impI)
    fix i assume "i < (LEAST n. bad n)"
    then show "\<not> isl (step_result steps i h)"
      using not_less_Least [of i bad] \<open>bad (LEAST n. bad n)\<close> by (simp add: bad_def)
  qed
  ultimately show thesis using that by (auto simp: bad_def isl_def)
qed

lemma succeeds_iff: "fst (run h) = Inr () \<longleftrightarrow> succeeded_until steps (length steps) h"
  by (metis first_failure completes stops fst_conv Inl_Inr_False)

lemma outcome:
  "(succeeded_until steps (length steps) h \<and> run h = (Inr (), steps_trace steps h)) \<or>
   (\<exists>n e. n < length steps \<and> succeeded_until steps n h \<and> step_result steps n h = Inl e
     \<and> run h = (Inl (Wrap (label @ fst (steps ! n)) e), steps_trace (take (Suc n) steps) h))"
  by (metis first_failure completes stops)

text \<open>A phase that succeeds has run each of its steps, successfully, on what came before it.\<close>

lemma step_done:
  assumes "fst (run h) = Inr ()" and "steps = us @ (name, act) # ws"
  shows "fst (act (h @ steps_trace us h)) = Inr ()"
    and "snd (run h) = steps_trace us h @ snd (act (h @ steps_trace us h))
           @ steps_trace ws (h @ steps_trace us h @ snd (act (h @ steps_trace us h)))"
proof -
  from assms(1) have all: "succeeded_until steps (length steps) h" by (simp add: succeeds_iff)
  then have "\<not> isl (step_result steps (length us) h)"
    using assms(2) by (simp add: succeeded_until_def)
  then show "fst (act (h @ steps_trace us h)) = Inr ()"
    using assms(2) by (cases "fst (act (h @ steps_trace us h))") (auto simp: step_result_def)
  show "snd (run h) = steps_trace us h @ snd (act (h @ steps_trace us h))
      @ steps_trace ws (h @ steps_trace us h @ snd (act (h @ steps_trace us h)))"
    using completes [OF all] assms(2) by (simp add: steps_trace_append Let_def)
qed

end

lemma step_result_Suc:
  "step_result (s # ss) (Suc n) h = step_result ss n (h @ snd (snd s h))"
  by (simp add: step_result_def Let_def)

lemma step_result_0: "step_result (s # ss) 0 h = fst (snd s h)"
  by (simp add: step_result_def)

lemma succeeded_until_Suc:
  "succeeded_until (s # ss) (Suc n) h \<longleftrightarrow>
     \<not> isl (fst (snd s h)) \<and> succeeded_until ss n (h @ snd (snd s h))"
  by (auto simp: succeeded_until_def less_Suc_eq_0_disj step_result_0 step_result_Suc)

lemmas steps_simps = step_result_0 step_result_Suc succeeded_until_Suc

lemma run_steps_stops:
  "\<lbrakk>n < length steps; succeeded_until steps n h; step_result steps n h = Inl e\<rbrakk> \<Longrightarrow>
     run_steps label steps h = (Inl (Wrap (label @ fst (steps ! n)) e), steps_trace (take (Suc n) steps) h)"
proof (induction steps arbitrary: n h)
  case (Cons s ss)
  show ?case
  proof (cases n)
    case 0
    with Cons.prems show ?thesis by (simp add: prod_eq_iff step_result_0 Let_def)
  next
    case (Suc m)
    with Cons.prems obtain u where u: "fst (snd s h) = Inr u"
      by (cases "fst (snd s h)") (simp_all add: steps_simps)
    from Suc Cons.prems have "run_steps label ss (h @ snd (snd s h)) =
        (Inl (Wrap (label @ fst (ss ! m)) e), steps_trace (take (Suc m) ss) (h @ snd (snd s h)))"
      by (intro Cons.IH) (auto simp: steps_simps)
    with u Suc show ?thesis by (simp add: prod_eq_iff Let_def)
  qed
qed simp

lemma run_steps_completes:
  "succeeded_until steps (length steps) h \<Longrightarrow> run_steps label steps h = (Inr (), steps_trace steps h)"
proof (induction steps arbitrary: h)
  case (Cons s ss)
  then obtain u where "fst (snd s h) = Inr u"
    by (cases "fst (snd s h)") (simp_all add: steps_simps)
  with Cons show ?case by (simp add: prod_eq_iff Let_def steps_simps)
qed simp

lemma run_steps_phase: "phase_runner label steps (run_steps label steps)"
  by unfold_locales (rule run_steps_stops, assumption+, rule run_steps_completes)

lemma run_steps_never_fails:
  "\<forall>s \<in> set steps. never_fails (snd s) \<Longrightarrow> never_fails (run_steps label steps)"
  by (induction steps) (auto intro: never_fails_intros)

end
