(* ===== verification/Boot_Finalize.thy ===== *)
theory Boot_Finalize
  imports Boot_Phases Partition_Names
begin

section \<open>The finalization phase: internal/boot/finalize\<close>

text \<open>
  \<open>Finalizer\<close> is the struct of \<open>finalize.go\<close>; a method \<open>(f *Finalizer) M\<close> is \<open>Fin_M\<close>. The loop of
  \<open>SetupMounts\<close> that unmounts \<open>/.base\<close> until it is gone has no bound in the code: it is modelled with
  fuel (\<open>Diverges\<close> when it runs out) and \<open>umount_loop_terminates\<close> gives the fuel that is enough when
  \<open>/.base\<close> is stacked finitely often. The random hostname suffix is a \<open>uint32\<close>.
\<close>

subsection \<open>Definitions\<close>

record Finalizer =
  fz_FS :: FileSystem
  fz_Mounter :: Mounter
  fz_Cmd :: CommandRunner
  fz_BlockProber :: BlockProber
  fz_PartitionGrower :: "PartitionGrower option"
  fz_Mode :: string
  fz_Cmdline :: CmdlineParser
  fz_RandFunc :: "hist \<Rightarrow> err + nat"
  fz_VirtDetector :: "hist \<Rightarrow> err + string list"
  fz_SleepFunc :: bool
  fz_ConfigRunner :: "hist \<Rightarrow> err + unit"
  fz_ManifestCopier :: "hist \<Rightarrow> string \<Rightarrow> string \<Rightarrow> err + unit"

subsubsection \<open>mounts.go\<close>

fun umount_loop :: "nat \<Rightarrow> Finalizer \<Rightarrow> unit go" where
  "umount_loop 0 f = fail Diverges"
| "umount_loop (Suc n) f =
     check ''check /.base mounted'' (Mounted (fz_Mounter f) ''/.base'') (\<lambda>mounted.
     if \<not> mounted then ok ()
     else check ''umount /.base'' (Run (fz_Cmd f) ''umount'' [''-l'', ''/.base'']) (\<lambda>_.
          umount_loop n f))"

definition Fin_SetupMounts :: "nat \<Rightarrow> Finalizer \<Rightarrow> unit go" where
  "Fin_SetupMounts fuel f =
     bnd (Stat (fz_FS f) ''/.base/boot'') (\<lambda>r.
     pass (case r of Inl _ \<Rightarrow> ok () | Inr _ \<Rightarrow>
             check ''mkdir /boot'' (MkdirAll (fz_FS f) ''/boot'' mode_755) (\<lambda>_.
             check ''bind mount /boot'' (MountFS (fz_Mounter f) ''/.base/boot'' ''/boot'' [] ''bind'')
               (\<lambda>_. ok ()))) (\<lambda>_.
     bnd (Stat (fz_FS f) ''/.base/k3os/system'') (\<lambda>r.
     pass (case r of Inl _ \<Rightarrow> ok () | Inr _ \<Rightarrow>
             check ''mkdir /k3os/system'' (MkdirAll (fz_FS f) ''/k3os/system'' mode_755) (\<lambda>_.
             check ''bind mount /k3os/system''
               (MountFS (fz_Mounter f) ''/.base/k3os/system'' ''/k3os/system'' [] ''ro,bind'')
               (\<lambda>_. ok ()))) (\<lambda>_.
     umount_loop fuel f))))"

subsubsection \<open>grow.go\<close>

definition growpartMarker :: string where
  "growpartMarker = ''/k3os/system/growpart''"

text \<open>Lines 51 to 75 of \<open>GrowLive\<close>: grow the partition, then its file system, then drop the marker.\<close>

definition grow_live_part :: "Finalizer \<Rightarrow> string \<Rightarrow> string \<Rightarrow> string \<Rightarrow> unit go" where
  "grow_live_part f dev num part =
     (case Atoi num of
        None \<Rightarrow> fail (Wrap ''parse partition number'' (Msg ''strconv.Atoi: parsing''))
      | Some partNumInt \<Rightarrow>
          (case fz_PartitionGrower f of
             None \<Rightarrow> ok ()
           | Some pg \<Rightarrow>
               check ''grow partition'' (GrowPartition pg dev partNumInt) (\<lambda>_.
               ignore (if fz_SleepFunc f then Sleep (2 * 1000000000) else ret ())
               (check ''resize2fs'' (Run (fz_Cmd f) ''resize2fs'' [part]) (\<lambda>_.
                check ''remove growpart marker'' (Remove (fz_FS f) growpartMarker) (\<lambda>_. ok ())))))) "

definition Fin_GrowLive :: "Finalizer \<Rightarrow> unit go" where
  "Fin_GrowLive f =
     (if fz_Mode f \<noteq> ''local'' then ok ()
      else
        bnd (ReadFile (fz_FS f) growpartMarker) (\<lambda>r.
        case r of Inl _ \<Rightarrow> ok () | Inr data \<Rightarrow>
        (case Fields (TrimSpace data) of
           dev # num # _ \<Rightarrow>
             bnd (Stat (fz_FS f) (dev @ num)) (\<lambda>s.
             case s of
               Inr _ \<Rightarrow> grow_live_part f dev num (dev @ num)
             | Inl _ \<Rightarrow>
                 check ''find K3OS_STATE by label'' (FindByLabel (fz_BlockProber f) ''K3OS_STATE'') (\<lambda>part.
                 let (dev, num) = splitPartition part in grow_live_part f dev num part))
         | _ \<Rightarrow> fail (Msg ''invalid growpart content''))))"

subsubsection \<open>hostname.go\<close>

definition persistedHostname :: string where
  "persistedHostname = ''/var/lib/rancher/k3os/hostname''"

definition random_hostname :: "nat \<Rightarrow> string" where
  "random_hostname v = ''k3os-'' @ Itoa (int v)"

definition Fin_SetupHostname :: "Finalizer \<Rightarrow> unit go" where
  "Fin_SetupHostname f =
     bnd (Stat (fz_FS f) ''/etc/hostname'') (\<lambda>r.
     case r of Inr _ \<Rightarrow> ok () | Inl _ \<Rightarrow>
     bnd (ReadFile (fz_FS f) persistedHostname) (\<lambda>p.
     case p of
       Inr hostname \<Rightarrow>
         check ''write /etc/hostname'' (WriteFile (fz_FS f) ''/etc/hostname'' hostname mode_644) (\<lambda>_. ok ())
     | Inl _ \<Rightarrow>
         check ''generate random value'' (perform CRand (fz_RandFunc f)) (\<lambda>randVal.
         let hostname = random_hostname randVal in
         check ''mkdir hostname dir'' (MkdirAll (fz_FS f) ''/var/lib/rancher/k3os'' mode_755) (\<lambda>_.
         check ''write persisted hostname''
           (WriteFile (fz_FS f) persistedHostname (hostname @ [newline]) mode_644) (\<lambda>_.
         check ''write /etc/hostname''
           (WriteFile (fz_FS f) ''/etc/hostname'' (hostname @ [newline]) mode_644) (\<lambda>_. ok ()))))))"

text \<open>\<open>trimNewline\<close> drops the last byte while it is a newline or a carriage return.\<close>

fun trim_loop :: "string \<Rightarrow> string" where
  "trim_loop [] = []"
| "trim_loop (c # cs) = (if c = newline \<or> c = CHR 0x0D then trim_loop cs else rev (c # cs))"

definition trimNewline :: "string \<Rightarrow> string" where
  "trimNewline s = trim_loop (rev s)"

definition tab :: string where
  "tab = [CHR 0x09]"

definition hosts_content :: "string \<Rightarrow> string" where
  "hosts_content hostname = Join [newline]
     [''127.0.0.1'' @ tab @ ''localhost localhost.localdomain'',
      ''127.0.1.1'' @ tab @ hostname @ '' '' @ hostname @ ''.localdomain'',
      [],
      ''::1     ip6-localhost ip6-loopback'',
      ''fe00::0 ip6-localnet'',
      ''ff00::0 ip6-mcastprefix'',
      ''ff02::1 ip6-allnodes'',
      ''ff02::2 ip6-allrouters'', []]"

definition Fin_SetupHosts :: "Finalizer \<Rightarrow> unit go" where
  "Fin_SetupHosts f =
     bnd (Stat (fz_FS f) ''/etc/hosts'') (\<lambda>r.
     case r of Inr _ \<Rightarrow> ok () | Inl _ \<Rightarrow>
     check ''read /etc/hostname'' (ReadFile (fz_FS f) ''/etc/hostname'') (\<lambda>data.
     check ''write /etc/hosts''
       (WriteFile (fz_FS f) ''/etc/hosts'' (hosts_content (trimNewline data)) mode_644) (\<lambda>_. ok ())))"

definition Fin_SetupRoot :: "Finalizer \<Rightarrow> unit go" where
  "Fin_SetupRoot f =
     bnd (Stat (fz_FS f) ''/root'') (\<lambda>r.
     case r of
       Inr _ \<Rightarrow> ok ()
     | Inl e \<Rightarrow>
         if \<not> IsNotExist e then fail (Wrap ''stat /root'' e)
         else check ''mkdir /root'' (MkdirAll (fz_FS f) ''/root'' mode_700) (\<lambda>_.
              check ''chmod /root'' (Chmod (fz_FS f) ''/root'' mode_700) (\<lambda>_. ok ())))"

subsubsection \<open>ttys.go\<close>

record consoleEntry =
  ce_tty :: string
  ce_baudrate :: string

definition extractBaudrate :: "string \<Rightarrow> string" where
  "extractBaudrate spec =
     (let digits = takeWhile is_digit spec in if digits = [] then ''9600'' else digits)"

definition parse_console :: "string \<Rightarrow> consoleEntry" where
  "parse_console spec =
     (case SplitN CHR '','' 2 spec of
        tty # rest # _ \<Rightarrow> \<lparr>ce_tty = tty, ce_baudrate = (if rest \<noteq> [] then extractBaudrate rest else ''9600'')\<rparr>
      | [tty] \<Rightarrow> \<lparr>ce_tty = tty, ce_baudrate = ''9600''\<rparr>
      | [] \<Rightarrow> \<lparr>ce_tty = [], ce_baudrate = ''9600''\<rparr>)"

definition parseConsoleEntries :: "string \<Rightarrow> consoleEntry list" where
  "parseConsoleEntries cmdline =
     map (\<lambda>field. parse_console (TrimPrefix field ''console=''))
       (filter (\<lambda>field. HasPrefix field ''console='') (Fields cmdline))"

text \<open>The builders \<open>inittab\<close> and \<open>securetty\<close> and the set \<open>seen\<close>, in order of insertion.\<close>

record ttys =
  tt_inittab :: string
  tt_securetty :: string
  tt_seen :: "string list"

definition add_tty :: "string \<Rightarrow> string \<Rightarrow> ttys \<Rightarrow> ttys" where
  "add_tty line tty t =
     \<lparr>tt_inittab = tt_inittab t @ line @ [newline], tt_securetty = tt_securetty t @ tty @ [newline],
      tt_seen = tt_seen t @ [tty]\<rparr>"

fun std_ttys :: "Finalizer \<Rightarrow> nat list \<Rightarrow> ttys \<Rightarrow> ttys io" where
  "std_ttys f [] t = ret t"
| "std_ttys f (i # is) t =
     (let tty = ''tty'' @ Itoa (int i) in
      bnd (Stat (fz_FS f) (''/dev/'' @ tty)) (\<lambda>r.
      std_ttys f is (case r of
          Inr _ \<Rightarrow> add_tty (tty @ ''::respawn:/sbin/getty 38400 '' @ tty) tty t
        | Inl _ \<Rightarrow> t)))"

fun serial_ttys :: "Finalizer \<Rightarrow> consoleEntry list \<Rightarrow> ttys \<Rightarrow> ttys io" where
  "serial_ttys f [] t = ret t"
| "serial_ttys f (entry # es) t =
     (let tty = ce_tty entry in
      if tty \<in> set (tt_seen t) then serial_ttys f es t
      else
        bnd (Stat (fz_FS f) (''/dev/'' @ tty)) (\<lambda>r.
        serial_ttys f es (case r of
            Inr _ \<Rightarrow> add_tty (tty @ ''::respawn:/sbin/getty -L '' @ ce_baudrate entry @ '' '' @ tty @ '' vt100'') tty t
          | Inl _ \<Rightarrow> t)))"

text \<open>Lines 48 to 64: append what was built to a file, when there is something to append.\<close>

definition append_file :: "Finalizer \<Rightarrow> string \<Rightarrow> string \<Rightarrow> unit go" where
  "append_file f path extra =
     (if extra = [] then ok ()
      else bnd (ReadFile (fz_FS f) path) (\<lambda>r.
           let existing = (case r of Inr s \<Rightarrow> s | Inl _ \<Rightarrow> []) in
           check (''write '' @ path) (WriteFile (fz_FS f) path (existing @ extra) mode_644) (\<lambda>_. ok ())))"

definition empty_ttys :: ttys where
  "empty_ttys = \<lparr>tt_inittab = [], tt_securetty = [], tt_seen = []\<rparr>"

text \<open>Lines 17 to 46: the terminals to add.\<close>

definition collect_ttys :: "Finalizer \<Rightarrow> ttys io" where
  "collect_ttys f =
     bnd (std_ttys f [1, 2, 3, 4, 5, 6] empty_ttys) (\<lambda>t.
     bnd (Raw (fz_Cmdline f)) (\<lambda>raw.
     serial_ttys f (parseConsoleEntries raw) t))"

definition Fin_SetupTTYs :: "Finalizer \<Rightarrow> unit go" where
  "Fin_SetupTTYs f =
     bnd (collect_ttys f) (\<lambda>t.
     pass (append_file f ''/etc/inittab'' (tt_inittab t)) (\<lambda>_.
     append_file f ''/etc/securetty'' (tt_securetty t)))"

subsubsection \<open>sudoers.go, manifests.go, statedirs.go\<close>

definition Fin_SetupSudoers :: "Finalizer \<Rightarrow> unit go" where
  "Fin_SetupSudoers f =
     (let content = ''%sudo   ALL = (ALL) ALL'' @ [newline] @ ''rancher ALL = (ALL) NOPASSWD: ALL'' @ [newline] in
      check ''mkdir /etc/sudoers.d'' (MkdirAll (fz_FS f) ''/etc/sudoers.d'' mode_755) (\<lambda>_.
      check ''write /etc/sudoers.d/sudo'' (WriteFile (fz_FS f) ''/etc/sudoers.d/sudo'' content mode_440)
        (\<lambda>_. ok ())))"

definition Fin_SetupManifests :: "Finalizer \<Rightarrow> unit go" where
  "Fin_SetupManifests f =
     (let src = ''/usr/share/rancher/k3s/server/manifests''; dst = ''/var/lib/rancher/k3s/server/manifests'' in
      check ''mkdir manifests'' (MkdirAll (fz_FS f) dst mode_755) (\<lambda>_.
      check ''copy manifests'' (perform (CManifestCopy src dst) (\<lambda>h. fz_ManifestCopier f h src dst)) (\<lambda>_. ok ())))"

definition Fin_SetupStateDirs :: "Finalizer \<Rightarrow> unit go" where
  "Fin_SetupStateDirs f =
     foreach_go [''/var/lib/nfs'', ''/var/lib/rancher/k3s/agent/libexec/kubernetes'']
       (\<lambda>dir. check (''mkdir '' @ dir) (MkdirAll (fz_FS f) dir mode_755) (\<lambda>_. ok ()))"

subsubsection \<open>services.go\<close>

definition sysinitServices :: "string list" where
  "sysinitServices = [''hwdrivers'', ''dmesg'', ''devfs'', ''loadkmap'', ''udev'', ''udev-root'', ''udev-coldplug'']"

definition bootServices :: "string list" where
  "bootServices = [''acpid'', ''hwclock'', ''syslog'', ''bootmisc'', ''hostname'', ''sysctl'', ''modules'',
     ''connman'', ''dbus'', ''haveged'', ''issue'']"

definition defaultServices :: "string list" where
  "defaultServices = [''sshd'', ''local'', ''ccapply'', ''crond'', ''iscsid'', ''ntpd'']"

definition shutdownServices :: "string list" where
  "shutdownServices = [''savecache'', ''killprocs'', ''mount-ro'']"

definition runlevels :: "(string \<times> string list) list" where
  "runlevels = [(''sysinit'', sysinitServices), (''boot'', bootServices),
     (''default'', defaultServices), (''shutdown'', shutdownServices)]"

definition link_service :: "Finalizer \<Rightarrow> string \<Rightarrow> string \<Rightarrow> unit go" where
  "link_service f level svc =
     (let src = ''/etc/init.d/'' @ svc; dst = ''/etc/runlevels/'' @ level @ ''/'' @ svc in
      check (''symlink '' @ src @ '' to '' @ dst) (Symlink (fz_FS f) src dst) (\<lambda>_. ok ()))"

definition link_vm_service :: "Finalizer \<Rightarrow> string \<Rightarrow> unit go" where
  "link_vm_service f svc =
     check (''symlink '' @ svc) (Symlink (fz_FS f) (''/etc/init.d/'' @ svc) (''/etc/runlevels/boot/'' @ svc)) (\<lambda>_. ok ())"

definition vm_services :: "string \<Rightarrow> string list" where
  "vm_services vt =
     (if vt = ''kvm'' \<or> vt = ''qemu'' then [''qemu-guest-agent'']
      else if vt = ''microsoft'' \<or> vt = ''hyperv'' then [''hv_kvp_daemon'', ''hv_fcopy_daemon'', ''hv_vss_daemon'']
      else if vt = ''vmw'' \<or> vt = ''vmware'' then [''open-vm-tools'']
      else [])"

definition Fin_SetupServices :: "Finalizer \<Rightarrow> unit go" where
  "Fin_SetupServices f =
     pass (foreach_go runlevels (\<lambda>(level, services). foreach_go services (link_service f level))) (\<lambda>_.
     bnd (perform CVirtDetect (fz_VirtDetector f)) (\<lambda>r.
     let virtTypes = (case r of Inr ts \<Rightarrow> ts | Inl _ \<Rightarrow> []) in
     foreach_go virtTypes (\<lambda>vt. foreach_go (vm_services vt) (link_vm_service f))))"

subsubsection \<open>config.go\<close>

definition link_if_configured :: "Finalizer \<Rightarrow> string \<Rightarrow> string \<Rightarrow> unit go" where
  "link_if_configured f svc level =
     bnd (Stat (fz_FS f) (''/etc/conf.d/'' @ svc)) (\<lambda>r.
     case r of Inl _ \<Rightarrow> ok () | Inr _ \<Rightarrow>
       check (''symlink '' @ svc)
         (Symlink (fz_FS f) (''/etc/init.d/'' @ svc) (''/etc/runlevels/'' @ level @ ''/'' @ svc)) (\<lambda>_. ok ()))"

definition Fin_SetupConfig :: "Finalizer \<Rightarrow> unit go" where
  "Fin_SetupConfig f =
     check ''k3os config --boot'' (perform CConfigRun (fz_ConfigRunner f)) (\<lambda>_.
     pass (link_if_configured f ''udev-settle'' ''sysinit'') (\<lambda>_.
     bnd (Stat (fz_FS f) ''/var/lib/connman/cloud-config.config'') (\<lambda>r.
     pass (case r of Inl _ \<Rightarrow> ok () | Inr _ \<Rightarrow>
             bnd (ReadFile (fz_FS f) ''/etc/conf.d/connman'') (\<lambda>e.
             let existing = (case e of Inr s \<Rightarrow> s | Inl _ \<Rightarrow> []);
                 content = existing @ ''rc_want='' @ [CHR 0x22] @ ''wpa_supplicant'' @ [CHR 0x22, newline] in
             check ''write connman conf'' (WriteFile (fz_FS f) ''/etc/conf.d/connman'' content mode_644) (\<lambda>_. ok ()))) (\<lambda>_.
     pass (link_if_configured f ''cloud-config'' ''boot'') (\<lambda>_.
     link_if_configured f ''rngd'' ''boot'')))))"

subsubsection \<open>cleanup.go\<close>

definition cleanup_entries :: "Finalizer \<Rightarrow> DirEntry list \<Rightarrow> unit io" where
  "cleanup_entries f entries =
     foreach entries (\<lambda>entry.
       if de_Name entry = ''kernel'' then ret ()
       else ignore (RemoveAll (fz_FS f) (PathJoin [''/run/k3os'', de_Name entry])) (ret ()))"

definition cleanup_mode :: "Finalizer \<Rightarrow> unit go" where
  "cleanup_mode f =
     (if fz_Mode f = [] then ok ()
      else check ''mkdir /run/k3os'' (MkdirAll (fz_FS f) ''/run/k3os'' mode_755) (\<lambda>_.
           check ''write /run/k3os/mode''
             (WriteFile (fz_FS f) ''/run/k3os/mode'' (fz_Mode f @ [newline]) mode_644) (\<lambda>_. ok ())))"

definition Fin_Cleanup :: "Finalizer \<Rightarrow> unit go" where
  "Fin_Cleanup f =
     bnd (ReadDir (fz_FS f) ''/run/k3os'') (\<lambda>r.
     case r of
       Inl e \<Rightarrow> if IsNotExist e then cleanup_mode f else fail (Wrap ''read /run/k3os'' e)
     | Inr entries \<Rightarrow> ignore (cleanup_entries f entries) (cleanup_mode f))"

subsubsection \<open>finalize.go\<close>

definition finalize_steps :: "nat \<Rightarrow> Finalizer \<Rightarrow> step list" where
  "finalize_steps fuel f =
     [(''SetupMounts'', Fin_SetupMounts fuel f), (''GrowLive'', Fin_GrowLive f),
      (''SetupHostname'', Fin_SetupHostname f), (''SetupHosts'', Fin_SetupHosts f),
      (''SetupRoot'', Fin_SetupRoot f), (''SetupTTYs'', Fin_SetupTTYs f),
      (''SetupSudoers'', Fin_SetupSudoers f), (''SetupServices'', Fin_SetupServices f),
      (''SetupConfig'', Fin_SetupConfig f), (''SetupManifests'', Fin_SetupManifests f),
      (''SetupStateDirs'', Fin_SetupStateDirs f), (''Cleanup'', Fin_Cleanup f)]"

definition Finalizer_Run :: "nat \<Rightarrow> Finalizer \<Rightarrow> unit go" where
  "Finalizer_Run fuel f = run_steps ''finalize '' (finalize_steps fuel f)"

interpretation finalizer: phase_runner "''finalize ''" "finalize_steps fuel f" "Finalizer_Run fuel f"
  for fuel f
  unfolding Finalizer_Run_def by (rule run_steps_phase)

end
