(* ===== verification/Boot_Finalize_Props.thy ===== *)
theory Boot_Finalize_Props
  imports Boot_Finalize
begin

section \<open>Properties of the finalization phase\<close>

text \<open>
  Termination of the unmount loop, what clean-up may remove, the terminals configured, growing the
  live partition and the hostname, each for every answer of the operating system.
\<close>

subsection \<open>Unmounting /.base\<close>

text \<open>
  \<open>depth\<close> counts how often \<open>/.base\<close> is stacked at a point of the history: \<open>Mounted\<close> tells whether it is
  positive, looking does not change it and a successful \<open>umount -l\<close> lowers it by one.
\<close>

definition stacked_base :: "Finalizer \<Rightarrow> (hist \<Rightarrow> nat) \<Rightarrow> bool" where
  "stacked_base f depth \<longleftrightarrow>
     (\<forall>h r. mt_Mounted (fz_Mounter f) h ''/.base'' = Inr r \<longrightarrow> r = (0 < depth h))
     \<and> (\<forall>h b. depth (h @ [(CMounted ''/.base'', b)]) = depth h)
     \<and> (\<forall>h. depth (h @ [(CRun ''umount'' [''-l'', ''/.base''], True)]) = depth h - 1)"

text \<open>C36: The loop that unmounts /.base ends: if /.base is stacked fewer times than the fuel, the loop
  does not run out of it, and when it succeeds nothing is mounted on /.base any more and it
  has unmounted exactly as many layers as there were.\<close>

theorem umount_loop_terminates:
  assumes "stacked_base f depth" and "depth h < n"
  shows "fst (umount_loop n f h) \<noteq> Inl Diverges
    \<and> (fst (umount_loop n f h) = Inr () \<longrightarrow> depth (h @ snd (umount_loop n f h)) = 0
         \<and> length (filter (\<lambda>ev. ev = (CRun ''umount'' [''-l'', ''/.base''], True))
              (snd (umount_loop n f h))) = depth h)"
  using assms(2)
proof (induction n arbitrary: h)
  case (Suc n)
  let ?m = "(CMounted ''/.base'', True)" and ?u = "(CRun ''umount'' [''-l'', ''/.base''], True)"
  have law: "mt_Mounted (fz_Mounter f) h' ''/.base'' = Inr r \<Longrightarrow> r = (0 < depth h')"
    "depth (h' @ [(CMounted ''/.base'', b)]) = depth h'" "depth (h' @ [?u]) = depth h' - 1" for h' r b
    using assms(1) by (auto simp: stacked_base_def)
  have two: "depth (h @ [?m, ?u]) = depth h - 1"
    using law(3) [of "h @ [?m]"] by (simp add: law(2))
  show ?case
  proof (cases "mt_Mounted (fz_Mounter f) h ''/.base''")
    case (Inr r)
    show ?thesis
    proof (cases r)
      case True
      with law(1) [OF Inr] have pos: "0 < depth h" by simp
      then have "depth (h @ [?m, ?u]) < n" using two Suc.prems by simp
      from Suc.IH [OF this] True Inr pos show ?thesis
        by (auto simp: Mounted_def Run_def two split: sum.splits)
    next
      case False
      with Inr law show ?thesis by (auto simp: Mounted_def)
    qed
  qed (simp add: Mounted_def)
qed simp

text \<open>A live system on which /.base is mounted twice.\<close>

definition fin_live :: Finalizer where
  "fin_live = \<lparr>fz_FS = fs_ok,
     fz_Mounter = mounter_ok\<lparr>mt_Mounted := (\<lambda>h _. Inr (length (filter (\<lambda>ev. ev = (CRun ''umount'' [''-l'', ''/.base''], True)) h) < 2))\<rparr>,
     fz_Cmd = cmd_ok, fz_BlockProber = prober_ok, fz_PartitionGrower = Some grower_ok, fz_Mode = ''live'',
     fz_Cmdline = cmdline_none, fz_RandFunc = (\<lambda>_. Inr 42), fz_VirtDetector = (\<lambda>_. Inr [''kvm'']),
     fz_SleepFunc = True, fz_ConfigRunner = (\<lambda>_. Inr ()), fz_ManifestCopier = (\<lambda>_ _ _. Inr ())\<rparr>"

definition base_layers :: "hist \<Rightarrow> nat" where
  "base_layers h = 2 - length (filter (\<lambda>ev. ev = (CRun ''umount'' [''-l'', ''/.base''], True)) h)"

lemma fin_live_stacked: "stacked_base fin_live base_layers"
  by (auto simp: stacked_base_def fin_live_def base_layers_def)

theorem umount_loop_terminates_witness:
  "fst (umount_loop 3 fin_live []) = Inr () \<and> base_layers ([] @ snd (umount_loop 3 fin_live [])) = 0"
proof -
  have "base_layers [] < 3" by (simp add: base_layers_def)
  moreover have "fst (umount_loop 3 fin_live []) = Inr ()" by code_simp
  ultimately show ?thesis using umount_loop_terminates [OF fin_live_stacked] by blast
qed

subsection \<open>Clean-up\<close>

definition run_entry :: "event \<Rightarrow> bool" where
  "run_entry ev \<longleftrightarrow> (\<forall>p. fst ev = CRemoveAll p \<longrightarrow>
     (\<exists>n. plain_name n \<and> n \<noteq> ''kernel'' \<and> p = rooted_path [''run'', ''k3os'', n]))"

lemma run_join:
  assumes "plain_name n"
  shows "PathJoin [''/run/k3os'', n] = rooted_path [''run'', ''k3os'', n]"
proof -
  have "PathJoin [rooted_path [''run'', ''k3os''], Join ''/'' [n]] = rooted_path ([''run'', ''k3os''] @ [n])"
    using assms by (intro PathJoin_rooted) (auto simp: plain_name_def)
  moreover have "rooted_path [''run'', ''k3os''] = ''/run/k3os''" by (simp add: rooted_path_def)
  ultimately show ?thesis by simp
qed

lemma cleanup_mode_run_entry: "emits run_entry (cleanup_mode f)"
  unfolding cleanup_mode_def method_defs by (intro emits_intros) (simp_all add: run_entry_def)

lemma cleanup_entries_run_entry:
  assumes "list_all (\<lambda>e. plain_name (de_Name e)) es"
  shows "emits run_entry (cleanup_entries f es)"
  unfolding cleanup_entries_def RemoveAll_def
  using assms by (intro emits_intros) (auto simp: run_entry_def list_all_iff run_join)

text \<open>Clean-up never removes the kernel mount: when directory listings hold plain names, no tree
  Cleanup removes contains /run/k3os/kernel or anything below it, and every one is a direct
  entry of /run/k3os.\<close>

theorem cleanup_keeps_kernel:
  assumes "plain_listings (fz_FS f)" and "(CRemoveAll p, b) \<in> set (snd (Fin_Cleanup f h))"
    and "list_all plain_name below"
  shows "\<not> wipes p (rooted_path ([''run'', ''k3os'', ''kernel''] @ below))
    \<and> wipes ''/run/k3os'' p \<and> p \<noteq> ''/run/k3os''"
proof -
  have "emits run_entry (Fin_Cleanup f)"
    unfolding Fin_Cleanup_def
  proof (rule emits_bnd_val [OF _ ReadDir_plain [OF assms(1)]])
    show "emits run_entry (ReadDir (fz_FS f) ''/run/k3os'')"
      by (simp add: ReadDir_def run_entry_def emits_perform)
  qed (auto simp: plain_result_def split: sum.split
      intro!: emits_ret emits_ignore cleanup_mode_run_entry cleanup_entries_run_entry)
  from emitsD [OF this assms(2)] obtain n where n: "plain_name n" "n \<noteq> ''kernel''"
    and p: "p = rooted_path [''run'', ''k3os'', n]" by (auto simp: run_entry_def)
  have run: "plain_name ''run''" "plain_name ''k3os''" "plain_name ''kernel''" by (auto simp: plain_name_def)
  have "\<not> wipes p (rooted_path ([''run'', ''k3os'', ''kernel''] @ below))"
    unfolding p using n run assms(3) by (subst wipes_rooted) (auto simp: list_all_iff)
  moreover have base: "''/run/k3os'' = rooted_path [''run'', ''k3os'']" by (simp add: rooted_path_def)
  have "wipes ''/run/k3os'' p"
    unfolding p base using n run by (subst wipes_rooted) auto
  moreover have "\<not> wipes p ''/run/k3os''"
    unfolding p base using n run by (subst wipes_rooted) auto
  then have "p \<noteq> ''/run/k3os''" by (auto simp: wipes_def)
  ultimately show ?thesis by simp
qed

definition fin_dirs :: Finalizer where
  "fin_dirs = fin_live\<lparr>fz_FS := fs_ok\<lparr>fs_ReadDir := (\<lambda>_ _.
     Inr [\<lparr>de_Name = ''kernel'', de_IsDir = True, de_Info = Inr info_dir\<rparr>,
          \<lparr>de_Name = ''target'', de_IsDir = True, de_Info = Inr info_dir\<rparr>])\<rparr>\<rparr>"

lemma fin_dirs_plain: "plain_listings (fz_FS fin_dirs)"
  by (auto simp: fin_dirs_def plain_listings_def plain_name_def)

lemma fin_dirs_removes: "(CRemoveAll ''/run/k3os/target'', True) \<in> set (snd (Fin_Cleanup fin_dirs []))"
  by code_simp

theorem cleanup_keeps_kernel_witness:
  "\<not> wipes ''/run/k3os/target'' (rooted_path ([''run'', ''k3os'', ''kernel''] @ [''lib'']))
    \<and> wipes ''/run/k3os'' ''/run/k3os/target'' \<and> ''/run/k3os/target'' \<noteq> ''/run/k3os''"
  by (rule cleanup_keeps_kernel [OF fin_dirs_plain fin_dirs_removes]) (simp add: plain_name_def)

subsection \<open>Terminals\<close>

text \<open>The builders hold one line per terminal seen, and no terminal twice.\<close>

definition ttys_ok :: "ttys \<Rightarrow> bool" where
  "ttys_ok t \<longleftrightarrow> distinct (tt_seen t)
     \<and> tt_securetty t = concat (map (\<lambda>tty. tty @ [newline]) (tt_seen t))"

lemma ttys_ok_add: "ttys_ok t \<Longrightarrow> tty \<notin> set (tt_seen t) \<Longrightarrow> ttys_ok (add_tty line tty t)"
  by (auto simp: ttys_ok_def add_tty_def)

lemma tt_seen_add [simp]: "tt_seen (add_tty line tty t) = tt_seen t @ [tty]"
  by (simp add: add_tty_def)

lemma Itoa_digit_inj:
  "Itoa (int a) = Itoa (int b) \<Longrightarrow> a < 10 \<Longrightarrow> b < 10 \<Longrightarrow> a = b"
  by (simp add: Itoa_def show_nat.simps [of a] show_nat.simps [of b] digit_char_def)

lemma std_ttys_ok:
  assumes "ttys_ok t" and "distinct is" and "\<And>i. i \<in> set is \<Longrightarrow> i < 10"
    and "\<And>i. i \<in> set is \<Longrightarrow> ''tty'' @ Itoa (int i) \<notin> set (tt_seen t)"
  shows "ttys_ok (fst (std_ttys f is t h))"
  using assms
proof (induction "is" arbitrary: t h)
  case (Cons i "is")
  let ?tty = "''tty'' @ Itoa (int i)"
  have "\<And>j. j \<in> set is \<Longrightarrow> ''tty'' @ Itoa (int j) \<noteq> ?tty"
    using Cons.prems(2,3) Itoa_digit_inj by (metis distinct.simps(2) list.set_intros same_append_eq)
  then have "ttys_ok (fst (std_ttys f is (add_tty line ?tty t) h'))" for line h'
    using Cons.prems by (intro Cons.IH ttys_ok_add) auto
  moreover have "ttys_ok (fst (std_ttys f is t h'))" for h'
    using Cons.prems by (intro Cons.IH) auto
  ultimately show ?case by (simp add: Let_def split: sum.split)
qed simp

lemma serial_ttys_ok: "ttys_ok t \<Longrightarrow> ttys_ok (fst (serial_ttys f es t h))"
  by (induction es arbitrary: t h) (auto simp: Let_def ttys_ok_add split: sum.split)

text \<open>Every terminal is configured once: however often a console appears on the kernel command
  line, or when it repeats a standard terminal, the terminals SetupTTYs collects are pairwise
  distinct and securetty gets exactly one line for each.\<close>

theorem ttys_configured_once:
  "distinct (tt_seen (fst (collect_ttys f h)))
   \<and> tt_securetty (fst (collect_ttys f h)) = concat (map (\<lambda>tty. tty @ [newline]) (tt_seen (fst (collect_ttys f h))))"
proof -
  have "ttys_ok (fst (std_ttys f [1, 2, 3, 4, 5, 6] empty_ttys h))"
    by (rule std_ttys_ok) (auto simp: ttys_ok_def empty_ttys_def)
  then have "ttys_ok (fst (collect_ttys f h))"
    by (simp add: collect_ttys_def serial_ttys_ok del: std_ttys.simps)
  then show ?thesis by (simp add: ttys_ok_def)
qed

subsection \<open>Growing the live partition\<close>

definition resize_event :: "event \<Rightarrow> bool" where
  "resize_event ev = (case fst ev of CRun c _ \<Rightarrow> c = ''resize2fs'' | _ \<Rightarrow> False)"

definition resized_event :: "event \<Rightarrow> bool" where
  "resized_event ev \<longleftrightarrow> resize_event ev \<and> snd ev"

definition grown_event :: "event \<Rightarrow> bool" where
  "grown_event ev = (case fst ev of CGrowPartition _ _ \<Rightarrow> snd ev | _ \<Rightarrow> False)"

definition marker_removed :: "event \<Rightarrow> bool" where
  "marker_removed ev \<longleftrightarrow> fst ev = CRemove growpartMarker"

lemma grow_live_part_guarded:
  "guarded resize_event grown_event (snd (grow_live_part f dev num part h))
   \<and> guarded marker_removed resized_event (snd (grow_live_part f dev num part h))"
  by (simp add: grow_live_part_def method_defs resize_event_def resized_event_def grown_event_def
      marker_removed_def       split: option.split sum.split)

text \<open>The live partition is grown in the right order: resize2fs runs only after the partition has
  been grown successfully, the growpart marker is removed only after resize2fs succeeded (so a
  failed grow is retried on the next boot), and outside local mode nothing is called at all.\<close>

theorem GrowLive_order:
  "guarded resize_event grown_event (snd (Fin_GrowLive f h))
   \<and> guarded marker_removed resized_event (snd (Fin_GrowLive f h))
   \<and> (fz_Mode f = ''local'' \<or> Fin_GrowLive f h = (Inr (), []))"
proof -
  have grow: "guarded resize_event grown_event (snd (grow_live_part f dev num part h'))"
    "guarded marker_removed resized_event (snd (grow_live_part f dev num part h'))"
    for dev num part h'
    using grow_live_part_guarded by blast+
  show ?thesis
    by (simp add: Fin_GrowLive_def grow ReadFile_def Stat_def FindByLabel_def resize_event_def resized_event_def
        grown_event_def marker_removed_def Let_def split: sum.split list.split prod.split)
qed

subsection \<open>Hostname\<close>

lemma trimNewline_eq: "trimNewline s = rev (dropWhile (\<lambda>c. c = newline \<or> c = CHR 0x0D) (rev s))"
proof -
  have "trim_loop r = rev (dropWhile (\<lambda>c. c = newline \<or> c = CHR 0x0D) r)" for r
    by (induction r) auto
  then show ?thesis by (simp add: trimNewline_def)
qed

lemma digit_char_no_newline: "d < 10 \<Longrightarrow> digit_char d \<noteq> newline \<and> digit_char d \<noteq> CHR 0x0D"
proof -
  assume "d < 10"
  then have "\<forall>d' \<in> set [0..<10]. digit_char d' \<noteq> newline \<and> digit_char d' \<noteq> CHR 0x0D \<Longrightarrow> ?thesis" by simp
  moreover have "\<forall>d' \<in> set [0..<10]. digit_char d' \<noteq> newline \<and> digit_char d' \<noteq> CHR 0x0D" by code_simp
  ultimately show ?thesis by blast
qed

lemma show_nat_last: "show_nat n \<noteq> [] \<and> (\<exists>d < 10. last (show_nat n) = digit_char d)"
  by (subst (1 2) show_nat.simps) (auto intro: exI [of _ "n mod 10"])

lemma random_hostname_trim: "trimNewline (random_hostname v @ [newline]) = random_hostname v"
proof -
  obtain d where "d < 10" and "last (show_nat v) = digit_char d" and "show_nat v \<noteq> []"
    using show_nat_last by blast
  moreover from this have "hd (rev (random_hostname v)) = digit_char d"
    by (simp add: random_hostname_def Itoa_def hd_rev)
  moreover have "rev (random_hostname v) \<noteq> []" by (simp add: random_hostname_def)
  ultimately have "dropWhile (\<lambda>c. c = newline \<or> c = CHR 0x0D) (rev (random_hostname v)) = rev (random_hostname v)"
    using digit_char_no_newline by (cases "rev (random_hostname v)") auto
  then show ?thesis by (simp add: trimNewline_eq)
qed

text \<open>C37: The generated hostname is stable: when /etc/hostname is missing and SetupHostname succeeds,
  the last call writes /etc/hostname, with exactly the content of the persisted hostname, which
  was either read from there or is a freshly generated k3os-<number> line persisted before.\<close>

theorem SetupHostname_stable:
  assumes "isl (fs_Stat (fz_FS f) h ''/etc/hostname'')" and "fst (Fin_SetupHostname f h) = Inr ()"
  shows "\<exists>c tr. snd (Fin_SetupHostname f h) = tr @ [(CWriteFile ''/etc/hostname'' c mode_644, True)]
    \<and> (fs_ReadFile (fz_FS f) (h @ [(CStat ''/etc/hostname'', False)]) persistedHostname = Inr c
       \<or> (CWriteFile persistedHostname c mode_644, True) \<in> set tr
          \<and> (\<exists>v. c = random_hostname v @ [newline] \<and> trimNewline c = random_hostname v))"
proof -
  obtain e where "fs_Stat (fz_FS f) h ''/etc/hostname'' = Inl e" using assms(1) by (auto simp: isl_def)
  then show ?thesis
    using assms(2) random_hostname_trim
    by (auto simp: Fin_SetupHostname_def Stat_def ReadFile_def WriteFile_def MkdirAll_def Let_def
        split: sum.splits)
qed

definition fin_fresh :: Finalizer where
  "fin_fresh = fin_live\<lparr>fz_FS := fs_ok\<lparr>fs_Stat := (\<lambda>_ _. Inl enoent), fs_ReadFile := (\<lambda>_ _. Inl enoent)\<rparr>\<rparr>"

theorem SetupHostname_stable_witness:
  "\<exists>c tr. snd (Fin_SetupHostname fin_fresh []) = tr @ [(CWriteFile ''/etc/hostname'' c mode_644, True)]
    \<and> (fs_ReadFile (fz_FS fin_fresh) ([] @ [(CStat ''/etc/hostname'', False)]) persistedHostname = Inr c
       \<or> (CWriteFile persistedHostname c mode_644, True) \<in> set tr
          \<and> (\<exists>v. c = random_hostname v @ [newline] \<and> trimNewline c = random_hostname v))"
proof (rule SetupHostname_stable)
  show "isl (fs_Stat (fz_FS fin_fresh) [] ''/etc/hostname'')" by (simp add: fin_fresh_def)
  show "fst (Fin_SetupHostname fin_fresh []) = Inr ()"
    by (simp add: Fin_SetupHostname_def method_defs fin_fresh_def fin_live_def fs_ok_def Let_def)
qed

end
