(* ===== verification/File_Store.thy ===== *)
theory File_Store
  imports Go_Fixtures
begin

section \<open>File contents behind a trace, and atomic replacement\<close>

text \<open>
  What the calls of a trace do to the contents of files: \<open>replay store tr\<close> is the contents after the
  events of \<open>tr\<close>, starting from \<open>store\<close>. A call that failed changes nothing, but a \<open>WriteFile\<close> that
  failed may have truncated its file first. Three components replace a file by writing a temporary
  file and renaming it over the target; what they promise is the locale \<open>atomic_writer\<close>: at every
  point of the trace, so also when the machine stops there, the target has its old contents or the
  complete new ones.
\<close>

subsection \<open>Contents of files\<close>

type_synonym fstore = "string \<Rightarrow> string option"

fun effect :: "fstore \<Rightarrow> event \<Rightarrow> fstore" where
  "effect store (CWriteFile p d m, b) = store(p := Some (if b then d else []))"
| "effect store (CFileWrite p d, True) =
     store(p := Some ((case store p of Some c \<Rightarrow> c | None \<Rightarrow> []) @ d))"
| "effect store (CCreate p, True) = store(p := Some [])"
| "effect store (CRename a b, True) = (store(a := None))(b := store a)"
| "effect store (CRemove p, True) = store(p := None)"
| "effect store _ = store"

definition replay :: "fstore \<Rightarrow> hist \<Rightarrow> fstore" where
  "replay store tr = fold (\<lambda>ev s. effect s ev) tr store"

lemma replay_Nil [simp]: "replay store [] = store"
  by (simp add: replay_def)

lemma replay_Cons [simp]: "replay store (ev # tr) = replay (effect store ev) tr"
  by (simp add: replay_def)

lemma replay_append [simp]: "replay store (tr @ us) = replay (replay store tr) us"
  by (simp add: replay_def)

text \<open>
  \<open>coherent fs store\<close>: the file system \<open>fs\<close> reads back what the trace wrote, starting from \<open>store\<close>;
  \<open>fresh_temps\<close>: \<open>CreateTemp\<close> gives a name under which there is no file.
\<close>

definition coherent :: "FileSystem \<Rightarrow> fstore \<Rightarrow> bool" where
  "coherent fs store \<longleftrightarrow> (\<forall>h p c. fs_ReadFile fs h p = Inr c \<longrightarrow> replay store h p = Some c)"

lemma coherentD: "coherent fs store \<Longrightarrow> fs_ReadFile fs h p = Inr c \<Longrightarrow> replay store h p = Some c"
  by (simp add: coherent_def)

text \<open>A file that \<open>Stat\<close> does not find is not there.\<close>

definition stat_coherent :: "FileSystem \<Rightarrow> fstore \<Rightarrow> bool" where
  "stat_coherent fs store \<longleftrightarrow> (\<forall>h p e. fs_Stat fs h p = Inl e \<longrightarrow> IsNotExist e \<longrightarrow> replay store h p = None)"

definition fresh_temps :: "FileSystem \<Rightarrow> fstore \<Rightarrow> string \<Rightarrow> bool" where
  "fresh_temps fs store target \<longleftrightarrow>
     (\<forall>h d pat t. fs_CreateTemp fs h d pat = Inr t \<longrightarrow> replay store h t = None \<and> t \<noteq> target)"

text \<open>\<open>spares target ev\<close>: the event is no call that changes the contents of \<open>target\<close>.\<close>

fun spares :: "string \<Rightarrow> event \<Rightarrow> bool" where
  "spares target (CWriteFile p d m, b) = (p \<noteq> target)"
| "spares target (CFileWrite p d, b) = (p \<noteq> target)"
| "spares target (CCreate p, b) = (p \<noteq> target)"
| "spares target (CRename p q, b) = (p \<noteq> target \<and> q \<noteq> target)"
| "spares target (CRemove p, b) = (p \<noteq> target)"
| "spares target _ = True"

lemma effect_spares: "spares target ev \<Longrightarrow> effect store ev target = store target"
  by (cases "(store, ev)" rule: effect.cases) auto

lemma replay_spares: "list_all (spares target) tr \<Longrightarrow> replay store tr target = store target"
  by (induction tr arbitrary: store) (auto simp: effect_spares)

text \<open>
  \<open>old_or_new store target new h tr\<close>: at every point of \<open>tr\<close>, run after \<open>h\<close>, the target has the
  contents it had after \<open>h\<close> or the new ones.
\<close>

definition old_or_new :: "fstore \<Rightarrow> string \<Rightarrow> string set \<Rightarrow> hist \<Rightarrow> hist \<Rightarrow> bool" where
  "old_or_new store target new h tr \<longleftrightarrow>
     (\<forall>us vs. tr = us @ vs \<longrightarrow> replay store (h @ us) target \<in> insert (replay store h target) (Some ` new))"

lemma old_or_newI:
  "(\<And>us vs. tr = us @ vs \<Longrightarrow> replay store (h @ us) target \<in> insert (replay store h target) (Some ` new)) \<Longrightarrow>
     old_or_new store target new h tr"
  by (simp add: old_or_new_def)

lemma old_or_new_Nil [simp]: "old_or_new store target new h []"
  by (simp add: old_or_new_def)

lemma old_or_new_end: "old_or_new store target new h tr \<Longrightarrow>
    replay store (h @ tr) target \<in> insert (replay store h target) (Some ` new)"
  by (auto simp: old_or_new_def)

lemma old_or_new_mono: "old_or_new store target new h tr \<Longrightarrow> new \<subseteq> new' \<Longrightarrow> old_or_new store target new' h tr"
  unfolding old_or_new_def by blast

lemma old_or_new_spares:
  assumes "list_all (spares target) tr"
  shows "old_or_new store target new h tr"
proof (rule old_or_newI)
  fix us vs assume "tr = us @ vs"
  then have "list_all (spares target) us" using assms by simp
  then show "replay store (h @ us) target \<in> insert (replay store h target) (Some ` new)"
    by (simp add: replay_spares)
qed

lemma old_or_new_append:
  assumes a: "old_or_new store target new h tr" and b: "old_or_new store target new (h @ tr) tr'"
  shows "old_or_new store target new h (tr @ tr')"
proof (rule old_or_newI)
  fix us vs assume split: "tr @ tr' = us @ vs"
  then consider ws where "tr = us @ ws" | ws where "us = tr @ ws" "tr' = ws @ vs"
    by (auto simp: append_eq_append_conv2)
  then show "replay store (h @ us) target \<in> insert (replay store h target) (Some ` new)"
  proof cases
    case 1
    then show ?thesis using a by (auto simp: old_or_new_def)
  next
    case 2
    then have "replay store ((h @ tr) @ ws) target \<in> insert (replay store (h @ tr) target) (Some ` new)"
      using b by (auto simp: old_or_new_def)
    then show ?thesis using old_or_new_end [OF a] 2 by auto
  qed
qed

text \<open>The one event that changes the target: the rename of a file with the new contents.\<close>

lemma old_or_new_rename:
  assumes "replay store h t = Some d" and "d \<in> new"
  shows "old_or_new store target new h [(CRename t target, b)]"
proof (rule old_or_newI)
  fix us vs :: hist assume "[(CRename t target, b)] = us @ vs"
  then have "us = [] \<or> us = [(CRename t target, b)]" by (cases us) auto
  then show "replay store (h @ us) target \<in> insert (replay store h target) (Some ` new)"
    using assms by (cases b) auto
qed

lemma old_or_new_Cons:
  assumes "spares target ev"
  shows "old_or_new store target new h (ev # tr) \<longleftrightarrow> old_or_new store target new (h @ [ev]) tr"
proof
  assume a: "old_or_new store target new h (ev # tr)"
  show "old_or_new store target new (h @ [ev]) tr"
  proof (rule old_or_newI)
    fix us vs assume "tr = us @ vs"
    then have "ev # tr = (ev # us) @ vs" by simp
    with a have "replay store (h @ ev # us) target \<in> insert (replay store h target) (Some ` new)"
      unfolding old_or_new_def by blast
    then show "replay store ((h @ [ev]) @ us) target \<in> insert (replay store (h @ [ev]) target) (Some ` new)"
      using assms by (simp add: effect_spares)
  qed
next
  assume "old_or_new store target new (h @ [ev]) tr"
  then show "old_or_new store target new h (ev # tr)"
    using old_or_new_append [of store target new h "[ev]" tr] old_or_new_spares [of target "[ev]"] assms
    by simp
qed

lemma old_or_new_rename_then:
  assumes "replay store h t = Some d" and "d \<in> new" and "list_all (spares target) tr"
  shows "old_or_new store target new h ((CRename t target, b) # tr)"
  using old_or_new_append [OF old_or_new_rename [OF assms(1,2)] old_or_new_spares [OF assms(3)]] by simp

subsection \<open>Files that only grow\<close>

definition file_content :: "fstore \<Rightarrow> string \<Rightarrow> string" where
  "file_content store p = (case store p of Some c \<Rightarrow> c | None \<Rightarrow> [])"

text \<open>\<open>grows store p h tr\<close>: at every point of \<open>tr\<close>, run after \<open>h\<close>, \<open>p\<close> still begins with what it had.\<close>

definition grows :: "fstore \<Rightarrow> string \<Rightarrow> hist \<Rightarrow> hist \<Rightarrow> bool" where
  "grows store p h tr \<longleftrightarrow>
     (\<forall>us vs. tr = us @ vs \<longrightarrow> prefix (file_content (replay store h) p) (file_content (replay store (h @ us)) p))"

lemma grows_Nil [simp]: "grows store p h []"
  by (simp add: grows_def)

lemma grows_append:
  assumes a: "grows store p h tr" and b: "grows store p (h @ tr) tr'"
  shows "grows store p h (tr @ tr')"
  unfolding grows_def
proof (intro allI impI)
  fix us vs assume "tr @ tr' = us @ vs"
  then consider ws where "tr = us @ ws" | ws where "us = tr @ ws" "tr' = ws @ vs"
    by (auto simp: append_eq_append_conv2)
  then show "prefix (file_content (replay store h) p) (file_content (replay store (h @ us)) p)"
  proof cases
    case 1
    then show ?thesis using a by (auto simp: grows_def)
  next
    case 2
    have "prefix (file_content (replay store h) p) (file_content (replay store (h @ tr)) p)"
      using a by (auto simp: grows_def)
    also have "prefix (file_content (replay store (h @ tr)) p) (file_content (replay store ((h @ tr) @ ws)) p)"
      using b 2 unfolding grows_def by blast
    finally show ?thesis using 2 by simp
  qed
qed

lemma grows_spares: "list_all (spares p) tr \<Longrightarrow> grows store p h tr"
  by (auto simp: grows_def file_content_def replay_spares)

lemma grows_old_or_new:
  assumes "old_or_new store p new h tr" and "\<And>d. d \<in> new \<Longrightarrow> prefix (file_content (replay store h) p) d"
  shows "grows store p h tr"
  using assms unfolding grows_def old_or_new_def by (fastforce simp: file_content_def)

text \<open>An action that leaves every file as it is or longer, whatever came before.\<close>

definition growing :: "fstore \<Rightarrow> string \<Rightarrow> 'a io \<Rightarrow> bool" where
  "growing store p m \<longleftrightarrow> (\<forall>h. grows store p h (snd (m h)))"

lemma growing_quiet: "emits (spares p) m \<Longrightarrow> growing store p m"
  by (simp add: growing_def emits_def grows_spares)

lemma growing_bnd: "growing store p m \<Longrightarrow> (\<And>x. growing store p (k x)) \<Longrightarrow> growing store p (bnd m k)"
  by (simp add: growing_def grows_append)

lemma growing_pass: "growing store p m \<Longrightarrow> (\<And>x. growing store p (k x)) \<Longrightarrow> growing store p (pass m k)"
  by (auto simp: growing_def intro!: grows_append split: sum.split)

lemma growing_ignore: "growing store p m \<Longrightarrow> growing store p k \<Longrightarrow> growing store p (ignore m k)"
  by (simp add: growing_def grows_append)

lemma growing_foreach: "(\<And>x. growing store p (f x)) \<Longrightarrow> growing store p (foreach xs f)"
  by (induction xs) (auto intro: growing_ignore growing_quiet emits_ret)

subsection \<open>The interface\<close>

text \<open>
  \<open>act fs target data\<close> replaces the target by a file with the given data.
\<close>

locale atomic_writer =
  fixes act :: "FileSystem \<Rightarrow> string \<Rightarrow> string \<Rightarrow> 'a go"
  assumes atomic: "fresh_temps fs store target \<Longrightarrow>
      old_or_new store target {data} h (snd (act fs target data h))"
    and installed: "fresh_temps fs store target \<Longrightarrow> fst (act fs target data h) = Inr v \<Longrightarrow>
      replay store (h @ snd (act fs target data h)) target = Some data"
begin

text \<open>A sequence of replacements of one file, errors ignored: some complete version at every point.\<close>

lemma sequence_atomic:
  assumes "fresh_temps fs store target"
  shows "old_or_new store target (set ds) h (snd (foreach ds (\<lambda>d. bnd (act fs target d) (\<lambda>_. ret ())) h))"
proof -
  have "set es \<subseteq> new \<Longrightarrow>
    old_or_new store target new h (snd (foreach es (\<lambda>d. bnd (act fs target d) (\<lambda>_. ret ())) h))" for es new h
  proof (induction es arbitrary: h)
    case (Cons e es)
    have "old_or_new store target new h (snd (act fs target e h))"
      using atomic [OF assms] Cons.prems by (auto intro: old_or_new_mono)
    then show ?case using Cons by (simp add: old_or_new_append)
  qed simp
  then show ?thesis by blast
qed

end

subsection \<open>A file system that reads back what was written\<close>

text \<open>
  \<open>store_fs ps store\<close> answers from \<open>store\<close> and the calls made so far; its temporary names are longer
  than every name that occurs in \<open>ps\<close> or in a call. It shows that the hypotheses above hold of a file system.
\<close>

fun touched :: "event \<Rightarrow> string" where
  "touched (CWriteFile p d m, b) = p"
| "touched (CFileWrite p d, b) = p"
| "touched (CCreate p, b) = p"
| "touched (CRename p q, b) = p @ q"
| "touched (CRemove p, b) = p"
| "touched _ = []"

definition temp_name :: "string list \<Rightarrow> hist \<Rightarrow> string" where
  "temp_name ps h = ''t'' @ concat ps @ concat (map touched h)"

definition lookup :: "fstore \<Rightarrow> hist \<Rightarrow> string \<Rightarrow> err + string" where
  "lookup store h p = (case replay store h p of Some c \<Rightarrow> Inr c | None \<Rightarrow> Inl enoent)"

definition store_fs :: "string list \<Rightarrow> fstore \<Rightarrow> FileSystem" where
  "store_fs ps store = fs_ok\<lparr>fs_ReadFile := lookup store,
     fs_Stat := (\<lambda>h p. case lookup store h p of Inl e \<Rightarrow> Inl e | Inr _ \<Rightarrow> Inr info_file),
     fs_CreateTemp := (\<lambda>h _ _. Inr (temp_name ps h))\<rparr>"

lemma length_concat_bound: "x \<in> set xs \<Longrightarrow> length x \<le> length (concat xs)"
  by (induction xs) auto

lemma spares_longer: "length (touched ev) < length p \<Longrightarrow> spares p ev"
  by (cases ev rule: touched.cases) auto

lemma store_fs_coherent: "coherent (store_fs ps store) store" "stat_coherent (store_fs ps store) store"
  by (auto simp: coherent_def stat_coherent_def store_fs_def lookup_def enoent_def split: option.splits)

lemma store_fs_fresh:
  assumes "dom store \<subseteq> set ps" and "p \<in> set ps"
  shows "fresh_temps (store_fs ps store) store p"
proof -
  have long: "length q < length (temp_name ps h)" if "q \<in> set ps \<or> q \<in> set (map touched h)" for q h
    using that length_concat_bound [of q ps] length_concat_bound [of q "map touched h"]
    by (auto simp: temp_name_def)
  have "replay store h (temp_name ps h) = None" for h
  proof -
    have "list_all (spares (temp_name ps h)) h"
      using long by (auto simp: list_all_iff intro!: spares_longer)
    moreover have "temp_name ps h \<notin> set ps" using long [of "temp_name ps h" h] by blast
    then have "store (temp_name ps h) = None" using assms(1) by auto
    ultimately show ?thesis by (simp add: replay_spares)
  qed
  moreover have "temp_name ps h \<noteq> p" for h using long [of p h] assms(2) by auto
  ultimately show ?thesis by (auto simp: fresh_temps_def store_fs_def)
qed

end
