(* ===== verification/Go_Quote.thy ===== *)
theory Go_Quote
  imports Go_Strings
begin

section \<open>Quoted strings: strconv.Quote and strconv.Unquote\<close>

text \<open>
  Go's string literals as \<open>strconv\<close> writes and reads them. \<open>unquote_char\<close> is \<open>UnquoteChar\<close>, giving the
  bytes appended for one character; \<open>unquote_loop\<close> is the loop of \<open>unquote\<close>. Bytes above 127 are
  taken as they are, which is exact for valid UTF-8 text made of printable characters.
\<close>

subsection \<open>Definitions\<close>

definition quote_char :: char where
  "quote_char = CHR 0x22"

definition backslash :: char where
  "backslash = CHR 0x5C"

definition hex_char :: "nat \<Rightarrow> char" where
  "hex_char n = ''0123456789abcdef'' ! n"

fun quote_byte :: "char \<Rightarrow> string" where
  "quote_byte c =
     (if c = quote_char \<or> c = backslash then [backslash, c]
      else if c = CHR 0x07 then [backslash, CHR ''a'']
      else if c = CHR 0x08 then [backslash, CHR ''b'']
      else if c = CHR 0x0C then [backslash, CHR ''f'']
      else if c = CHR 0x0A then [backslash, CHR ''n'']
      else if c = CHR 0x0D then [backslash, CHR ''r'']
      else if c = CHR 0x09 then [backslash, CHR ''t'']
      else if c = CHR 0x0B then [backslash, CHR ''v'']
      else if c < CHR '' '' \<or> c = CHR 0x7F
      then [backslash, CHR ''x'', hex_char (of_char c div 16), hex_char (of_char c mod 16)]
      else [c])"

definition Quote :: "string \<Rightarrow> string" where
  "Quote s = quote_char # concat (map quote_byte s) @ [quote_char]"

definition unhex :: "char \<Rightarrow> nat option" where
  "unhex c =
     (if is_digit c then Some (of_char c - 48)
      else if CHR ''a'' \<le> c \<and> c \<le> CHR ''f'' then Some (of_char c - 87)
      else if CHR ''A'' \<le> c \<and> c \<le> CHR ''F'' then Some (of_char c - 55)
      else None)"

fun hex_value :: "nat \<Rightarrow> nat \<Rightarrow> string \<Rightarrow> (nat \<times> string) option" where
  "hex_value 0 acc s = Some (acc, s)"
| "hex_value (Suc n) acc [] = None"
| "hex_value (Suc n) acc (c # s) =
     (case unhex c of None \<Rightarrow> None | Some x \<Rightarrow> hex_value n (acc * 16 + x) s)"

definition ValidRune :: "nat \<Rightarrow> bool" where
  "ValidRune v \<longleftrightarrow> v < 0xD800 \<or> 0xDFFF < v \<and> v \<le> 0x10FFFF"

definition AppendRune :: "nat \<Rightarrow> string" where
  "AppendRune v =
     (if v < 0x80 then [char_of v]
      else if v < 0x800 then [char_of (0xC0 + v div 64), char_of (0x80 + v mod 64)]
      else if v < 0x10000
      then [char_of (0xE0 + v div 4096), char_of (0x80 + v div 64 mod 64), char_of (0x80 + v mod 64)]
      else [char_of (0xF0 + v div 262144), char_of (0x80 + v div 4096 mod 64),
            char_of (0x80 + v div 64 mod 64), char_of (0x80 + v mod 64)])"

definition is_octal :: "char \<Rightarrow> bool" where
  "is_octal c \<longleftrightarrow> CHR ''0'' \<le> c \<and> c \<le> CHR ''7''"

definition octal_value :: "char \<Rightarrow> char \<Rightarrow> char \<Rightarrow> nat" where
  "octal_value a b c = (of_char a - 48) * 64 + (of_char b - 48) * 8 + (of_char c - 48)"

text \<open>The bytes for the escape sequence after a backslash, and the rest of the text.\<close>

fun unquote_escape :: "char \<Rightarrow> string \<Rightarrow> (string \<times> string) option" where
  "unquote_escape q [] = None"
| "unquote_escape q (c # s) =
     (if c = CHR ''a'' then Some ([CHR 0x07], s)
      else if c = CHR ''b'' then Some ([CHR 0x08], s)
      else if c = CHR ''f'' then Some ([CHR 0x0C], s)
      else if c = CHR ''n'' then Some ([CHR 0x0A], s)
      else if c = CHR ''r'' then Some ([CHR 0x0D], s)
      else if c = CHR ''t'' then Some ([CHR 0x09], s)
      else if c = CHR ''v'' then Some ([CHR 0x0B], s)
      else if c = CHR ''x'' then
        (case hex_value 2 0 s of None \<Rightarrow> None | Some (v, rest) \<Rightarrow> Some ([char_of v], rest))
      else if c = CHR ''u'' \<or> c = CHR ''U'' then
        (case hex_value (if c = CHR ''u'' then 4 else 8) 0 s of
           None \<Rightarrow> None
         | Some (v, rest) \<Rightarrow> if ValidRune v then Some (AppendRune v, rest) else None)
      else if is_octal c then
        (case s of
           d # e # rest \<Rightarrow>
             if is_octal d \<and> is_octal e \<and> octal_value c d e \<le> 255
             then Some ([char_of (octal_value c d e)], rest) else None
         | _ \<Rightarrow> None)
      else if c = backslash \<or> c = q then Some ([c], s)
      else None)"

definition unquote_char :: "char \<Rightarrow> string \<Rightarrow> (string \<times> string) option" where
  "unquote_char q s =
     (if s = [] \<or> hd s = q then None
      else if hd s = backslash then unquote_escape q (tl s)
      else Some ([hd s], tl s))"

lemma hex_value_length: "hex_value n acc s = Some (v, rest) \<Longrightarrow> length rest \<le> length s"
  by (induction n acc s rule: hex_value.induct) (auto split: option.splits)

lemma unquote_escape_length:
  "unquote_escape q s = Some (out, rest) \<Longrightarrow> length rest < length s"
  by (cases s) (auto split: if_splits option.splits list.splits dest!: hex_value_length)

lemma unquote_char_length: "unquote_char q s = Some (out, rest) \<Longrightarrow> length rest < length s"
  by (cases s)
     (auto simp: unquote_char_def split: if_splits dest!: unquote_escape_length)

text \<open>
  The loop over the text behind the opening quote; the result is what was read and the text behind
  the closing quote. A literal in single quotes holds one character only.
\<close>

function unquote_loop :: "char \<Rightarrow> string \<Rightarrow> string \<Rightarrow> (string \<times> string) option" where
  "unquote_loop q buf s =
     (if s = [] then None
      else if hd s = q then Some (buf, tl s)
      else if hd s = newline then None
      else case unquote_char q s of
             None \<Rightarrow> None
           | Some (out, rest) \<Rightarrow>
               if q = CHR 0x27
               then (if rest \<noteq> [] \<and> hd rest = q then Some (buf @ out, tl rest) else None)
               else unquote_loop q (buf @ out) rest)"
  by pat_completeness auto
termination
  by (relation "measure (\<lambda>(_, _, s). length s)") (auto dest: unquote_char_length)

declare unquote_loop.simps [simp del]

definition Unquote :: "string \<Rightarrow> string option" where
  "Unquote s =
     (if length s < 2 then None
      else if hd s = CHR 0x60 then
        (if CHR 0x60 \<in> set (tl s) \<and> last s = CHR 0x60 \<and> CHR 0x60 \<notin> set (butlast (tl s))
         then Some (filter (\<lambda>c. c \<noteq> CHR 0x0D) (butlast (tl s))) else None)
      else if hd s = quote_char \<or> hd s = CHR 0x27 then
        (case unquote_loop (hd s) [] (tl s) of
           Some (out, []) \<Rightarrow> Some out
         | _ \<Rightarrow> None)
      else None)"

subsection \<open>Unquoting a quoted string\<close>

lemma unhex_hex_char: "n < 16 \<Longrightarrow> unhex (hex_char n) = Some n"
proof -
  have "\<forall>n \<in> set [0..<16]. unhex (hex_char n) = Some n" by code_simp
  then show "n < 16 \<Longrightarrow> unhex (hex_char n) = Some n" by simp
qed

lemma hex_byte:
  "hex_value 2 0 (hex_char (of_char c div 16) # hex_char (of_char c mod 16) # s) = Some (of_char c, s)"
proof -
  have "of_char c div 16 < (16 :: nat)"
    using nat_of_char_less_256 [of c] by (simp add: less_mult_imp_div_less)
  then show ?thesis by (simp add: unhex_hex_char numeral_2_eq_2)
qed

lemma unquote_char_quote_byte: "unquote_char quote_char (quote_byte c @ s) = Some ([c], s)"
proof -
  have "\<not> is_octal CHR 0x5C" and "\<not> is_octal CHR 0x22" by code_simp+
  then show ?thesis by (simp add: unquote_char_def quote_char_def backslash_def hex_byte)
qed

lemma quote_byte_head:
  "quote_byte c \<noteq> []" "hd (quote_byte c @ s) \<noteq> quote_char" "hd (quote_byte c @ s) \<noteq> newline"
  by (simp_all add: quote_char_def backslash_def)

lemma quote_char_not_single: "quote_char \<noteq> CHR 0x27"
  by (simp add: quote_char_def)

lemma unquote_loop_byte:
  "unquote_loop quote_char buf (quote_byte c @ s) = unquote_loop quote_char (buf @ [c]) s"
  using quote_byte_head(1) [of c] quote_byte_head(2,3) [of c s]
  by (subst unquote_loop.simps)
     (simp del: quote_byte.simps add: unquote_char_quote_byte quote_char_not_single)

lemma unquote_loop_quoted:
  "unquote_loop quote_char buf (concat (map quote_byte s) @ quote_char # rest) = Some (buf @ s, rest)"
proof (induction s arbitrary: buf)
  case Nil
  show ?case by (simp add: unquote_loop.simps)
next
  case (Cons c s)
  then show ?case by (simp del: quote_byte.simps add: unquote_loop_byte)
qed

lemma Unquote_Quote: "Unquote (Quote s) = Some s"
  using unquote_loop_quoted [of "[]" s "[]"]
  by (simp add: Unquote_def Quote_def quote_char_def del: quote_byte.simps)

text \<open>A quoted string is one line.\<close>

lemma hex_char_no_newline: "n < 16 \<Longrightarrow> hex_char n \<noteq> newline"
proof -
  have "\<forall>n \<in> set [0..<16]. hex_char n \<noteq> newline" by code_simp
  then show "n < 16 \<Longrightarrow> hex_char n \<noteq> newline" by simp
qed

lemma quote_byte_one_line: "newline \<notin> set (quote_byte c)"
proof -
  have "of_char c div 16 < (16 :: nat)"
    using nat_of_char_less_256 [of c] by (simp add: less_mult_imp_div_less)
  then show ?thesis
    using hex_char_no_newline [of "of_char c div 16"] hex_char_no_newline [of "of_char c mod 16"]
    by (simp add: quote_char_def backslash_def eq_commute [of newline])
qed

lemma Quote_one_line: "newline \<notin> set (Quote s)"
  using quote_byte_one_line by (auto simp: Quote_def quote_char_def simp del: quote_byte.simps)

end
