(* ===== verification/Config_Map.thy ===== *)
theory Config_Map
  imports Go_Fixtures Go_Quote "HOL-Library.AList"
begin

section \<open>Nested configuration maps: internal/config/helpers.go, cmdline_reader.go, flags_reader.go\<close>

text \<open>
  A \<open>map[string]interface{}\<close> is an association list (the order stands for one iteration order of the
  Go map); its values are strings, string slices, nested maps, or other scalars of a YAML document,
  of which only the printed form is kept. \<open>getValue\<close> and \<open>putValue\<close> walk it by a sequence of keys.
\<close>

subsection \<open>Definitions\<close>

datatype cval = CStr string | CStrs "string list" | CMap "(string \<times> cval) list" | COther string

type_synonym cmap = "(string \<times> cval) list"

fun getValue :: "cmap \<Rightarrow> string list \<Rightarrow> cval option" where
  "getValue data [] = None"
| "getValue data [key] = map_of data key"
| "getValue data (key # key' # keys) =
     (case map_of data key of Some (CMap m) \<Rightarrow> getValue m (key' # keys) | _ \<Rightarrow> None)"

text \<open>The map an intermediate key leads to: a value that is no map is replaced by an empty one.\<close>

definition submap :: "cmap \<Rightarrow> string \<Rightarrow> cmap" where
  "submap data key = (case map_of data key of Some (CMap m) \<Rightarrow> m | _ \<Rightarrow> [])"

fun putValue :: "cmap \<Rightarrow> cval \<Rightarrow> string list \<Rightarrow> cmap" where
  "putValue data val [] = data"
| "putValue data val [key] = AList.update key val data"
| "putValue data val (key # key' # keys) =
     AList.update key (CMap (putValue (submap data key) val (key' # keys))) data"

text \<open>
  The body shared by the loops of \<open>parseCmdlineArgs\<close> and \<open>readFlagsFile\<close>: a repeated key accumulates
  into a slice; a key that already leads to a map is left alone (no case of the type switch).
\<close>

definition accumulate :: "cmap \<Rightarrow> string list \<times> string \<Rightarrow> cmap" where
  "accumulate data kv =
     (case kv of (keys, value) \<Rightarrow>
        (case getValue data keys of
           Some (CStr v) \<Rightarrow> putValue data (CStrs [v, value]) keys
         | Some (CStrs vs) \<Rightarrow> putValue data (CStrs (vs @ [value])) keys
         | Some _ \<Rightarrow> data
         | None \<Rightarrow> putValue data (CStr value) keys))"

text \<open>The closure of \<open>splitCmdlineTokens\<close>: its state is the open quote, if any.\<close>

definition token_sep :: "char option \<Rightarrow> char \<Rightarrow> char option \<times> bool" where
  "token_sep lastQuote c =
     (if Some c = lastQuote then (None, False)
      else if lastQuote \<noteq> None then (lastQuote, False)
      else if c = quote_char then (Some c, False)
      else (None, c = CHR '' '' \<or> c = CHR 0x09 \<or> c = newline \<or> c = CHR 0x0D))"

definition splitCmdlineTokens :: "string \<Rightarrow> string list" where
  "splitCmdlineTokens raw = fields_state token_sep None [] raw"

definition splitKeyValue :: "string \<Rightarrow> string \<times> string" where
  "splitKeyValue token =
     (case SplitN CHR ''='' 2 token of
        key # value # _ \<Rightarrow> (key, Trim value [quote_char])
      | [key] \<Rightarrow> (key, ''true'')
      | [] \<Rightarrow> ([], ''true''))"

definition token_pair :: "string \<Rightarrow> string list \<times> string" where
  "token_pair token =
     (case splitKeyValue token of (key, value) \<Rightarrow> (Split CHR ''.'' (Trim key [quote_char]), value))"

definition parseCmdlineArgs :: "string \<Rightarrow> cmap" where
  "parseCmdlineArgs raw =
     foldl accumulate [] (map token_pair (filter (\<lambda>token. token \<noteq> []) (splitCmdlineTokens raw)))"

definition splitFlagLine :: "string \<Rightarrow> string \<times> string" where
  "splitFlagLine line =
     (case SplitN CHR ''='' 2 line of
        key # value # _ \<Rightarrow>
          let value = TrimSpace value
          in (TrimSpace key, case Unquote value of Some u \<Rightarrow> u | None \<Rightarrow> value)
      | [key] \<Rightarrow> (TrimSpace key, ''true'')
      | [] \<Rightarrow> ([], ''true''))"

fun flag_lines :: "cmap \<Rightarrow> string list \<Rightarrow> cmap" where
  "flag_lines data [] = data"
| "flag_lines data (text # ts) =
     (let line = TrimSpace text in
      if line = [] \<or> HasPrefix line ''#'' then flag_lines data ts
      else
        let (key, value) = splitFlagLine line in
        if key = [] then flag_lines data ts
        else flag_lines (accumulate data (Split CHR ''.'' key, value)) ts)"

text \<open>A reader gives \<open>None\<close> for \<open>nil, nil\<close>: the source has nothing to add.\<close>

definition readCmdline :: "FileSystem \<Rightarrow> cmap option go" where
  "readCmdline fs =
     bnd (ReadFile fs ''/proc/cmdline'') (\<lambda>r.
     case r of
       Inl e \<Rightarrow> if IsNotExist e then ok None else fail e
     | Inr content \<Rightarrow>
         let data = parseCmdlineArgs content in ok (if data = [] then None else Some data))"

definition flagsFile :: string where
  "flagsFile = ''/run/k3os/config.flags''"

definition readFlagsFile :: "FileSystem \<Rightarrow> cmap option go" where
  "readFlagsFile fs =
     bnd (ReadFile fs flagsFile) (\<lambda>r.
     case r of
       Inl e \<Rightarrow> if IsNotExist e then ok None else fail e
     | Inr content \<Rightarrow>
         let data = flag_lines [] (ScanLines content) in ok (if data = [] then None else Some data))"

subsection \<open>The laws of a nested store\<close>

text \<open>Two key paths interfere when one is a prefix of the other.\<close>

definition comparable :: "string list \<Rightarrow> string list \<Rightarrow> bool" where
  "comparable ks ls \<longleftrightarrow> prefix ks ls \<or> prefix ls ks"

locale nested_store =
  fixes get :: "'s \<Rightarrow> string list \<Rightarrow> 'v option"
    and put :: "'s \<Rightarrow> 'v \<Rightarrow> string list \<Rightarrow> 's"
    and start :: 's
  assumes get_start: "get start ks = None"
    and get_put_same: "ks \<noteq> [] \<Longrightarrow> get (put s v ks) ks = Some v"
    and get_put_other: "\<not> comparable ks ls \<Longrightarrow> get (put s v ks) ls = get s ls"
    and put_nothing: "put s v [] = s"
begin

lemma put_put_other:
  "\<not> comparable ks ls \<Longrightarrow> ks \<noteq> [] \<Longrightarrow> ls \<noteq> [] \<Longrightarrow>
     get (put (put s v ks) w ls) ks = Some v \<and> get (put (put s v ks) w ls) ls = Some w"
  using get_put_same get_put_other by (simp add: comparable_def disj_commute)

end

lemma map_of_update [simp]: "map_of (AList.update k v al) j = (if j = k then Some v else map_of al j)"
  by (simp add: update_conv')

lemma get_put_same_val: "ks \<noteq> [] \<Longrightarrow> getValue (putValue m v ks) ks = Some v"
  by (induction m v ks rule: putValue.induct) simp_all

lemma getValue_Nil [simp]: "getValue [] ks = None"
  by (cases ks rule: remdups_adj.cases) auto

lemma getValue_Cons: "ks \<noteq> [] \<Longrightarrow> getValue m (k # ks) = (case map_of m k of Some (CMap m') \<Rightarrow> getValue m' ks | _ \<Rightarrow> None)"
  by (cases ks) auto

lemma putValue_Cons: "ks \<noteq> [] \<Longrightarrow> putValue m v (k # ks) = AList.update k (CMap (putValue (submap m k) v ks)) m"
  by (cases ks) auto

lemma get_submap:
  "ks \<noteq> [] \<Longrightarrow> getValue (submap m k) ks = getValue m (k # ks)"
  by (auto simp: submap_def getValue_Cons split: option.split cval.split)

lemma get_put_other_val: "\<not> comparable ks ls \<Longrightarrow> getValue (putValue m v ks) ls = getValue m ls"
proof (induction ks arbitrary: m ls)
  case (Cons k ks)
  from Cons.prems obtain l ls' where ls: "ls = l # ls'" by (cases ls) (auto simp: comparable_def)
  show ?case
  proof (cases "k = l")
    case False
    then show ?thesis
      by (cases ks; cases ls') (auto simp: ls getValue_Cons putValue_Cons)
  next
    case True
    with Cons.prems have nc: "\<not> comparable ks ls'" by (auto simp: ls comparable_def)
    then have ne: "ks \<noteq> []" "ls' \<noteq> []" by (auto simp: comparable_def)
    from Cons.IH [OF nc, of "submap m k"] show ?thesis
      using True ne by (simp add: ls getValue_Cons putValue_Cons get_submap)
  qed
qed (simp add: comparable_def)

interpretation cstore: nested_store getValue putValue "[]"
  by unfold_locales (simp_all add: get_put_same_val get_put_other_val)

subsection \<open>Repeated keys accumulate\<close>

definition collected :: "string list \<Rightarrow> cval option" where
  "collected vs = (case vs of [] \<Rightarrow> None | [v] \<Rightarrow> Some (CStr v) | _ \<Rightarrow> Some (CStrs vs))"

lemma accumulate_same:
  "ks \<noteq> [] \<Longrightarrow> getValue m ks = collected vs \<Longrightarrow> getValue (accumulate m (ks, v)) ks = collected (vs @ [v])"
  by (cases vs rule: remdups_adj.cases) (simp_all add: accumulate_def collected_def cstore.get_put_same)

lemma accumulate_other:
  "\<not> comparable (fst kv) ls \<Longrightarrow> getValue (accumulate m kv) ls = getValue m ls"
  by (cases kv) (auto simp: accumulate_def cstore.get_put_other split: option.split cval.split)

lemma accumulate_all:
  assumes "ks \<noteq> []" and "\<And>kv. kv \<in> set kvs \<Longrightarrow> fst kv = ks \<or> \<not> comparable (fst kv) ks"
    and "getValue m ks = collected vs"
  shows "getValue (foldl accumulate m kvs) ks = collected (vs @ map snd (filter (\<lambda>kv. fst kv = ks) kvs))"
  using assms(2,3)
proof (induction kvs arbitrary: m vs)
  case (Cons kv kvs)
  show ?case
  proof (cases "fst kv = ks")
    case True
    then have "getValue (accumulate m kv) ks = collected (vs @ [snd kv])"
      using accumulate_same [OF assms(1) Cons.prems(2)] by (cases kv) auto
    from Cons.IH [OF _ this] Cons.prems(1) True show ?thesis by simp
  next
    case False
    with Cons.prems have "getValue (accumulate m kv) ks = collected vs"
      using accumulate_other by (metis list.set_intros(1))
    from Cons.IH [OF _ this] Cons.prems(1) False show ?thesis by simp
  qed
qed simp

text \<open>C22: Repeated kernel parameters accumulate: the value parseCmdlineArgs stores under a dotted key
  is absent, the single string, or the slice of all strings given for exactly that key on the
  command line, in order of appearance, as long as no other parameter's key is a proper prefix
  or extension of it.\<close>

theorem parseCmdlineArgs_accumulates:
  assumes "ks \<noteq> []"
    and "\<And>token. token \<in> set (splitCmdlineTokens raw) \<Longrightarrow>
           fst (token_pair token) = ks \<or> \<not> comparable (fst (token_pair token)) ks"
  shows "getValue (parseCmdlineArgs raw) ks =
    collected (map (\<lambda>token. snd (token_pair token))
      (filter (\<lambda>token. token \<noteq> [] \<and> fst (token_pair token) = ks) (splitCmdlineTokens raw)))"
proof -
  let ?kvs = "map token_pair (filter (\<lambda>token. token \<noteq> []) (splitCmdlineTokens raw))"
  have "getValue (foldl accumulate [] ?kvs) ks = collected ([] @ map snd (filter (\<lambda>kv. fst kv = ks) ?kvs))"
  proof (rule accumulate_all [OF assms(1)])
    fix kv assume "kv \<in> set ?kvs"
    then show "fst kv = ks \<or> \<not> comparable (fst kv) ks" using assms(2) by auto
  qed (simp add: collected_def)
  then show ?thesis
    by (simp add: parseCmdlineArgs_def filter_map comp_def conj_commute)
qed

definition example_cmdline :: string where
  "example_cmdline = ''k3os.modules=kvm ro k3os.modules=nvme k3os.debug''"

theorem parseCmdlineArgs_accumulates_witness:
  "getValue (parseCmdlineArgs example_cmdline) [''k3os'', ''modules''] = Some (CStrs [''kvm'', ''nvme''])"
proof -
  have tokens: "splitCmdlineTokens example_cmdline = [''k3os.modules=kvm'', ''ro'', ''k3os.modules=nvme'', ''k3os.debug'']"
    by (simp add: splitCmdlineTokens_def example_cmdline_def token_sep_def quote_char_def)
  have pairs: "token_pair ''k3os.modules=kvm'' = ([''k3os'', ''modules''], ''kvm'')"
    "token_pair ''ro'' = ([''ro''], ''true'')" "token_pair ''k3os.modules=nvme'' = ([''k3os'', ''modules''], ''nvme'')"
    "token_pair ''k3os.debug'' = ([''k3os'', ''debug''], ''true'')"
    by code_simp+
  have "getValue (parseCmdlineArgs example_cmdline) [''k3os'', ''modules''] =
    collected (map (\<lambda>token. snd (token_pair token)) (filter (\<lambda>token. token \<noteq> []
      \<and> fst (token_pair token) = [''k3os'', ''modules'']) (splitCmdlineTokens example_cmdline)))"
    by (rule parseCmdlineArgs_accumulates) (auto simp: tokens pairs comparable_def)
  then show ?thesis by (simp add: tokens pairs collected_def)
qed

subsection \<open>Tokens\<close>

text \<open>A run of the closure over a text that meets no separator, from one state to another.\<close>

fun unbroken :: "('q \<Rightarrow> char \<Rightarrow> 'q \<times> bool) \<Rightarrow> 'q \<Rightarrow> string \<Rightarrow> 'q \<Rightarrow> bool" where
  "unbroken f q [] q' = (q = q')"
| "unbroken f q (c # cs) q' = (\<not> snd (f q c) \<and> unbroken f (fst (f q c)) cs q')"

lemma fields_state_unbroken:
  "unbroken f q w q' \<Longrightarrow> fields_state f q cur (w @ rest) = fields_state f q' (rev w @ cur) rest"
  by (induction f q w q' arbitrary: cur rule: unbroken.induct) (auto split: prod.split)

lemma fields_state_words:
  assumes "f q sep = (q, True)" and "\<And>w. w \<in> set ws \<Longrightarrow> w \<noteq> [] \<and> unbroken f q w q"
  shows "fields_state f q [] (Join [sep] ws) = ws"
  using assms(2)
proof (induction "[sep]" ws rule: Join.induct)
  case (2 w)
  then show ?case using fields_state_unbroken [of f q w q "[]" "[]"] by auto
next
  case (3 w w' ws)
  then show ?case
    using fields_state_unbroken [of f q w q "[]" "sep # Join [sep] (w' # ws)"] assms(1) by auto
qed simp

text \<open>A token: not empty, no white space outside double quotes, quotes closed.\<close>

definition is_token :: "string \<Rightarrow> bool" where
  "is_token w \<longleftrightarrow> w \<noteq> [] \<and> unbroken token_sep None w None"

text \<open>Tokenising inverts joining: for tokens without white space outside closed double quotes,
  splitting their blank-separated concatenation gives the tokens back, so quoted values with
  blanks stay in one piece.\<close>

theorem splitCmdlineTokens_join:
  assumes "list_all is_token ws"
  shows "splitCmdlineTokens (Join '' '' ws) = ws"
  unfolding splitCmdlineTokens_def
  by (rule fields_state_words) (use assms in \<open>auto simp: token_sep_def quote_char_def is_token_def list_all_iff\<close>)

theorem splitCmdlineTokens_join_witness:
  "splitCmdlineTokens (Join '' '' [''ro'', ''k3os.label='' @ [quote_char] @ ''a b'' @ [quote_char]])
     = [''ro'', ''k3os.label='' @ [quote_char] @ ''a b'' @ [quote_char]]"
  by (rule splitCmdlineTokens_join) (simp add: is_token_def token_sep_def quote_char_def)

subsection \<open>A value and a map under one name\<close>

text \<open>
  A parameter that is a prefix of another is lost: the later one turns the value into a map. In the
  other order the shorter one is dropped, since the value found there is a map.
\<close>

lemma shorter_parameter_lost:
  "parseCmdlineArgs ''a=1 a.b=2'' = [(''a'', CMap [(''b'', CStr ''2'')])]"
  "parseCmdlineArgs ''a.b=2 a=1'' = [(''a'', CMap [(''b'', CStr ''2'')])]"
  by code_simp+

end
