(* ===== verification/Config_Names.thy ===== *)
theory Config_Names
  imports Config_Map
begin

section \<open>Key names: internal/config/helpers.go, decode.go, read.go\<close>

text \<open>
  Conversion of camel-case names, the fuzzy name matching given to the decoder, the normalisation
  of map keys before merging, and the flattening to environment variables. Letters are ASCII.
\<close>

subsection \<open>Definitions\<close>

text \<open>\<open>prev\<close> is \<open>runes[i-1]\<close>, absent for the first rune.\<close>

fun snake_loop :: "char option \<Rightarrow> string \<Rightarrow> string" where
  "snake_loop prev [] = []"
| "snake_loop prev (r # rs) =
     (case prev of
        None \<Rightarrow> []
      | Some p \<Rightarrow>
          if is_upper r
             \<and> (is_lower p \<or> is_digit p \<or> is_upper p \<and> rs \<noteq> [] \<and> is_lower (hd rs))
          then ''_'' else [])
     @ to_lower r # snake_loop (Some r) rs"

definition camelToSnake :: "string \<Rightarrow> string" where
  "camelToSnake s = snake_loop None s"

definition name_aliases :: "(string \<times> string) list" where
  "name_aliases = [(''pass'', ''passphrase''), (''password'', ''passphrase'')]"

definition matchName :: "string \<Rightarrow> string \<Rightarrow> bool" where
  "matchName mapKey fieldName =
     (let normalizedKey = ToLower (camelToSnake mapKey);
          normalizedField = ToLower (camelToSnake fieldName);
          keyNoSep = ReplaceAll normalizedKey ''_'' [];
          fieldNoSep = ReplaceAll normalizedField ''_'' [] in
      normalizedKey = normalizedField
      \<or> normalizedKey @ ''s'' = normalizedField
      \<or> normalizedKey @ ''es'' = normalizedField
      \<or> (case map_of name_aliases normalizedKey of
           Some target \<Rightarrow> normalizedField = target \<or> normalizedField = target @ ''s''
         | None \<Rightarrow> False)
      \<or> keyNoSep = fieldNoSep
      \<or> keyNoSep @ ''s'' = fieldNoSep
      \<or> keyNoSep @ ''es'' = fieldNoSep)"

definition normalize_key :: "string \<Rightarrow> string" where
  "normalize_key key = ToLower (camelToSnake key)"

text \<open>
  The loop of \<open>normalizeData\<close> over the keys of the map, in iteration order. The value moved is the
  one the map holds when the key is visited. Keys inserted by the loop may be visited too; they are
  normal already and their visit changes nothing.
\<close>

fun rename_keys :: "cmap \<Rightarrow> string list \<Rightarrow> cmap" where
  "rename_keys data [] = data"
| "rename_keys data (key # keys) =
     (case map_of data key of
        None \<Rightarrow> rename_keys data keys
      | Some val \<Rightarrow>
          if normalize_key key = key then rename_keys data keys
          else rename_keys (AList.update (normalize_key key) val (AList.delete key data)) keys)"

fun normalize_val :: "cval \<Rightarrow> cval" where
  "normalize_val (CMap m) =
     CMap (rename_keys (map (\<lambda>(k, v). (k, normalize_val v)) m) (map fst m))"
| "normalize_val v = v"

definition normalizeData :: "cmap \<Rightarrow> cmap" where
  "normalizeData data =
     rename_keys (map (\<lambda>(k, v). (k, normalize_val v)) data) (map fst data)"

text \<open>\<open>fmt.Sprintf("%v", v)\<close> for the values of a decoded YAML document that are no maps.\<close>

fun show_val :: "cval \<Rightarrow> string" where
  "show_val (CStr s) = s"
| "show_val (CStrs ss) = ''['' @ Join '' '' ss @ '']''"
| "show_val (COther s) = s"
| "show_val (CMap m) = []"

fun env_of :: "string \<Rightarrow> cval \<Rightarrow> string list" where
  "env_of keyName (CMap sub) =
     concat (map (\<lambda>(k, v). env_of (ToUpper (keyName @ ''_'' @ camelToSnake k)) v) sub)"
| "env_of keyName v = [keyName @ ''='' @ show_val v]"

definition mapToEnv :: "string \<Rightarrow> cmap \<Rightarrow> string list" where
  "mapToEnv pre data = concat (map (\<lambda>(k, v). env_of (ToUpper (pre @ camelToSnake k)) v) data)"

subsection \<open>Snake case is stable\<close>

lemma is_upper_code: "is_upper c \<longleftrightarrow> 65 \<le> (of_char c :: nat) \<and> (of_char c :: nat) \<le> 90"
  by (simp add: is_upper_def less_eq_char_def)

lemma to_lower_not_upper [simp]: "\<not> is_upper (to_lower c)"
proof (cases "is_upper c")
  case True
  then have "(of_char (char_of (of_char c + 32 :: nat)) :: nat) = of_char c + 32"
    by (simp add: is_upper_code take_bit_nat_eq_self)
  with True show ?thesis by (auto simp: to_lower_def is_upper_code)
qed (simp add: to_lower_def)

lemma to_lower_id: "\<not> is_upper c \<Longrightarrow> to_lower c = c"
  by (simp add: to_lower_def)

lemma snake_no_upper: "list_all (\<lambda>c. \<not> is_upper c) (snake_loop p s)"
proof (induction p s rule: snake_loop.induct)
  case (2 p r rs)
  have "\<not> is_upper CHR ''_''" by code_simp
  with 2 show ?case by (auto split: option.split)
qed simp

lemma snake_id: "list_all (\<lambda>c. \<not> is_upper c) s \<Longrightarrow> snake_loop p s = s"
  by (induction s arbitrary: p) (auto simp: to_lower_id split: option.split)

lemma camelToSnake_no_upper: "list_all (\<lambda>c. \<not> is_upper c) (camelToSnake s)"
  by (simp add: camelToSnake_def snake_no_upper)

lemma ToLower_id: "list_all (\<lambda>c. \<not> is_upper c) s \<Longrightarrow> ToLower s = s"
  by (induction s) (auto simp: ToLower_def to_lower_id)

lemma ToLower_snake [simp]: "ToLower (camelToSnake s) = camelToSnake s"
  by (rule ToLower_id [OF camelToSnake_no_upper])

lemma snake_snake [simp]: "camelToSnake (camelToSnake s) = camelToSnake s"
  using snake_id [OF camelToSnake_no_upper] by (simp add: camelToSnake_def)

lemma normalize_key_snake: "normalize_key k = camelToSnake k"
  by (simp add: normalize_key_def)

lemma normalize_key_idem [simp]: "normalize_key (normalize_key k) = normalize_key k"
  by (simp add: normalize_key_snake)

lemma ReplaceAll_drop: "ReplaceAll s [d] [] = filter (\<lambda>c. c \<noteq> d) s"
  by (induction s) (auto simp: HasPrefix_def)

lemma filter_no_upper:
  "list_all (\<lambda>c. \<not> is_upper c) s \<Longrightarrow> list_all (\<lambda>c. \<not> is_upper c) (filter P s)"
  by (auto simp: list_all_iff)

text \<open>A configuration key can be spelled as the field is declared, in snake case, or in lower case
  without separators, with or without the plural ending: matchName accepts the field name
  itself, its camelToSnake form, that form without underscores, and any key to whose snake form
  an s or es is missing.\<close>

theorem matchName_spellings:
  "matchName f f \<and> matchName (camelToSnake f) f \<and> matchName (ReplaceAll (camelToSnake f) ''_'' []) f
   \<and> (camelToSnake k @ ''s'' = camelToSnake f \<or> camelToSnake k @ ''es'' = camelToSnake f \<longrightarrow> matchName k f)"
proof -
  let ?bare = "filter (\<lambda>c. c \<noteq> CHR ''_'') (camelToSnake f)"
  have "camelToSnake ?bare = ?bare"
    using snake_id [OF filter_no_upper [OF camelToSnake_no_upper]] by (simp add: camelToSnake_def)
  moreover have "ToLower ?bare = ?bare"
    by (rule ToLower_id [OF filter_no_upper [OF camelToSnake_no_upper]])
  ultimately have "matchName (ReplaceAll (camelToSnake f) ''_'' []) f"
    by (simp add: matchName_def Let_def ReplaceAll_drop)
  then show ?thesis by (simp add: matchName_def Let_def)
qed

theorem matchName_spellings_witness:
  "matchName ''dataSource'' ''dataSources''"
proof -
  have "camelToSnake ''dataSource'' @ ''s'' = camelToSnake ''dataSources''" by code_simp
  then show ?thesis using matchName_spellings [of "''dataSources''" "''dataSource''"] by blast
qed

subsection \<open>Normalising keys\<close>

lemma rename_keys_spec:
  assumes "inj_on normalize_key (dom (map_of data))" and "distinct ks" and "set ks \<subseteq> dom (map_of data)"
  shows "(\<forall>k \<in> set ks. map_of (rename_keys data ks) (normalize_key k) = map_of data k)
    \<and> (\<forall>j. j \<notin> normalize_key ` set ks \<longrightarrow>
         map_of (rename_keys data ks) j = (if j \<in> set ks then None else map_of data j))"
  using assms
proof (induction ks arbitrary: data)
  case (Cons k ks)
  from Cons.prems obtain v where v: "map_of data k = Some v" by auto
  show ?case
  proof (cases "normalize_key k = k")
    case True
    from Cons.prems have IH: "\<forall>k \<in> set ks. map_of (rename_keys data ks) (normalize_key k) = map_of data k"
      "\<forall>j. j \<notin> normalize_key ` set ks \<longrightarrow> map_of (rename_keys data ks) j = (if j \<in> set ks then None else map_of data j)"
      using Cons.IH by auto
    have "k' = k" if "k' \<in> set ks" "normalize_key k' = normalize_key k" for k'
      using Cons.prems(1,3) that by (auto dest: inj_onD)
    then have "k \<notin> normalize_key ` set ks"
      using Cons.prems(2) True by (metis distinct.simps(2) imageE)
    with IH True v Cons.prems(2) show ?thesis by auto
  next
    case False
    let ?n = "normalize_key k"
    define D where "D = AList.update ?n v (AList.delete k data)"
    have m: "map_of D = (\<lambda>j. if j = ?n then Some v else if j = k then None else map_of data j)"
      using False by (auto simp: D_def delete_conv')
    have fresh: "k' = k" if "k' \<in> dom (map_of data)" "normalize_key k' = ?n" for k'
      using Cons.prems(1,3) that by (auto simp: inj_on_def)
    have notin: "?n \<notin> dom (map_of data)" using fresh [of ?n] False by auto
    have "dom (map_of D) = insert ?n (dom (map_of data) - {k})"
      unfolding m using False by (auto simp: dom_def)
    moreover have "?n \<notin> normalize_key ` (dom (map_of data) - {k})"
    proof
      assume "?n \<in> normalize_key ` (dom (map_of data) - {k})"
      then obtain k' where "?n = normalize_key k'" and "k' \<in> dom (map_of data)" and "k' \<noteq> k" by blast
      then show False using fresh [of k'] by simp
    qed
    ultimately have "inj_on normalize_key (dom (map_of D))"
      using inj_on_subset [OF Cons.prems(1), of "dom (map_of data) - {k}"] by (auto simp: inj_on_insert)
    moreover have "set ks \<subseteq> dom (map_of D)"
      using Cons.prems(2,3) unfolding m by auto
    ultimately have IH: "\<forall>k' \<in> set ks. map_of (rename_keys D ks) (normalize_key k') = map_of D k'"
      "\<forall>j. j \<notin> normalize_key ` set ks \<longrightarrow>
         map_of (rename_keys D ks) j = (if j \<in> set ks then None else map_of D j)"
      using Cons.IH [of D] Cons.prems(2) by auto
    have nk: "?n \<notin> normalize_key ` set ks" using fresh Cons.prems(2,3) by fastforce
    have ks: "?n \<notin> set ks" using notin Cons.prems(3) by auto
    show ?thesis
      using IH nk ks False v Cons.prems(2) notin unfolding m by (auto simp flip: D_def)
  qed
qed simp

text \<open>Normalising a map loses nothing: when no two keys of a map have the same normal form,
  normalizeData keeps every entry, under the snake-case form of its key and with nested maps
  normalised in turn, and no other keys; so the result does not depend on the iteration order.\<close>

theorem normalizeData_lookup:
  assumes "distinct (map fst d)" and "inj_on normalize_key (set (map fst d))" and "map_of d k = Some v"
  shows "map_of (normalizeData d) (normalize_key k) = Some (normalize_val v)
    \<and> (map_of (normalizeData d) j \<noteq> None \<longrightarrow> (\<exists>i \<in> set (map fst d). j = normalize_key i))"
proof -
  let ?d = "map (\<lambda>(k, v). (k, normalize_val v)) d"
  have m: "map_of ?d i = map_option normalize_val (map_of d i)" for i
    by (induction d) auto
  have dom: "dom (map_of ?d) = set (map fst d)"
    by (simp add: dom_map_of_conv_image_fst image_image case_prod_beta)
  have spec: "(\<forall>k \<in> set (map fst d). map_of (normalizeData d) (normalize_key k) = map_of ?d k)
    \<and> (\<forall>j. j \<notin> normalize_key ` set (map fst d) \<longrightarrow>
         map_of (normalizeData d) j = (if j \<in> set (map fst d) then None else map_of ?d j))"
    unfolding normalizeData_def by (rule rename_keys_spec) (use assms dom in auto)
  have "k \<in> set (map fst d)" using assms(3) by (metis domI dom_map_of_conv_image_fst list.set_map)
  moreover have "map_of (normalizeData d) j = None" if "j \<notin> normalize_key ` set (map fst d)"
    using spec that dom by (metis domIff)
  moreover have "map_of (normalizeData d) (normalize_key k) = Some (normalize_val v)"
    using spec calculation(1) m [of k] assms(3) by (metis option.simps(9))
  ultimately show ?thesis by (metis imageE)
qed

theorem normalizeData_lookup_witness:
  "map_of (normalizeData [(''k3os'', CMap [(''dataSources'', CStr ''aws'')]), (''runCmd'', CStrs [''ls''])]) (normalize_key ''runCmd'')
     = Some (normalize_val (CStrs [''ls'']))"
proof -
  let ?d = "[(''k3os'', CMap [(''dataSources'', CStr ''aws'')]), (''runCmd'', CStrs [''ls''])]"
  have "normalize_key ''k3os'' = ''k3os''" "normalize_key ''runCmd'' = ''run_cmd''" by code_simp+
  then have "inj_on normalize_key (set (map fst ?d))" by (simp add: inj_on_def)
  then show ?thesis using normalizeData_lookup [of ?d "''runCmd''" "CStrs [''ls'']" "[]"] by simp
qed

subsection \<open>Normal form\<close>

text \<open>The well-formed values after normalisation: every key, at every depth, is in snake case.\<close>

fun normal_val :: "cval \<Rightarrow> bool" where
  "normal_val (CMap m) = list_all (\<lambda>(k, v). normalize_key k = k \<and> normal_val v) m"
| "normal_val v = True"

lemma update_entries: "list_all P xs \<Longrightarrow> P (k, v) \<Longrightarrow> list_all P (AList.update k v xs)"
  by (induction xs) auto

lemma delete_entries: "list_all P xs \<Longrightarrow> list_all P (AList.delete k xs)"
  by (auto simp: list_all_iff AList.delete_eq)

lemma map_of_entry: "list_all P xs \<Longrightarrow> map_of xs k = Some v \<Longrightarrow> P (k, v)"
  by (auto simp: list_all_iff dest: map_of_SomeD)

lemma entries_mono: "list_all P xs \<Longrightarrow> (\<And>x. x \<in> set xs \<Longrightarrow> P x \<Longrightarrow> Q x) \<Longrightarrow> list_all Q xs"
  by (simp add: list_all_iff)

text \<open>Keys still to be visited may be in any spelling; the others are normal.\<close>

lemma rename_keys_normal:
  "list_all (\<lambda>(k, v). (k \<in> set ks \<or> normalize_key k = k) \<and> normal_val v) d \<Longrightarrow>
   list_all (\<lambda>(k, v). normalize_key k = k \<and> normal_val v) (rename_keys d ks)"
proof (induction ks arbitrary: d)
  case (Cons k ks)
  let ?P = "\<lambda>(k, v). (k \<in> set ks \<or> normalize_key k = k) \<and> normal_val v"
  show ?case
  proof (cases "map_of d k")
    case None
    then have "k \<notin> fst ` set d" by (simp add: map_of_eq_None_iff)
    then have "list_all ?P d" by (intro entries_mono [OF Cons.prems]) force
    with None Cons.IH show ?thesis by simp
  next
    case (Some v)
    from map_of_entry [OF Cons.prems this] have v: "normal_val v" by simp
    show ?thesis
    proof (cases "normalize_key k = k")
      case True
      then have "list_all ?P d" by (intro entries_mono [OF Cons.prems]) auto
      with Some True Cons.IH show ?thesis by simp
    next
      case False
      have "list_all ?P (AList.delete k d)"
        by (intro entries_mono [OF delete_entries [OF Cons.prems]]) (auto simp: AList.delete_eq)
      then have "list_all ?P (AList.update (normalize_key k) v (AList.delete k d))"
        using v by (intro update_entries) auto
      with Some False Cons.IH show ?thesis by simp
    qed
  qed
qed (auto simp: list_all_iff)

lemma normalize_entries:
  "list_all (\<lambda>(k, v). normal_val (normalize_val v)) m \<Longrightarrow> 
   list_all (\<lambda>(k, v). normalize_key k = k \<and> normal_val v) (rename_keys (map (\<lambda>(k, v). (k, normalize_val v)) m) (map fst m))"
  by (rule rename_keys_normal) (force simp: list_all_iff)

lemma normal_val_normalize: "normal_val (normalize_val v)"
proof (induction v rule: normalize_val.induct)
  case (1 m)
  then have "list_all (\<lambda>(k, v). normal_val (normalize_val v)) m" by (auto simp: list_all_iff)
  then show ?case by (simp add: normalize_entries)
qed simp_all

lemma rename_keys_id: "list_all (\<lambda>(k, v). normalize_key k = k) d \<Longrightarrow> rename_keys d ks = d"
proof (induction ks)
  case (Cons k ks)
  then show ?case by (cases "map_of d k") (auto dest: map_of_entry)
qed simp

lemma normalize_val_id: "normal_val v \<Longrightarrow> normalize_val v = v"
proof (induction v rule: normalize_val.induct)
  case (1 m)
  have "map (\<lambda>(k, v). (k, normalize_val v)) m = m"
    using 1 by (intro map_idI) (auto simp: list_all_iff)
  moreover have "list_all (\<lambda>(k, v). normalize_key k = k) m"
    using "1.prems" by (auto simp: list_all_iff)
  ultimately show ?case by (simp add: rename_keys_id)
qed simp_all

lemma normalizeData_val: "CMap (normalizeData d) = normalize_val (CMap d)"
  by (simp add: normalizeData_def)


end
