(* ===== verification/Go_Encoding.thy ===== *)
theory Go_Encoding
  imports Go_Effects
begin

section \<open>Content encodings: encoding/base64 and internal/util/decode.go\<close>

text \<open>
  Standard base64 with padding, as \<open>base64.StdEncoding\<close> has it: decoding skips carriage returns and
  newlines and refuses anything after the padding. \<open>compress/gzip\<close> is not modelled: decompression
  is a parameter of \<open>DecodeContent\<close>.
\<close>

subsection \<open>Definitions\<close>

definition b64_alphabet :: string where
  "b64_alphabet = ''ABCDEFGHIJKLMNOPQRSTUVWXYZabcdefghijklmnopqrstuvwxyz0123456789+/''"

definition b64_char :: "nat \<Rightarrow> char" where
  "b64_char n = b64_alphabet ! n"

fun index_of :: "nat \<Rightarrow> char \<Rightarrow> string \<Rightarrow> nat option" where
  "index_of i c [] = None"
| "index_of i c (d # ds) = (if c = d then Some i else index_of (Suc i) c ds)"

definition b64_index :: "char \<Rightarrow> nat option" where
  "b64_index c = index_of 0 c b64_alphabet"

abbreviation byte :: "char \<Rightarrow> nat" where
  "byte c \<equiv> of_char c"

fun EncodeToString :: "string \<Rightarrow> string" where
  "EncodeToString [] = []"
| "EncodeToString [a] =
     [b64_char (byte a div 4), b64_char (byte a mod 4 * 16), CHR ''='', CHR ''='']"
| "EncodeToString [a, b] =
     [b64_char (byte a div 4), b64_char (byte a mod 4 * 16 + byte b div 16),
      b64_char (byte b mod 16 * 4), CHR ''='']"
| "EncodeToString (a # b # c # rest) =
     b64_char (byte a div 4) # b64_char (byte a mod 4 * 16 + byte b div 16)
     # b64_char (byte b mod 16 * 4 + byte c div 64) # b64_char (byte c mod 64) # EncodeToString rest"

fun decode_quads :: "string \<Rightarrow> string option" where
  "decode_quads [] = Some []"
| "decode_quads (c1 # c2 # c3 # c4 # rest) =
     (case b64_index c1 of None \<Rightarrow> None | Some i1 \<Rightarrow>
      case b64_index c2 of None \<Rightarrow> None | Some i2 \<Rightarrow>
      if c3 = CHR ''='' then
        (if c4 = CHR ''='' \<and> rest = [] then Some [char_of (i1 * 4 + i2 div 16)] else None)
      else
      case b64_index c3 of None \<Rightarrow> None | Some i3 \<Rightarrow>
      if c4 = CHR ''='' then
        (if rest = [] then Some [char_of (i1 * 4 + i2 div 16), char_of (i2 mod 16 * 16 + i3 div 4)]
         else None)
      else
      case b64_index c4 of None \<Rightarrow> None | Some i4 \<Rightarrow>
      map_option (\<lambda>bs. char_of (i1 * 4 + i2 div 16) # char_of (i2 mod 16 * 16 + i3 div 4)
                       # char_of (i3 mod 4 * 64 + i4) # bs) (decode_quads rest))"
| "decode_quads _ = None"

definition DecodeString :: "string \<Rightarrow> string option" where
  "DecodeString s = decode_quads (filter (\<lambda>c. c \<noteq> newline \<and> c \<noteq> CHR 0x0D) s)"

definition DecodeBase64Content :: "string \<Rightarrow> err + string" where
  "DecodeBase64Content content =
     (case DecodeString content of
        None \<Rightarrow> Inl (Wrap ''unable to decode base64'' (Msg ''illegal base64 data''))
      | Some output \<Rightarrow> Inr output)"

text \<open>\<open>gunzip\<close> stands for \<open>DecompressGzip\<close>, whose body is the standard library's gzip reader.\<close>

definition DecodeContent :: "(string \<Rightarrow> err + string) \<Rightarrow> string \<Rightarrow> string \<Rightarrow> err + string" where
  "DecodeContent gunzip content encoding =
     (if encoding = [] then Inr content
      else if encoding = ''b64'' \<or> encoding = ''base64'' then DecodeBase64Content content
      else if encoding = ''gz'' \<or> encoding = ''gzip'' then gunzip content
      else if encoding = ''gz+base64'' \<or> encoding = ''gzip+base64'' \<or> encoding = ''gz+b64''
           \<or> encoding = ''gzip+b64''
      then (case DecodeBase64Content content of Inl e \<Rightarrow> Inl e | Inr gz \<Rightarrow> gunzip gz)
      else Inl (Msg ''unsupported encoding''))"

subsection \<open>Decoding inverts encoding\<close>

lemma b64_table:
  "\<forall>n \<in> set [0..<64]. b64_index (b64_char n) = Some n \<and> b64_char n \<noteq> CHR ''=''
     \<and> b64_char n \<noteq> newline \<and> b64_char n \<noteq> CHR 0x0D"
  by code_simp

lemma b64_char_facts [simp]:
  assumes "n < 64"
  shows "b64_index (b64_char n) = Some n" "b64_char n \<noteq> CHR ''=''"
    "b64_char n \<noteq> newline" "b64_char n \<noteq> CHR 0x0D"
  using b64_table assms by (auto simp: atLeastLessThan_upt [symmetric])

lemma byte_bound: "byte c < 256"
proof -
  have "byte c = byte (char_of (byte c :: nat))" by simp
  also have "\<dots> = byte c mod 256" by (simp only: of_char_of)
  finally show ?thesis by (metis mod_less_divisor zero_less_numeral)
qed

lemma pack: "b < n \<Longrightarrow> (a * n + b) div n = a \<and> (a * n + b) mod n = (b :: nat)"
  by simp

lemma pack_less: "a < k \<Longrightarrow> b < n \<Longrightarrow> a * n + b < k * (n :: nat)"
  by (metis add.commute add_less_cancel_left less_le_trans mult.commute mult_Suc_right
      mult_le_mono2 Suc_leI)

lemma byte_div: "byte c div 4 < 64" "byte c div 16 < 16" "byte c div 64 < 4"
  using byte_bound [of c] by (simp_all add: div_less_iff_less_mult)

lemma byte_parts [simp]:
  "byte c div 4 < 64" "byte c mod 4 * 16 < 64" "byte c mod 16 * 4 < 64" "byte c mod 64 < 64"
  "byte a mod 4 * 16 + byte b div 16 < 64" "byte a mod 16 * 4 + byte b div 64 < 64"
  using pack_less [of "byte a mod 4" 4 "byte b div 16" 16] pack_less [of "byte a mod 16" 16 "byte b div 64" 4]
    pack_less [of "byte c mod 4" 4 0 16] pack_less [of "byte c mod 16" 16 0 4]
  by (simp_all add: byte_div)

lemma sextets:
  "y div 16 < 16 \<Longrightarrow> (x div 4) * 4 + (x mod 4 * 16 + y div 16) div 16 = (x :: nat)"
  "y div 16 < 16 \<Longrightarrow> z div 64 < 4 \<Longrightarrow>
     (x mod 4 * 16 + y div 16) mod 16 * 16 + (y mod 16 * 4 + z div 64) div 4 = (y :: nat)"
  "z div 64 < 4 \<Longrightarrow> (y mod 16 * 4 + z div 64) mod 4 * 64 + z mod 64 = (z :: nat)"
  by (simp_all only: pack div_mult_mod_eq)

lemma decode_encode_quads: "decode_quads (EncodeToString s) = Some s"
proof (induction s rule: EncodeToString.induct)
  case (2 a)
  show ?case using sextets(1) [of 0 "byte a"] by simp
next
  case (3 a b)
  show ?case
    using sextets(1) [of "byte b" "byte a"] sextets(2) [of "byte b" 0 "byte a"] byte_div by simp
next
  case (4 a b c rest)
  then show ?case
    using sextets(1) [of "byte b" "byte a"] sextets(2) [of "byte b" "byte c" "byte a"]
      sextets(3) [of "byte c" "byte b"] byte_div by simp
qed simp

lemma encode_no_newline: "filter (\<lambda>c. c \<noteq> newline \<and> c \<noteq> CHR 0x0D) (EncodeToString s) = EncodeToString s"
  by (induction s rule: EncodeToString.induct) simp_all

lemma decode_encode: "DecodeString (EncodeToString s) = Some s"
  by (simp add: DecodeString_def encode_no_newline decode_encode_quads)

end
