(* ===== verification/Config_Read.thy ===== *)
theory Config_Read
  imports Config_Names Go_Encoding "HOL-Library.Word"
begin

section \<open>Reading the configuration: internal/config\<close>

text \<open>
  The configuration structs, the readers and their merging. YAML, the merge library (\<open>mergo\<close>) and
  the decoder (\<open>mapstructure\<close>) are not part of the repository: they are the fields of
  \<open>ConfigLibs\<close>, a parameter of everything that uses them. A reader returns \<open>None\<close> for a \<open>nil\<close> map.
\<close>

subsection \<open>config.go\<close>

record Wifi =
  wf_Name :: string
  wf_Passphrase :: string

record Install =
  in_ForceEFI :: bool
  in_Device :: string
  in_ConfigURL :: string
  in_Silent :: bool
  in_ISOURL :: string
  in_PowerOff :: bool
  in_NoFormat :: bool
  in_Debug :: bool
  in_TTY :: string

record K3OS =
  k3_DataSources :: "string list"
  k3_Modules :: "string list"
  k3_Sysctls :: "(string \<times> string) list"
  k3_NTPServers :: "string list"
  k3_DNSNameservers :: "string list"
  k3_Wifi :: "Wifi list"
  k3_Password :: string
  k3_ServerURL :: string
  k3_Token :: string
  k3_Labels :: "(string \<times> string) list"
  k3_K3sArgs :: "string list"
  k3_Environment :: "(string \<times> string) list"
  k3_Taints :: "string list"
  k3_Install :: "Install option"

record File =
  fl_Encoding :: string
  fl_Content :: string
  fl_Owner :: string
  fl_Path :: string
  fl_RawFilePermissions :: string

record CloudConfig =
  cc_SSHAuthorizedKeys :: "string list"
  cc_WriteFiles :: "File list"
  cc_Hostname :: string
  cc_K3OS :: K3OS
  cc_Runcmd :: "string list"
  cc_Bootcmd :: "string list"
  cc_Initcmd :: "string list"

definition zero_Install :: Install where
  "zero_Install = \<lparr>in_ForceEFI = False, in_Device = [], in_ConfigURL = [], in_Silent = False, in_ISOURL = [],
     in_PowerOff = False, in_NoFormat = False, in_Debug = False, in_TTY = []\<rparr>"

definition zero_K3OS :: K3OS where
  "zero_K3OS = \<lparr>k3_DataSources = [], k3_Modules = [], k3_Sysctls = [], k3_NTPServers = [],
     k3_DNSNameservers = [], k3_Wifi = [], k3_Password = [], k3_ServerURL = [], k3_Token = [], k3_Labels = [],
     k3_K3sArgs = [], k3_Environment = [], k3_Taints = [], k3_Install = None\<rparr>"

definition zero_CloudConfig :: CloudConfig where
  "zero_CloudConfig = \<lparr>cc_SSHAuthorizedKeys = [], cc_WriteFiles = [], cc_Hostname = [], cc_K3OS = zero_K3OS,
     cc_Runcmd = [], cc_Bootcmd = [], cc_Initcmd = []\<rparr>"

text \<open>
  \<open>os.FileMode(perm)\<close> converts the \<open>int64\<close> that \<open>ParseInt\<close> gives to an unsigned 32-bit value.
\<close>

definition File_Permissions :: "File \<Rightarrow> err + 32 word" where
  "File_Permissions f =
     (if fl_RawFilePermissions f = [] then Inr 420
      else case ParseInt (fl_RawFilePermissions f) 8 32 of
             None \<Rightarrow> Inl (Msg ''unable to parse file permissions as integer'')
           | Some perm \<Rightarrow> Inr (word_of_int perm))"

subsection \<open>Libraries\<close>

record ConfigLibs =
  cl_FS :: FileSystem
  cl_Unmarshal :: "string \<Rightarrow> err + cmap"
  cl_Marshal :: "CloudConfig \<Rightarrow> err + string"
  cl_MarshalInstall :: "Install \<Rightarrow> err + string"
  cl_Merge :: "cmap \<Rightarrow> cmap \<Rightarrow> err + cmap"
  cl_NewDecoder :: "err + unit"
  cl_Decode :: "(string \<Rightarrow> string \<Rightarrow> bool) \<Rightarrow> cmap \<Rightarrow> CloudConfig \<Rightarrow> err + CloudConfig"

type_synonym reader = "cmap option go"

subsection \<open>read.go, read_cc.go, write.go\<close>

definition SystemConfig :: string where
  "SystemConfig = RootPath [''config.yaml'']"

definition LocalConfig :: string where
  "LocalConfig = LocalPath [''config.yaml'']"

definition localConfigs :: string where
  "localConfigs = LocalPath [''config.d'']"

definition readFile :: "ConfigLibs \<Rightarrow> string \<Rightarrow> reader" where
  "readFile cl path =
     bnd (ReadFile (cl_FS cl) path) (\<lambda>r.
     case r of
       Inl e \<Rightarrow> if IsNotExist e then ok None else fail e
     | Inr f \<Rightarrow> (case cl_Unmarshal cl f of Inl e \<Rightarrow> fail e | Inr data \<Rightarrow> ok (Some data)))"

definition readSystemConfig :: "ConfigLibs \<Rightarrow> reader" where
  "readSystemConfig cl = readFile cl SystemConfig"

definition readLocalConfig :: "ConfigLibs \<Rightarrow> reader" where
  "readLocalConfig cl = readFile cl LocalConfig"

definition readLocalConfigs :: "ConfigLibs \<Rightarrow> reader list io" where
  "readLocalConfigs cl =
     bnd (ReadDir (cl_FS cl) localConfigs) (\<lambda>r.
     case r of
       Inl e \<Rightarrow> ret (if IsNotExist e then [] else [fail e])
     | Inr files \<Rightarrow> ret (map (\<lambda>f. readFile cl (PathJoin [localConfigs, de_Name f])) files))"

definition hostnameFile :: string where
  "hostnameFile = ''/run/config/local_hostname''"

definition sshFile :: string where
  "sshFile = ''/run/config/ssh/authorized_keys''"

definition userdataFile :: string where
  "userdataFile = ''/run/config/userdata''"

definition ssh_keys :: "string \<Rightarrow> string list" where
  "ssh_keys keyData = filter (\<lambda>line. line \<noteq> []) (map TrimSpace (Split newline keyData))"

definition readCloudConfig :: "ConfigLibs \<Rightarrow> reader" where
  "readCloudConfig cl =
     bnd (ReadFile (cl_FS cl) hostnameFile) (\<lambda>r.
     let result = (case r of Inr hostnameData \<Rightarrow> [(''hostname'', CStr (TrimSpace hostnameData))] | Inl _ \<Rightarrow> []) in
     bnd (ReadFile (cl_FS cl) sshFile) (\<lambda>r.
     case r of
       Inl _ \<Rightarrow> ok (Some result)
     | Inr keyData \<Rightarrow>
         let keys = ssh_keys keyData in
         ok (Some (if keys \<noteq> [] then AList.update ''ssh_authorized_keys'' (CStrs keys) result else result))))"

text \<open>Lines 57 to 81 of \<open>readUserData\<close>: the configuration a script in the user data stands for.\<close>

definition userdata_file :: "string \<Rightarrow> File" where
  "userdata_file data =
     \<lparr>fl_Encoding = (if CHR 0x00 \<in> set data then ''b64'' else []),
      fl_Content = (if CHR 0x00 \<in> set data then EncodeToString data else data),
      fl_Owner = ''root'', fl_Path = ''/run/k3os/userdata'', fl_RawFilePermissions = ''0700''\<rparr>"

definition is_script :: "string \<Rightarrow> bool" where
  "is_script data \<longleftrightarrow> CHR 0x00 \<in> set data \<or> HasPrefix data ''#!''"

definition userdata_config :: "string \<Rightarrow> CloudConfig" where
  "userdata_config data =
     zero_CloudConfig\<lparr>cc_WriteFiles := [userdata_file data], cc_Runcmd := [''source /run/k3os/userdata'']\<rparr>"

definition encodeCloudConfigToMap :: "ConfigLibs \<Rightarrow> CloudConfig \<Rightarrow> err + cmap" where
  "encodeCloudConfigToMap cl cc = (case cl_Marshal cl cc of Inl e \<Rightarrow> Inl e | Inr raw \<Rightarrow> cl_Unmarshal cl raw)"

definition readUserData :: "ConfigLibs \<Rightarrow> reader" where
  "readUserData cl =
     bnd (ReadFile (cl_FS cl) userdataFile) (\<lambda>r.
     case r of
       Inl e \<Rightarrow> if IsNotExist e then ok None else fail e
     | Inr data \<Rightarrow>
         (case (if is_script data then encodeCloudConfigToMap cl (userdata_config data) else cl_Unmarshal cl data) of
            Inl e \<Rightarrow> fail e | Inr m \<Rightarrow> ok (Some m)))"

definition readers :: "ConfigLibs \<Rightarrow> reader list" where
  "readers cl =
     [readSystemConfig cl, readCmdline (cl_FS cl), readFlagsFile (cl_FS cl), readLocalConfig cl,
      readCloudConfig cl, readUserData cl]"

text \<open>\<open>mergeData\<close> with a map to add; a \<open>nil\<close> map is skipped by \<open>merge\<close> before.\<close>

definition mergeData :: "ConfigLibs \<Rightarrow> cmap \<Rightarrow> cmap \<Rightarrow> err + cmap" where
  "mergeData cl dst src = cl_Merge cl dst src"

fun merge_loop :: "ConfigLibs \<Rightarrow> cmap \<Rightarrow> reader list \<Rightarrow> cmap go" where
  "merge_loop cl data [] = ok data"
| "merge_loop cl data (r # rs) =
     pass r (\<lambda>newData.
     case newData of
       None \<Rightarrow> merge_loop cl data rs
     | Some d \<Rightarrow>
         (case mergeData cl data (normalizeData d) of Inl e \<Rightarrow> fail e | Inr data' \<Rightarrow> merge_loop cl data' rs))"

definition merge_readers :: "ConfigLibs \<Rightarrow> reader list \<Rightarrow> cmap go" where
  "merge_readers cl rs = merge_loop cl [] rs"

text \<open>The decoder of the library gets \<open>matchName\<close> to find the field that a key means, and changes the object it is given.\<close>

definition decodeToObj :: "ConfigLibs \<Rightarrow> cmap \<Rightarrow> CloudConfig \<Rightarrow> err + CloudConfig" where
  "decodeToObj cl data result = (case cl_NewDecoder cl of Inl e \<Rightarrow> Inl e | Inr _ \<Rightarrow> cl_Decode cl matchName data result)"

definition readersToObject :: "ConfigLibs \<Rightarrow> reader list \<Rightarrow> CloudConfig go" where
  "readersToObject cl rs =
     (let result = zero_CloudConfig\<lparr>cc_K3OS := zero_K3OS\<lparr>k3_Install := Some zero_Install\<rparr>\<rparr> in
      pass (merge_readers cl rs) (\<lambda>data. ret (decodeToObj cl data result)))"

definition ReadConfig :: "ConfigLibs \<Rightarrow> CloudConfig go" where
  "ReadConfig cl = bnd (readLocalConfigs cl) (\<lambda>ls. readersToObject cl (readers cl @ ls))"

definition encodeToMap :: "ConfigLibs \<Rightarrow> CloudConfig \<Rightarrow> err + cmap" where
  "encodeToMap cl cfg = (case cl_Marshal cl cfg of Inl e \<Rightarrow> Inl e | Inr raw \<Rightarrow> cl_Unmarshal cl raw)"

definition ToEnv :: "ConfigLibs \<Rightarrow> CloudConfig \<Rightarrow> err + string list" where
  "ToEnv cl cfg = (case encodeToMap cl cfg of Inl e \<Rightarrow> Inl e | Inr data \<Rightarrow> Inr (mapToEnv [] data))"

definition PrintInstall :: "ConfigLibs \<Rightarrow> CloudConfig \<Rightarrow> err + string" where
  "PrintInstall cl cfg =
     (case k3_Install (cc_K3OS cfg) of None \<Rightarrow> Inr [] | Some i \<Rightarrow> cl_MarshalInstall cl i)"

definition ToBytes :: "ConfigLibs \<Rightarrow> CloudConfig \<Rightarrow> err + string" where
  "ToBytes cl cfg = cl_Marshal cl (cfg\<lparr>cc_K3OS := (cc_K3OS cfg)\<lparr>k3_Install := None\<rparr>\<rparr>)"

subsection \<open>Binary user data survives the configuration\<close>

text \<open>C39: Binary user data is written out as it came in: the file entry readUserData makes for a script
  decodes, with the encoding it names, to exactly the bytes of the user data, and its permission
  string parses to 448, octal 700.\<close>

theorem userdata_roundtrip:
  "DecodeContent gunzip (fl_Content (userdata_file data)) (fl_Encoding (userdata_file data)) = Inr data
   \<and> File_Permissions (userdata_file data) = Inr 448"
proof -
  have "ParseInt ''0700'' 8 32 = Some 448"
    by (simp add: string_eval)
  then show ?thesis
    by (simp add: userdata_file_def DecodeContent_def DecodeBase64Content_def decode_encode File_Permissions_def)
qed

subsection \<open>Later readers win\<close>

text \<open>
  What the merge library documents for \<open>Merge(&dst, src, WithOverride)\<close> on nested maps: a non-empty
  string of the source replaces what the destination has there, and a key path the source does not
  reach is left as it is.
\<close>

definition silent :: "cmap \<Rightarrow> string list \<Rightarrow> bool" where
  "silent src ks \<longleftrightarrow> getValue src ks = None
     \<and> (\<forall>ls. strict_prefix ls ks \<longrightarrow> ls \<noteq> [] \<longrightarrow> getValue src ls = None \<or> (\<exists>m. getValue src ls = Some (CMap m)))"

definition merge_overrides :: "(cmap \<Rightarrow> cmap \<Rightarrow> err + cmap) \<Rightarrow> bool" where
  "merge_overrides mg \<longleftrightarrow>
     (\<forall>dst src r ks s. mg dst src = Inr r \<longrightarrow> getValue src ks = Some (CStr s) \<longrightarrow> s \<noteq> [] \<longrightarrow>
        getValue r ks = Some (CStr s))
     \<and> (\<forall>dst src r ks. mg dst src = Inr r \<longrightarrow> silent src ks \<longrightarrow> getValue r ks = getValue dst ks)"

text \<open>What the readers of a list deliver, each on the history the ones before it leave.\<close>

fun reader_results :: "reader list \<Rightarrow> hist \<Rightarrow> cmap option list" where
  "reader_results [] h = []"
| "reader_results (r # rs) h =
     (case fst (r h) of Inl _ \<Rightarrow> None | Inr d \<Rightarrow> d) # reader_results rs (h @ snd (r h))"

definition says_nothing :: "string list \<Rightarrow> cmap option \<Rightarrow> bool" where
  "says_nothing ks d = (case d of None \<Rightarrow> True | Some m \<Rightarrow> silent (normalizeData m) ks)"

lemma merge_loop_silent:
  assumes "merge_overrides (cl_Merge cl)" and "fst (merge_loop cl data rs h) = Inr result"
    and "list_all (says_nothing ks) (reader_results rs h)"
  shows "getValue result ks = getValue data ks"
  using assms(2,3)
proof (induction rs arbitrary: data h)
  case (Cons r rs)
  then obtain d where d: "fst (r h) = Inr d" by (auto split: sum.splits)
  show ?case
  proof (cases d)
    case None
    with Cons d show ?thesis by simp
  next
    case (Some m)
    with Cons.prems d obtain data' where m: "cl_Merge cl data (normalizeData m) = Inr data'"
      and rest: "fst (merge_loop cl data' rs (h @ snd (r h))) = Inr result"
      by (auto simp: mergeData_def split: sum.splits)
    have "silent (normalizeData m) ks" using Cons.prems(2) d Some by (simp add: says_nothing_def)
    then have "getValue data' ks = getValue data ks" using assms(1) m by (simp add: merge_overrides_def)
    with Cons.IH [OF rest] Cons.prems(2) show ?thesis by simp
  qed
qed simp

text \<open>C20: The last source wins: when the merge library overrides as documented and the readers all
  succeed, the value of a key path in the merged configuration is the non-empty string given by
  the last reader that speaks about it, whatever the readers before it say.\<close>

theorem config_precedence:
  assumes "merge_overrides (cl_Merge cl)" and "fst (merge_readers cl (us @ r # ws) h) = Inr result"
    and "reader_results (us @ r # ws) h = xs @ Some d # ys" and "length xs = length us"
    and "getValue (normalizeData d) ks = Some (CStr s)" and "s \<noteq> []"
    and "list_all (says_nothing ks) ys"
  shows "getValue result ks = Some (CStr s)"
proof -
  have "getValue result ks = Some (CStr s)"
    if "fst (merge_loop cl data (us @ r # ws) h) = Inr result"
      and "reader_results (us @ r # ws) h = xs @ Some d # ys" and "length xs = length us" for data
    using that
  proof (induction us arbitrary: data h xs)
    case Nil
    then obtain data' where step: "fst (r h) = Inr (Some d)" "cl_Merge cl data (normalizeData d) = Inr data'"
      and rest: "fst (merge_loop cl data' ws (h @ snd (r h))) = Inr result"
      and later: "reader_results ws (h @ snd (r h)) = ys"
      by (auto simp: mergeData_def split: sum.splits)
    have "getValue data' ks = Some (CStr s)"
      using assms(1,5,6) step(2) by (simp add: merge_overrides_def)
    with merge_loop_silent [OF assms(1) rest] assms(7) later show ?case by simp
  next
    case (Cons u us)
    from Cons.prems(3) obtain x xs' where xs: "xs = x # xs'" by (cases xs) auto
    from Cons.prems(1) obtain data' where
      rest: "fst (merge_loop cl data' (us @ r # ws) (h @ snd (u h))) = Inr result"
      by (auto split: sum.splits option.splits)
    show ?case
      by (rule Cons.IH [OF rest]) (use Cons.prems xs in auto)
  qed
  then show ?thesis using assms(2-4) by (simp add: merge_readers_def)
qed

subsection \<open>A merge that overrides\<close>

text \<open>A deep merge of nested maps that shows the law can hold; used by the witness only.\<close>

fun overlay_val :: "cval option \<Rightarrow> cval \<Rightarrow> cval"
and overlay :: "cmap \<Rightarrow> cmap \<Rightarrow> cmap" where
  "overlay_val old (CMap m) = CMap (overlay (case old of Some (CMap d) \<Rightarrow> d | _ \<Rightarrow> []) m)"
| "overlay_val old (CStr s) = (if s = [] then (case old of Some v \<Rightarrow> v | None \<Rightarrow> CStr []) else CStr s)"
| "overlay_val old (CStrs ss) = CStrs ss"
| "overlay_val old (COther s) = COther s"
| "overlay dst [] = dst"
| "overlay dst ((k, v) # src) = AList.update k (overlay_val (map_of dst k) v) (overlay dst src)"

lemma map_of_overlay:
  "map_of (overlay dst src) k =
     (case map_of src k of None \<Rightarrow> map_of dst k | Some v \<Rightarrow> Some (overlay_val (map_of dst k) v))"
  by (induction src) auto

lemma overlay_override:
  "s \<noteq> [] \<Longrightarrow> getValue src ks = Some (CStr s) \<Longrightarrow> getValue (overlay dst src) ks = Some (CStr s)"
proof (induction ks arbitrary: dst src)
  case (Cons k ks)
  show ?case
  proof (cases "ks = []")
    case True
    with Cons.prems show ?thesis by (simp add: map_of_overlay)
  next
    case False
    with Cons.prems obtain m where "map_of src k = Some (CMap m)" and "getValue m ks = Some (CStr s)"
      by (auto simp: getValue_Cons split: option.splits cval.splits)
    with False Cons show ?thesis by (simp add: getValue_Cons map_of_overlay)
  qed
qed simp

lemma silent_below:
  assumes "silent src (k # ks)" and "ks \<noteq> []" and "map_of src k = Some (CMap m)"
  shows "silent m ks"
  unfolding silent_def
proof (intro conjI allI impI)
  show "getValue m ks = None" using assms by (simp add: silent_def getValue_Cons)
next
  fix ls :: "string list" assume "strict_prefix ls ks" and "ls \<noteq> []"
  then have "strict_prefix (k # ls) (k # ks)" by (simp add: strict_prefix_def)
  with assms(1) have "getValue src (k # ls) = None \<or> (\<exists>m. getValue src (k # ls) = Some (CMap m))"
    unfolding silent_def by blast
  then show "getValue m ls = None \<or> (\<exists>m'. getValue m ls = Some (CMap m'))"
    using assms(3) \<open>ls \<noteq> []\<close> by (simp add: getValue_Cons)
qed

lemma overlay_silent: "silent src ks \<Longrightarrow> getValue (overlay dst src) ks = getValue dst ks"
proof (induction ks arbitrary: dst src)
  case (Cons k ks)
  show ?case
  proof (cases "ks = []")
    case True
    with Cons.prems show ?thesis by (simp add: map_of_overlay silent_def)
  next
    case False
    then have "strict_prefix [k] (k # ks)" by (simp add: strict_prefix_def)
    with Cons.prems have "map_of src k = None \<or> (\<exists>m. map_of src k = Some (CMap m))"
      by (metis getValue.simps(2) list.discI silent_def)
    then show ?thesis
    proof
      assume "\<exists>m. map_of src k = Some (CMap m)"
      then obtain m where m: "map_of src k = Some (CMap m)" by blast
      from Cons.IH [OF silent_below [OF Cons.prems False m], of "submap dst k"] m False
      show ?thesis
        by (simp add: getValue_Cons map_of_overlay get_submap submap_def split: option.split cval.split)
    qed (simp add: False getValue_Cons map_of_overlay)
  qed
qed simp

lemma overlay_overrides: "merge_overrides (\<lambda>dst src. Inr (overlay dst src))"
  by (simp add: merge_overrides_def overlay_override overlay_silent)

definition libs_overlay :: ConfigLibs where
  "libs_overlay = \<lparr>cl_FS = fs_ok, cl_Unmarshal = (\<lambda>_. Inr []),
     cl_Marshal = (\<lambda>_. Inr []), cl_MarshalInstall = (\<lambda>_. Inr []),
     cl_Merge = (\<lambda>dst src. Inr (overlay dst src)), cl_NewDecoder = Inr (), cl_Decode = (\<lambda>_ _ c. Inr c)\<rparr>"

theorem config_precedence_witness:
  "getValue (overlay (overlay [] [(''hostname'', CStr ''a''), (''k3os'', CMap [(''token'', CStr ''t'')])])
      [(''hostname'', CStr ''b'')]) [''hostname''] = Some (CStr ''b'')"
proof (rule config_precedence)
  let ?sys = "[(''hostname'', CStr ''a''), (''k3os'', CMap [(''token'', CStr ''t'')])]"
  let ?loc = "[(''hostname'', CStr ''b'')]"
  have norm: "normalizeData ?sys = ?sys" "normalizeData ?loc = ?loc" by code_simp+
  show "merge_overrides (cl_Merge libs_overlay)"
    by (simp add: libs_overlay_def overlay_overrides)
  show "fst (merge_readers libs_overlay ([ok (Some ?sys)] @ ok (Some ?loc) # [ok None]) []) =
      Inr (overlay (overlay [] ?sys) ?loc)"
    by (simp add: merge_readers_def mergeData_def libs_overlay_def norm del: overlay.simps)
  show "reader_results ([ok (Some ?sys)] @ ok (Some ?loc) # [ok None]) [] = [Some ?sys] @ Some ?loc # [None]"
    by simp
  show "getValue (normalizeData ?loc) [''hostname''] = Some (CStr ''b'')" by (simp add: norm)
qed (simp_all add: says_nothing_def)

end
