(* ===== verification/Go_Lines.thy ===== *)
theory Go_Lines
  imports Go_Path
begin

section \<open>Lines and white space: lemmas on ScanLines, TrimSpace and Fields\<close>

text \<open>
  What the components that rewrite line-oriented files share: text built from lines is scanned back
  into these lines, and trimming a trimmed string changes nothing.
\<close>

subsection \<open>Lines\<close>

definition unlines :: "string list \<Rightarrow> string" where
  "unlines ls = concat (map (\<lambda>l. l @ [newline]) ls)"

lemma unlines_simps [simp]:
  "unlines [] = []" "unlines (l # ls) = l @ newline # unlines ls" "unlines (ls @ ms) = unlines ls @ unlines ms"
  by (simp_all add: unlines_def)

lemma Split_unlines: "(\<And>l. l \<in> set ls \<Longrightarrow> newline \<notin> set l) \<Longrightarrow> Split newline (unlines ls) = ls @ [[]]"
  by (induction ls) (simp_all add: Split_append_sep)

lemma ScanLines_unlines:
  "(\<And>l. l \<in> set ls \<Longrightarrow> newline \<notin> set l) \<Longrightarrow> ScanLines (unlines ls) = map drop_cr ls"
  by (simp add: ScanLines_def Split_unlines)

lemma drop_cr_id: "last l \<noteq> CHR 0x0D \<Longrightarrow> drop_cr l = l"
  by (simp add: drop_cr_def)

lemma ScanLines_no_newline: "l \<in> set (ScanLines s) \<Longrightarrow> newline \<notin> set l"
proof -
  have "newline \<notin> set (drop_cr m)" if "newline \<notin> set m" for m
    using that by (auto simp: drop_cr_def dest: in_set_butlastD)
  moreover assume "l \<in> set (ScanLines s)"
  then obtain m where "m \<in> set (Split newline s)" "l = drop_cr m"
    by (auto simp: ScanLines_def Let_def dest: in_set_butlastD split: if_splits)
  ultimately show "newline \<notin> set l" using Split_no_sep_in by blast
qed

subsection \<open>Trimming\<close>

text \<open>A trimmed string neither begins nor ends with white space.\<close>

definition trimmed :: "string \<Rightarrow> bool" where
  "trimmed s \<longleftrightarrow> s = [] \<or> (\<not> is_space (hd s) \<and> \<not> is_space (last s))"

lemma TrimSpace_trimmed: "trimmed s \<Longrightarrow> TrimSpace s = s"
proof (cases s rule: rev_cases)
  case (snoc t c)
  moreover assume "trimmed s"
  ultimately have "dropWhile is_space s = s" and "dropWhile is_space (rev s) = rev s"
    by (cases t; simp add: trimmed_def)+
  then show "TrimSpace s = s" by (simp add: TrimSpace_def TrimFunc_def TrimLeftFunc_def TrimRightFunc_def)
qed (simp add: TrimSpace_def TrimFunc_def TrimLeftFunc_def TrimRightFunc_def)

lemma trimmed_TrimSpace [simp]: "trimmed (TrimSpace s)"
proof -
  define t where "t = dropWhile is_space s"
  have eq: "TrimSpace s = rev (dropWhile is_space (rev t))"
    by (simp add: TrimSpace_def TrimFunc_def TrimLeftFunc_def TrimRightFunc_def t_def)
  have hd: "t \<noteq> [] \<Longrightarrow> \<not> is_space (hd t)" using hd_dropWhile [of is_space s] by (simp add: t_def)
  show ?thesis
  proof (cases "dropWhile is_space (rev t) = []")
    case False
    then have "\<not> is_space (hd (dropWhile is_space (rev t)))" by (rule hd_dropWhile)
    moreover have "hd (rev (dropWhile is_space (rev t))) = hd t"
      using False takeWhile_dropWhile_id [of is_space "rev t"]
      by (metis hd_append2 rev_append rev_is_Nil_conv rev_rev_ident)
    moreover have "t \<noteq> []" using False by auto
    ultimately show ?thesis using hd False by (simp add: eq trimmed_def hd_rev last_rev)
  qed (simp add: eq trimmed_def)
qed

lemma TrimSpace_idem [simp]: "TrimSpace (TrimSpace s) = TrimSpace s"
  by (simp add: TrimSpace_trimmed)

lemma TrimSpace_subset: "set (TrimSpace s) \<subseteq> set s"
  by (auto simp: TrimSpace_def TrimFunc_def TrimLeftFunc_def TrimRightFunc_def dest!: set_dropWhileD)

lemma drop_cr_trimmed: "trimmed l \<Longrightarrow> drop_cr l = l"
  by (auto simp: trimmed_def drop_cr_def is_space_def)

subsection \<open>Fields\<close>

lemma fields_word:
  "(\<And>c. c \<in> set w \<Longrightarrow> \<not> P c) \<Longrightarrow> P d \<Longrightarrow> w \<noteq> [] \<or> cur \<noteq> [] \<Longrightarrow>
     fields_state (\<lambda>_ c. ((), P c)) () cur (w @ d # s) = (rev cur @ w) # fields_state (\<lambda>_ c. ((), P c)) () [] s"
  by (induction w arbitrary: cur) auto

lemma Fields_word:
  "w \<noteq> [] \<Longrightarrow> (\<And>c. c \<in> set w \<Longrightarrow> \<not> is_space c) \<Longrightarrow> is_space d \<Longrightarrow> Fields (w @ d # s) = w # Fields s"
  using fields_word [of w is_space d "[]" s] by (simp add: Fields_def FieldsFunc_def)

end
