(* ===== verification/Cc_Files.thy ===== *)
theory Cc_Files
  imports File_Store Config_Read Go_Lines
begin

section \<open>Files the cloud-config writes: internal/shadow, writefile, ssh, hostname\<close>

text \<open>
  Password hashes, user-defined files, SSH keys and the hostname files. Hashing a password is a
  library call, URL parsing and HTTP are calls of the environment: the parameters \<open>hasher\<close> and the
  fields of \<open>Net\<close>. A temporary file is named by what \<open>CreateTemp\<close> returns.
\<close>

subsection \<open>shadow/shadow.go\<close>

definition shadowPath :: string where
  "shadowPath = ''/etc/shadow''"

text \<open>The line with its hash replaced, when it is the user's line.\<close>

definition shadow_line :: "string \<Rightarrow> string \<Rightarrow> string \<Rightarrow> string option" where
  "shadow_line username hash line =
     (case SplitN CHR '':'' 3 line of
        [user, _] \<Rightarrow> if user = username then Some (user @ '':'' @ hash) else None
      | [user, _, rest] \<Rightarrow> if user = username then Some (user @ '':'' @ hash @ '':'' @ rest) else None
      | _ \<Rightarrow> None)"

fun shadow_lines :: "string \<Rightarrow> string \<Rightarrow> string list \<Rightarrow> string list option" where
  "shadow_lines username hash [] = None"
| "shadow_lines username hash (line # ls) =
     (case shadow_line username hash line of
        Some line' \<Rightarrow> Some (line' # ls)
      | None \<Rightarrow> map_option ((#) line) (shadow_lines username hash ls))"

text \<open>Lines 75 to 101: the temporary file is removed on every error.\<close>

definition shadow_undo :: "FileSystem \<Rightarrow> string \<Rightarrow> string \<Rightarrow> unit go \<Rightarrow> unit go \<Rightarrow> unit go" where
  "shadow_undo fs tmpName ctx m k =
     bnd m (\<lambda>r. case r of
       Inl e \<Rightarrow> ignore (Remove fs tmpName) (fail (Wrap ctx e))
     | Inr _ \<Rightarrow> k)"

definition shadow_write :: "FileSystem \<Rightarrow> string \<Rightarrow> string \<Rightarrow> unit go" where
  "shadow_write fs target output =
     check ''creating temp file'' (CreateTemp fs (Dir target) ''shadow.*'') (\<lambda>tmpName.
     bnd (FileWrite fs tmpName output) (\<lambda>r. case r of
       Inl e \<Rightarrow> ignore (FileClose fs tmpName) (ignore (Remove fs tmpName)
                 (fail (Wrap ''writing temp shadow file'' e)))
     | Inr _ \<Rightarrow>
       shadow_undo fs tmpName ''closing temp shadow file'' (FileClose fs tmpName)
       (shadow_undo fs tmpName ''setting permissions on temp shadow file'' (Chmod fs tmpName mode_640)
       (shadow_undo fs tmpName ''renaming temp file'' (Rename fs tmpName target)
       (ok ())))))"

definition SetPassword ::
    "(hist \<Rightarrow> string \<Rightarrow> err + string) \<Rightarrow> FileSystem \<Rightarrow> string \<Rightarrow> string \<Rightarrow> unit go" where
  "SetPassword hasher fs username password =
     (if password = [] then ok ()
      else
        check ''hashing password''
          (if HasPrefix password ''$'' then ok password
           else perform (CSys ''HashPassword'' [] []) (\<lambda>h. hasher h password)) (\<lambda>hash.
        check ''reading /etc/shadow'' (ReadFile fs shadowPath) (\<lambda>data.
        case shadow_lines username hash (Split newline data) of
          None \<Rightarrow> fail (Msg ''user not found in /etc/shadow'')
        | Some lines \<Rightarrow> shadow_write fs shadowPath (Join [newline] lines))))"

subsection \<open>writefile/writefile.go\<close>

definition ensureDirectoryExists :: "FileSystem \<Rightarrow> string \<Rightarrow> unit go" where
  "ensureDirectoryExists fs dir =
     bnd (Stat fs dir) (\<lambda>r. case r of
       Inr info \<Rightarrow> if fi_IsDir info then ok () else fail (Msg ''is not a directory'')
     | Inl _ \<Rightarrow> pass (MkdirAll fs dir mode_755) (\<lambda>_. ok ()))"

text \<open>Lines 51 to 74 of \<open>WriteFile\<close>.\<close>

definition replace_file ::
    "CommandRunner \<Rightarrow> string \<Rightarrow> 32 word \<Rightarrow> FileSystem \<Rightarrow> string \<Rightarrow> string \<Rightarrow> string go" where
  "replace_file cmd owner perm fs p content =
     pass (CreateTemp fs (Dir p) ''wfs-temp'') (\<lambda>tmp.
     bnd (FileWrite fs tmp content) (\<lambda>r. case r of
       Inl e \<Rightarrow> ignore (FileClose fs tmp) (fail e)
     | Inr _ \<Rightarrow>
       pass (FileClose fs tmp) (\<lambda>_.
       pass (Chmod fs tmp (unat perm)) (\<lambda>_.
       pass (if owner \<noteq> [] then Run cmd ''chown'' [owner, tmp] else ok ()) (\<lambda>_.
       pass (Rename fs tmp p) (\<lambda>_.
       ok p))))))"

definition writefile_WriteFile :: "FileSystem \<Rightarrow> CommandRunner \<Rightarrow> File \<Rightarrow> string \<Rightarrow> string go" where
  "writefile_WriteFile fs cmd f root =
     (if fl_Encoding f \<noteq> [] then fail (Msg ''unable to write file with encoding'')
      else
        let p = PathJoin [root, fl_Path f]; d = Dir p in
        pass (ensureDirectoryExists fs d) (\<lambda>_.
        case File_Permissions f of
          Inl e \<Rightarrow> fail e
        | Inr perm \<Rightarrow> replace_file cmd (fl_Owner f) perm fs p (fl_Content f)))"

definition WriteFiles ::
    "(string \<Rightarrow> err + string) \<Rightarrow> FileSystem \<Rightarrow> CommandRunner \<Rightarrow> CloudConfig \<Rightarrow> unit io" where
  "WriteFiles gunzip fs cmd cfg =
     foreach (cc_WriteFiles cfg) (\<lambda>f.
       case DecodeContent gunzip (fl_Content f) (fl_Encoding f) of
         Inl _ \<Rightarrow> ret ()
       | Inr c \<Rightarrow> ignore (writefile_WriteFile fs cmd (f\<lparr>fl_Content := c, fl_Encoding := []\<rparr>) ''/'') (ret ()))"

subsection \<open>ssh/ssh.go\<close>

record HttpResponse =
  hr_StatusCode :: nat
  hr_Body :: "err + string"

text \<open>
  \<open>nt_Parse\<close> is \<open>url.Parse\<close>, of which the code uses the scheme and the opaque part (\<open>None\<close> on an error);
  \<open>nt_Get\<close> is \<open>http.Get\<close> followed by reading the body.
\<close>

record Net =
  nt_Parse :: "string \<Rightarrow> (string \<times> string) option"
  nt_Get :: "hist \<Rightarrow> string \<Rightarrow> err + HttpResponse"

fun Error :: "err \<Rightarrow> string" where
  "Error (OsErr _ s) = s"
| "Error (Msg s) = s"
| "Error (Wrap c e) = c @ '': '' @ Error e"
| "Error (JoinErr es) = Join [newline] (map Error es)"
| "Error _ = []"

definition provider_url :: "string \<Rightarrow> string \<Rightarrow> string option" where
  "provider_url scheme opaque =
     (if scheme = ''github'' then Some (''https://github.com/'' @ opaque @ ''.keys'')
      else if scheme = ''gitlab'' then Some (''https://gitlab.com/'' @ opaque @ ''.keys'')
      else if scheme = ''custom'' then Some opaque
      else None)"

text \<open>The retry loop, with the number of further attempts.\<close>

fun http_loop :: "Net \<Rightarrow> string \<Rightarrow> nat \<Rightarrow> HttpResponse go" where
  "http_loop net url n =
     bnd (perform (CSys ''http.Get'' [url] []) (\<lambda>h. nt_Get net h url)) (\<lambda>r. case r of
       Inr resp \<Rightarrow> ok resp
     | Inl e \<Rightarrow>
         if Contains (Error e) ''unsupported protocol scheme'' then fail e
         else ignore (Sleep 1000000000) (case n of 0 \<Rightarrow> fail e | Suc k \<Rightarrow> http_loop net url k))"

definition getKey :: "Net \<Rightarrow> string \<Rightarrow> bool \<Rightarrow> string go" where
  "getKey net key withNet =
     (case nt_Parse net key of
        None \<Rightarrow> ok key
      | Some (scheme, opaque) \<Rightarrow>
          if scheme = [] then ok key
          else if \<not> withNet then ok []
          else
            pass (http_loop net (case provider_url scheme opaque of Some u \<Rightarrow> u | None \<Rightarrow> key) 9) (\<lambda>resp.
            if 2 < hr_StatusCode resp div 100 then fail (Msg ''HTTP status'')
            else case hr_Body resp of Inl e \<Rightarrow> fail e | Inr b \<Rightarrow> ok b))"

text \<open>The deferred removal of the temporary file is the last call of every path.\<close>

definition writeFileAtomic :: "nat \<Rightarrow> FileSystem \<Rightarrow> string \<Rightarrow> string \<Rightarrow> unit go" where
  "writeFileAtomic perm fs filename data =
     (let (dir, file) = PathSplit filename in
      pass (CreateTemp fs dir (''.'' @ file)) (\<lambda>tempFile.
      bnd (bnd (FileWrite fs tempFile data) (\<lambda>r. case r of
             Inl e \<Rightarrow> ignore (FileClose fs tempFile) (fail e)
           | Inr _ \<Rightarrow>
             pass (FileClose fs tempFile) (\<lambda>_.
             pass (Chmod fs tempFile perm) (\<lambda>_.
             Rename fs tempFile filename))))
      (\<lambda>r. ignore (Remove fs tempFile) (ret r))))"

definition create_key_file :: "FileSystem \<Rightarrow> string \<Rightarrow> FileInfo go" where
  "create_key_file fs file =
     bnd (Stat fs file) (\<lambda>r. case r of
       Inr info \<Rightarrow> ok info
     | Inl e \<Rightarrow>
         if IsNotExist e then
           pass (Create fs file) (\<lambda>f.
           bnd (Chmod fs file mode_600) (\<lambda>r. case r of
             Inl e \<Rightarrow> ignore (FileClose fs f) (fail e)
           | Inr _ \<Rightarrow>
               pass (FileClose fs f) (\<lambda>_.
               Stat fs file)))
         else fail e)"

definition authorized_content :: "string \<Rightarrow> string \<Rightarrow> string" where
  "authorized_content bytes key = (if Contains bytes key then bytes else bytes @ key @ [newline])"

definition authorizeSSHKey ::
    "Net \<Rightarrow> FileSystem \<Rightarrow> string \<Rightarrow> string \<Rightarrow> int \<Rightarrow> int \<Rightarrow> bool \<Rightarrow> unit go" where
  "authorizeSSHKey net fs key0 file uid gid withNet =
     pass (getKey net key0 withNet) (\<lambda>key.
     if key = [] then ok ()
     else
       pass (create_key_file fs file) (\<lambda>info.
       pass (ReadFile fs file) (\<lambda>bytes.
       pass (writeFileAtomic (fi_Perm info) fs file (authorized_content bytes key)) (\<lambda>_.
       Chown fs file uid gid))))"

text \<open>The loop of \<open>findUserHomeDir\<close>: the named results start at zero and an empty string.\<close>

fun find_home :: "string \<Rightarrow> int \<times> int \<times> string \<Rightarrow> string list \<Rightarrow> err + int \<times> int \<times> string" where
  "find_home username found [] = Inr found"
| "find_home username found (line # ls) =
     (if HasPrefix line username then
        let split = Split CHR '':'' line in
        if length split < 6 then Inr found
        else case (Atoi (split ! 2), Atoi (split ! 3)) of
               (Some uid, Some gid) \<Rightarrow> find_home username (uid, gid, split ! 5) ls
             | _ \<Rightarrow> Inl (Msg ''invalid syntax'')
      else find_home username found ls)"

definition findUserHomeDir :: "string \<Rightarrow> string \<Rightarrow> err + int \<times> int \<times> string" where
  "findUserHomeDir bytes username = find_home username (0, 0, []) (Split newline bytes)"

definition SetAuthorizedKeys :: "Net \<Rightarrow> CloudConfig \<Rightarrow> bool \<Rightarrow> FileSystem \<Rightarrow> unit go" where
  "SetAuthorizedKeys net cfg withNet fs =
     pass (ReadFile fs ''/etc/passwd'') (\<lambda>bytes.
     case findUserHomeDir bytes ''rancher'' of
       Inl e \<Rightarrow> fail e
     | Inr (uid, gid, homeDir) \<Rightarrow>
         let userSSHDir = PathJoin [homeDir, ''.ssh''] in
         pass (bnd (Stat fs userSSHDir) (\<lambda>r. case r of
                 Inl e \<Rightarrow> if IsNotExist e then MkdirAll fs userSSHDir mode_700 else fail e
               | Inr _ \<Rightarrow> ok ())) (\<lambda>_.
         pass (Chown fs userSSHDir uid gid) (\<lambda>_.
         let userAuthorizedFile = PathJoin [userSSHDir, ''authorized_keys''] in
         ignore (foreach (cc_SSHAuthorizedKeys cfg)
                  (\<lambda>key. ignore (authorizeSSHKey net fs key userAuthorizedFile uid gid withNet) (ret ())))
         (ok ()))))"

subsection \<open>hostname/hostname.go\<close>

definition persistedHostnamePath :: string where
  "persistedHostnamePath = ''/var/lib/rancher/k3os/hostname''"

definition readPersistedHostname :: "FileSystem \<Rightarrow> string io" where
  "readPersistedHostname fs =
     bnd (ReadFile fs persistedHostnamePath) (\<lambda>r. case r of Inl _ \<Rightarrow> ret [] | Inr data \<Rightarrow> ret (TrimSpace data))"

text \<open>Line 61 to 70: the new contents of \<open>/etc/hosts\<close>.\<close>

definition hosts_line :: "string \<Rightarrow> string \<Rightarrow> string" where
  "hosts_line hostname text =
     (let line = TrimSpace text; fields = Fields line in
      if fields \<noteq> [] \<and> hd fields = ''127.0.1.1'' then ''127.0.1.1 '' @ hostname @ [newline]
      else line @ [newline])"

definition synced_hosts :: "string \<Rightarrow> string \<Rightarrow> string" where
  "synced_hosts hostname hosts = concat (map (hosts_line hostname) (ScanLines hosts))"

text \<open>The value of \<open>Open\<close> stands here for the text that reading the opened file gives.\<close>

definition syncHostname :: "FileSystem \<Rightarrow> unit go" where
  "syncHostname fs =
     pass (Hostname fs) (\<lambda>hostname.
     if hostname = [] then ok ()
     else
       pass (WriteFile fs ''/etc/hostname'' (hostname @ [newline]) mode_644) (\<lambda>_.
       pass (Open fs ''/etc/hosts'') (\<lambda>hosts.
       bnd (WriteFile fs ''/etc/hosts'' (synced_hosts hostname hosts) mode_600) (\<lambda>r.
       ignore (FileClose fs ''/etc/hosts'') (ret r)))))"

definition hostname_SetHostname :: "CloudConfig \<Rightarrow> (hist \<Rightarrow> string \<Rightarrow> err + unit) \<Rightarrow> FileSystem \<Rightarrow> unit go" where
  "hostname_SetHostname c hs fs =
     bnd (if cc_Hostname c = [] then readPersistedHostname fs else ret (cc_Hostname c)) (\<lambda>hostname.
     if hostname = [] then ok ()
     else
       pass (perform (CSetHostname hostname) (\<lambda>h. hs h hostname)) (\<lambda>_.
       syncHostname fs))"

subsection \<open>The three writers replace a file atomically\<close>

lemmas step_calls = CreateTemp_def FileWrite_def FileClose_def Chmod_def Rename_def Remove_def Run_def

lemma fresh_tempD:
  "fresh_temps fs store target \<Longrightarrow> fs_CreateTemp fs h d pat = Inr t \<Longrightarrow> replay store h t = None"
  "fresh_temps fs store target \<Longrightarrow> fs_CreateTemp fs h d pat = Inr t \<Longrightarrow> t \<noteq> target"
  by (simp_all add: fresh_temps_def)

interpretation shadow: atomic_writer shadow_write
proof
  fix fs store target data h
  assume fresh: "fresh_temps fs store target"
  show "old_or_new store target {data} h (snd (shadow_write fs target data h))"
    using fresh_tempD [OF fresh]
    by (auto simp: shadow_write_def shadow_undo_def step_calls old_or_new_Cons old_or_new_rename_then
        split: sum.splits)
next
  fix fs store target data h v
  assume fresh: "fresh_temps fs store target" and "fst (shadow_write fs target data h) = Inr v"
  then show "replay store (h @ snd (shadow_write fs target data h)) target = Some data"
    using fresh_tempD [OF fresh]
    by (auto simp: shadow_write_def shadow_undo_def step_calls split: sum.splits)
qed

interpretation wfile: atomic_writer "replace_file cmd owner perm" for cmd owner perm
proof
  fix fs store target data h
  assume fresh: "fresh_temps fs store target"
  show "old_or_new store target {data} h (snd (replace_file cmd owner perm fs target data h))"
    using fresh_tempD [OF fresh]
    by (auto simp: replace_file_def step_calls old_or_new_Cons old_or_new_rename_then split: sum.splits)
next
  fix fs store target data h v
  assume fresh: "fresh_temps fs store target" and run: "fst (replace_file cmd owner perm fs target data h) = Inr v"
  then obtain t where t: "fs_CreateTemp fs h (Dir target) ''wfs-temp'' = Inr t"
    by (auto simp: replace_file_def step_calls pass_Inr simp del: fst_pass)
  show "replay store (h @ snd (replace_file cmd owner perm fs target data h)) target = Some data"
    using run fresh_tempD [OF fresh t]
    by (cases "owner = []")
       (auto simp: replace_file_def step_calls t pass_Inr simp del: fst_pass split: sum.splits)
qed

interpretation ssh: atomic_writer "writeFileAtomic perm" for perm
proof
  fix fs store target data h
  assume fresh: "fresh_temps fs store target"
  show "old_or_new store target {data} h (snd (writeFileAtomic perm fs target data h))"
    using fresh_tempD [OF fresh]
    by (auto simp: writeFileAtomic_def case_prod_beta Let_def step_calls old_or_new_Cons old_or_new_rename_then split: sum.splits)
next
  fix fs store target data h v
  assume fresh: "fresh_temps fs store target" and "fst (writeFileAtomic perm fs target data h) = Inr v"
  then show "replay store (h @ snd (writeFileAtomic perm fs target data h)) target = Some data"
    using fresh_tempD [OF fresh]
    by (auto simp: writeFileAtomic_def case_prod_beta Let_def step_calls effect_spares split: sum.splits)
qed

subsection \<open>Password lines\<close>

lemma SplitN_no_sep: "d \<notin> set s \<Longrightarrow> SplitN d (Suc n) s = [s]"
proof -
  assume "d \<notin> set s"
  then have "dropWhile (\<lambda>c. c \<noteq> d) s = []" by (auto simp: dropWhile_eq_Nil_conv)
  then show ?thesis by (cases n) (simp_all del: dropWhile_eq_Nil_conv)
qed

lemma SplitN_append_sep: "d \<notin> set a \<Longrightarrow> SplitN d (Suc (Suc n)) (a @ d # s) = a # SplitN d (Suc n) s"
proof -
  assume "d \<notin> set a"
  then have "dropWhile (\<lambda>c. c \<noteq> d) (a @ d # s) = d # s" "takeWhile (\<lambda>c. c \<noteq> d) (a @ d # s) = a"
    by (induction a) auto
  then show ?thesis by simp
qed

text \<open>The line of a user is replaced by one that differs in the second field only.\<close>

lemma shadow_line_fields:
  assumes "shadow_line username hash line = Some line'" and "CHR '':'' \<notin> set hash"
  shows "\<exists>old rest. Split CHR '':'' line = username # old # rest \<and> Split CHR '':'' line' = username # hash # rest"
proof (cases "CHR '':'' \<in> set line")
  case False
  then show ?thesis using assms(1) by (simp add: shadow_line_def numeral_3_eq_3 SplitN_no_sep del: SplitN.simps)
next
  case True
  then obtain a r where line: "line = a @ CHR '':'' # r" and a: "CHR '':'' \<notin> set a"
    by (meson split_list_first)
  show ?thesis
  proof (cases "CHR '':'' \<in> set r")
    case False
    then show ?thesis
      using assms a line
      by (auto simp: shadow_line_def numeral_3_eq_3 SplitN_no_sep SplitN_append_sep Split_append_sep Split_no_sep
          simp del: SplitN.simps(3) split: if_splits)
  next
    case True
    then obtain b c where r: "r = b @ CHR '':'' # c" and b: "CHR '':'' \<notin> set b"
      by (meson split_list_first)
    then show ?thesis
      using assms a line
      by (auto simp: shadow_line_def numeral_3_eq_3 SplitN_no_sep SplitN_append_sep Split_append_sep Split_no_sep
          simp del: SplitN.simps(3) split: if_splits)
  qed
qed

text \<open>\<open>rehashed username hash ls ls'\<close>: the first entry of the user has got the hash, nothing else changed.\<close>

definition rehashed :: "string \<Rightarrow> string \<Rightarrow> string list \<Rightarrow> string list \<Rightarrow> bool" where
  "rehashed username hash ls ls' \<longleftrightarrow>
     (\<exists>us line line' vs old rest. ls = us @ line # vs \<and> ls' = us @ line' # vs \<and>
        Split CHR '':'' line = username # old # rest \<and> Split CHR '':'' line' = username # hash # rest)"

lemma shadow_lines_rehashed:
  assumes "shadow_lines username hash ls = Some ls'" and "CHR '':'' \<notin> set hash"
  shows "rehashed username hash ls ls'"
  using assms(1)
proof (induction ls arbitrary: ls')
  case (Cons line ls)
  show ?case
  proof (cases "shadow_line username hash line")
    case None
    then obtain ms where "shadow_lines username hash ls = Some ms" "ls' = line # ms" using Cons.prems by auto
    then show ?thesis using Cons.IH [of ms] unfolding rehashed_def by (metis append_Cons)
  next
    case (Some line')
    then have "ls' = line' # ls" using Cons.prems by simp
    then show ?thesis
      using shadow_line_fields [OF Some assms(2)] unfolding rehashed_def by (metis append_Nil)
  qed
qed simp

text \<open>What may replace the contents \<open>old\<close> of the password file.\<close>

definition new_shadow :: "string \<Rightarrow> string \<Rightarrow> string option \<Rightarrow> string set" where
  "new_shadow username password old =
     {Join [newline] ls' | ls' data hash. old = Some data \<and> rehashed username hash (Split newline data) ls' \<and>
        (HasPrefix password ''$'' \<longrightarrow> hash = password)}"

definition hash_step :: "(hist \<Rightarrow> string \<Rightarrow> err + string) \<Rightarrow> string \<Rightarrow> string go" where
  "hash_step hasher password =
     (if HasPrefix password ''$'' then ok password
      else perform (CSys ''HashPassword'' [] []) (\<lambda>h. hasher h password))"

text \<open>A crypt hash is made of letters, digits and the characters \<open>./$=,\<close>: it has no colon.\<close>

definition colon_free :: "(hist \<Rightarrow> string \<Rightarrow> err + string) \<Rightarrow> bool" where
  "colon_free hasher \<longleftrightarrow> (\<forall>h p r. hasher h p = Inr r \<longrightarrow> CHR '':'' \<notin> set r)"

lemma hash_step_spares: "emits (spares p) (hash_step hasher password)"
  by (auto simp: hash_step_def intro!: emits_intros)

lemma hash_step_colon:
  assumes "colon_free hasher" and "CHR '':'' \<notin> set password"
    and "fst (hash_step hasher password h) = Inr hash"
  shows "CHR '':'' \<notin> set hash" and "HasPrefix password ''$'' \<Longrightarrow> hash = password"
  using assms by (auto simp: hash_step_def colon_free_def split: if_splits)

lemma SetPassword_unfold:
  "password \<noteq> [] \<Longrightarrow> SetPassword hasher fs username password =
     check ''hashing password'' (hash_step hasher password) (\<lambda>hash.
     check ''reading /etc/shadow'' (ReadFile fs shadowPath) (\<lambda>data.
     case shadow_lines username hash (Split newline data) of
       None \<Rightarrow> fail (Msg ''user not found in /etc/shadow'')
     | Some lines \<Rightarrow> shadow_write fs shadowPath (Join [newline] lines)))"
  by (simp add: SetPassword_def hash_step_def)

text \<open>Either the file is not touched, or the lines just read are written back with one changed.\<close>

lemma SetPassword_cases:
  fixes h :: hist and username password :: string and fs :: FileSystem and hasher :: "hist \<Rightarrow> string \<Rightarrow> err + string"
  defines "run \<equiv> SetPassword hasher fs username password h"
  obtains (same) "list_all (spares shadowPath) (snd run)" "password = [] \<or> isl (fst run)"
  | (wrote) hash h1 h2 data lines where "fst (hash_step hasher password h) = Inr hash"
      "h1 = h @ snd (hash_step hasher password h)" "fs_ReadFile fs h1 shadowPath = Inr data"
      "shadow_lines username hash (Split newline data) = Some lines" "h2 = h1 @ [(CReadFile shadowPath, True)]"
      "h @ snd run = h2 @ snd (shadow_write fs shadowPath (Join [newline] lines) h2)"
      "fst run = fst (shadow_write fs shadowPath (Join [newline] lines) h2)"
proof (cases "password = []")
  case True
  then show thesis using that(1) by (simp add: run_def SetPassword_def)
next
  case False
  note run = run_def [unfolded SetPassword_unfold [OF False]]
  let ?h1 = "h @ snd (hash_step hasher password h)"
  have quiet: "list_all (spares shadowPath) (snd (hash_step hasher password h))"
    using hash_step_spares by (simp add: emits_def)
  show thesis
  proof (cases "fst (hash_step hasher password h)")
    case (Inl e)
    then show thesis using that(1) quiet by (simp add: run)
  next
    case (Inr hash)
    note hash = this
    show thesis
    proof (cases "fs_ReadFile fs ?h1 shadowPath")
      case (Inl e)
      then show thesis using that(1) quiet by (simp add: run hash ReadFile_def)
    next
      case (Inr data)
      then show thesis
        using that(1) that(2) [OF hash refl Inr _ refl] quiet
        by (cases "shadow_lines username hash (Split newline data)") (simp_all add: run hash ReadFile_def)
    qed
  qed
qed

lemma SetPassword_trace:
  fixes h :: hist and username :: string
  assumes "coherent fs store" and "fresh_temps fs store shadowPath"
    and "colon_free hasher" and "CHR '':'' \<notin> set password"
  defines "old \<equiv> replay store h shadowPath" and "run \<equiv> SetPassword hasher fs username password h"
  shows "old_or_new store shadowPath (new_shadow username password old) h (snd run) \<and>
     (fst run = Inr () \<longrightarrow> password \<noteq> [] \<longrightarrow>
       (\<exists>c \<in> new_shadow username password old. replay store (h @ snd run) shadowPath = Some c))"
proof (cases rule: SetPassword_cases [of hasher fs username password h])
  case same
  then show ?thesis using old_or_new_spares by (auto simp: run_def)
next
  case (wrote hash h1 h2 data lines)
  have quiet: "list_all (spares shadowPath) (snd (hash_step hasher password h))"
    using hash_step_spares by (simp add: emits_def)
  have old: "old = Some data"
    using coherentD [OF assms(1) wrote(3)] wrote(2) quiet by (simp add: old_def replay_spares)
  have new: "Join [newline] lines \<in> new_shadow username password old"
    using shadow_lines_rehashed [OF wrote(4)] hash_step_colon [OF assms(3,4) wrote(1)]
    by (auto simp: new_shadow_def old)
  have tr: "snd run = snd (hash_step hasher password h) @ (CReadFile shadowPath, True) #
      snd (shadow_write fs shadowPath (Join [newline] lines) h2)"
    using wrote(2,5,6) by (simp add: run_def)
  have "old_or_new store shadowPath (new_shadow username password old) h2
      (snd (shadow_write fs shadowPath (Join [newline] lines) h2))"
    using shadow.atomic [OF assms(2)] new by (auto intro: old_or_new_mono)
  then have "old_or_new store shadowPath (new_shadow username password old) h (snd run)"
    unfolding tr using wrote(2,5)
    by (intro old_or_new_append [OF old_or_new_spares [OF quiet]]) (simp add: old_or_new_Cons)
  moreover have "replay store (h @ snd run) shadowPath = Some (Join [newline] lines)" if "fst run = Inr ()"
    using shadow.installed [OF assms(2), of "Join [newline] lines" h2 "()"] that wrote(6,7)
    by (simp only: run_def)
  ultimately show ?thesis using new by blast
qed

subsection \<open>Authorized keys\<close>

lemma Contains_self: "Contains s s"
  by (cases s) (simp_all add: HasPrefix_def)

lemma authorized_content_prefix: "prefix bytes (authorized_content bytes key)"
  by (simp add: authorized_content_def)

lemma http_loop_spares: "emits (spares p) (http_loop net url n)"
proof (induction n)
  case 0
  show ?case by (subst http_loop.simps) (auto simp: Sleep_def intro!: emits_intros)
next
  case (Suc n)
  then show ?case by (subst http_loop.simps) (auto simp: Sleep_def intro!: emits_intros)
qed

lemma getKey_spares: "emits (spares p) (getKey net key withNet)"
  unfolding getKey_def
  by (auto intro!: emits_intros http_loop_spares split: option.split simp del: http_loop.simps)

text \<open>The key file is created, empty, only where there was none.\<close>

lemma create_key_file_grows:
  assumes "stat_coherent fs store"
  shows "growing store p (create_key_file fs file)"
  unfolding growing_def
proof
  fix h
  have "file_content (replay store h) p = []" if "fs_Stat fs h file = Inl e" "IsNotExist e" "p = file" for e
    using assms that by (simp add: stat_coherent_def file_content_def)
  then have "grows store p h (snd (create_key_file fs file h)) \<or> list_all (spares p) (snd (create_key_file fs file h))"
    by (cases "p = file"; cases "fs_Stat fs h file")
       (auto simp: create_key_file_def Stat_def Create_def Chmod_def FileClose_def grows_def split: sum.split)
  then show "grows store p h (snd (create_key_file fs file h))" using grows_spares by blast
qed

lemma writeFileAtomic_grows:
  assumes "coherent fs store" and "fresh_temps fs store p" and "fs_ReadFile fs h file = Inr bytes"
    and "replay store h' file = replay store h file"
  shows "grows store p h' (snd (writeFileAtomic perm fs file (authorized_content bytes key) h'))"
proof (cases "p = file")
  case True
  have "file_content (replay store h') p = bytes"
    using coherentD [OF assms(1,3)] assms(4) True by (simp add: file_content_def)
  then show ?thesis
    using ssh.atomic [OF assms(2)] True authorized_content_prefix
    by (intro grows_old_or_new [of store p "{authorized_content bytes key}"]) auto
next
  case False
  have "list_all (spares p) (snd (writeFileAtomic perm fs file (authorized_content bytes key) h'))"
    using fresh_tempD(2) [OF assms(2)] False
    by (auto simp: writeFileAtomic_def case_prod_beta Let_def step_calls split: sum.split)
  then show ?thesis by (rule grows_spares)
qed

lemma authorizeSSHKey_grows:
  assumes "coherent fs store" and "stat_coherent fs store" and "fresh_temps fs store p"
  shows "growing store p (authorizeSSHKey net fs key0 file uid gid withNet)"
proof -
  have add: "growing store p (pass (ReadFile fs file) (\<lambda>bytes.
      pass (writeFileAtomic (fi_Perm info) fs file (authorized_content bytes key)) (\<lambda>_. Chown fs file uid gid)))" for info key
    unfolding growing_def
  proof
    fix h
    let ?h1 = "h @ [(CReadFile file, True)]"
    show "grows store p h (snd (pass (ReadFile fs file) (\<lambda>bytes.
      pass (writeFileAtomic (fi_Perm info) fs file (authorized_content bytes key)) (\<lambda>_. Chown fs file uid gid)) h))"
    proof (cases "fs_ReadFile fs h file")
      case (Inr bytes)
      have "grows store p h ([(CReadFile file, True)] @
          snd (writeFileAtomic (fi_Perm info) fs file (authorized_content bytes key) ?h1) @ tr)"
        if "list_all (spares p) tr" for tr
        using that writeFileAtomic_grows [OF assms(1,3) Inr, of ?h1]
        by (intro grows_append [OF grows_spares grows_append [OF _ grows_spares]]) simp_all
      then show ?thesis by (auto simp: ReadFile_def Chown_def Inr split: sum.split)
    qed (simp add: ReadFile_def grows_spares)
  qed
  show ?thesis
    unfolding authorizeSSHKey_def
    by (rule growing_pass [OF growing_quiet [OF getKey_spares]])
       (auto intro!: growing_pass create_key_file_grows assms add growing_quiet [OF emits_ret])
qed

lemma SetAuthorizedKeys_grows:
  assumes "coherent fs store" and "stat_coherent fs store" and "fresh_temps fs store p"
  shows "growing store p (SetAuthorizedKeys net cfg withNet fs)"
proof -
  have keys: "growing store p (foreach keys (\<lambda>key.
      ignore (authorizeSSHKey net fs key f uid gid withNet) (ret ())))" for keys f uid gid
    by (intro growing_foreach growing_ignore authorizeSSHKey_grows assms growing_quiet emits_ret)
  have quiet: "growing store p (ReadFile fs f)" "growing store p (Chown fs f uid gid)" "growing store p (ret v)"
    "growing store p (bnd (Stat fs f) (\<lambda>r. case r of
       Inl e \<Rightarrow> if IsNotExist e then MkdirAll fs f mode_700 else fail e | Inr _ \<Rightarrow> ok ()))" for f uid gid v
    by (auto simp: ReadFile_def Chown_def Stat_def MkdirAll_def intro!: growing_quiet emits_intros)
  show ?thesis
    unfolding SetAuthorizedKeys_def Let_def
    by (rule growing_pass [OF quiet(1)])
       (auto split: sum.split intro!: quiet growing_pass growing_ignore keys)
qed

subsection \<open>The hosts file\<close>

definition host_name :: "string \<Rightarrow> bool" where
  "host_name s \<longleftrightarrow> s \<noteq> [] \<and> list_all (\<lambda>c. \<not> is_space c) s"

definition hosts_entry :: "string \<Rightarrow> string \<Rightarrow> string" where
  "hosts_entry hostname text =
     (let line = TrimSpace text in
      if Fields line \<noteq> [] \<and> hd (Fields line) = ''127.0.1.1'' then ''127.0.1.1 '' @ hostname else line)"

lemma synced_hosts_unlines: "synced_hosts hostname hosts = unlines (map (hosts_entry hostname) (ScanLines hosts))"
  by (auto simp: synced_hosts_def unlines_def hosts_line_def hosts_entry_def Let_def intro!: arg_cong [where f = concat])

lemma own_entry:
  assumes "host_name hostname"
  shows "trimmed (''127.0.1.1 '' @ hostname)" and "newline \<notin> set (''127.0.1.1 '' @ hostname)"
    and "Fields (''127.0.1.1 '' @ hostname) \<noteq> []" and "hd (Fields (''127.0.1.1 '' @ hostname)) = ''127.0.1.1''"
proof -
  have "Fields (''127.0.1.1'' @ CHR '' '' # hostname) = ''127.0.1.1'' # Fields hostname"
    by (rule Fields_word) (auto simp: is_space_def)
  then show "Fields (''127.0.1.1 '' @ hostname) \<noteq> []" and "hd (Fields (''127.0.1.1 '' @ hostname)) = ''127.0.1.1''"
    by simp_all
qed (use assms in \<open>auto simp: host_name_def list_all_iff trimmed_def is_space_def\<close>)

lemma hosts_entry_line:
  assumes "host_name hostname" and "newline \<notin> set text"
  shows "trimmed (hosts_entry hostname text)" and "newline \<notin> set (hosts_entry hostname text)"
    and "hosts_entry hostname (hosts_entry hostname text) = hosts_entry hostname text"
proof -
  show "trimmed (hosts_entry hostname text)" and "newline \<notin> set (hosts_entry hostname text)"
    using own_entry [OF assms(1)] assms(2) TrimSpace_subset [of "text"] by (auto simp: hosts_entry_def Let_def)
  show "hosts_entry hostname (hosts_entry hostname text) = hosts_entry hostname text"
    using own_entry [OF assms(1)] by (auto simp: hosts_entry_def Let_def TrimSpace_trimmed)
qed

lemma ScanLines_synced:
  assumes "host_name hostname"
  shows "ScanLines (synced_hosts hostname hosts) = map (hosts_entry hostname) (ScanLines hosts)"
proof -
  have "ScanLines (synced_hosts hostname hosts) = map drop_cr (map (hosts_entry hostname) (ScanLines hosts))"
    unfolding synced_hosts_unlines
    using hosts_entry_line(2) [OF assms ScanLines_no_newline] by (intro ScanLines_unlines) auto
  also have "\<dots> = map (hosts_entry hostname) (ScanLines hosts)"
    using hosts_entry_line(1) [OF assms ScanLines_no_newline] by (simp add: drop_cr_trimmed)
  finally show ?thesis .
qed

subsection \<open>Properties\<close>

text \<open>C11: Setting a password replaces the password file atomically: with a coherent file system, at
  every point of the run \<open>/etc/shadow\<close> has its old contents, or the old contents in which exactly one
  line changed, the first line of the user, and in that line only the hash; after a success it has
  the new contents, with the given hash when the password was hashed already.\<close>

theorem SetPassword_atomic:
  assumes "coherent fs store" and "fresh_temps fs store shadowPath"
    and "colon_free hasher" and "CHR '':'' \<notin> set password"
  shows "old_or_new store shadowPath (new_shadow username password (replay store h shadowPath)) h
           (snd (SetPassword hasher fs username password h)) \<and>
     (fst (SetPassword hasher fs username password h) = Inr () \<longrightarrow> password \<noteq> [] \<longrightarrow>
       (\<exists>c \<in> new_shadow username password (replay store h shadowPath).
          replay store (h @ snd (SetPassword hasher fs username password h)) shadowPath = Some c))"
  using SetPassword_trace [OF assms] .

definition example_store :: fstore where
  "example_store = [shadowPath \<mapsto> ''root:x:1'' @ [newline] @ ''rancher:*:2:3'' @ [newline],
     ''/etc/passwd'' \<mapsto> ''root:x:0:0:root:/root:/bin/ash'' @ [newline] @ ''rancher:x:1000:1000:r:/home/rancher:/bin/ash'',
     ''/home/rancher/.ssh/authorized_keys'' \<mapsto> ''ssh-rsa A'' @ [newline]]"

definition example_fs :: FileSystem where
  "example_fs = store_fs [shadowPath, ''/etc/passwd'', ''/home/rancher/.ssh/authorized_keys''] example_store"

lemma example_fs_facts:
  "coherent example_fs example_store" "stat_coherent example_fs example_store"
  "p \<in> {shadowPath, ''/home/rancher/.ssh/authorized_keys''} \<Longrightarrow> fresh_temps example_fs example_store p"
  by (auto simp: example_fs_def example_store_def intro!: store_fs_coherent store_fs_fresh split: if_splits)

definition no_hasher :: "hist \<Rightarrow> string \<Rightarrow> err + string" where
  "no_hasher = (\<lambda>_ _. Inl eio)"

lemma example_password_ok: "fst (SetPassword no_hasher example_fs ''rancher'' ''$6$h'' []) = Inr ()"
  by code_simp

theorem SetPassword_atomic_witness:
  "\<exists>c \<in> new_shadow ''rancher'' ''$6$h'' (example_store shadowPath).
     replay example_store (snd (SetPassword no_hasher example_fs ''rancher'' ''$6$h'' [])) shadowPath = Some c"
proof -
  have "colon_free no_hasher" by (simp add: colon_free_def no_hasher_def)
  then show ?thesis
    using SetPassword_atomic [OF example_fs_facts(1) example_fs_facts(3), of no_hasher "''$6$h''" "''rancher''" "[]"]
    by (simp add: example_password_ok)
qed


definition no_net :: Net where
  "no_net = \<lparr>nt_Parse = \<lambda>_. None, nt_Get = \<lambda>_ _. Inl eio\<rparr>"


text \<open>Writing the hostname to the hosts file keeps every line but those of 127.0.1.1, which name
  the host afterwards, and doing it twice is the same as doing it once.\<close>

theorem synced_hosts_lines:
  assumes "host_name hostname"
  shows "ScanLines (synced_hosts hostname hosts) = map (hosts_entry hostname) (ScanLines hosts) \<and>
         synced_hosts hostname (synced_hosts hostname hosts) = synced_hosts hostname hosts"
proof -
  have "map (hosts_entry hostname) (map (hosts_entry hostname) (ScanLines hosts)) =
        map (hosts_entry hostname) (ScanLines hosts)"
    using hosts_entry_line(3) [OF assms ScanLines_no_newline] by simp
  then have "synced_hosts hostname (synced_hosts hostname hosts) = synced_hosts hostname hosts"
    unfolding synced_hosts_unlines [of hostname "synced_hosts hostname hosts"] ScanLines_synced [OF assms]
    by (simp only: synced_hosts_unlines)
  then show ?thesis using ScanLines_synced [OF assms] by blast
qed

theorem synced_hosts_lines_witness:
  "synced_hosts ''k3os'' (synced_hosts ''k3os'' (unlines [''127.0.0.1 localhost'', ''127.0.1.1 old''])) =
   unlines [''127.0.0.1 localhost'', ''127.0.1.1 k3os'']"
proof -
  have "host_name ''k3os''" by code_simp
  from synced_hosts_lines [OF this, of "unlines [''127.0.0.1 localhost'', ''127.0.1.1 old'']"]
  have "synced_hosts ''k3os'' (synced_hosts ''k3os'' (unlines [''127.0.0.1 localhost'', ''127.0.1.1 old''])) =
     synced_hosts ''k3os'' (unlines [''127.0.0.1 localhost'', ''127.0.1.1 old''])" by blast
  also have "\<dots> = unlines [''127.0.0.1 localhost'', ''127.0.1.1 k3os'']" by code_simp
  finally show ?thesis .
qed

subsection \<open>The user whose keys are written\<close>

text \<open>
  A missing user gives the identity of root and an empty home directory, without an error; and any
  user whose name starts with the one sought is taken for it, the last one in the file.
\<close>

lemma missing_user_is_root:
  "list_all (\<lambda>line. \<not> HasPrefix line username) (Split newline bytes) \<Longrightarrow>
   findUserHomeDir bytes username = Inr (0, 0, [])"
proof -
  have "list_all (\<lambda>line. \<not> HasPrefix line username) ls \<Longrightarrow> find_home username found ls = Inr found" for found ls
    by (induction ls) auto
  then show "list_all (\<lambda>line. \<not> HasPrefix line username) (Split newline bytes) \<Longrightarrow>
    findUserHomeDir bytes username = Inr (0, 0, [])"
    by (simp add: findUserHomeDir_def)
qed

lemma longer_user_name_matches:
  "findUserHomeDir (''rancher:x:1000:1000::/home/rancher:/bin/bash'' @ [newline]
     @ ''rancher2:x:1001:1001::/home/rancher2:/bin/bash'') ''rancher'' = Inr (1001, 1001, ''/home/rancher2'')"
proof -
  have "Atoi ''1000'' = Some 1000" "Atoi ''1001'' = Some 1001" by (simp_all add: string_eval)
  then show ?thesis by (simp add: findUserHomeDir_def HasPrefix_def)
qed

end
