(* ===== verification/Testmode.thy ===== *)
theory Testmode
  imports Cc_Files Boot_Detect
begin

section \<open>The post-boot verifier: internal/boot/testmode\<close>

text \<open>
  The checks that replace the last step of a boot in the integration tests. The injected functions
  are the fields of \<open>Verifier\<close>, with the defaults of \<open>Run\<close> filled in; marshalling the results is a
  parameter. Texts with \<open>%v\<close> of an error and \<open>%q\<close> of a string use \<open>Error\<close> and \<open>Quote\<close>.
\<close>

subsection \<open>Definitions\<close>

record Check =
  ck_Name :: string
  ck_Passed :: bool
  ck_Detail :: string

record Phase =
  ph_Name :: string
  ph_Passed :: bool
  ph_Checks :: "Check list"

record Results =
  rs_Passed :: bool
  rs_Phases :: "Phase list"
  rs_Summary :: string

record Verifier =
  vf_FS :: FileSystem
  vf_Reboot :: "hist \<Rightarrow> err + unit"
  vf_Marshal :: "Results \<Rightarrow> err + string"

definition Check_of :: "string \<Rightarrow> bool \<Rightarrow> string \<Rightarrow> Check" where
  "Check_of name passed detail = \<lparr>ck_Name = name, ck_Passed = passed, ck_Detail = detail\<rparr>"

definition checkProcMounted :: "Verifier \<Rightarrow> Check io" where
  "checkProcMounted v =
     bnd (Stat (vf_FS v) ''/proc/self/status'') (\<lambda>r. ret (case r of
       Inl _ \<Rightarrow> Check_of ''proc_mounted'' False ''/proc/self/status does not exist''
     | Inr _ \<Rightarrow> Check_of ''proc_mounted'' True ''/proc/self/status exists''))"

definition checkEtcPopulated :: "Verifier \<Rightarrow> Check io" where
  "checkEtcPopulated v =
     bnd (ReadFile (vf_FS v) ''/etc/passwd'') (\<lambda>r. ret (case r of
       Inl e \<Rightarrow> Check_of ''etc_populated'' False (''failed to read /etc/passwd: '' @ Error e)
     | Inr data \<Rightarrow>
         if \<not> Contains data ''rancher''
         then Check_of ''etc_populated'' False ''/etc/passwd does not contain rancher user''
         else Check_of ''etc_populated'' True ''/etc/passwd contains rancher''))"

definition checkRunK3osExists :: "Verifier \<Rightarrow> Check io" where
  "checkRunK3osExists v =
     bnd (Stat (vf_FS v) ''/run/k3os'') (\<lambda>r. ret (case r of
       Inl _ \<Rightarrow> Check_of ''run_k3os_exists'' False ''/run/k3os directory does not exist''
     | Inr _ \<Rightarrow> Check_of ''run_k3os_exists'' True ''/run/k3os directory exists''))"

definition test_modes :: "string list" where
  "test_modes = [''local'', ''live'', ''disk'']"

definition checkModeFile :: "Verifier \<Rightarrow> Check io" where
  "checkModeFile v =
     bnd (ReadFile (vf_FS v) ''/run/k3os/mode'') (\<lambda>r. ret (case r of
       Inl e \<Rightarrow> Check_of ''mode_file'' False (''failed to read /run/k3os/mode: '' @ Error e)
     | Inr data \<Rightarrow>
         let mode = TrimSpace data in
         if mode \<notin> set test_modes
         then Check_of ''mode_file'' False (''/run/k3os/mode contains invalid mode: '' @ Quote mode)
         else Check_of ''mode_file'' True (''/run/k3os/mode contains valid mode: '' @ Quote mode)))"

text \<open>The first field with the given prefix, without it.\<close>

definition field_value :: "string \<Rightarrow> string \<Rightarrow> string" where
  "field_value pre cmdline =
     (case List.find (\<lambda>f. HasPrefix f pre) (Fields cmdline) of None \<Rightarrow> [] | Some f \<Rightarrow> TrimPrefix f pre)"

definition checkExpectedMode :: "Verifier \<Rightarrow> Check io" where
  "checkExpectedMode v =
     bnd (ReadFile (vf_FS v) ''/proc/cmdline'') (\<lambda>r. case r of
       Inl _ \<Rightarrow> ret (Check_of ''expected_mode'' True ''cannot read /proc/cmdline, skipping expected mode check'')
     | Inr cmdline \<Rightarrow>
         let expected = field_value ''k3os.test_expected_mode='' cmdline in
         if expected = [] then ret (Check_of ''expected_mode'' True ''no k3os.test_expected_mode set, skipping'')
         else
           bnd (ReadFile (vf_FS v) ''/run/k3os/mode'') (\<lambda>r. ret (case r of
             Inl e \<Rightarrow> Check_of ''expected_mode'' False
                       (''expected mode '' @ Quote expected @ '' but cannot read /run/k3os/mode: '' @ Error e)
           | Inr modeData \<Rightarrow>
               let actual = TrimSpace modeData in
               if actual \<noteq> expected
               then Check_of ''expected_mode'' False (''expected mode '' @ Quote expected @ '' but got '' @ Quote actual)
               else Check_of ''expected_mode'' True (''mode matches expected: '' @ Quote expected))))"

definition em_dash :: string where
  "em_dash = [CHR 0xE2, CHR 0x80, CHR 0x94]"

definition checkModeTarget :: "Verifier \<Rightarrow> Check io" where
  "checkModeTarget v =
     bnd (ReadFile (vf_FS v) ''/run/k3os/mode'') (\<lambda>r. case r of
       Inl e \<Rightarrow> ret (Check_of ''mode_target'' False (''cannot determine mode: '' @ Error e))
     | Inr modeData \<Rightarrow>
         let mode = TrimSpace modeData in
         if mode = ''disk'' then
           bnd (Stat (vf_FS v) ''/run/k3os/target/k3os/system'') (\<lambda>r. ret (case r of
             Inl _ \<Rightarrow> Check_of ''mode_target'' False
                       ''disk mode: /run/k3os/target/k3os/system not found (K3OS_STATE mount failed)''
           | Inr _ \<Rightarrow> Check_of ''mode_target'' True ''disk mode: /run/k3os/target/k3os/system exists''))
         else if mode = ''live'' \<or> mode = ''install'' then
           bnd (Stat (vf_FS v) ''/.base/k3os'') (\<lambda>r. ret (case r of
             Inl _ \<Rightarrow> Check_of ''mode_target'' True
                       (mode @ '' mode: /.base/k3os not found (no boot media '' @ em_dash @ '' expected in test)'')
           | Inr _ \<Rightarrow> Check_of ''mode_target'' True (mode @ '' mode: /.base/k3os exists'')))
         else ret (Check_of ''mode_target'' True (mode @ '' mode: no target check required'')))"

definition checkPivotRoot :: "Verifier \<Rightarrow> Check io" where
  "checkPivotRoot v =
     bnd (ReadFile (vf_FS v) ''/proc/cmdline'') (\<lambda>r.
     let cmdline = (case r of Inl _ \<Rightarrow> [] | Inr s \<Rightarrow> s) in
     if list_ex (\<lambda>f. HasPrefix f ''k3os.mode='') (Fields cmdline)
     then ret (Check_of ''pivot_root'' True ''k3os.mode= set on cmdline, pivot_root check not applicable'')
     else
       bnd (Stat (vf_FS v) ''/.root'') (\<lambda>r. ret (case r of
         Inl _ \<Rightarrow> Check_of ''pivot_root'' False ''/.root not found (pivot_root from disk mode did not occur)''
       | Inr _ \<Rightarrow> Check_of ''pivot_root'' True ''/.root exists (pivot_root from disk mode succeeded)'')))"

definition checkHostname :: "Verifier \<Rightarrow> Check io" where
  "checkHostname v =
     bnd (Hostname (vf_FS v)) (\<lambda>r. ret (case r of
       Inl e \<Rightarrow> Check_of ''hostname_set'' False (''failed to get hostname: '' @ Error e)
     | Inr hostname \<Rightarrow>
         if hostname = [] then Check_of ''hostname_set'' False ''hostname is empty''
         else Check_of ''hostname_set'' True (''hostname is '' @ Quote hostname)))"

text \<open>Each phase runs its checks in order; the loop that looks for a failed one follows.\<close>

fun run_checks :: "Check io list \<Rightarrow> Check list io" where
  "run_checks [] = ret []"
| "run_checks (m # ms) = bnd m (\<lambda>c. bnd (run_checks ms) (\<lambda>cs. ret (c # cs)))"

fun none_failed :: "Check list \<Rightarrow> bool" where
  "none_failed [] = True"
| "none_failed (c # cs) = (if \<not> ck_Passed c then False else none_failed cs)"

definition phase :: "string \<Rightarrow> Check io list \<Rightarrow> Phase io" where
  "phase name ms =
     bnd (run_checks ms) (\<lambda>checks. ret \<lparr>ph_Name = name, ph_Passed = none_failed checks, ph_Checks = checks\<rparr>)"

definition checkBootstrap :: "Verifier \<Rightarrow> Phase io" where
  "checkBootstrap v = phase ''bootstrap'' [checkProcMounted v, checkEtcPopulated v]"

definition checkModeDetection :: "Verifier \<Rightarrow> Phase io" where
  "checkModeDetection v = phase ''mode_detection'' [checkRunK3osExists v, checkModeFile v, checkExpectedMode v]"

definition checkModeExecution :: "Verifier \<Rightarrow> Phase io" where
  "checkModeExecution v = phase ''mode_execution'' [checkModeTarget v, checkPivotRoot v]"

definition checkFinalization :: "Verifier \<Rightarrow> Phase io" where
  "checkFinalization v = phase ''finalization'' [checkHostname v]"

text \<open>The counters of \<open>verify\<close>: checks, passed checks, all phases passed.\<close>

fun tally :: "Phase list \<Rightarrow> nat \<Rightarrow> nat \<Rightarrow> bool \<Rightarrow> nat \<times> nat \<times> bool" where
  "tally [] n p ok_so_far = (n, p, ok_so_far)"
| "tally (ph # phs) n p ok_so_far =
     tally phs (n + length (ph_Checks ph)) (p + length (filter ck_Passed (ph_Checks ph)))
       (if \<not> ph_Passed ph then False else ok_so_far)"

definition verify :: "Verifier \<Rightarrow> Results io" where
  "verify v =
     bnd (checkBootstrap v) (\<lambda>bootstrapPhase.
     bnd (checkModeDetection v) (\<lambda>modePhase.
     bnd (checkModeExecution v) (\<lambda>executionPhase.
     bnd (checkFinalization v) (\<lambda>finalizationPhase.
     let phases = [bootstrapPhase, modePhase, executionPhase, finalizationPhase];
         (totalChecks, passedChecks, allPassed) = tally phases 0 0 True in
     ret \<lparr>rs_Passed = allPassed, rs_Phases = phases,
          rs_Summary = show_nat passedChecks @ ''/'' @ show_nat totalChecks @ '' checks passed''\<rparr>))))"

definition ResultStart :: string where "ResultStart = ''---TEST_RESULTS_START---''"
definition ResultEnd :: string where "ResultEnd = ''---TEST_RESULTS_END---''"

definition println :: "string \<Rightarrow> unit io" where
  "println line = observe (CSys ''println'' [line] []) (\<lambda>_. ())"

definition Verifier_Run :: "Verifier \<Rightarrow> unit go" where
  "Verifier_Run v =
     bnd (verify v) (\<lambda>results.
     case vf_Marshal v results of
       Inl e \<Rightarrow> fail (Wrap ''testmode: failed to marshal results'' e)
     | Inr data \<Rightarrow>
         ignore (println ResultStart)
         (ignore (println data)
         (ignore (println ResultEnd)
         (perform (CSys ''reboot'' [] []) (vf_Reboot v)))))"

subsection \<open>Lemmas\<close>

lemma none_failed_iff: "none_failed cs \<longleftrightarrow> list_all ck_Passed cs"
  by (induction cs) simp_all

lemma tally_eq:
  "tally phs n p b = (n + length (concat (map ph_Checks phs)),
     p + length (filter ck_Passed (concat (map ph_Checks phs))), b \<and> list_all ph_Passed phs)"
  by (induction phs arbitrary: n p b) auto

lemma phase_passed: "ph_Passed (fst (phase name ms h)) \<longleftrightarrow> list_all ck_Passed (ph_Checks (fst (phase name ms h)))"
  by (simp add: phase_def none_failed_iff)

lemma length_run_checks [simp]: "length (fst (run_checks ms h)) = length ms"
  by (induction ms arbitrary: h) auto

lemma phase_count: "length (ph_Checks (fst (phase name ms h))) = length ms"
  by (simp add: phase_def)

text \<open>The verdict is the conjunction of the eight checks: the results are marked as passed exactly when
  no check failed, and the summary says how many of the eight passed.\<close>

theorem verify_verdict:
  "case fst (verify v h) of r \<Rightarrow>
     let checks = concat (map ph_Checks (rs_Phases r)) in
     length checks = 8 \<and> (rs_Passed r \<longleftrightarrow> list_all ck_Passed checks) \<and>
     rs_Summary r = show_nat (length (filter ck_Passed checks)) @ ''/8 checks passed''"
proof -
  have "show_nat (Suc (Suc (Suc (Suc (Suc (Suc (Suc (Suc 0)))))))) = ''8''" by code_simp
  then show ?thesis
    by (simp add: verify_def tally_eq Let_def checkBootstrap_def checkModeDetection_def checkModeExecution_def
        checkFinalization_def phase_passed phase_count)
qed

text \<open>The check of the mode file knows three of the five modes that detection can record.\<close>

lemma checkModeFile_rejects:
  assumes "fs_ReadFile (vf_FS v) h ''/run/k3os/mode'' = Inr (mode @ [newline])"
    and "mode \<in> {''install'', ''shell''}"
  shows "\<not> ck_Passed (fst (checkModeFile v h))"
proof -
  have "TrimSpace (''install'' @ [newline]) = ''install''" "TrimSpace (''shell'' @ [newline]) = ''shell''"
    by (simp_all add: string_eval TrimSpace_def TrimFunc_def TrimLeftFunc_def TrimRightFunc_def)
  then show ?thesis
    using assms by (auto simp: checkModeFile_def ReadFile_def Check_of_def test_modes_def)
qed

end
