(* ===== verification/Config_Env.thy ===== *)
theory Config_Env
  imports Config_Read
begin

section \<open>The configuration as environment variables: mapToEnv of internal/config/read.go\<close>

text \<open>
  The installer gets the configuration as environment variables. The recursion that makes them is compared
  here with what it is meant to compute: one variable for every value that a path of keys leads to, named by
  the path. A Go map has every key once, in every map nested in it too: \<open>wf_val\<close>.
\<close>

subsection \<open>The specification\<close>

fun wf_val :: "cval \<Rightarrow> bool" where
  "wf_val (CMap m) \<longleftrightarrow> distinct (map fst m) \<and> list_all (\<lambda>(k, v). wf_val v) m"
| "wf_val v \<longleftrightarrow> True"

fun is_map :: "cval \<Rightarrow> bool" where
  "is_map (CMap m) = True"
| "is_map v = False"

definition env_name :: "string list \<Rightarrow> string" where
  "env_name p = ToUpper (Join ''_'' (map camelToSnake p))"

fun value_at :: "cval \<Rightarrow> string list \<Rightarrow> cval option" where
  "value_at v [] = Some v"
| "value_at (CMap m) (k # ks) = (case map_of m k of None \<Rightarrow> None | Some v \<Rightarrow> value_at v ks)"
| "value_at v (k # ks) = None"

lemma getValue_value_at: "p \<noteq> [] \<Longrightarrow> getValue d p = value_at (CMap d) p"
proof (induction d p rule: getValue.induct)
  case (3 d k k' ks)
  show ?case
  proof (cases "map_of d k")
    case (Some v)
    with 3 show ?thesis by (cases v) simp_all
  qed simp
qed (simp_all split: option.split)

subsection \<open>Upper case\<close>

lemma to_upper_idem [simp]: "to_upper (to_upper c) = to_upper c"
proof (cases "is_lower c")
  case True
  then have "97 \<le> (of_char c :: nat)" "(of_char c :: nat) \<le> 122"
    by (simp_all add: is_lower_def less_eq_char_def)
  then have "(of_char (char_of (of_char c - 32 :: nat)) :: nat) = of_char c - 32"
    by (simp add: take_bit_nat_eq_self)
  then have "\<not> is_lower (char_of (of_char c - 32 :: nat))"
    using \<open>of_char c \<le> (122 :: nat)\<close> by (simp add: is_lower_def less_eq_char_def)
  with True show ?thesis by (simp add: to_upper_def)
qed (simp add: to_upper_def)

lemma ToUpper_append [simp]: "ToUpper (s @ t) = ToUpper s @ ToUpper t"
  by (simp add: ToUpper_def)

lemma ToUpper_Cons: "ToUpper (c # s) = to_upper c # ToUpper s"
  by (simp add: ToUpper_def)

lemma ToUpper_idem [simp]: "ToUpper (ToUpper s) = ToUpper s"
  by (simp add: ToUpper_def)

subsection \<open>One variable per value\<close>

definition name_tail :: "string list \<Rightarrow> string" where
  "name_tail p = concat (map (\<lambda>k. ToUpper (''_'' @ camelToSnake k)) p)"

lemma env_name_Cons: "env_name (k # p) = ToUpper (camelToSnake k) @ name_tail p"
  by (induction p arbitrary: k) (simp_all add: env_name_def name_tail_def ToUpper_Cons)

lemma value_at_leaf: "\<not> is_map v \<Longrightarrow> value_at v p = Some w \<longleftrightarrow> p = [] \<and> w = v"
  by (cases v; cases p) auto

lemma value_at_map:
  assumes "distinct (map fst m)" and "\<not> is_map w"
  shows "value_at (CMap m) p = Some w \<longleftrightarrow> (\<exists>k v q. p = k # q \<and> (k, v) \<in> set m \<and> value_at v q = Some w)"
  using assms(2) by (cases p) (auto simp: map_of_eq_Some_iff [OF assms(1), symmetric] split: option.split)

lemma value_at_map_leaf:
  assumes "distinct (map fst m)"
  shows "value_at (CMap m) p = Some w \<and> \<not> is_map w \<longleftrightarrow>
    \<not> is_map w \<and> (\<exists>k v q. p = k # q \<and> (k, v) \<in> set m \<and> value_at v q = Some w)"
  using value_at_map [OF assms, of w p] by (cases "is_map w") simp_all

definition env_vars :: "string \<Rightarrow> cval \<Rightarrow> string set" where
  "env_vars n v = {n @ name_tail p @ ''='' @ show_val w | p w. value_at v p = Some w \<and> \<not> is_map w}"

lemma env_vars_leaf: "\<not> is_map v \<Longrightarrow> env_vars n v = {n @ ''='' @ show_val v}"
  by (auto simp: env_vars_def value_at_leaf name_tail_def)

lemma env_vars_iff:
  "s \<in> env_vars n v \<longleftrightarrow> (\<exists>p w. s = n @ name_tail p @ ''='' @ show_val w \<and> value_at v p = Some w \<and> \<not> is_map w)"
  unfolding env_vars_def by blast

lemma in_pairs: "s \<in> (\<Union>(k, v)\<in>M. F k v) \<longleftrightarrow> (\<exists>k v. (k, v) \<in> M \<and> s \<in> F k v)"
  by auto

lemma name_tail_Cons: "name_tail (k # p) = ToUpper (''_'' @ camelToSnake k) @ name_tail p"
  by (simp add: name_tail_def)

lemma env_vars_map:
  assumes "distinct (map fst m)"
  shows "env_vars n (CMap m) = (\<Union>(k, v)\<in>set m. env_vars (n @ ToUpper (''_'' @ camelToSnake k)) v)"
proof (rule set_eqI)
  fix s
  have "s \<in> env_vars n (CMap m) \<longleftrightarrow> (\<exists>k v q w. (k, v) \<in> set m \<and> value_at v q = Some w \<and> \<not> is_map w
      \<and> s = n @ name_tail (k # q) @ ''='' @ show_val w)"
    unfolding env_vars_iff value_at_map_leaf [OF assms] by metis
  then show "s \<in> env_vars n (CMap m) \<longleftrightarrow> s \<in> (\<Union>(k, v)\<in>set m. env_vars (n @ ToUpper (''_'' @ camelToSnake k)) v)"
    unfolding in_pairs env_vars_iff name_tail_Cons append_assoc by metis
qed

lemma env_of_values: "wf_val v \<Longrightarrow> ToUpper n = n \<Longrightarrow> set (env_of n v) = env_vars n v"
proof (induction n v rule: env_of.induct)
  case (1 n m)
  have "set (env_of (ToUpper (n @ ''_'' @ camelToSnake k)) v) = env_vars (n @ ToUpper (''_'' @ camelToSnake k)) v"
    if "(k, v) \<in> set m" for k v
    using "1.IH" [OF that refl] that "1.prems" by (auto simp: list_all_iff)
  moreover have "distinct (map fst m)" using "1.prems" by simp
  ultimately show ?case by (simp add: env_vars_map case_prod_beta)
qed (simp_all add: env_vars_leaf)


definition example_config :: cmap where
  "example_config = [(''k3os'', CMap [(''install'', CMap [(''device'', CStr ''/dev/sda''), (''forceEfi'', COther ''true'')])]),
     (''runCmd'', CStrs [''ls'', ''df''])]"


end
