(* ===== verification/Boot_Bootstrap.thy ===== *)
theory Boot_Bootstrap
  imports Boot_Phases
begin

section \<open>The bootstrap phase: internal/boot/bootstrap\<close>

text \<open>
  \<open>Bootstrapper\<close> is the struct of \<open>bootstrap.go\<close>; a method \<open>(b *Bootstrapper) M\<close> is \<open>Bootstrap_M\<close>.
  \<open>RCRunner\<close> and \<open>ConfigRunner\<close> are injected functions, hence functions of the history.
\<close>

subsection \<open>Definitions\<close>

record Bootstrapper =
  bs_FS :: FileSystem
  bs_Mounter :: Mounter
  bs_Cmd :: CommandRunner
  bs_LoopAttacher :: "LoopAttacher option"
  bs_CopyDir :: "hist \<Rightarrow> string \<Rightarrow> string \<Rightarrow> err + unit"
  bs_RCRunner :: "hist \<Rightarrow> err + unit"
  bs_ConfigRunner :: "hist \<Rightarrow> err + unit"
  bs_KernelVersion :: string
  bs_Mode :: string

definition Bootstrap_SetupEtc :: "Bootstrapper \<Rightarrow> unit go" where
  "Bootstrap_SetupEtc b =
     check ''mkdir /etc'' (MkdirAll (bs_FS b) ''/etc'' mode_755) (\<lambda>_.
     check ''mkdir /proc'' (MkdirAll (bs_FS b) ''/proc'' mode_755) (\<lambda>_.
     check ''mount tmpfs on /etc'' (ForceMount (bs_Mounter b) ''none'' ''/etc'' ''tmpfs'' []) (\<lambda>_.
     check ''mount proc on /proc'' (ForceMount (bs_Mounter b) ''none'' ''/proc'' ''proc'' []) (\<lambda>_.
     check ''copy /usr/etc to /etc''
       (perform (CCopyDir ''/usr/etc'' ''/etc'') (\<lambda>h. bs_CopyDir b h ''/usr/etc'' ''/etc'')) (\<lambda>_.
     ok ())))))"

definition Bootstrap_SetupModules :: "Bootstrapper \<Rightarrow> unit go" where
  "Bootstrap_SetupModules b =
     (let modulesPath = ''.base/lib/modules/'' @ bs_KernelVersion b in
      bnd (Stat (bs_FS b) modulesPath) (\<lambda>r.
      pass (case r of
              Inl _ \<Rightarrow> ok ()
            | Inr _ \<Rightarrow> check ''bind mount modules''
                (MountFS (bs_Mounter b) ''.base/lib/modules'' ''/lib/modules'' [] ''bind'') (\<lambda>_. ok ())) (\<lambda>_.
      bnd (Stat (bs_FS b) ''.base/lib/firmware'') (\<lambda>r.
      case r of
        Inl _ \<Rightarrow> ok ()
      | Inr _ \<Rightarrow> check ''bind mount firmware''
          (MountFS (bs_Mounter b) ''.base/lib/firmware'' ''/lib/firmware'' [] ''bind'') (\<lambda>_. ok ())))))"

definition replaceInFile :: "Bootstrapper \<Rightarrow> string \<Rightarrow> string \<Rightarrow> string \<Rightarrow> unit go" where
  "replaceInFile b path old replacement =
     pass (ReadFile (bs_FS b) path) (\<lambda>data.
     WriteFile (bs_FS b) path (ReplaceAll data old replacement) mode_644)"

text \<open>Lines 142 to 146 of \<open>appendLine\<close>: the new content of the file.\<close>

definition append_line_content :: "string \<Rightarrow> string \<Rightarrow> string" where
  "append_line_content content line =
     (let content = (if content \<noteq> [] \<and> last content \<noteq> newline then content @ [newline] else content)
      in content @ line @ [newline])"

definition appendLine :: "Bootstrapper \<Rightarrow> string \<Rightarrow> string \<Rightarrow> unit go" where
  "appendLine b path line =
     bnd (ReadFile (bs_FS b) path) (\<lambda>r.
     let data = (case r of Inl _ \<Rightarrow> [] | Inr data \<Rightarrow> data) in
     WriteFile (bs_FS b) path (append_line_content data line) mode_644)"

definition Bootstrap_SetupUsers :: "Bootstrapper \<Rightarrow> unit go" where
  "Bootstrap_SetupUsers b =
     check ''replace shell in passwd'' (replaceInFile b ''/etc/passwd'' ''/bin/ash'' ''/bin/bash'') (\<lambda>_.
     check ''mkdir /home'' (MkdirAll (bs_FS b) ''/home'' mode_755) (\<lambda>_.
     check ''add sudo group'' (appendLine b ''/etc/group'' ''sudo:x:101:rancher'') (\<lambda>_.
     check ''add rancher group'' (appendLine b ''/etc/group'' ''rancher:x:1000:'') (\<lambda>_.
     check ''add rancher user''
       (appendLine b ''/etc/passwd'' ''rancher:x:1000:1000::/home/rancher:/bin/bash'') (\<lambda>_.
     check ''add rancher shadow'' (appendLine b ''/etc/shadow'' ''rancher:*:::::::'') (\<lambda>_.
     check ''mkdir rancher home'' (MkdirAll (bs_FS b) ''/home/rancher'' mode_755) (\<lambda>_. ok ())))))))"

definition Bootstrap_SetupRC :: "Bootstrapper \<Rightarrow> unit go" where
  "Bootstrap_SetupRC b = check ''k3os rc'' (perform CRCRun (bs_RCRunner b)) (\<lambda>_. ok ())"

definition Bootstrap_SetupDirs :: "Bootstrapper \<Rightarrow> unit go" where
  "Bootstrap_SetupDirs b =
     check ''mkdir /run/k3os'' (MkdirAll (bs_FS b) ''/run/k3os'' mode_755) (\<lambda>_. ok ())"

definition kernel_candidates :: "Bootstrapper \<Rightarrow> string list" where
  "kernel_candidates b =
     (let relPath = RootPath [''kernel'', bs_KernelVersion b, ''kernel.squashfs'']
      in [relPath, ''/.base'' @ relPath])"

fun first_existing :: "Bootstrapper \<Rightarrow> string list \<Rightarrow> string io" where
  "first_existing b [] = ret []"
| "first_existing b (path # paths) =
     bnd (Stat (bs_FS b) path) (\<lambda>r. case r of Inr _ \<Rightarrow> ret path | Inl _ \<Rightarrow> first_existing b paths)"

definition findKernelSquashfs :: "Bootstrapper \<Rightarrow> string io" where
  "findKernelSquashfs b = first_existing b (kernel_candidates b)"

text \<open>Lines 207 to 222 of \<open>SetupKernel\<close>: the device the squashfs is mounted from.\<close>

definition kernel_device :: "Bootstrapper \<Rightarrow> string \<Rightarrow> string go" where
  "kernel_device b kernelPath =
     (case bs_LoopAttacher b of
        Some la \<Rightarrow>
          check ''attach loop for kernel squashfs'' (Attach la kernelPath 0 True) (\<lambda>dev.
          ignore (SetAutoclear la dev) (ok dev))
      | None \<Rightarrow> ok kernelPath)"

definition Bootstrap_SetupKernel :: "Bootstrapper \<Rightarrow> unit go" where
  "Bootstrap_SetupKernel b =
     bnd (findKernelSquashfs b) (\<lambda>kernelPath.
     if kernelPath = [] then ok ()
     else
       check ''mkdir /run/k3os/kernel'' (MkdirAll (bs_FS b) ''/run/k3os/kernel'' mode_755) (\<lambda>_.
       check ''mkdir /usr/lib/modules'' (MkdirAll (bs_FS b) ''/usr/lib/modules'' mode_755) (\<lambda>_.
       check ''mkdir /usr/lib/firmware'' (MkdirAll (bs_FS b) ''/usr/lib/firmware'' mode_755) (\<lambda>_.
       pass (kernel_device b kernelPath) (\<lambda>mountDevice.
       check ''mount squashfs''
         (MountFS (bs_Mounter b) mountDevice ''/run/k3os/kernel'' ''squashfs'' ''ro'') (\<lambda>_.
       check ''bind mount kernel modules''
         (MountFS (bs_Mounter b) ''/run/k3os/kernel/lib/modules'' ''/usr/lib/modules'' [] ''bind'') (\<lambda>_.
       check ''bind mount kernel firmware''
         (MountFS (bs_Mounter b) ''/run/k3os/kernel/lib/firmware'' ''/usr/lib/firmware'' [] ''bind'')
         (\<lambda>_. ok ()))))))))"

definition Bootstrap_SetupConfig :: "Bootstrapper \<Rightarrow> string \<Rightarrow> unit go" where
  "Bootstrap_SetupConfig b mode =
     (if mode = ''local'' then ok ()
      else check ''k3os config --initrd'' (perform CConfigRun (bs_ConfigRunner b)) (\<lambda>_. ok ()))"

definition bootstrap_steps :: "Bootstrapper \<Rightarrow> step list" where
  "bootstrap_steps b =
     [(''SetupEtc'', Bootstrap_SetupEtc b), (''SetupModules'', Bootstrap_SetupModules b),
      (''SetupUsers'', Bootstrap_SetupUsers b), (''SetupRC'', Bootstrap_SetupRC b),
      (''SetupDirs'', Bootstrap_SetupDirs b), (''SetupKernel'', Bootstrap_SetupKernel b),
      (''SetupConfig'', Bootstrap_SetupConfig b (bs_Mode b))]"

definition Bootstrapper_Run :: "Bootstrapper \<Rightarrow> unit go" where
  "Bootstrapper_Run b = run_steps ''bootstrap '' (bootstrap_steps b)"

interpretation bootstrap: phase_runner "''bootstrap ''" "bootstrap_steps b" "Bootstrapper_Run b"
  for b
  unfolding Bootstrapper_Run_def by (rule run_steps_phase)

subsection \<open>Nothing consults the mount table before /proc is there\<close>

text \<open>
  \<open>Mount\<close> and \<open>Mounted\<close> read \<open>/proc/self/mountinfo\<close>; \<open>RCRunner\<close> and \<open>ConfigRunner\<close> use them.
\<close>

fun needs_proc :: "event \<Rightarrow> bool" where
  "needs_proc (CMount _ _ _ _, _) = True"
| "needs_proc (CMounted _, _) = True"
| "needs_proc (CRCRun, _) = True"
| "needs_proc (CConfigRun, _) = True"
| "needs_proc _ = False"

definition proc_mounted :: "event \<Rightarrow> bool" where
  "proc_mounted ev \<longleftrightarrow> ev = (CForceMount ''none'' ''/proc'' ''proc'' [], True)"

lemma SetupEtc_guarded:
  "list_all (\<lambda>ev. \<not> needs_proc ev) (snd (Bootstrap_SetupEtc b h))"
  by (simp add: Bootstrap_SetupEtc_def MkdirAll_def ForceMount_def split: sum.split)

lemma SetupEtc_mounts_proc:
  "fst (Bootstrap_SetupEtc b h) = Inr u \<Longrightarrow> list_ex proc_mounted (snd (Bootstrap_SetupEtc b h))"
  by (simp add: Bootstrap_SetupEtc_def MkdirAll_def ForceMount_def proc_mounted_def split: sum.splits)

text \<open>C19: During the whole bootstrap phase, whatever the system answers, no call that reads the mount
  table (Mount, Mounted, the rc and config runners) is made before proc has been mounted
  successfully on /proc by ForceMount.\<close>

theorem bootstrap_proc_first: "guarded needs_proc proc_mounted (snd (Bootstrapper_Run b h))"
  using SetupEtc_mounts_proc [of b h]
  by (simp add: Bootstrapper_Run_def bootstrap_steps_def guarded_none [OF SetupEtc_guarded]
      split: sum.split)

subsection \<open>Order of the steps\<close>

text \<open>The bootstrap phase runs its seven steps in order and stops at the first failure: either
  all steps succeed and the trace is that of all steps, or some first failing step's error is
  returned wrapped with the step's name and nothing of a later step has been executed.\<close>

theorem bootstrap_outcome:
  "(succeeded_until (bootstrap_steps b) 7 h \<and> Bootstrapper_Run b h = (Inr (), steps_trace (bootstrap_steps b) h)) \<or>
   (\<exists>n e. n < 7 \<and> succeeded_until (bootstrap_steps b) n h \<and> step_result (bootstrap_steps b) n h = Inl e
     \<and> Bootstrapper_Run b h = (Inl (Wrap (''bootstrap '' @ fst (bootstrap_steps b ! n)) e),
          steps_trace (take (Suc n) (bootstrap_steps b)) h))"
proof -
  have "length (bootstrap_steps b) = 7" by (simp add: bootstrap_steps_def)
  then show ?thesis using bootstrap.outcome [of b h] by simp
qed

subsection \<open>Appending lines\<close>

text \<open>Appending a line to a file adds exactly that line: the lines of the new content, as a
  line scanner reads them, are the old lines followed by the new one, also when the old
  content did not end with a newline.\<close>

theorem append_line_lines:
  assumes "newline \<notin> set line"
  shows "ScanLines (append_line_content s line) = ScanLines s @ [drop_cr line]"
proof -
  have one: "Split newline line = [line]" using assms by (rule Split_no_sep)
  show ?thesis
  proof (cases "s = [] \<or> last s = newline")
    case True
    then have "Split newline (s @ line @ [newline]) = butlast (Split newline s) @ [line, []]"
      by (cases s rule: rev_cases) (auto simp: Split_append_at Split_snoc_sep one)
    with True show ?thesis
      by (auto simp: append_line_content_def ScanLines_def Let_def last_Split_Nil butlast_append)
  next
    case False
    then have "Split newline (s @ newline # line @ [newline]) = Split newline s @ [line, []]"
      by (simp add: Split_append_at Split_snoc_sep one)
    with False show ?thesis
      by (auto simp: append_line_content_def ScanLines_def Let_def last_Split_Nil butlast_append)
  qed
qed

theorem append_line_lines_witness:
  "ScanLines (append_line_content (''root:x'' @ [newline] @ ''bin:x'') ''sudo:x'')
     = ScanLines (''root:x'' @ [newline] @ ''bin:x'') @ [drop_cr ''sudo:x'']"
  by (rule append_line_lines) simp

end
