(* ===== verification/User_Account.thy ===== *)
theory User_Account
  imports Boot_Bootstrap Cc_Files
begin

section \<open>The account rancher: bootstrap, keys and password together\<close>

text \<open>
  Three components share the user \<open>rancher\<close>: \<open>SetupUsers\<close> of the bootstrapper writes its lines into the account
  files, \<open>internal/ssh\<close> reads its identity and home from \<open>/etc/passwd\<close>, \<open>internal/shadow\<close> replaces its hash in
  \<open>/etc/shadow\<close>. Here what the first writes is followed to what the others read.
\<close>

subsection \<open>What a successful action does to one file\<close>

text \<open>\<open>turns store p R m\<close>: when \<open>m\<close> succeeds, \<open>R\<close> relates the contents of \<open>p\<close> before and after.\<close>

definition turns :: "fstore \<Rightarrow> string \<Rightarrow> (string option \<Rightarrow> string option \<Rightarrow> bool) \<Rightarrow> 'a go \<Rightarrow> bool" where
  "turns store p R m \<longleftrightarrow>
     (\<forall>h x. fst (m h) = Inr x \<longrightarrow> R (replay store h p) (replay store (h @ snd (m h)) p))"

lemma turns_check:
  "turns store p R m \<Longrightarrow> (\<And>x. turns store p S (k x)) \<Longrightarrow> turns store p (R OO S) (check c m k)"
  unfolding turns_def check_Inr by (fastforce simp: check_Inr)

lemma turns_ok: "turns store p (=) (ok x)"
  by (simp add: turns_def)

lemma turns_spares: "emits (spares p) m \<Longrightarrow> turns store p (=) m"
  by (simp add: turns_def emits_def replay_spares)

text \<open>What \<open>replaceInFile\<close> and \<open>appendLine\<close> make of the file they are called for.\<close>

definition replaced_text :: "string \<Rightarrow> string \<Rightarrow> string option \<Rightarrow> string option \<Rightarrow> bool" where
  "replaced_text old new c c' \<longleftrightarrow> (\<exists>data. c = Some data \<and> c' = Some (ReplaceAll data old new))"

definition line_added :: "string \<Rightarrow> string option \<Rightarrow> string option \<Rightarrow> bool" where
  "line_added line c c' \<longleftrightarrow> (\<exists>data. (data = [] \<or> c = Some data) \<and> c' = Some (append_line_content data line))"

lemma appendLine_turns:
  assumes "coherent (bs_FS b) store"
  shows "turns store p (line_added line) (appendLine b p line)"
  unfolding turns_def
proof (intro allI impI)
  fix h x assume ok: "fst (appendLine b p line h) = Inr x"
  show "line_added line (replay store h p) (replay store (h @ snd (appendLine b p line h)) p)"
  proof (cases "fs_ReadFile (bs_FS b) h p")
    case (Inl e)
    with ok show ?thesis
      by (auto simp: line_added_def appendLine_def ReadFile_def WriteFile_def Let_def)
  next
    case (Inr data)
    with ok coherentD [OF assms Inr] show ?thesis
      by (auto simp: line_added_def appendLine_def ReadFile_def WriteFile_def Let_def)
  qed
qed

lemma replaceInFile_turns:
  assumes "coherent (bs_FS b) store"
  shows "turns store p (replaced_text old new) (replaceInFile b p old new)"
  unfolding turns_def
proof (intro allI impI)
  fix h x assume ok: "fst (replaceInFile b p old new h) = Inr x"
  then obtain data where read: "fs_ReadFile (bs_FS b) h p = Inr data"
    by (auto simp: replaceInFile_def ReadFile_def pass_Inr simp del: fst_pass)
  with ok coherentD [OF assms read]
  show "replaced_text old new (replay store h p) (replay store (h @ snd (replaceInFile b p old new h)) p)"
    by (auto simp: replaced_text_def replaceInFile_def ReadFile_def WriteFile_def)
qed

lemma appendLine_other: "p \<noteq> q \<Longrightarrow> turns store p (=) (appendLine b q line)"
  unfolding appendLine_def Let_def ReadFile_def WriteFile_def
  by (intro turns_spares emits_intros) simp_all

lemma replaceInFile_other: "p \<noteq> q \<Longrightarrow> turns store p (=) (replaceInFile b q old new)"
  unfolding replaceInFile_def ReadFile_def WriteFile_def
  by (intro turns_spares emits_intros) simp_all

lemma MkdirAll_turns: "turns store p (=) (MkdirAll fs d m)"
  unfolding MkdirAll_def by (intro turns_spares emits_intros) simp_all

lemmas turns_rules = turns_check turns_ok MkdirAll_turns appendLine_other replaceInFile_other

subsection \<open>Lines of a file with text replaced or appended\<close>

lemma Split_append_piece: "d \<notin> set u \<Longrightarrow> Split d (u @ t) = (case Split d t of [] \<Rightarrow> [u] | w # ws \<Rightarrow> (u @ w) # ws)"
proof (induction u)
  case Nil
  then show ?case by (cases "Split d t") simp_all
next
  case (Cons c u)
  then show ?case by (cases "Split d t") auto
qed

lemma HasPrefix_append_left: "HasPrefix w u \<Longrightarrow> HasPrefix (w @ t) u"
  by (auto simp: HasPrefix_iff)

lemma Split_first: "Split d s = w # ws \<Longrightarrow> \<exists>t. s = w @ t"
proof (induction s arbitrary: w ws)
  case (Cons c s)
  then show ?case by (cases "Split d s") (auto split: if_splits)
qed simp

lemma Split_ReplaceAll:
  assumes "d \<notin> set old" and "d \<notin> set new" and "old \<noteq> []"
  shows "Split d (ReplaceAll s old new) = map (\<lambda>l. ReplaceAll l old new) (Split d s)"
  using assms
proof (induction s old new rule: ReplaceAll.induct)
  case (2 c cs old new)
  show ?case
  proof (cases "HasPrefix (c # cs) old")
    case True
    then obtain t where t: "c # cs = old @ t" by (auto simp: HasPrefix_iff)
    obtain w ws where w: "Split d t = w # ws" by (cases "Split d t") auto
    have "ReplaceAll (old @ w) old new = new @ ReplaceAll w old new"
      using "2.prems"(3) by (cases old) (simp_all add: HasPrefix_iff)
    moreover have "ReplaceAll (old @ t) old new = new @ ReplaceAll t old new"
      using "2.prems"(3) by (cases old) (simp_all add: HasPrefix_iff)
    ultimately show ?thesis using True t w 2 by (simp add: Split_append_piece)
  next
    case False
    obtain w ws where w: "Split d cs = w # ws" by (cases "Split d cs") auto
    have "\<not> HasPrefix (c # w) old"
      using False Split_first [OF w] HasPrefix_append_left [of "c # w" old] by auto
    with False w 2 show ?thesis by simp
  qed
qed simp

lemma HasPrefix_ReplaceAll:
  "e \<notin> set u \<Longrightarrow> HasPrefix (ReplaceAll l (e # old) (e # new)) u \<longleftrightarrow> HasPrefix l u"
proof (induction l "e # old" "e # new" arbitrary: u rule: ReplaceAll.induct)
  case (2 c cs)
  then show ?case by (cases u) (auto simp: HasPrefix_def)
qed simp

lemma appended_line_last:
  assumes "newline \<notin> set line"
  obtains ls where "Split newline (append_line_content c line) = ls @ [line, []]" and "set ls \<subseteq> set (Split newline c)"
proof (cases "c = []")
  case True
  then show thesis using that [of "[]"] assms by (simp add: append_line_content_def Split_append_sep)
next
  case False
  let ?x = "if last c = newline then butlast c else c"
  have "append_line_content c line = ?x @ newline # (line @ [newline])"
    using False by (cases c rule: rev_cases) (simp_all add: append_line_content_def)
  then have "Split newline (append_line_content c line) = Split newline ?x @ [line, []]"
    using assms by (simp add: Split_append_at Split_append_sep Split_no_sep)
  moreover have "set (Split newline ?x) \<subseteq> set (Split newline c)"
    using Split_butlast_sep [OF False] by (auto dest: in_set_butlastD)
  ultimately show thesis by (rule that)
qed

subsection \<open>The account\<close>

definition rancher_passwd :: string where
  "rancher_passwd = ''rancher:x:1000:1000::/home/rancher:/bin/bash''"

definition rancher_shadow :: string where
  "rancher_shadow = ''rancher:*:::::::''"

lemma find_home_skip:
  "list_all (\<lambda>l. \<not> HasPrefix l username) ls \<Longrightarrow> find_home username found (ls @ ms) = find_home username found ms"
  by (induction ls) auto

lemma find_home_rancher: "find_home ''rancher'' found [rancher_passwd, []] = Inr (1000, 1000, ''/home/rancher'')"
proof -
  have "Atoi ''1000'' = Some 1000" by (simp add: string_eval)
  then show ?thesis by (simp add: rancher_passwd_def HasPrefix_def)
qed

lemma shadow_lines_rancher: "shadow_lines ''rancher'' hash (ls @ [rancher_shadow, []]) \<noteq> None"
proof (induction ls)
  case Nil
  then show ?case by (simp add: rancher_shadow_def shadow_line_def numeral_3_eq_3)
next
  case (Cons l ls)
  then show ?case by (cases "shadow_line ''rancher'' hash l") simp_all
qed

lemma SetupUsers_passwd:
  assumes "coherent (bs_FS b) store"
  shows "turns store ''/etc/passwd'' (replaced_text ''/bin/ash'' ''/bin/bash'' OO line_added rancher_passwd)
    (Bootstrap_SetupUsers b)"
proof -
  have "turns store ''/etc/passwd'' (replaced_text ''/bin/ash'' ''/bin/bash'' OO (=) OO (=) OO (=) OO
      line_added rancher_passwd OO (=) OO (=) OO (=)) (Bootstrap_SetupUsers b)"
    unfolding Bootstrap_SetupUsers_def rancher_passwd_def
    by (intro turns_check turns_ok MkdirAll_turns replaceInFile_turns appendLine_turns appendLine_other assms) simp_all
  then show ?thesis by (simp add: eq_OO OO_eq)
qed

lemma SetupUsers_shadow:
  assumes "coherent (bs_FS b) store"
  shows "turns store ''/etc/shadow'' (line_added rancher_shadow) (Bootstrap_SetupUsers b)"
proof -
  have "turns store ''/etc/shadow'' ((=) OO (=) OO (=) OO (=) OO (=) OO line_added rancher_shadow OO (=) OO (=))
      (Bootstrap_SetupUsers b)"
    unfolding Bootstrap_SetupUsers_def rancher_shadow_def
    by (intro turns_check turns_ok MkdirAll_turns appendLine_turns replaceInFile_other appendLine_other assms) simp_all
  then show ?thesis by (simp add: eq_OO OO_eq)
qed


subsection \<open>Keys and passwords for the account\<close>

abbreviation rancher_ssh :: string where "rancher_ssh \<equiv> ''/home/rancher/.ssh''"
abbreviation rancher_keys :: string where "rancher_keys \<equiv> ''/home/rancher/.ssh/authorized_keys''"

text \<open>Calls of \<open>SetAuthorizedKeys\<close> that make, own or replace the account's files and no others.\<close>

definition for_rancher :: "event \<Rightarrow> bool" where
  "for_rancher ev \<longleftrightarrow>
     (case fst ev of
        CMkdirAll p m \<Rightarrow> p = rancher_ssh \<and> m = mode_700
      | CChown p u g \<Rightarrow> p \<in> {rancher_ssh, rancher_keys} \<and> u = 1000 \<and> g = 1000
      | CCreate p \<Rightarrow> p = rancher_keys
      | CRename p q \<Rightarrow> q = rancher_keys
      | CWriteFile p d m \<Rightarrow> False
      | _ \<Rightarrow> True)"

lemma for_rancher_quiet [simp]: "for_rancher (CSys n as ks, b)" "for_rancher (CSleep d, b)"
  by (simp_all add: for_rancher_def)

lemma http_loop_for_rancher: "emits for_rancher (http_loop net url n)"
proof (induction n)
  case 0
  show ?case by (subst http_loop.simps) (auto simp: Sleep_def intro!: emits_intros)
next
  case (Suc n)
  then show ?case by (subst http_loop.simps) (auto simp: Sleep_def intro!: emits_intros)
qed

lemma getKey_for_rancher: "emits for_rancher (getKey net key withNet)"
  unfolding getKey_def
  by (auto intro!: emits_intros http_loop_for_rancher split: option.split simp del: http_loop.simps)

lemma authorizeSSHKey_for_rancher: "emits for_rancher (authorizeSSHKey net fs key rancher_keys 1000 1000 withNet)"
  unfolding authorizeSSHKey_def create_key_file_def writeFileAtomic_def PathSplit_def Let_def case_prod_conv step_calls
    Create_def Chown_def Stat_def ReadFile_def
  by (intro getKey_for_rancher emits_intros) (simp_all add: for_rancher_def)

lemma SetAuthorizedKeys_for_rancher:
  assumes "fs_ReadFile fs h ''/etc/passwd'' = Inr bytes"
    and "findUserHomeDir bytes ''rancher'' = Inr (1000, 1000, ''/home/rancher'')"
  shows "list_all for_rancher (snd (SetAuthorizedKeys net cfg withNet fs h))"
proof -
  have paths: "PathJoin [''/home/rancher'', ''.ssh''] = rancher_ssh"
    "PathJoin [rancher_ssh, ''authorized_keys''] = rancher_keys" by code_simp+
  define rest where "rest =
     (let userSSHDir = PathJoin [''/home/rancher'', ''.ssh''] in
      pass (bnd (Stat fs userSSHDir) (\<lambda>r. case r of
              Inl e \<Rightarrow> if IsNotExist e then MkdirAll fs userSSHDir mode_700 else fail e
            | Inr _ \<Rightarrow> ok ())) (\<lambda>_.
      pass (Chown fs userSSHDir 1000 1000) (\<lambda>_.
      let userAuthorizedFile = PathJoin [userSSHDir, ''authorized_keys''] in
      ignore (foreach (cc_SSHAuthorizedKeys cfg)
               (\<lambda>key. ignore (authorizeSSHKey net fs key userAuthorizedFile 1000 1000 withNet) (ret ())))
      (ok ()))))"
  have "emits for_rancher rest"
    unfolding rest_def Let_def paths Stat_def MkdirAll_def Chown_def
    by (intro authorizeSSHKey_for_rancher emits_intros) (simp_all add: for_rancher_def)
  moreover have "SetAuthorizedKeys net cfg withNet fs h = pass (ReadFile fs ''/etc/passwd'') (\<lambda>_. rest) h"
    using assms by (simp add: prod_eq_iff SetAuthorizedKeys_def ReadFile_def rest_def)
  ultimately show ?thesis using assms(1) by (simp add: ReadFile_def emits_def for_rancher_def)
qed

lemma SetPassword_finds_user:
  assumes "coherent fs store" and "replay store h shadowPath = Some shadow"
    and "\<And>hash. shadow_lines username hash (Split newline shadow) \<noteq> None"
  shows "fst (SetPassword hasher fs username password h) \<noteq> Inl (Msg ''user not found in /etc/shadow'')"
proof (cases "password = []")
  case False
  have same: "replay store (h @ snd (hash_step hasher password h)) shadowPath = Some shadow"
    using assms(2) hash_step_spares [of shadowPath hasher password] by (simp add: emits_def replay_spares)
  have "data = shadow" if "fs_ReadFile fs (h @ snd (hash_step hasher password h)) shadowPath = Inr data" for data
    using coherentD [OF assms(1) that] same by simp
  moreover have "fst (shadow_write fs shadowPath out h'') \<noteq> Inl (Msg ''user not found in /etc/shadow'')" for out h''
    by (auto simp: shadow_write_def shadow_undo_def split: sum.splits)
  ultimately show ?thesis
    unfolding SetPassword_unfold [OF False]
    by (auto simp: ReadFile_def split: sum.split option.split dest!: assms(3) [THEN notE])
qed (simp add: SetPassword_def)

text \<open>C17: The account that bootstrapping makes is the one the configuration is applied to. After a successful
  SetupUsers, on a coherent file system whose password file had no line starting with rancher, the entry
  found for rancher is the one written, with user and group 1000 and the home directory /home/rancher; applying SSH keys then
  makes, owns and replaces only the .ssh directory and the key file of that home, for that user; and setting
  the password does not fail for want of an entry.\<close>

theorem SetupUsers_account:
  assumes "coherent (bs_FS b) store" and "fst (Bootstrap_SetupUsers b h) = Inr ()"
    and "\<And>old. replay store h ''/etc/passwd'' = Some old \<Longrightarrow> list_all (\<lambda>l. \<not> HasPrefix l ''rancher'') (Split newline old)"
    and "fs_ReadFile (bs_FS b) (h @ snd (Bootstrap_SetupUsers b h)) ''/etc/passwd'' = Inr bytes"
  shows "let h' = h @ snd (Bootstrap_SetupUsers b h) in
         findUserHomeDir bytes ''rancher'' = Inr (1000, 1000, ''/home/rancher'')
       \<and> list_all for_rancher (snd (SetAuthorizedKeys net cfg withNet (bs_FS b) h'))
       \<and> fst (SetPassword hasher (bs_FS b) ''rancher'' password h') \<noteq> Inl (Msg ''user not found in /etc/shadow'')"
proof -
  let ?h' = "h @ snd (Bootstrap_SetupUsers b h)"
  from SetupUsers_passwd [OF assms(1)] assms(2)
  obtain old data where old: "replay store h ''/etc/passwd'' = Some old"
    and data: "data = [] \<or> data = ReplaceAll old ''/bin/ash'' ''/bin/bash''"
    and new: "replay store ?h' ''/etc/passwd'' = Some (append_line_content data rancher_passwd)"
    unfolding turns_def replaced_text_def line_added_def by fastforce
  have bytes: "bytes = append_line_content data rancher_passwd"
    using coherentD [OF assms(1,4)] new by simp
  have line: "newline \<notin> set rancher_passwd" by code_simp
  from appended_line_last [OF line, of data] obtain ls where ls: "Split newline bytes = ls @ [rancher_passwd, []]"
    and sub: "set ls \<subseteq> set (Split newline data)"
    unfolding bytes by metis
  have "list_all (\<lambda>l. \<not> HasPrefix l ''rancher'') (Split newline data)"
    using data
  proof
    assume "data = []"
    then show ?thesis by (simp add: HasPrefix_def)
  next
    assume "data = ReplaceAll old ''/bin/ash'' ''/bin/bash''"
    then show ?thesis
      using assms(3) [OF old] by (simp add: Split_ReplaceAll HasPrefix_ReplaceAll list_all_iff)
  qed
  then have home: "findUserHomeDir bytes ''rancher'' = Inr (1000, 1000, ''/home/rancher'')"
    using sub
    by (simp add: findUserHomeDir_def ls find_home_skip find_home_rancher list_all_iff subset_iff del: find_home.simps)
  moreover have "list_all for_rancher (snd (SetAuthorizedKeys net cfg withNet (bs_FS b) ?h'))"
    by (rule SetAuthorizedKeys_for_rancher [OF assms(4) home])
  moreover have "fst (SetPassword hasher (bs_FS b) ''rancher'' password ?h') \<noteq> Inl (Msg ''user not found in /etc/shadow'')"
  proof -
    from SetupUsers_shadow [OF assms(1)] assms(2) obtain sdata where
      shadow: "replay store ?h' shadowPath = Some (append_line_content sdata rancher_shadow)"
      unfolding turns_def line_added_def shadowPath_def by fastforce
    have "newline \<notin> set rancher_shadow" by code_simp
    then obtain ms where "Split newline (append_line_content sdata rancher_shadow) = ms @ [rancher_shadow, []]"
      by (rule appended_line_last)
    then show ?thesis
      using SetPassword_finds_user [OF assms(1) shadow] shadow_lines_rancher by simp
  qed
  ultimately show ?thesis by (simp add: Let_def)
qed


subsection \<open>A system on which it can be seen\<close>

definition fresh_store :: fstore where
  "fresh_store = [shadowPath \<mapsto> ''root:x:::::::'' @ [newline], ''/etc/group'' \<mapsto> ''root:x:0:'' @ [newline],
     ''/etc/passwd'' \<mapsto> ''root:x:0:0:root:/root:/bin/ash'' @ [newline]]"

definition fresh_boot :: Bootstrapper where
  "fresh_boot = \<lparr>bs_FS = store_fs [shadowPath, ''/etc/passwd'', ''/etc/group''] fresh_store, bs_Mounter = mounter_ok,
     bs_Cmd = cmd_ok, bs_LoopAttacher = None, bs_CopyDir = (\<lambda>_ _ _. Inr ()), bs_RCRunner = (\<lambda>_. Inr ()),
     bs_ConfigRunner = (\<lambda>_. Inr ()), bs_KernelVersion = ''6.1'', bs_Mode = []\<rparr>"

theorem SetupUsers_account_witness:
  "list_all for_rancher (snd (SetAuthorizedKeys no_net (zero_CloudConfig\<lparr>cc_SSHAuthorizedKeys := [''ssh-rsa B'']\<rparr>) False
     (bs_FS fresh_boot) (snd (Bootstrap_SetupUsers fresh_boot []))))"
proof -
  have coherent: "coherent (bs_FS fresh_boot) fresh_store"
    by (auto simp: fresh_boot_def fresh_store_def intro!: store_fs_coherent split: if_splits)
  have writes: "fst (appendLine fresh_boot p l h) = Inr ()" "fst (MkdirAll (bs_FS fresh_boot) d m h) = Inr ()" for p l h d m
    by (simp_all add: appendLine_def WriteFile_def MkdirAll_def fresh_boot_def store_fs_def fs_ok_def Let_def)
  have "fst (replaceInFile fresh_boot ''/etc/passwd'' old new []) = Inr ()" for old new
    by (simp add: replaceInFile_def ReadFile_def WriteFile_def fresh_boot_def store_fs_def lookup_def fresh_store_def
        fs_ok_def)
  then have ok: "fst (Bootstrap_SetupUsers fresh_boot []) = Inr ()"
    by (simp add: Bootstrap_SetupUsers_def writes)
  from SetupUsers_passwd [OF coherent] ok obtain bytes where
    "replay fresh_store ([] @ snd (Bootstrap_SetupUsers fresh_boot [])) ''/etc/passwd'' = Some bytes"
    unfolding turns_def line_added_def by fastforce
  then have read: "fs_ReadFile (bs_FS fresh_boot) ([] @ snd (Bootstrap_SetupUsers fresh_boot [])) ''/etc/passwd'' = Inr bytes"
    by (simp add: fresh_boot_def store_fs_def lookup_def)
  have none: "list_all (\<lambda>l. \<not> HasPrefix l ''rancher'') (Split newline old)"
    if "replay fresh_store [] ''/etc/passwd'' = Some old" for old
    using that by (auto simp: fresh_store_def shadowPath_def HasPrefix_def)
  show ?thesis
    using SetupUsers_account [OF coherent ok none read, of no_net] by (simp add: Let_def)
qed

end
