(* ===== verification/Questions.thy ===== *)
theory Questions
  imports Go_Effects
begin

section \<open>Asking on the terminal: internal/questions and internal/util/prompt.go\<close>

text \<open>
  What the user types is a finite sequence of bytes, after which the terminal is closed; an
  operation returns its result and the bytes it has not read. A line read without its newline is the
  error \<open>io.EOF\<close>. What is printed is not modelled. The loops that ask again terminate because every
  round reads something, and a loop that no answer can satisfy ends with the input.
\<close>

subsection \<open>Definitions\<close>

type_synonym input = string

definition io_EOF :: err where
  "io_EOF = Msg ''EOF''"

definition ReadString :: "input \<Rightarrow> (err + string) \<times> input" where
  "ReadString inp =
     (if newline \<in> set inp
      then (Inr (takeWhile (\<lambda>c. c \<noteq> newline) inp), tl (dropWhile (\<lambda>c. c \<noteq> newline) inp))
      else (Inl io_EOF, []))"

lemma ReadString_shorter: "ReadString inp = (Inr a, rest) \<Longrightarrow> length rest < length inp"
proof -
  assume "ReadString inp = (Inr a, rest)"
  then have rest: "newline \<in> set inp" "rest = tl (dropWhile (\<lambda>c. c \<noteq> newline) inp)"
    by (auto simp: ReadString_def split: if_splits)
  have "length (dropWhile (\<lambda>c. c \<noteq> newline) inp) \<le> length inp" by (rule length_dropWhile_le)
  moreover have "dropWhile (\<lambda>c. c \<noteq> newline) inp \<noteq> []" using rest(1) by (auto simp: dropWhile_eq_Nil_conv)
  ultimately show "length rest < length inp" using rest(2) by (cases "dropWhile (\<lambda>c. c \<noteq> newline) inp") auto
qed

function Prompt :: "string \<Rightarrow> input \<Rightarrow> (err + string) \<times> input" where
  "Prompt def inp =
     (case ReadString inp of
        (Inl e, rest) \<Rightarrow> (Inl e, rest)
      | (Inr line, rest) \<Rightarrow>
          let answer = TrimSpace line; answer = (if answer = [] then def else answer) in
          if answer = [] then Prompt def rest else (Inr answer, rest))"
  by pat_completeness auto
termination
  by (relation "measure (\<lambda>(_, inp). length inp)") (auto dest: ReadString_shorter sym)

declare Prompt.simps [simp del]

definition PromptOptional :: "string \<Rightarrow> input \<Rightarrow> (err + string) \<times> input" where
  "PromptOptional def inp =
     (case ReadString inp of
        (Inl e, rest) \<Rightarrow> (Inl e, rest)
      | (Inr line, rest) \<Rightarrow> let answer = TrimSpace line in (Inr (if answer = [] then def else answer), rest))"

lemma Prompt_shorter: "Prompt def inp = (Inr a, rest) \<Longrightarrow> length rest < length inp"
proof (induction def inp rule: Prompt.induct)
  case (1 def inp)
  show ?case
  proof (cases "ReadString inp")
    case (Pair r rest')
    then show ?thesis
      using 1 ReadString_shorter
      by (cases r) (fastforce simp: Prompt.simps [of def inp] Let_def split: if_splits)+
  qed
qed

function options_ask :: "string \<Rightarrow> nat \<Rightarrow> input \<Rightarrow> (err + nat) \<times> input" where
  "options_ask defString n inp =
     (case Prompt defString inp of
        (Inl e, rest) \<Rightarrow> (Inl e, rest)
      | (Inr answer, rest) \<Rightarrow>
          (case Atoi answer of
             None \<Rightarrow> options_ask defString n rest
           | Some num \<Rightarrow>
               if num - 1 < 0 \<or> int n \<le> num - 1 then options_ask defString n rest
               else (Inr (nat (num - 1)), rest)))"
  by pat_completeness auto
termination
  by (relation "measure (\<lambda>(_, _, inp). length inp)") (auto dest: Prompt_shorter sym)

declare options_ask.simps [simp del]

text \<open>\<open>n\<close> is the number of options; a negative default is no default.\<close>

definition PromptOptions :: "int \<Rightarrow> nat \<Rightarrow> input \<Rightarrow> (err + nat) \<times> input" where
  "PromptOptions def n inp =
     (if n = 1 then (Inr 0, inp) else options_ask (if def \<ge> 0 then Itoa (def + 1) else []) n inp)"

definition PromptFormattedOptions :: "int \<Rightarrow> string list \<Rightarrow> input \<Rightarrow> (err + nat) \<times> input" where
  "PromptFormattedOptions def options inp = PromptOptions def (length options) inp"

function PromptBool :: "bool \<Rightarrow> input \<Rightarrow> (err + bool) \<times> input" where
  "PromptBool def inp =
     (case Prompt (if def then ''y'' else ''n'') inp of
        (Inl e, rest) \<Rightarrow> (Inl e, rest)
      | (Inr yn, rest) \<Rightarrow>
          if ToLower yn = ''y'' then (Inr True, rest)
          else if ToLower yn = ''n'' then (Inr False, rest)
          else PromptBool def rest)"
  by pat_completeness auto
termination
  by (relation "measure (\<lambda>(_, inp). length inp)") (auto dest: Prompt_shorter sym)

declare PromptBool.simps [simp del]

subsubsection \<open>prompt.go\<close>

text \<open>One byte of the input; reading none is its end.\<close>

fun getCharacter :: "input \<Rightarrow> (err + char) \<times> input" where
  "getCharacter [] = (Inl io_EOF, [])"
| "getCharacter (v # inp) = (Inr v, inp)"

definition maxBytes :: nat where
  "maxBytes = 512"

text \<open>The loop of \<open>MaskPassword\<close> with the number of rounds left.\<close>

fun mask_loop :: "nat \<Rightarrow> string \<Rightarrow> input \<Rightarrow> (err + string) \<times> input" where
  "mask_loop 0 p inp = (Inl (Msg ''maximum password length''), inp)"
| "mask_loop (Suc n) p inp =
     (case getCharacter inp of
        (Inl e, rest) \<Rightarrow> (Inl e, rest)
      | (Inr v, rest) \<Rightarrow>
          if v = CHR 0x7F \<or> v = CHR 0x08 then mask_loop n (butlast p) rest
          else if v = CHR 0x0D \<or> v = newline then (Inr p, rest)
          else if v = CHR 0x03 then (Inl (Msg ''interrupted''), rest)
          else if v \<noteq> CHR 0x00 then mask_loop n (p @ [v]) rest
          else mask_loop n p rest)"

definition MaskPassword :: "input \<Rightarrow> (err + string) \<times> input" where
  "MaskPassword inp = mask_loop (maxBytes + 1) [] inp"

definition PromptPassword :: "input \<Rightarrow> (err + string \<times> bool) \<times> input" where
  "PromptPassword inp =
     (case MaskPassword inp of
        (Inl e, rest) \<Rightarrow> (Inl (Wrap ''failed to set password'' e), rest)
      | (Inr p, rest) \<Rightarrow>
          (case MaskPassword rest of
             (Inl e, rest') \<Rightarrow> (Inl (Wrap ''failed to confirm password'' e), rest')
           | (Inr c, rest') \<Rightarrow> (Inr (c, p = c), rest')))"

subsection \<open>Lemmas\<close>

lemma options_ask_range: "options_ask defString n inp = (Inr i, rest) \<Longrightarrow> i < n"
proof (induction defString n inp rule: options_ask.induct)
  case (1 defString n inp)
  obtain r rest' where p: "Prompt defString inp = (r, rest')" by (cases "Prompt defString inp")
  show ?case
  proof (cases r)
    case (Inl e)
    then show ?thesis using 1(3) p by (simp add: options_ask.simps)
  next
    case (Inr answer)
    show ?thesis
    proof (cases "Atoi answer")
      case None
      then show ?thesis using 1(1) [OF p [symmetric] Inr None] 1(3) p Inr by (simp add: options_ask.simps [of defString n inp])
    next
      case (Some num)
      then show ?thesis using 1(2) [OF p [symmetric] Inr Some] 1(3) p Inr
        by (auto simp: options_ask.simps [of defString n inp] split: if_splits)
    qed
  qed
qed

lemma PromptOptions_range: "PromptOptions def n inp = (Inr i, rest) \<Longrightarrow> i < n"
  by (auto simp: PromptOptions_def dest: options_ask_range split: if_splits)

lemma PromptBool_shorter: "PromptBool def inp = (Inr v, rest) \<Longrightarrow> length rest < length inp"
proof (induction def inp rule: PromptBool.induct)
  case (1 def inp)
  obtain r rest' where p: "Prompt (if def then ''y'' else ''n'') inp = (r, rest')"
    by (cases "Prompt (if def then ''y'' else ''n'') inp")
  show ?case
  proof (cases r)
    case (Inl e)
    then show ?thesis using 1(2) p by (simp add: PromptBool.simps)
  next
    case (Inr yn)
    have "length rest' < length inp" using Prompt_shorter p Inr by blast
    then show ?thesis
      using 1(1) [OF p [symmetric] Inr] 1(2) p Inr
      by (auto simp: PromptBool.simps [of def inp] split: if_splits)
  qed
qed

text \<open>An empty line takes the default answer.\<close>

lemma PromptBool_default: "PromptBool def (newline # rest) = (Inr def, rest)"
  by (cases def) (simp_all add: PromptBool.simps Prompt.simps ReadString_def string_eval ToLower_def to_lower_def Let_def)

text \<open>A password of at most 512 visible bytes, ended by return, is read as typed.\<close>

definition visible :: "char \<Rightarrow> bool" where
  "visible c \<longleftrightarrow> c \<notin> {CHR 0x7F, CHR 0x08, CHR 0x0D, newline, CHR 0x03, CHR 0x00}"

lemma mask_loop_typed:
  "list_all visible s \<Longrightarrow> length s < n \<Longrightarrow> mask_loop n p (s @ CHR 0x0D # rest) = (Inr (p @ s), rest)"
proof (induction s arbitrary: n p)
  case Nil
  then show ?case by (cases n) simp_all
next
  case (Cons c s)
  then show ?case by (cases n) (simp_all add: visible_def)
qed

lemma MaskPassword_typed:
  "list_all visible s \<Longrightarrow> length s \<le> 512 \<Longrightarrow> MaskPassword (s @ CHR 0x0D # rest) = (Inr s, rest)"
  by (simp add: MaskPassword_def mask_loop_typed maxBytes_def)

lemma mask_loop_length: "mask_loop n p inp = (Inr q, rest) \<Longrightarrow> length q + 1 \<le> length p + n \<and> length rest < length inp"
proof (induction n arbitrary: p inp)
  case (Suc n)
  then show ?case
  proof (cases inp)
    case (Cons v inp')
    with Suc.prems Suc.IH [of "butlast p" inp'] Suc.IH [of "p @ [v]" inp'] Suc.IH [of p inp'] show ?thesis
      by (simp split: if_splits; linarith)
  qed simp
qed simp

lemma MaskPassword_length: "MaskPassword inp = (Inr q, rest) \<Longrightarrow> length q \<le> 512 \<and> length rest < length inp"
  using mask_loop_length by (fastforce simp: MaskPassword_def maxBytes_def)

lemma PromptPassword_shorter: "PromptPassword inp = (Inr v, rest) \<Longrightarrow> length rest < length inp"
  by (auto simp: PromptPassword_def split: prod.splits sum.splits dest!: MaskPassword_length)

lemma PromptPassword_confirmed:
  "PromptPassword inp = (Inr (c, True), rest) \<Longrightarrow>
     \<exists>mid. MaskPassword inp = (Inr c, mid) \<and> MaskPassword mid = (Inr c, rest)"
  by (auto simp: PromptPassword_def split: prod.splits sum.splits)

end
