(* ===== verification/Mount.thy ===== *)
theory Mount
  imports Go_Fixtures "HOL-Library.Word"
begin

unbundle bit_operations_syntax

section \<open>Mounting: internal/mount\<close>

text \<open>
  Option parsing, the mount table, \<open>Mount\<close>/\<open>ForceMount\<close> and the pool of tracked mounts. Flags are
  Go's 64-bit \<open>int\<close>, the constants have the values of the Linux mount ABI. A line of the mount table
  is read field by field (fields are separated by blanks). The pool's mutex serialises its methods,
  so each method is one atomic step on the list of mounts.
\<close>

subsection \<open>flags_linux.go\<close>

type_synonym flags = "64 word"

definition MS_REC :: flags where "MS_REC = 0x4000"
definition RDONLY :: flags where "RDONLY = 0x1"
definition NOSUID :: flags where "NOSUID = 0x2"
definition NODEV :: flags where "NODEV = 0x4"
definition NOEXEC :: flags where "NOEXEC = 0x8"
definition SYNCHRONOUS :: flags where "SYNCHRONOUS = 0x10"
definition DIRSYNC :: flags where "DIRSYNC = 0x80"
definition REMOUNT :: flags where "REMOUNT = 0x20"
definition MANDLOCK :: flags where "MANDLOCK = 0x40"
definition NOATIME :: flags where "NOATIME = 0x400"
definition NODIRATIME :: flags where "NODIRATIME = 0x800"
definition BIND :: flags where "BIND = 0x1000"
definition RBIND :: flags where "RBIND = BIND OR MS_REC"
definition UNBINDABLE :: flags where "UNBINDABLE = 0x20000"
definition RUNBINDABLE :: flags where "RUNBINDABLE = UNBINDABLE OR MS_REC"
definition PRIVATE :: flags where "PRIVATE = 0x40000"
definition RPRIVATE :: flags where "RPRIVATE = PRIVATE OR MS_REC"
definition SLAVE :: flags where "SLAVE = 0x80000"
definition RSLAVE :: flags where "RSLAVE = SLAVE OR MS_REC"
definition SHARED :: flags where "SHARED = 0x100000"
definition RSHARED :: flags where "RSHARED = SHARED OR MS_REC"
definition RELATIME :: flags where "RELATIME = 0x200000"
definition STRICTATIME :: flags where "STRICTATIME = 0x1000000"

lemmas mount_flags = MS_REC_def RDONLY_def NOSUID_def NODEV_def NOEXEC_def SYNCHRONOUS_def DIRSYNC_def
  REMOUNT_def MANDLOCK_def NOATIME_def NODIRATIME_def BIND_def RBIND_def UNBINDABLE_def RUNBINDABLE_def
  PRIVATE_def RPRIVATE_def SLAVE_def RSLAVE_def SHARED_def RSHARED_def RELATIME_def STRICTATIME_def

subsection \<open>flags.go\<close>

text \<open>The table \<open>flags\<close>: whether the option clears, and the bits it concerns.\<close>

definition flag_table :: "(string \<times> bool \<times> flags) list" where
  "flag_table =
     [(''defaults'', False, 0), (''ro'', False, RDONLY), (''rw'', True, RDONLY), (''suid'', True, NOSUID),
      (''nosuid'', False, NOSUID), (''dev'', True, NODEV), (''nodev'', False, NODEV), (''exec'', True, NOEXEC),
      (''noexec'', False, NOEXEC), (''sync'', False, SYNCHRONOUS), (''async'', True, SYNCHRONOUS),
      (''dirsync'', False, DIRSYNC), (''remount'', False, REMOUNT), (''mand'', False, MANDLOCK),
      (''nomand'', True, MANDLOCK), (''atime'', True, NOATIME), (''noatime'', False, NOATIME),
      (''diratime'', True, NODIRATIME), (''nodiratime'', False, NODIRATIME), (''bind'', False, BIND),
      (''rbind'', False, RBIND), (''unbindable'', False, UNBINDABLE), (''runbindable'', False, RUNBINDABLE),
      (''private'', False, PRIVATE), (''rprivate'', False, RPRIVATE), (''shared'', False, SHARED),
      (''rshared'', False, RSHARED), (''slave'', False, SLAVE), (''rslave'', False, RSLAVE),
      (''relatime'', False, RELATIME), (''norelatime'', True, RELATIME),
      (''strictatime'', False, STRICTATIME), (''nostrictatime'', True, STRICTATIME)]"

text \<open>An option that is in the table with bits to change; every other one is data.\<close>

definition flag_option :: "string \<Rightarrow> (bool \<times> flags) option" where
  "flag_option opt =
     (case map_of flag_table opt of
        Some (clear, f) \<Rightarrow> if f \<noteq> 0 then Some (clear, f) else None
      | None \<Rightarrow> None)"

fun options_loop :: "flags \<Rightarrow> string list \<Rightarrow> string list \<Rightarrow> flags \<times> string list" where
  "options_loop flag data [] = (flag, data)"
| "options_loop flag data (opt # opts) =
     (case flag_option opt of
        Some (clear, f) \<Rightarrow> options_loop (if clear then flag AND NOT f else flag OR f) data opts
      | None \<Rightarrow> options_loop flag (data @ [opt]) opts)"

definition parseOptions :: "string \<Rightarrow> flags \<times> string" where
  "parseOptions options =
     (let (flag, data) = options_loop 0 [] (Split CHR '','' options) in (flag, Join '','' data))"

subsection \<open>mount.go\<close>

record Info =
  mi_ID :: int
  mi_Parent :: int
  mi_Major :: int
  mi_Minor :: int
  mi_Root :: string
  mi_Mountpoint :: string
  mi_Opts :: string
  mi_Optional :: string
  mi_Fstype :: string
  mi_Source :: string
  mi_VfsOpts :: string

text \<open>\<open>strings.Index\<close>: the position of the first occurrence.\<close>

fun Index :: "string \<Rightarrow> string \<Rightarrow> nat option" where
  "Index [] t = (if t = [] then Some 0 else None)"
| "Index (c # cs) t = (if HasPrefix (c # cs) t then Some 0 else map_option Suc (Index cs t))"

text \<open>\<open>text[index+3:]\<close> with \<open>index\<close> -1 when the separator is missing.\<close>

definition after_separator :: "string \<Rightarrow> string" where
  "after_separator text =
     (case Index text '' - '' of Some index \<Rightarrow> drop (index + 3) text | None \<Rightarrow> drop 2 text)"

definition parse_devno :: "string \<Rightarrow> (int \<times> int) option" where
  "parse_devno s =
     (case Split CHR '':'' s of
        [maj, mnr] \<Rightarrow> (case (Atoi maj, Atoi mnr) of (Some a, Some b) \<Rightarrow> Some (a, b) | _ \<Rightarrow> None)
      | _ \<Rightarrow> None)"

definition scan_error :: err where
  "scan_error = Wrap ''scanning failed'' (Msg ''expected integer'')"

definition parse_info :: "string \<Rightarrow> err + Info" where
  "parse_info text =
     (case Fields text of
        f1 # f2 # f3 # root # mp # opts # optional # _ \<Rightarrow>
          (case (Atoi f1, Atoi f2, parse_devno f3) of
             (Some mid, Some parent, Some (maj, mnr)) \<Rightarrow>
               (case Fields (after_separator text) of
                  fstype # src # vfs \<Rightarrow>
                    if vfs = [] then Inl (Msg ''error found less than 3 fields post - '')
                    else Inr \<lparr>mi_ID = mid, mi_Parent = parent, mi_Major = maj, mi_Minor = mnr, mi_Root = root,
                           mi_Mountpoint = mp, mi_Opts = opts,
                           mi_Optional = (if optional \<noteq> ''-'' then optional else []),
                           mi_Fstype = fstype, mi_Source = src, mi_VfsOpts = Join '' '' vfs\<rparr>
                | _ \<Rightarrow> Inl (Msg ''error found less than 3 fields post - ''))
           | _ \<Rightarrow> Inl scan_error)
      | _ \<Rightarrow> Inl scan_error)"

fun parse_infos :: "string list \<Rightarrow> err + Info list" where
  "parse_infos [] = Inr []"
| "parse_infos (l # ls) =
     (case parse_info l of
        Inl e \<Rightarrow> Inl e
      | Inr p \<Rightarrow> (case parse_infos ls of Inl e \<Rightarrow> Inl e | Inr ps \<Rightarrow> Inr (p # ps)))"

definition parseInfoFile :: "string \<Rightarrow> err + Info list" where
  "parseInfoFile content = parse_infos (ScanLines content)"

text \<open>What the package takes from the operating system: files, links and the system call.\<close>

record MountSys =
  ms_FS :: FileSystem
  ms_Mount :: "hist \<Rightarrow> string \<Rightarrow> string \<Rightarrow> string \<Rightarrow> flags \<Rightarrow> string \<Rightarrow> err + unit"

definition sys_mount :: "MountSys \<Rightarrow> string \<Rightarrow> string \<Rightarrow> string \<Rightarrow> flags \<Rightarrow> string \<Rightarrow> unit go" where
  "sys_mount ms device target mType flag data =
     perform (CSysMount device target mType (unat flag) data) (\<lambda>h. ms_Mount ms h device target mType flag data)"

definition parseMountTable :: "MountSys \<Rightarrow> Info list go" where
  "parseMountTable ms =
     pass (ReadFile (ms_FS ms) ''/proc/self/mountinfo'') (\<lambda>content. ret (parseInfoFile content))"

definition mount_Mounted :: "MountSys \<Rightarrow> string \<Rightarrow> bool go" where
  "mount_Mounted ms mountpoint =
     pass (parseMountTable ms) (\<lambda>entries. ok (list_ex (\<lambda>e. mi_Mountpoint e = mountpoint) entries))"

definition link_target :: "string \<Rightarrow> string \<Rightarrow> string" where
  "link_target linkPath target =
     (if IsAbs target then Clean target else Clean (PathJoin [Dir linkPath, target]))"

definition resolveDevice :: "MountSys \<Rightarrow> string \<Rightarrow> string io" where
  "resolveDevice ms device =
     (let follow = (\<lambda>linkPath. bnd (Readlink (ms_FS ms) linkPath) (\<lambda>r.
            ret (case r of Inl _ \<Rightarrow> device | Inr target \<Rightarrow> link_target linkPath target))) in
      if HasPrefix device ''LABEL='' then
        follow (PathJoin [''/dev/disk/by-label'', drop (length ''LABEL='') device])
      else if HasPrefix device ''UUID='' then
        follow (PathJoin [''/dev/disk/by-uuid'', drop (length ''UUID='') device])
      else ret device)"

definition mount_call :: "MountSys \<Rightarrow> string \<Rightarrow> string \<Rightarrow> string \<Rightarrow> flags \<Rightarrow> string \<Rightarrow> unit go" where
  "mount_call ms device target mType flag data =
     bnd (resolveDevice ms device) (\<lambda>device.
     pass (sys_mount ms device target mType flag data) (\<lambda>_.
     if flag AND BIND = BIND \<and> flag AND RDONLY = RDONLY
     then sys_mount ms device target mType (flag OR REMOUNT) data
     else ok ()))"

definition mount_ForceMount :: "MountSys \<Rightarrow> string \<Rightarrow> string \<Rightarrow> string \<Rightarrow> string \<Rightarrow> unit go" where
  "mount_ForceMount ms device target mType options =
     (let (flag, data) = parseOptions options in mount_call ms device target mType flag data)"

definition mount_Mount :: "MountSys \<Rightarrow> string \<Rightarrow> string \<Rightarrow> string \<Rightarrow> string \<Rightarrow> unit go" where
  "mount_Mount ms device target mType options =
     (let (flag, _) = parseOptions options in
      if flag AND REMOUNT \<noteq> REMOUNT then
        pass (mount_Mounted ms target) (\<lambda>mounted.
        if mounted then ok () else mount_ForceMount ms device target mType options)
      else mount_ForceMount ms device target mType options)"

subsection \<open>pool.go\<close>

record Point =
  pt_Source :: string
  pt_Target :: string
  pt_FSType :: string
  pt_Flags :: flags
  pt_Data :: string

type_synonym Pool = "Point list"

definition NewPool :: Pool where
  "NewPool = []"

definition Pool_Add :: "Pool \<Rightarrow> Point \<Rightarrow> Pool" where
  "Pool_Add p mp = p @ [mp]"

definition Pool_Len :: "Pool \<Rightarrow> nat" where
  "Pool_Len p = length p"

definition Pool_Entries :: "Pool \<Rightarrow> Point list" where
  "Pool_Entries p = p"

text \<open>\<open>errors.Join\<close>: \<open>nil\<close> when there is nothing to join.\<close>

definition errors_Join :: "err list \<Rightarrow> err + unit" where
  "errors_Join errs = (if errs = [] then Inr () else Inl (JoinErr errs))"

fun unmount_points :: "(hist \<Rightarrow> string \<Rightarrow> int \<Rightarrow> err + unit) \<Rightarrow> int \<Rightarrow> Point list \<Rightarrow> err list io" where
  "unmount_points unmount flags [] = ret []"
| "unmount_points unmount flags (mp # mps) =
     bnd (perform (CUnmount (pt_Target mp) flags) (\<lambda>h. unmount h (pt_Target mp) flags)) (\<lambda>r.
     bnd (unmount_points unmount flags mps) (\<lambda>errs.
     ret (case r of Inl e \<Rightarrow> e # errs | Inr _ \<Rightarrow> errs)))"

definition Pool_UnmountAll ::
  "(hist \<Rightarrow> string \<Rightarrow> int \<Rightarrow> err + unit) \<Rightarrow> Pool \<Rightarrow> int \<Rightarrow> ((err + unit) \<times> Pool) io" where
  "Pool_UnmountAll unmount p flags =
     bnd (unmount_points unmount flags (rev p)) (\<lambda>errs. ret (errors_Join errs, []))"

subsection \<open>The last option about a bit decides\<close>

definition sets_bit :: "nat \<Rightarrow> string \<Rightarrow> bool" where
  "sets_bit i opt \<longleftrightarrow> (\<exists>f. flag_option opt = Some (False, f) \<and> bit f i)"

definition clears_bit :: "nat \<Rightarrow> string \<Rightarrow> bool" where
  "clears_bit i opt \<longleftrightarrow> (\<exists>f. flag_option opt = Some (True, f) \<and> bit f i)"

definition decided :: "nat \<Rightarrow> string list \<Rightarrow> bool" where
  "decided i opts \<longleftrightarrow>
     (\<exists>us opt ws. opts = us @ opt # ws \<and> sets_bit i opt \<and> (\<forall>w \<in> set ws. \<not> clears_bit i w))"

lemma decided_snoc: "decided i (opts @ [opt]) \<longleftrightarrow> sets_bit i opt \<or> decided i opts \<and> \<not> clears_bit i opt"
proof
  assume "decided i (opts @ [opt])"
  then obtain us x ws where *: "opts @ [opt] = us @ x # ws" "sets_bit i x" "\<forall>w \<in> set ws. \<not> clears_bit i w"
    by (auto simp: decided_def)
  then show "sets_bit i opt \<or> decided i opts \<and> \<not> clears_bit i opt"
    by (cases ws rule: rev_cases) (auto simp: decided_def)
next
  assume "sets_bit i opt \<or> decided i opts \<and> \<not> clears_bit i opt"
  then show "decided i (opts @ [opt])"
  proof
    assume "decided i opts \<and> \<not> clears_bit i opt"
    then obtain us x ws where "opts = us @ x # ws" "sets_bit i x" "\<forall>w \<in> set (ws @ [opt]). \<not> clears_bit i w"
      by (auto simp: decided_def)
    then have "opts @ [opt] = us @ x # (ws @ [opt]) \<and> sets_bit i x \<and> (\<forall>w \<in> set (ws @ [opt]). \<not> clears_bit i w)"
      by simp
    then show ?thesis unfolding decided_def by blast
  qed (force simp: decided_def)
qed

lemma options_loop_append:
  "options_loop flag data (xs @ ys) =
     options_loop (fst (options_loop flag data xs)) (snd (options_loop flag data xs)) ys"
  by (induction flag data xs rule: options_loop.induct) (auto split: option.split)

lemma options_loop_bit: "bit (fst (options_loop 0 [] opts)) i \<longleftrightarrow> decided i opts"
proof (induction opts rule: rev_induct)
  case (snoc opt opts)
  show ?case
  proof (cases "flag_option opt")
    case None
    then show ?thesis using snoc by (simp add: options_loop_append decided_snoc sets_bit_def clears_bit_def)
  next
    case (Some cf)
    obtain clear f where "cf = (clear, f)" by (cases cf)
    with Some snoc show ?thesis
      by (auto simp: options_loop_append decided_snoc sets_bit_def clears_bit_def bit_simps
          dest: bit_imp_le_length)
  qed
qed (simp add: decided_def)

lemma options_loop_data:
  "snd (options_loop flag data opts) = data @ filter (\<lambda>opt. flag_option opt = None) opts"
  by (induction flag data opts rule: options_loop.induct) (auto split: option.split)

text \<open>C28: The mount flags are decided option by option, the last one winning: a bit of the flags
  parseOptions returns is set exactly when some option of the comma-separated list sets it and
  no later option clears it, and the data string is made of the other options, in order.\<close>

theorem parseOptions_last_wins:
  "(bit (fst (parseOptions s)) i \<longleftrightarrow> decided i (Split CHR '','' s))
   \<and> snd (parseOptions s) = Join '','' (filter (\<lambda>opt. flag_option opt = None) (Split CHR '','' s))"
  by (simp add: parseOptions_def case_prod_beta options_loop_bit options_loop_data)

subsection \<open>Mount, ForceMount\<close>

lemma and_power_bit: "k < 64 \<Longrightarrow> flag AND 2 ^ k = 2 ^ k \<longleftrightarrow> bit flag k" for flag :: flags
  by (auto simp: bit_eq_iff [where 'a = flags] bit_and_iff bit_exp_iff)

lemma flag_bits:
  "flag AND REMOUNT = REMOUNT \<longleftrightarrow> bit flag 5" "flag AND BIND = BIND \<longleftrightarrow> bit flag 12"
  "flag AND RDONLY = RDONLY \<longleftrightarrow> bit flag 0"
  using and_power_bit [of 5 flag] and_power_bit [of 12 flag] and_power_bit [of 0 flag]
  by (simp_all add: REMOUNT_def BIND_def RDONLY_def)

definition is_sys_mount :: "event \<Rightarrow> bool" where
  "is_sys_mount ev = (case fst ev of CSys n _ _ \<Rightarrow> n = ''mount'' | _ \<Rightarrow> False)"

lemma Mounted_no_mount: "emits (\<lambda>ev. \<not> is_sys_mount ev) (mount_Mounted ms target)"
  unfolding mount_Mounted_def parseMountTable_def method_defs
  by (intro emits_intros) (simp_all add: is_sys_mount_def)

lemma resolveDevice_no_mount: "emits (\<lambda>ev. \<not> is_sys_mount ev) (resolveDevice ms device)"
  unfolding resolveDevice_def Let_def method_defs
  by (intro emits_intros) (simp_all add: is_sys_mount_def)

lemma filter_none: "emits (\<lambda>ev. \<not> P ev) m \<Longrightarrow> filter P (snd (m h)) = []"
  by (auto simp: emits_def list_all_iff filter_empty_conv)

text \<open>Mount is idempotent: without the remount option it makes no mount system call unless the
  mount table could be read and does not list the target; a target already mounted is success,
  and an unreadable table is the table's error.\<close>

theorem Mount_idempotent:
  "(if bit (fst (parseOptions options)) 5 then mount_Mount ms device target mType options
      = mount_ForceMount ms device target mType options
    else case fst (mount_Mounted ms target h) of
      Inr False \<Rightarrow> mount_Mount ms device target mType options h =
          (fst (mount_ForceMount ms device target mType options (h @ snd (mount_Mounted ms target h))),
           snd (mount_Mounted ms target h) @
           snd (mount_ForceMount ms device target mType options (h @ snd (mount_Mounted ms target h))))
    | Inr True \<Rightarrow> mount_Mount ms device target mType options h = (Inr (), snd (mount_Mounted ms target h))
    | Inl e \<Rightarrow> mount_Mount ms device target mType options h = (Inl e, snd (mount_Mounted ms target h)))
   \<and> filter is_sys_mount (snd (mount_Mounted ms target h)) = []"
proof -
  have "filter is_sys_mount (snd (mount_Mounted ms target h)) = []"
    by (rule filter_none [OF Mounted_no_mount])
  then show ?thesis
    by (simp add: mount_Mount_def case_prod_beta flag_bits prod_eq_iff split: sum.split bool.split)
qed

text \<open>A read-only bind mount is really read-only: the kernel ignores the read-only flag on the bind
  itself, so when the options ask for both and ForceMount succeeds, it has made exactly two
  successful mount calls on the target, the second with the remount flag added; without both
  flags it makes exactly one.\<close>

theorem ForceMount_bind_ro:
  assumes "fst (mount_ForceMount ms device target mType options h) = Inr ()"
  shows "\<exists>dev. filter is_sys_mount (snd (mount_ForceMount ms device target mType options h)) =
    (let (flag, data) = parseOptions options in
     (CSysMount dev target mType (unat flag) data, True) #
     (if bit flag 12 \<and> bit flag 0 then [(CSysMount dev target mType (unat (flag OR REMOUNT)) data, True)] else []))"
proof -
  obtain flag data where p: "parseOptions options = (flag, data)" by (cases "parseOptions options")
  let ?r = "resolveDevice ms device h"
  have "filter is_sys_mount (snd ?r) = []" by (rule filter_none [OF resolveDevice_no_mount])
  with assms show ?thesis
    by (intro exI [of _ "fst ?r"])
       (auto simp: mount_ForceMount_def mount_call_def sys_mount_def p flag_bits is_sys_mount_def
          split: sum.splits if_splits)
qed

definition mountsys_ok :: MountSys where
  "mountsys_ok = \<lparr>ms_FS = fs_ok, ms_Mount = (\<lambda>_ _ _ _ _ _. Inr ())\<rparr>"

theorem ForceMount_bind_ro_witness:
  "\<exists>dev. filter is_sys_mount (snd (mount_ForceMount mountsys_ok ''/.base/k3os/system'' ''/k3os/system'' [] ''ro,bind'' [])) =
    (let (flag, data) = parseOptions ''ro,bind'' in
     (CSysMount dev ''/k3os/system'' [] (unat flag) data, True) #
     (if bit flag 12 \<and> bit flag 0
      then [(CSysMount dev ''/k3os/system'' [] (unat (flag OR REMOUNT)) data, True)] else []))"
  by (rule ForceMount_bind_ro)
     (simp add: mount_ForceMount_def mount_call_def sys_mount_def resolveDevice_def mountsys_ok_def string_eval
       case_prod_beta)

subsection \<open>The pool\<close>

lemma unmount_points_trace:
  "map fst (snd (unmount_points u flags mps h)) = map (\<lambda>mp. CUnmount (pt_Target mp) flags) mps"
  by (induction mps arbitrary: h) simp_all

lemma unmount_points_errs:
  "(fst (unmount_points u flags mps h) = []) = list_all snd (snd (unmount_points u flags mps h))"
  by (induction mps arbitrary: h) (auto split: sum.split simp: isl_def)

subsection \<open>Options without a flag\<close>

text \<open>The option \<open>defaults\<close> is in the table with the flag 0, so it is handed to the file system as data.\<close>

lemma defaults_is_data: "parseOptions ''defaults,ro'' = (RDONLY, ''defaults'')"
  by code_simp

end
