(* ===== verification/Cc_Apply.thy ===== *)
theory Cc_Apply
  imports Cc_Files Boot_Detect Mount
begin

section \<open>Applying the cloud-config: internal/cc\<close>

text \<open>
  \<open>Applier\<close> holds the boundaries of \<open>cc.Applier\<close>: the file system and the command runner, loading of
  modules, sysctls, the hostname call, the password hasher, the network, and the constant version of
  the build. \<open>mode.Get\<close> and the decompressor are not injected in the code; \<open>ap_OS\<close> is the file system
  the first reads, \<open>ap_gunzip\<close> the second. A map of the configuration is an association list, its order
  the order of iteration.
\<close>

subsection \<open>Definitions\<close>

record Applier =
  ap_FS :: FileSystem
  ap_Cmd :: CommandRunner
  ap_LoadedModules :: "hist \<Rightarrow> err + string list"
  ap_LoadModule :: "hist \<Rightarrow> string \<Rightarrow> string \<Rightarrow> err + unit"
  ap_SysctlSet :: "hist \<Rightarrow> string \<Rightarrow> string \<Rightarrow> err + unit"
  ap_SetHostname :: "hist \<Rightarrow> string \<Rightarrow> err + unit"
  ap_hasher :: "hist \<Rightarrow> string \<Rightarrow> err + string"
  ap_Net :: Net
  ap_OS :: FileSystem
  ap_gunzip :: "string \<Rightarrow> err + string"
  ap_modePrefix :: "string list"
  ap_Version :: string

type_synonym applier = "CloudConfig \<Rightarrow> unit go"

definition load_module :: "Applier \<Rightarrow> string list \<Rightarrow> string \<Rightarrow> unit go" where
  "load_module a loaded m =
     (if m \<in> set loaded then ok ()
      else
        let params = Split CHR '' '' m; name = hd params; args = Join '' '' (tl params) in
        check ''could not load module''
          (perform (CSys ''LoadModule'' [name, args] []) (\<lambda>h. ap_LoadModule a h name args)) (\<lambda>_. ok ()))"

definition ApplyModules :: "Applier \<Rightarrow> applier" where
  "ApplyModules a cfg =
     pass (perform (CSys ''LoadedModules'' [] []) (ap_LoadedModules a)) (\<lambda>loaded.
     foreach_go (k3_Modules (cc_K3OS cfg)) (load_module a loaded))"

definition ApplySysctls :: "Applier \<Rightarrow> applier" where
  "ApplySysctls a cfg =
     foreach_go (k3_Sysctls (cc_K3OS cfg)) (\<lambda>(k, v).
       perform (CSys ''sysctl'' [k, v] []) (\<lambda>h. ap_SysctlSet a h k v))"

definition ApplyHostname :: "Applier \<Rightarrow> applier" where
  "ApplyHostname a cfg = hostname_SetHostname cfg (ap_SetHostname a) (ap_FS a)"

definition ApplyPassword :: "Applier \<Rightarrow> applier" where
  "ApplyPassword a cfg =
     (if k3_Password (cc_K3OS cfg) = [] then ok ()
      else SetPassword (ap_hasher a) (ap_FS a) ''rancher'' (k3_Password (cc_K3OS cfg)))"

definition ApplyRuncmd :: "Applier \<Rightarrow> applier" where
  "ApplyRuncmd a cfg = foreach_go (cc_Runcmd cfg) (RunShell (ap_Cmd a))"

definition ApplyBootcmd :: "Applier \<Rightarrow> applier" where
  "ApplyBootcmd a cfg = foreach_go (cc_Bootcmd cfg) (RunShell (ap_Cmd a))"

definition ApplyInitcmd :: "Applier \<Rightarrow> applier" where
  "ApplyInitcmd a cfg = foreach_go (cc_Initcmd cfg) (RunShell (ap_Cmd a))"

definition ApplyWriteFiles :: "Applier \<Rightarrow> applier" where
  "ApplyWriteFiles a cfg = ignore (WriteFiles (ap_gunzip a) (ap_FS a) (ap_Cmd a) cfg) (ok ())"

definition ApplySSHKeys :: "Applier \<Rightarrow> applier" where
  "ApplySSHKeys a cfg = SetAuthorizedKeys (ap_Net a) cfg False (ap_FS a)"

definition ApplySSHKeysWithNet :: "Applier \<Rightarrow> applier" where
  "ApplySSHKeysWithNet a cfg = SetAuthorizedKeys (ap_Net a) cfg True (ap_FS a)"

text \<open>Lines 163 to 205: the arguments of the installer.\<close>

definition k3s_args :: "Applier \<Rightarrow> CloudConfig \<Rightarrow> string \<Rightarrow> string list" where
  "k3s_args a cfg mode =
     (let k = cc_K3OS cfg;
          args = (if k3_K3sArgs k \<noteq> [] then k3_K3sArgs k
                  else if k3_ServerURL k = [] then [''server''] else [''agent'']);
          labels = map (\<lambda>(key, v). key @ ''='' @ v) (k3_Labels k)
                   @ (if mode \<noteq> [] then [''k3os.io/mode='' @ mode] else [])
                   @ [''k3os.io/version='' @ ap_Version a]
      in args @ concat (map (\<lambda>l. [''--node-label'', l]) (sort labels))
         @ concat (map (\<lambda>taint. [''--kubelet-arg'', ''register-with-taints='' @ taint]) (k3_Taints k)))"

definition k3s_install_script :: string where
  "k3s_install_script = ''/usr/libexec/k3os/k3s-install.sh''"

definition k3s_vars :: "CloudConfig \<Rightarrow> bool \<Rightarrow> bool \<Rightarrow> bool \<Rightarrow> string list" where
  "k3s_vars cfg k3sExists k3sLocalExists restart =
     (let k = cc_K3OS cfg in
      [''INSTALL_K3S_NAME=service'']
      @ (if k3sExists then [''INSTALL_K3S_SKIP_DOWNLOAD=true'', ''INSTALL_K3S_BIN_DIR=/sbin'',
                            ''INSTALL_K3S_BIN_DIR_READ_ONLY=true'']
         else if k3sLocalExists then [''INSTALL_K3S_SKIP_DOWNLOAD=true''] else [])
      @ (if restart then [] else [''INSTALL_K3S_SKIP_START=true''])
      @ (if k3_ServerURL k = [] then [] else [''K3S_URL='' @ k3_ServerURL k])
      @ (if k3_Token k = [] then [] else [''K3S_TOKEN='' @ k3_Token k]))"

definition exists_file :: "FileSystem \<Rightarrow> string \<Rightarrow> bool io" where
  "exists_file fs p = bnd (Stat fs p) (\<lambda>r. ret (\<not> isl r))"

definition ApplyK3S :: "Applier \<Rightarrow> CloudConfig \<Rightarrow> bool \<Rightarrow> bool \<Rightarrow> unit go" where
  "ApplyK3S a cfg restart install =
     pass (mode_Get (ap_OS a) (ap_modePrefix a)) (\<lambda>mode.
     if mode = ''install'' then ok ()
     else
       bnd (exists_file (ap_FS a) ''/sbin/k3s'') (\<lambda>k3sExists.
       bnd (exists_file (ap_FS a) ''/usr/local/bin/k3s'') (\<lambda>k3sLocalExists.
       if \<not> k3sExists \<and> \<not> restart then ok ()
       else if \<not> k3sExists \<and> \<not> k3sLocalExists \<and> \<not> install then ok ()
       else RunWithEnv (ap_Cmd a) (k3s_vars cfg k3sExists k3sLocalExists restart) k3s_install_script
              (k3s_args a cfg mode))))"

definition ApplyK3SWithRestart :: "Applier \<Rightarrow> applier" where
  "ApplyK3SWithRestart a cfg = ApplyK3S a cfg True False"

definition ApplyK3SInstall :: "Applier \<Rightarrow> applier" where
  "ApplyK3SInstall a cfg = ApplyK3S a cfg True True"

definition ApplyK3SNoRestart :: "Applier \<Rightarrow> applier" where
  "ApplyK3SNoRestart a cfg = ApplyK3S a cfg False False"

definition ApplyInstall :: "Applier \<Rightarrow> applier" where
  "ApplyInstall a cfg =
     pass (mode_Get (ap_OS a) (ap_modePrefix a)) (\<lambda>mode.
     if mode \<noteq> ''install'' then ok () else Run (ap_Cmd a) ''k3os'' [''install''])"

definition dns_conf :: "K3OS \<Rightarrow> string" where
  "dns_conf k =
     unlines ([''[General]'', ''NetworkInterfaceBlacklist=veth'', ''PreferredTechnologies=ethernet,wifi'']
       @ (if k3_DNSNameservers k \<noteq> [] then [''FallbackNameservers='' @ Join '','' (k3_DNSNameservers k)]
          else [''FallbackNameservers=8.8.8.8''])
       @ (if k3_NTPServers k \<noteq> [] then [''FallbackTimeservers='' @ Join '','' (k3_NTPServers k)] else []))"

definition ApplyDNS :: "Applier \<Rightarrow> applier" where
  "ApplyDNS a cfg =
     check ''failed to write /etc/connman/main.conf''
       (WriteFile (ap_FS a) ''/etc/connman/main.conf'' (dns_conf (cc_K3OS cfg)) mode_644) (\<lambda>_. ok ())"

fun wifi_services :: "nat \<Rightarrow> Wifi list \<Rightarrow> string list" where
  "wifi_services i [] = []"
| "wifi_services i (w # ws) =
     [''[service_wifi'' @ show_nat i @ '']'', ''Type=wifi'', ''Passphrase='' @ wf_Passphrase w, ''Name='' @ wf_Name w]
     @ wifi_services (Suc i) ws"

definition ApplyWifi :: "Applier \<Rightarrow> applier" where
  "ApplyWifi a cfg =
     (let wifi = k3_Wifi (cc_K3OS cfg) in
      if wifi = [] then ok ()
      else
        check ''failed to mkdir /var/lib/connman'' (MkdirAll (ap_FS a) ''/var/lib/connman'' mode_755) (\<lambda>_.
        check ''failed to write to /var/lib/connman/settings''
          (WriteFile (ap_FS a) ''/var/lib/connman/settings''
            (unlines [''[WiFi]'', ''Enable=true'', ''Tethering=false'']) mode_644) (\<lambda>_.
        WriteFile (ap_FS a) ''/var/lib/connman/cloud-config.config''
          (unlines ([''[global]'', ''Name=cloud-config'', ''Description=Services defined in the cloud-config'']
             @ wifi_services 0 wifi)) mode_644)))"

definition ApplyDataSource :: "Applier \<Rightarrow> applier" where
  "ApplyDataSource a cfg =
     (if k3_DataSources (cc_K3OS cfg) = [] then ok ()
      else
        check ''failed to write to /etc/conf.d/cloud-config''
          (WriteFile (ap_FS a) ''/etc/conf.d/cloud-config''
            (''command_args='' @ [quote_char] @ Join '' '' (k3_DataSources (cc_K3OS cfg)) @ [quote_char, newline])
            mode_644) (\<lambda>_. ok ()))"

text \<open>Lines 320 to 346: the lines of \<open>/etc/environment\<close>, read into a map.\<close>

definition env_line :: "string \<Rightarrow> (string \<times> string) option" where
  "env_line text =
     (let line = TrimSpace text in
      if HasPrefix line ''#'' then None
      else
        let line = TrimSpace (TrimPrefix line ''export'') in
        if length line \<le> 1 then None
        else case SplitN CHR ''='' 2 line of
               [key] \<Rightarrow> Some (key, [])
             | key # v # _ \<Rightarrow> Some (key, case Unquote v of Some u \<Rightarrow> u | None \<Rightarrow> v)
             | [] \<Rightarrow> None)"

fun put_all :: "(string \<times> string) list \<Rightarrow> (string \<times> string) list \<Rightarrow> (string \<times> string) list" where
  "put_all env [] = env"
| "put_all env ((key, v) # kvs) = put_all (AList.update key v env) kvs"

definition parse_env :: "string \<Rightarrow> (string \<times> string) list" where
  "parse_env buf = put_all [] (List.map_filter env_line (ScanLines buf))"

definition print_env :: "(string \<times> string) list \<Rightarrow> string" where
  "print_env env = unlines (map (\<lambda>(key, v). key @ ''='' @ Quote v) env)"

definition ApplyEnvironment :: "Applier \<Rightarrow> applier" where
  "ApplyEnvironment a cfg =
     (let new = k3_Environment (cc_K3OS cfg) in
      if new = [] then ok ()
      else
        bnd (ReadFile (ap_FS a) ''/etc/environment'') (\<lambda>r.
        let env = (case r of Inl _ \<Rightarrow> [] | Inr buf \<Rightarrow> parse_env buf) in
        check ''failed to write to /etc/environment''
          (WriteFile (ap_FS a) ''/etc/environment'' (print_env (put_all env new)) mode_644) (\<lambda>_. ok ())))"

subsubsection \<open>apply.go\<close>

fun apply_all :: "CloudConfig \<Rightarrow> applier list \<Rightarrow> err list \<Rightarrow> err list io" where
  "apply_all cfg [] errs = ret errs"
| "apply_all cfg (app # apps) errs =
     bnd (app cfg) (\<lambda>r. apply_all cfg apps (case r of Inl e \<Rightarrow> errs @ [e] | Inr _ \<Rightarrow> errs))"

definition runApplies :: "CloudConfig \<Rightarrow> applier list \<Rightarrow> unit go" where
  "runApplies cfg appliers =
     bnd (apply_all cfg appliers []) (\<lambda>errs. if errs \<noteq> [] then ret (errors_Join errs) else ok ())"

definition RunApply :: "Applier \<Rightarrow> CloudConfig \<Rightarrow> unit go" where
  "RunApply a cfg = runApplies cfg
     [ApplyModules a, ApplySysctls a, ApplyHostname a, ApplyDNS a, ApplyWifi a, ApplyPassword a,
      ApplySSHKeysWithNet a, ApplyWriteFiles a, ApplyEnvironment a, ApplyRuncmd a, ApplyInstall a, ApplyK3SInstall a]"

definition InstallApply :: "Applier \<Rightarrow> CloudConfig \<Rightarrow> unit go" where
  "InstallApply a cfg = runApplies cfg [ApplyK3SWithRestart a]"

definition BootApply :: "Applier \<Rightarrow> CloudConfig \<Rightarrow> unit go" where
  "BootApply a cfg = runApplies cfg
     [ApplyDataSource a, ApplyModules a, ApplySysctls a, ApplyHostname a, ApplyDNS a, ApplyWifi a, ApplyPassword a,
      ApplySSHKeys a, ApplyK3SNoRestart a, ApplyWriteFiles a, ApplyEnvironment a, ApplyBootcmd a]"

definition InitApply :: "Applier \<Rightarrow> CloudConfig \<Rightarrow> unit go" where
  "InitApply a cfg = runApplies cfg
     [ApplyModules a, ApplySysctls a, ApplyHostname a, ApplyWriteFiles a, ApplyEnvironment a, ApplyInitcmd a]"

subsection \<open>Every applier runs\<close>

text \<open>The histories before each applier, and their errors.\<close>

fun applied :: "CloudConfig \<Rightarrow> applier list \<Rightarrow> hist \<Rightarrow> (err + unit) list" where
  "applied cfg [] h = []"
| "applied cfg (app # apps) h = fst (app cfg h) # applied cfg apps (h @ snd (app cfg h))"

fun applied_trace :: "CloudConfig \<Rightarrow> applier list \<Rightarrow> hist \<Rightarrow> hist" where
  "applied_trace cfg [] h = []"
| "applied_trace cfg (app # apps) h = snd (app cfg h) @ applied_trace cfg apps (h @ snd (app cfg h))"

definition lefts :: "('a + 'b) list \<Rightarrow> 'a list" where
  "lefts rs = concat (map (\<lambda>r. case r of Inl e \<Rightarrow> [e] | Inr _ \<Rightarrow> []) rs)"

lemma lefts_simps [simp]: "lefts [] = []" "lefts (Inl e # rs) = e # lefts rs" "lefts (Inr v # rs) = lefts rs"
  by (simp_all add: lefts_def)

lemma lefts_Nil: "lefts rs = [] \<longleftrightarrow> list_all (\<lambda>r. \<not> isl r) rs"
  by (induction rs) (auto simp: lefts_def split: sum.splits)

lemma apply_all_eq:
  "apply_all cfg apps errs h = (errs @ lefts (applied cfg apps h), applied_trace cfg apps h)"
proof (induction apps arbitrary: errs h)
  case (Cons app apps)
  then show ?case by (cases "fst (app cfg h)") (simp_all add: prod_eq_iff)
qed simp

lemma emits_apply_all:
  "(\<And>app. app \<in> set apps \<Longrightarrow> emits P (app cfg)) \<Longrightarrow> emits P (apply_all cfg apps errs)"
  by (induction apps arbitrary: errs) (auto intro!: emits_intros)

lemma emits_runApplies:
  "(\<And>app. app \<in> set apps \<Longrightarrow> emits P (app cfg)) \<Longrightarrow> emits P (runApplies cfg apps)"
  unfolding runApplies_def by (intro emits_intros emits_apply_all)

subsection \<open>The installer's environment\<close>

definition skip_download :: string where
  "skip_download = ''INSTALL_K3S_SKIP_DOWNLOAD=true''"

definition skip_start :: string where
  "skip_start = ''INSTALL_K3S_SKIP_START=true''"

text \<open>No program is run with an environment of its own but the installer, and it neither downloads nor starts k3s.\<close>

fun harmless_install :: "event \<Rightarrow> bool" where
  "harmless_install (CRunWithEnv vars name args, b) \<longleftrightarrow>
     name = k3s_install_script \<and> skip_download \<in> set vars \<and> skip_start \<in> set vars"
| "harmless_install _ \<longleftrightarrow> True"

lemmas other_calls = method_defs step_calls

lemma emits_hash_step: "emits harmless_install (hash_step hasher password)"
  by (auto simp: hash_step_def intro!: emits_intros)

lemma emits_shadow_write: "emits harmless_install (shadow_write fs target output)"
  unfolding shadow_write_def shadow_undo_def other_calls by (intro emits_intros) simp_all

lemma emits_SetPassword: "emits harmless_install (SetPassword hasher fs u p)"
proof (cases "p = []")
  case False
  then show ?thesis
    unfolding SetPassword_unfold [OF False] ReadFile_def
    by (auto intro!: emits_intros emits_hash_step emits_shadow_write split: option.split)
qed (simp add: SetPassword_def emits_intros)

lemma emits_http_loop: "emits harmless_install (http_loop net url n)"
  by (induction n; subst http_loop.simps; auto simp: Sleep_def intro!: emits_intros)

lemma emits_authorizeSSHKey: "emits harmless_install (authorizeSSHKey net fs key file uid gid w)"
  unfolding authorizeSSHKey_def getKey_def create_key_file_def writeFileAtomic_def Let_def case_prod_beta other_calls
  by (auto intro!: emits_intros emits_http_loop split: option.split simp del: http_loop.simps)

lemma emits_SetAuthorizedKeys: "emits harmless_install (SetAuthorizedKeys net cfg w fs)"
  unfolding SetAuthorizedKeys_def Let_def other_calls
  by (auto intro!: emits_intros emits_authorizeSSHKey split: sum.split)

lemma emits_WriteFiles: "emits harmless_install (WriteFiles gunzip fs cmd cfg)"
  unfolding WriteFiles_def writefile_WriteFile_def ensureDirectoryExists_def replace_file_def Let_def other_calls
  by (intro emits_intros) simp_all

lemma emits_hostname: "emits harmless_install (hostname_SetHostname c hs fs)"
  unfolding hostname_SetHostname_def readPersistedHostname_def syncHostname_def other_calls
  by (intro emits_intros) simp_all

lemma emits_simple_appliers:
  "emits harmless_install (ApplyModules a cfg)" "emits harmless_install (ApplySysctls a cfg)"
  "emits harmless_install (ApplyDNS a cfg)" "emits harmless_install (ApplyWifi a cfg)"
  "emits harmless_install (ApplyDataSource a cfg)" "emits harmless_install (ApplyEnvironment a cfg)"
  "emits harmless_install (ApplyBootcmd a cfg)"
  unfolding ApplyModules_def load_module_def ApplySysctls_def ApplyDNS_def ApplyWifi_def ApplyDataSource_def
    ApplyEnvironment_def ApplyBootcmd_def Let_def other_calls case_prod_beta
  by (intro emits_intros; simp)+

lemma emits_ApplyK3SNoRestart: "emits harmless_install (ApplyK3SNoRestart a cfg)"
  unfolding ApplyK3SNoRestart_def ApplyK3S_def mode_Get_def exists_file_def RunWithEnv_def ReadFile_def Stat_def
  by (intro emits_intros) (simp_all add: k3s_vars_def Let_def skip_download_def skip_start_def)

subsection \<open>The environment file\<close>

text \<open>A name that is read back as the name of a variable.\<close>

definition env_key :: "string \<Rightarrow> bool" where
  "env_key key \<longleftrightarrow> key \<noteq> [] \<and> \<not> is_space (hd key) \<and> hd key \<noteq> CHR ''#'' \<and> \<not> HasPrefix key ''export'' \<and>
     newline \<notin> set key \<and> CHR ''='' \<notin> set key"

lemma Quote_ends: "Quote v \<noteq> []" "last (Quote v) = quote_char" "hd (Quote v) = quote_char"
  by (simp_all add: Quote_def)

lemma HasPrefix_before: "d \<notin> set p \<Longrightarrow> HasPrefix (k @ d # v) p \<longleftrightarrow> HasPrefix k p"
proof (induction p arbitrary: k)
  case (Cons c p)
  then show ?case by (cases k) (auto simp: HasPrefix_def)
qed (simp add: HasPrefix_def)

lemma env_key_no_export: "env_key key \<Longrightarrow> \<not> HasPrefix (key @ ''='' @ v) ''export''"
  using HasPrefix_before [of "CHR ''=''" "''export''" key v] by (simp add: env_key_def)

lemma env_line_print:
  assumes "env_key key"
  shows "env_line (key @ ''='' @ Quote v) = Some (key, v)"
proof -
  let ?l = "key @ ''='' @ Quote v"
  have "trimmed ?l"
    using assms Quote_ends by (simp add: trimmed_def env_key_def is_space_def quote_char_def)
  then have trim: "TrimSpace ?l = ?l" by (rule TrimSpace_trimmed)
  have "\<not> HasPrefix ?l ''#''"
    using assms by (auto simp: HasPrefix_iff env_key_def Cons_eq_append_conv append_eq_Cons_conv)
  moreover have "TrimPrefix ?l ''export'' = ?l"
    using env_key_no_export [OF assms] by (simp add: TrimPrefix_def)
  moreover have "SplitN CHR ''='' 2 ?l = [key, Quote v]"
    using SplitN_append_sep [of "CHR ''=''" key 0 "Quote v"] assms by (simp add: env_key_def numeral_2_eq_2)
  moreover have "\<not> length ?l \<le> 1" using Quote_ends(1) [of v] by (cases "Quote v") auto
  ultimately show ?thesis using trim by (simp add: env_line_def Let_def Unquote_Quote)
qed

lemma env_line_dropped: "drop_cr (key @ ''='' @ Quote v) = key @ ''='' @ Quote v"
  using Quote_ends by (simp add: drop_cr_def quote_char_def)

lemma ScanLines_print_env:
  assumes "list_all (\<lambda>(key, _). env_key key) env"
  shows "ScanLines (print_env env) = map (\<lambda>(key, v). key @ ''='' @ Quote v) env"
proof -
  have "newline \<notin> set l" if "l \<in> set (map (\<lambda>(key, v). key @ ''='' @ Quote v) env)" for l
    using that assms Quote_one_line by (auto simp: list_all_iff env_key_def)
  then have "ScanLines (print_env env) = map drop_cr (map (\<lambda>(key, v). key @ ''='' @ Quote v) env)"
    unfolding print_env_def by (rule ScanLines_unlines)
  then show ?thesis by (simp add: env_line_dropped case_prod_beta del: append.simps)
qed

lemma put_all_map_of: "map_of (put_all env kvs) = map_of env ++ map_of (rev kvs)"
  by (induction env kvs rule: put_all.induct) (auto simp: update_conv' map_add_def fun_eq_iff split: option.splits)

lemma put_all_distinct: "distinct (map fst env) \<Longrightarrow> distinct (map fst (put_all env kvs))"
  by (induction env kvs rule: put_all.induct) (simp_all add: distinct_update)

lemma put_all_keys: "set (map fst (put_all env kvs)) = set (map fst env) \<union> set (map fst kvs)"
  by (induction env kvs rule: put_all.induct) (auto simp: update_keys)

lemma map_filter_env_line:
  "list_all (\<lambda>(key, _). env_key key) env \<Longrightarrow>
     List.map_filter env_line (map (\<lambda>(key, v). key @ ''='' @ Quote v) env) = env"
  by (induction env) (auto simp: map_filter_simps env_line_print simp del: append.simps)

lemma map_of_rev: "distinct (map fst env) \<Longrightarrow> map_of (rev env) = map_of env"
  by (simp add: map_of_inject_set rev_map [symmetric])

text \<open>Printing a map and parsing the result gives the map.\<close>

lemma parse_print_env:
  assumes "list_all (\<lambda>(key, _). env_key key) env" and "distinct (map fst env)"
  shows "map_of (parse_env (print_env env)) = map_of env"
proof -
  have "parse_env (print_env env) = put_all [] env"
    unfolding parse_env_def ScanLines_print_env [OF assms(1)] map_filter_env_line [OF assms(1)] ..
  then show ?thesis using assms(2) by (simp add: put_all_map_of map_of_rev)
qed

definition old_env :: "Applier \<Rightarrow> hist \<Rightarrow> (string \<times> string) list" where
  "old_env a h = (case fs_ReadFile (ap_FS a) h ''/etc/environment'' of Inl _ \<Rightarrow> [] | Inr buf \<Rightarrow> parse_env buf)"

lemma old_env_distinct: "distinct (map fst (old_env a h))"
  by (auto simp: old_env_def parse_env_def intro!: put_all_distinct split: sum.split)

lemma ApplyEnvironment_writes:
  assumes "fst (ApplyEnvironment a cfg h) = Inr ()" and "k3_Environment (cc_K3OS cfg) \<noteq> []"
  shows "last (snd (ApplyEnvironment a cfg h)) =
    (CWriteFile ''/etc/environment'' (print_env (put_all (old_env a h) (k3_Environment (cc_K3OS cfg)))) mode_644, True)"
  using assms
  by (cases "fs_ReadFile (ap_FS a) h ''/etc/environment''")
     (auto simp: ApplyEnvironment_def Let_def ReadFile_def WriteFile_def old_env_def split: sum.splits)

subsection \<open>Properties\<close>

text \<open>An applier that fails stops no other: all appliers run in their order, each on the state its
  predecessors left, and the result is a success exactly when all succeed, otherwise all their
  errors joined in order.\<close>

theorem runApplies_outcome:
  "snd (runApplies cfg apps h) = applied_trace cfg apps h \<and>
   fst (runApplies cfg apps h) =
     (if list_all (\<lambda>r. \<not> isl r) (applied cfg apps h) then Inr () else Inl (JoinErr (lefts (applied cfg apps h))))"
  by (simp add: runApplies_def apply_all_eq errors_Join_def lefts_Nil)

text \<open>C30: Applying the configuration during boot runs the k3s installer, if at all, with downloading and
  starting k3s switched off, and runs no other program with an environment of its own.\<close>

theorem BootApply_harmless:
  "list_all harmless_install (snd (BootApply a cfg h))"
proof -
  have "emits harmless_install (BootApply a cfg)"
    unfolding BootApply_def
    by (rule emits_runApplies)
       (auto simp: ApplyHostname_def ApplyPassword_def ApplySSHKeys_def ApplyWriteFiles_def
         intro!: emits_intros emits_simple_appliers emits_hostname emits_SetPassword emits_SetAuthorizedKeys
           emits_WriteFiles emits_ApplyK3SNoRestart)
  then show ?thesis by (simp add: emits_def)
qed

text \<open>C29: Merging variables into \<open>/etc/environment\<close> keeps what was there: read again, the file written
  gives the configured value of every configured variable and the old value of every other one.\<close>

theorem ApplyEnvironment_merges:
  assumes "fst (ApplyEnvironment a cfg h) = Inr ()" and "k3_Environment (cc_K3OS cfg) \<noteq> []"
    and "distinct (map fst (k3_Environment (cc_K3OS cfg)))"
    and "list_all (\<lambda>(key, _). env_key key) (k3_Environment (cc_K3OS cfg))"
    and "list_all (\<lambda>(key, _). env_key key) (old_env a h)"
  shows "\<exists>out. last (snd (ApplyEnvironment a cfg h)) = (CWriteFile ''/etc/environment'' out mode_644, True) \<and>
           map_of (parse_env out) = map_of (old_env a h) ++ map_of (k3_Environment (cc_K3OS cfg))"
proof -
  let ?new = "k3_Environment (cc_K3OS cfg)"
  let ?env = "put_all (old_env a h) ?new"
  have "\<forall>key \<in> set (map fst ?env). env_key key"
    using assms(4,5) unfolding put_all_keys by (auto simp: list_all_iff)
  then have "list_all (\<lambda>(key, _). env_key key) ?env" by (force simp: list_all_iff)
  then have "map_of (parse_env (print_env ?env)) = map_of ?env"
    using parse_print_env put_all_distinct old_env_distinct by blast
  also have "map_of ?env = map_of (old_env a h) ++ map_of ?new"
    using assms(3) by (simp add: put_all_map_of map_of_rev)
  finally show ?thesis using ApplyEnvironment_writes [OF assms(1,2)] by blast
qed

definition example_applier :: "string \<Rightarrow> Applier" where
  "example_applier old = \<lparr>ap_FS = fs_ok\<lparr>fs_ReadFile := (\<lambda>_ _. Inr old)\<rparr>, ap_Cmd = cmd_ok,
     ap_LoadedModules = \<lambda>_. Inr [], ap_LoadModule = \<lambda>_ _ _. Inr (), ap_SysctlSet = \<lambda>_ _ _. Inr (),
     ap_SetHostname = \<lambda>_ _. Inr (), ap_hasher = no_hasher, ap_Net = no_net, ap_OS = fs_ok, ap_gunzip = Inr,
     ap_modePrefix = [], ap_Version = ''v1''\<rparr>"

definition example_env_config :: CloudConfig where
  "example_env_config = zero_CloudConfig\<lparr>cc_K3OS := zero_K3OS\<lparr>k3_Environment := [(''B'', ''2'')]\<rparr>\<rparr>"

theorem ApplyEnvironment_merges_witness:
  "\<exists>out. last (snd (ApplyEnvironment (example_applier ''A=1'') example_env_config [])) =
           (CWriteFile ''/etc/environment'' out mode_644, True) \<and>
         map_of (parse_env out) = [''A'' \<mapsto> ''1'', ''B'' \<mapsto> ''2'']"
proof -
  let ?a = "example_applier ''A=1''" and ?cfg = example_env_config
  have old: "old_env ?a [] = [(''A'', ''1'')]" by code_simp
  have new: "k3_Environment (cc_K3OS ?cfg) = [(''B'', ''2'')]" by (simp add: example_env_config_def)
  have "fst (ApplyEnvironment ?a ?cfg []) = Inr ()" by code_simp
  moreover have "env_key ''A''" "env_key ''B''" by code_simp+
  ultimately show ?thesis
    using ApplyEnvironment_merges [of ?a ?cfg "[]"] unfolding old new by simp
qed

end
