(* ===== verification/Cli_Install.thy ===== *)
theory Cli_Install
  imports Questions Cc_Apply
begin

section \<open>The install and config commands: internal/cliinstall, internal/cli/config\<close>

text \<open>
  \<open>cli/config\<close> reads the configuration and applies one of the phases of \<open>cc\<close>; \<open>cliinstall\<close> asks for what the
  configuration leaves open, shows the result and runs the installer. An \<open>ask\<close> action threads the
  configuration, which the code changes in place, also when it returns an error, and the input.
  Reading a field of a missing \<open>install\<close> section is a nil dereference: the error \<open>nil_panic\<close>.
\<close>

subsection \<open>cli/config/config.go\<close>

record ConfigFlags =
  cf_initrd :: bool
  cf_bootPhase :: bool
  cf_installPhase :: bool
  cf_dump :: bool
  cf_dumpJSON :: bool

record ConfigCmd =
  cm_Libs :: ConfigLibs
  cm_Applier :: Applier
  cm_Print :: "hist \<Rightarrow> string \<Rightarrow> err + unit"
  cm_JSON :: "CloudConfig \<Rightarrow> err + string"

definition RunInitrd :: "ConfigCmd \<Rightarrow> unit go" where
  "RunInitrd c = pass (ReadConfig (cm_Libs c)) (InitApply (cm_Applier c))"

definition RunBoot :: "ConfigCmd \<Rightarrow> unit go" where
  "RunBoot c = pass (ReadConfig (cm_Libs c)) (BootApply (cm_Applier c))"

definition RunInstall :: "ConfigCmd \<Rightarrow> unit go" where
  "RunInstall c = pass (ReadConfig (cm_Libs c)) (InstallApply (cm_Applier c))"

text \<open>Writing on standard output.\<close>

definition print_out :: "ConfigCmd \<Rightarrow> err + string \<Rightarrow> unit go" where
  "print_out c r =
     (case r of Inl e \<Rightarrow> fail e | Inr text \<Rightarrow> perform (CSys ''stdout'' [text] []) (\<lambda>h. cm_Print c h text))"

definition config_Write :: "ConfigCmd \<Rightarrow> CloudConfig \<Rightarrow> unit go" where
  "config_Write c cfg = print_out c (map_sum (Wrap ''failed to marshal config'') id (ToBytes (cm_Libs c) cfg))"

definition config_Main :: "ConfigCmd \<Rightarrow> ConfigFlags \<Rightarrow> unit go" where
  "config_Main c fl =
     (if cf_initrd fl then RunInitrd c
      else if cf_bootPhase fl then RunBoot c
      else if cf_installPhase fl then RunInstall c
      else if cf_dump fl then
        pass (ReadConfig (cm_Libs c)) (config_Write c)
      else if cf_dumpJSON fl then
        pass (ReadConfig (cm_Libs c)) (\<lambda>cfg. print_out c (cm_JSON c cfg))
      else pass (ReadConfig (cm_Libs c)) (RunApply (cm_Applier c)))"

subsection \<open>Actions that ask\<close>

type_synonym 'a ask = "CloudConfig \<times> input \<Rightarrow> ((err + 'a) \<times> CloudConfig \<times> input) io"

definition answer :: "'a \<Rightarrow> 'a ask" where
  "answer v s = ret (Inr v, s)"

definition asking :: "(input \<Rightarrow> (err + 'a) \<times> input) \<Rightarrow> 'a ask" where
  "asking f s = ret (fst (f (snd s)), fst s, snd (f (snd s)))"

definition acting :: "'a go \<Rightarrow> 'a ask" where
  "acting m s = bnd m (\<lambda>r. ret (r, s))"

definition setting :: "(CloudConfig \<Rightarrow> CloudConfig) \<Rightarrow> unit ask" where
  "setting f s = ret (Inr (), f (fst s), snd s)"

definition andthen :: "'a ask \<Rightarrow> ('a \<Rightarrow> 'b ask) \<Rightarrow> 'b ask" where
  "andthen m k s = bnd (m s) (\<lambda>(r, s'). case r of Inl e \<Rightarrow> ret (Inl e, s') | Inr v \<Rightarrow> k v s')"

definition looking :: "(CloudConfig \<Rightarrow> 'a ask) \<Rightarrow> 'a ask" where
  "looking f s = f (fst s) s"

definition nil_panic :: err where
  "nil_panic = Msg ''invalid memory address or nil pointer dereference''"

definition install_field :: "(Install \<Rightarrow> 'a ask) \<Rightarrow> 'a ask" where
  "install_field f = looking (\<lambda>cfg.
     case k3_Install (cc_K3OS cfg) of None \<Rightarrow> acting (fail nil_panic) | Some i \<Rightarrow> f i)"

definition set_k3os :: "(K3OS \<Rightarrow> K3OS) \<Rightarrow> CloudConfig \<Rightarrow> CloudConfig" where
  "set_k3os f cfg = cfg\<lparr>cc_K3OS := f (cc_K3OS cfg)\<rparr>"

definition set_install :: "(Install \<Rightarrow> Install) \<Rightarrow> CloudConfig \<Rightarrow> CloudConfig" where
  "set_install f = set_k3os (\<lambda>k. k\<lparr>k3_Install := map_option f (k3_Install k)\<rparr>)"

subsection \<open>cliinstall/ask.go\<close>

record InstallSys =
  is_Config :: ConfigCmd
  is_Mode :: FileSystem
  is_Prober :: BlockProber
  is_hasher :: "hist \<Rightarrow> string \<Rightarrow> err + string"
  is_FS :: FileSystem
  is_Cmd :: CommandRunner
  is_Environ :: "hist \<Rightarrow> string list"

definition AskInstallDevice :: "InstallSys \<Rightarrow> unit ask" where
  "AskInstallDevice ins =
     install_field (\<lambda>i.
     if in_Device i \<noteq> [] then answer ()
     else
       andthen (acting (ListDisks (is_Prober ins))) (\<lambda>disks.
       andthen (asking (PromptFormattedOptions (- 1) disks)) (\<lambda>n.
       setting (set_install (\<lambda>i. i\<lparr>in_Device := ''/dev/'' @ disks ! n\<rparr>)))))"

definition AskConfigURL :: "unit ask" where
  "AskConfigURL =
     install_field (\<lambda>i.
     if in_ConfigURL i \<noteq> [] then answer ()
     else
       andthen (asking (PromptBool False)) (\<lambda>yes.
       if \<not> yes then answer ()
       else
         andthen (asking (Prompt [])) (\<lambda>str.
         setting (set_install (\<lambda>i. i\<lparr>in_ConfigURL := str\<rparr>)))))"

definition AskToken :: "bool \<Rightarrow> unit ask" where
  "AskToken server =
     looking (\<lambda>cfg.
     if k3_Token (cc_K3OS cfg) \<noteq> [] then answer ()
     else (\<lambda>s. bnd (asking (if server then PromptOptional [] else Prompt []) s) (\<lambda>(r, cfg, inp).
       let token = (case r of Inl _ \<Rightarrow> [] | Inr t \<Rightarrow> t) in
       ret (map_sum id (\<lambda>_. ()) r, set_k3os (\<lambda>k. k\<lparr>k3_Token := token\<rparr>) cfg, inp))))"

definition isServer :: "InstallSys \<Rightarrow> bool ask" where
  "isServer ins =
     andthen (acting (mode_Get (is_Mode ins) [])) (\<lambda>mode.
     looking (\<lambda>cfg.
     if mode = ''live-server'' then answer True
     else if mode = ''live-agent'' \<or> (k3_ServerURL (cc_K3OS cfg) \<noteq> [] \<and> k3_Token (cc_K3OS cfg) \<noteq> [])
     then answer False
     else
       andthen (asking (PromptFormattedOptions 0 [''server'', ''agent''])) (\<lambda>i. answer (i = 0))))"

definition AskServerAgent :: "InstallSys \<Rightarrow> unit ask" where
  "AskServerAgent ins =
     looking (\<lambda>cfg.
     if k3_ServerURL (cc_K3OS cfg) \<noteq> [] then answer ()
     else
       andthen (isServer ins) (\<lambda>server.
       if server then AskToken True
       else
         andthen (asking (Prompt [])) (\<lambda>url.
         andthen (setting (set_k3os (\<lambda>k. k\<lparr>k3_ServerURL := url\<rparr>))) (\<lambda>_.
         AskToken False))))"

text \<open>The loop of \<open>AskPassword\<close>: until both entries agree.\<close>

function confirmed_password :: "input \<Rightarrow> (err + string) \<times> input" where
  "confirmed_password inp =
     (case PromptPassword inp of
        (Inl e, rest) \<Rightarrow> (Inl e, rest)
      | (Inr (pw, agree), rest) \<Rightarrow> if agree then (Inr pw, rest) else confirmed_password rest)"
  by pat_completeness auto
termination
  by (relation "measure length") (auto dest: PromptPassword_shorter sym)

declare confirmed_password.simps [simp del]

definition AskPassword :: "InstallSys \<Rightarrow> unit ask" where
  "AskPassword ins =
     looking (\<lambda>cfg.
     if cc_SSHAuthorizedKeys cfg \<noteq> [] \<or> k3_Password (cc_K3OS cfg) \<noteq> [] then answer ()
     else
       andthen (asking confirmed_password) (\<lambda>pw.
       andthen (acting (perform (CSys ''HashPassword'' [] []) (\<lambda>h. is_hasher ins h pw))) (\<lambda>hash.
       setting (set_k3os (\<lambda>k. k\<lparr>k3_Password := hash\<rparr>)))))"

text \<open>The loop of \<open>AskWifi\<close>: the networks entered so far are kept when a later prompt fails.\<close>

function wifi_loop :: "Wifi list \<Rightarrow> input \<Rightarrow> (err + unit) \<times> Wifi list \<times> input" where
  "wifi_loop ws inp =
     (case Prompt [] inp of
        (Inl e, rest) \<Rightarrow> (Inl e, ws, rest)
      | (Inr name, rest1) \<Rightarrow>
          (case Prompt [] rest1 of
             (Inl e, rest) \<Rightarrow> (Inl e, ws, rest)
           | (Inr pw, rest2) \<Rightarrow>
               let ws' = ws @ [\<lparr>wf_Name = name, wf_Passphrase = pw\<rparr>] in
               (case PromptBool False rest2 of
                  (Inl e, rest) \<Rightarrow> (Inl e, ws', rest)
                | (Inr another, rest3) \<Rightarrow>
                    if another then wifi_loop ws' rest3 else (Inr (), ws', rest3))))"
  by pat_completeness auto
termination
  by (relation "measure (\<lambda>(_, inp). length inp)") (fastforce dest: Prompt_shorter [OF sym] PromptBool_shorter [OF sym])+

declare wifi_loop.simps [simp del]

definition AskWifi :: "unit ask" where
  "AskWifi =
     looking (\<lambda>cfg.
     if k3_Wifi (cc_K3OS cfg) \<noteq> [] then answer ()
     else
       andthen (asking (PromptBool False)) (\<lambda>yes.
       if \<not> yes then answer ()
       else (\<lambda>(cfg, inp). case wifi_loop [] inp of
               (r, ws, rest) \<Rightarrow> ret (r, set_k3os (\<lambda>k. k\<lparr>k3_Wifi := ws\<rparr>) cfg, rest))))"

definition AskGithub :: "unit ask" where
  "AskGithub =
     looking (\<lambda>cfg.
     if cc_SSHAuthorizedKeys cfg \<noteq> [] \<or> k3_Password (cc_K3OS cfg) \<noteq> [] then answer ()
     else
       andthen (asking (PromptBool False)) (\<lambda>yes.
       if \<not> yes then answer ()
       else
         andthen (asking (Prompt [])) (\<lambda>str.
         setting (\<lambda>cfg. cfg\<lparr>cc_SSHAuthorizedKeys :=
           cc_SSHAuthorizedKeys cfg @ map (\<lambda>s. ''github:'' @ TrimSpace s) (Split CHR '','' str)\<rparr>))))"

definition AskInstall :: "InstallSys \<Rightarrow> unit ask" where
  "AskInstall ins =
     install_field (\<lambda>i.
     if in_Silent i then answer ()
     else
       andthen (AskInstallDevice ins) (\<lambda>_.
       andthen AskConfigURL (\<lambda>_.
       install_field (\<lambda>i.
       if in_ConfigURL i \<noteq> [] then answer ()
       else
         andthen AskGithub (\<lambda>_.
         andthen (AskPassword ins) (\<lambda>_.
         andthen AskWifi (\<lambda>_.
         AskServerAgent ins)))))))"

definition isInstall :: "InstallSys \<Rightarrow> bool ask" where
  "isInstall ins =
     andthen (acting (mode_Get (is_Mode ins) [])) (\<lambda>mode.
     if mode = ''install'' then answer True
     else if mode = ''live-server'' \<or> mode = ''live-agent'' then answer False
     else
       andthen (asking (PromptFormattedOptions 0 [''Install to disk'', ''Configure server or agent''])) (\<lambda>i.
       answer (i = 0)))"

definition Ask :: "InstallSys \<Rightarrow> bool ask" where
  "Ask ins =
     andthen (isInstall ins) (\<lambda>yes.
     if yes then andthen (AskInstall ins) (\<lambda>_. answer True)
     else andthen (AskServerAgent ins) (\<lambda>_. answer False))"

subsection \<open>cliinstall/install.go\<close>

definition installer :: string where
  "installer = ''/usr/libexec/k3os/install''"

definition run_installer :: "InstallSys \<Rightarrow> string list \<Rightarrow> unit go" where
  "run_installer ins ev =
     bnd (observe CEnviron (is_Environ ins)) (\<lambda>vars. RunWithEnv (is_Cmd ins) (vars @ ev) installer [])"

text \<open>
  Lines 88 to 113 with a temporary file for the configuration. The deferred close is the last call
  of every path, the deferred removal comes before it once the file is written.
\<close>

definition install_with_temp :: "InstallSys \<Rightarrow> CloudConfig \<Rightarrow> unit go" where
  "install_with_temp ins cfg =
     pass (CreateTemp (is_FS ins) ''/tmp'' ''k3os.XXXXXXXX'') (\<lambda>tmp.
     bnd (let cfg1 = set_install (\<lambda>i. i\<lparr>in_ConfigURL := tmp\<rparr>) cfg in
          case ToEnv (cm_Libs (is_Config ins)) cfg1 of
            Inl e \<Rightarrow> fail e
          | Inr ev \<Rightarrow>
              (case cl_Marshal (cm_Libs (is_Config ins)) (set_k3os (\<lambda>k. k\<lparr>k3_Install := None\<rparr>) cfg1) of
                 Inl e \<Rightarrow> fail e
               | Inr bytes \<Rightarrow>
                   pass (FileWrite (is_FS ins) tmp bytes) (\<lambda>_.
                   pass (FileClose (is_FS ins) tmp) (\<lambda>_.
                   bnd (run_installer ins ev) (\<lambda>r.
                   ignore (Remove (is_FS ins) tmp) (ret r))))))
     (\<lambda>r. ignore (FileClose (is_FS ins) tmp) (ret r)))"

definition install_go :: "InstallSys \<Rightarrow> CloudConfig \<Rightarrow> Install \<Rightarrow> unit go" where
  "install_go ins cfg i =
     (if in_ConfigURL i = [] then install_with_temp ins cfg
      else case ToEnv (cm_Libs (is_Config ins)) cfg of Inl e \<Rightarrow> fail e | Inr ev \<Rightarrow> run_installer ins ev)"

definition runInstall :: "InstallSys \<Rightarrow> CloudConfig \<Rightarrow> input \<Rightarrow> unit go" where
  "runInstall ins cfg inp =
     (case PrintInstall (cm_Libs (is_Config ins)) cfg of
        Inl e \<Rightarrow> fail e
      | Inr _ \<Rightarrow>
          (case k3_Install (cc_K3OS cfg) of
             None \<Rightarrow> fail nil_panic
           | Some i \<Rightarrow>
               if in_Silent i then install_go ins cfg i
               else
                 (case fst (PromptBool False inp) of
                    Inl e \<Rightarrow> fail e
                  | Inr yes \<Rightarrow> if yes then install_go ins cfg i else ok ())))"

text \<open>Lines 35 to 57: write the configuration to the first of two files that can be created.\<close>

definition write_config :: "InstallSys \<Rightarrow> CloudConfig \<Rightarrow> unit go" where
  "write_config ins cfg =
     (case ToBytes (cm_Libs (is_Config ins)) cfg of
        Inl e \<Rightarrow> fail e
      | Inr bytes \<Rightarrow>
          pass (bnd (Create (is_FS ins) SystemConfig) (\<lambda>r. case r of
                  Inr f \<Rightarrow> ok f
                | Inl _ \<Rightarrow> Create (is_FS ins) LocalConfig)) (\<lambda>f.
          bnd (pass (FileWrite (is_FS ins) f bytes) (\<lambda>_.
               pass (FileClose (is_FS ins) f) (\<lambda>_.
               RunInstall (is_Config ins)))) (\<lambda>r.
          ignore (FileClose (is_FS ins) f) (ret r))))"

definition cliinstall_Run :: "InstallSys \<Rightarrow> input \<Rightarrow> unit go" where
  "cliinstall_Run ins inp =
     pass (ReadConfig (cm_Libs (is_Config ins))) (\<lambda>cfg.
     bnd (Ask ins (cfg, inp)) (\<lambda>(r, cfg, rest).
     case r of
       Inl e \<Rightarrow> fail e
     | Inr True \<Rightarrow> runInstall ins cfg rest
     | Inr False \<Rightarrow> write_config ins cfg))"

subsection \<open>Answers never replace what is configured\<close>

text \<open>\<open>kept old new\<close>: a field that was set is unchanged.\<close>

definition kept :: "'a list \<Rightarrow> 'a list \<Rightarrow> bool" where
  "kept old new \<longleftrightarrow> old = [] \<or> new = old"

definition rest_of_install :: "Install \<Rightarrow> Install" where
  "rest_of_install i = i\<lparr>in_Device := [], in_ConfigURL := []\<rparr>"

definition rest_of_config :: "CloudConfig \<Rightarrow> CloudConfig" where
  "rest_of_config c = c\<lparr>cc_SSHAuthorizedKeys := [], cc_K3OS := (cc_K3OS c)\<lparr>k3_Password := [], k3_Wifi := [],
     k3_ServerURL := [], k3_Token := [], k3_Install := None\<rparr>\<rparr>"

fun install_kept :: "Install option \<Rightarrow> Install option \<Rightarrow> bool" where
  "install_kept (Some i) (Some j) \<longleftrightarrow>
     kept (in_Device i) (in_Device j) \<and> kept (in_ConfigURL i) (in_ConfigURL j) \<and> rest_of_install j = rest_of_install i"
| "install_kept None None \<longleftrightarrow> True"
| "install_kept _ _ \<longleftrightarrow> False"

text \<open>\<open>completes a b\<close>: \<open>b\<close> is \<open>a\<close> with empty fields among those that are asked for filled in.\<close>

definition completes :: "CloudConfig \<Rightarrow> CloudConfig \<Rightarrow> bool" where
  "completes a b \<longleftrightarrow>
     kept (cc_SSHAuthorizedKeys a) (cc_SSHAuthorizedKeys b) \<and>
     kept (k3_Password (cc_K3OS a)) (k3_Password (cc_K3OS b)) \<and> kept (k3_Wifi (cc_K3OS a)) (k3_Wifi (cc_K3OS b)) \<and>
     kept (k3_ServerURL (cc_K3OS a)) (k3_ServerURL (cc_K3OS b)) \<and> kept (k3_Token (cc_K3OS a)) (k3_Token (cc_K3OS b)) \<and>
     install_kept (k3_Install (cc_K3OS a)) (k3_Install (cc_K3OS b)) \<and> rest_of_config b = rest_of_config a"

lemma kept_refl [simp]: "kept a a"
  by (simp add: kept_def)

lemma install_kept_refl [simp]: "install_kept a a"
  by (cases a) simp_all

lemma completes_refl [simp]: "completes a a"
  by (simp add: completes_def)

lemma kept_trans: "kept a b \<Longrightarrow> kept b c \<Longrightarrow> kept a c"
  by (auto simp: kept_def)

lemma install_kept_trans: "install_kept a b \<Longrightarrow> install_kept b c \<Longrightarrow> install_kept a c"
  by (cases a; cases b; cases c) (auto intro: kept_trans)

lemma completes_trans: "completes a b \<Longrightarrow> completes b c \<Longrightarrow> completes a c"
  unfolding completes_def by (auto intro: kept_trans install_kept_trans)

definition completing :: "'a ask \<Rightarrow> bool" where
  "completing m \<longleftrightarrow> (\<forall>s h. completes (fst s) (fst (snd (fst (m s h)))))"

lemma completing_andthen:
  assumes "completing m" and "\<And>v. completing (k v)"
  shows "completing (andthen m k)"
  unfolding completing_def
proof (intro allI)
  fix s h
  obtain r s' t where m: "m s h = ((r, s'), t)" by (cases "m s h") auto
  have "completes (fst s) (fst (snd (fst (m s h))))" using assms(1) unfolding completing_def by blast
  then have "completes (fst s) (fst s')" by (simp add: m)
  moreover have "completes (fst s') (fst (snd (fst (k v s' (h @ t)))))" for v
    using assms(2) unfolding completing_def by blast
  ultimately show "completes (fst s) (fst (snd (fst (andthen m k s h))))"
    using m by (cases r) (auto simp: andthen_def intro: completes_trans)
qed

lemma completing_basic:
  "completing (answer v)" "completing (asking f)" "completing (acting m)"
  by (simp_all add: completing_def answer_def asking_def acting_def)

lemma completing_if: "completing m \<Longrightarrow> completing n \<Longrightarrow> completing (if b then m else n)"
  by simp

lemma completing_looking: "(\<And>cfg. completing (f cfg)) \<Longrightarrow> completing (looking f)"
  by (simp add: completing_def looking_def)

lemma completing_install_field: "(\<And>i. completing (f i)) \<Longrightarrow> completing (install_field f)"
  unfolding install_field_def
  by (intro completing_looking) (auto intro: completing_basic split: option.split)

text \<open>The questions that set a field look first whether it is set, and nothing in between changes the configuration.\<close>

lemmas ask_defs = looking_def install_field_def andthen_def answer_def asking_def acting_def setting_def

lemma completing_AskInstallDevice: "completing (AskInstallDevice ins)"
  unfolding completing_def AskInstallDevice_def
  by (auto simp: ask_defs completes_def rest_of_config_def rest_of_install_def set_install_def set_k3os_def kept_def
      split: option.split sum.split prod.split)

lemma completing_AskConfigURL: "completing AskConfigURL"
  unfolding completing_def AskConfigURL_def
  by (auto simp: ask_defs completes_def rest_of_config_def rest_of_install_def set_install_def set_k3os_def kept_def
      split: option.split sum.split prod.split)

lemma completing_AskToken: "completing (AskToken server)"
  unfolding completing_def AskToken_def
  by (auto simp: ask_defs completes_def rest_of_config_def set_k3os_def kept_def Let_def)

lemma isServer_config: "fst (snd (fst (isServer ins s h))) = fst s"
  by (auto simp: isServer_def ask_defs split: sum.split prod.split)

lemma completing_AskServerAgent: "completing (AskServerAgent ins)"
  unfolding completing_def
proof (intro allI)
  fix s h
  obtain r cfg inp t where server: "isServer ins s h = ((r, cfg, inp), t)" by (metis prod.exhaust)
  have cfg: "cfg = fst s" using isServer_config [of ins s h] server by simp
  have token: "completes c (fst (snd (fst (AskToken b (c, i) h'))))" for b c i h'
    using completing_AskToken [of b] unfolding completing_def by (metis fst_conv)
  have url: "completes (fst s) (set_k3os (\<lambda>k. k\<lparr>k3_ServerURL := u\<rparr>) (fst s))"
    if "k3_ServerURL (cc_K3OS (fst s)) = []" for u
    using that by (simp add: set_k3os_def completes_def kept_def rest_of_config_def)
  show "completes (fst s) (fst (snd (fst (AskServerAgent ins s h))))"
    using server cfg token completes_trans [OF url token]
    by (cases r) (auto simp: AskServerAgent_def ask_defs split: sum.split)
qed

lemma completing_AskPassword: "completing (AskPassword ins)"
  unfolding completing_def AskPassword_def
  by (auto simp: ask_defs completes_def rest_of_config_def set_k3os_def kept_def split: sum.split)

lemma completing_AskGithub: "completing AskGithub"
  unfolding completing_def AskGithub_def
  by (auto simp: ask_defs completes_def rest_of_config_def kept_def split: sum.split)

lemma completing_AskWifi: "completing AskWifi"
  unfolding completing_def AskWifi_def
  by (auto simp: ask_defs completes_def rest_of_config_def set_k3os_def kept_def split: sum.split prod.split)

lemma completing_AskInstall: "completing (AskInstall ins)"
  unfolding AskInstall_def
  by (intro completing_andthen completing_install_field completing_if completing_basic completing_AskInstallDevice
      completing_AskConfigURL completing_AskGithub completing_AskPassword completing_AskWifi completing_AskServerAgent)

lemma completing_Ask: "completing (Ask ins)"
  unfolding Ask_def isInstall_def
  by (intro completing_andthen completing_if completing_basic completing_AskInstall completing_AskServerAgent)

subsection \<open>Properties\<close>

text \<open>C32: Whatever the user answers, also when the questions end in an error, everything the configuration
  set before is kept: a question fills in a field only when it was empty.\<close>

theorem Ask_completes: "completes cfg (fst (snd (fst (Ask ins (cfg, inp) h))))"
  using completing_Ask [of ins] unfolding completing_def by (metis fst_conv)

definition is_installer :: "event \<Rightarrow> bool" where
  "is_installer ev = (case fst ev of CRunWithEnv _ name _ \<Rightarrow> name = installer | _ \<Rightarrow> False)"

text \<open>Counting the runs of the installer through the combinators.\<close>

definition installs :: "'a io \<Rightarrow> nat \<Rightarrow> bool" where
  "installs m n \<longleftrightarrow> (\<forall>h. length (filter is_installer (snd (m h))) \<le> n)"

lemma installs_pass: "installs m 0 \<Longrightarrow> (\<And>x. installs (k x) n) \<Longrightarrow> installs (pass m k) n"
  by (auto simp: installs_def split: sum.split)

lemma installs_bnd: "installs m n \<Longrightarrow> (\<And>x. installs (k x) 0) \<Longrightarrow> installs (bnd m k) n"
  by (auto simp: installs_def)

lemma installs_ignore: "installs m 0 \<Longrightarrow> installs k n \<Longrightarrow> installs (ignore m k) n"
  by (auto simp: installs_def)

lemma installs_ret: "installs (ret v) n"
  by (simp add: installs_def)

lemma installs_quiet:
  "installs (CreateTemp fs d pat) 0" "installs (FileWrite fs f d) 0" "installs (FileClose fs f) 0" "installs (Remove fs f) 0"
  by (simp_all add: installs_def is_installer_def CreateTemp_def FileWrite_def FileClose_def Remove_def)

lemma installs_run_installer: "installs (run_installer ins ev) (Suc 0)"
  by (simp add: installs_def run_installer_def is_installer_def RunWithEnv_def)

lemma installs_install_go: "installs (install_go ins cfg i) 1"
  unfolding install_go_def install_with_temp_def Let_def
  by (auto split: sum.split
      intro!: installs_pass installs_bnd installs_ignore installs_ret installs_quiet installs_run_installer)

text \<open>C31: The installer, which formats the disk, runs only when the configuration says so by \<open>silent\<close> or the
  user confirmed it, and at most once.\<close>

theorem install_confirmed:
  "length (filter is_installer (snd (runInstall ins cfg inp h))) \<le>
     (case k3_Install (cc_K3OS cfg) of
        Some i \<Rightarrow> if in_Silent i \<or> fst (PromptBool False inp) = Inr True then 1 else 0
      | None \<Rightarrow> 0)"
proof -
  have go: "length (filter is_installer (snd (install_go ins cfg i h))) \<le> 1" for i
    using installs_install_go by (simp add: installs_def)
  show ?thesis
    unfolding runInstall_def using go by (auto split: sum.split option.split)
qed

end
