(* ===== verification/Link_Store.thy ===== *)
theory Link_Store
  imports Go_Fixtures
begin

section \<open>Symbolic links behind a trace\<close>

text \<open>
  What the calls of a trace do to symbolic links: \<open>links_after st tr\<close> is the links after the events of
  \<open>tr\<close>, starting from \<open>st\<close>. A rename moves what is below its source too; \<open>copy.Copy\<close> copies a link as a
  link, its documented default. The last lemmas take paths apart.
\<close>

type_synonym links = "string \<Rightarrow> string option"

definition moved :: "links \<Rightarrow> string \<Rightarrow> string \<Rightarrow> string \<Rightarrow> string option" where
  "moved st a b q = st (a @ drop (length b) q)"

definition link_effect :: "links \<Rightarrow> event \<Rightarrow> links" where
  "link_effect st ev =
     (case fst ev of
        CSymlink t p \<Rightarrow> if snd ev then st(p := Some t) else st
      | CRename a b \<Rightarrow>
          if snd ev then (\<lambda>q. if wipes b q then moved st a b q else if wipes a q then None else st q) else st
      | CRemove p \<Rightarrow> if snd ev then st(p := None) else st
      | CRemoveAll p \<Rightarrow> (\<lambda>q. if wipes p q then None else st q)
      | CCopyDir a b \<Rightarrow> if snd ev then (\<lambda>q. if wipes b q then moved st a b q else st q) else st
      | _ \<Rightarrow> st)"

definition links_after :: "links \<Rightarrow> hist \<Rightarrow> links" where
  "links_after st tr = fold (\<lambda>ev s. link_effect s ev) tr st"

lemma links_after_Nil [simp]: "links_after st [] = st"
  by (simp add: links_after_def)

lemma links_after_Cons [simp]: "links_after st (ev # tr) = links_after (link_effect st ev) tr"
  by (simp add: links_after_def)

lemma links_after_append [simp]: "links_after st (tr @ us) = links_after (links_after st tr) us"
  by (simp add: links_after_def)

text \<open>\<open>leaves p ev\<close>: the event does not change what link is at \<open>p\<close>.\<close>

definition leaves :: "string \<Rightarrow> event \<Rightarrow> bool" where
  "leaves p ev =
     (case fst ev of
        CSymlink t q \<Rightarrow> q \<noteq> p
      | CRename a q \<Rightarrow> \<not> wipes a p \<and> \<not> wipes q p
      | CRemove q \<Rightarrow> q \<noteq> p
      | CRemoveAll q \<Rightarrow> \<not> wipes q p
      | CCopyDir a q \<Rightarrow> \<not> wipes q p
      | _ \<Rightarrow> True)"

lemma link_effect_leaves: "leaves p ev \<Longrightarrow> link_effect st ev p = st p"
  by (cases "fst ev") (auto simp: leaves_def link_effect_def)

lemma links_after_leaves: "list_all (leaves p) tr \<Longrightarrow> links_after st tr p = st p"
  by (induction tr arbitrary: st) (auto simp: link_effect_leaves)

lemma link_effect_copied: "link_effect st (CCopyDir a b, True) b = st a"
  by (simp add: link_effect_def wipes_def moved_def)

lemma link_effect_renamed: "link_effect st (CRename a b, True) b = st a"
  by (simp add: link_effect_def wipes_def moved_def)

text \<open>\<open>link_coherent fs st\<close>: reading a link gives what the trace made of the links \<open>st\<close>.\<close>

definition link_coherent :: "FileSystem \<Rightarrow> links \<Rightarrow> bool" where
  "link_coherent fs st \<longleftrightarrow> (\<forall>h p t. links_after st h p = Some t \<longrightarrow> fs_Readlink fs h p = Inr t)"

subsection \<open>Last components of paths\<close>

lemma rooted_path_suffix: "rooted_path (ws @ [x]) @ s = rooted_path (ws @ [x @ s])"
  by (cases "ws = []") (simp_all add: rooted_path_def Join_snoc)

lemma PathSplit_slash:
  "CHR ''/'' \<notin> set x \<Longrightarrow> PathSplit (d @ CHR ''/'' # x) = (d @ ''/'', x)"
proof -
  assume "CHR ''/'' \<notin> set x"
  then have x: "\<forall>c \<in> set (rev x). c \<noteq> CHR ''/''" by auto
  have "dropWhile (\<lambda>c. c \<noteq> CHR ''/'') (rev x @ CHR ''/'' # rev d) = CHR ''/'' # rev d"
    using x by (subst dropWhile_append2) auto
  moreover have "takeWhile (\<lambda>c. c \<noteq> CHR ''/'') (rev x @ CHR ''/'' # rev d) = rev x"
    using x by (subst takeWhile_append2) auto
  ultimately show ?thesis by (simp add: PathSplit_def)
qed

lemma PathSplit_rooted:
  assumes "ws \<noteq> []" and "plain_name x"
  shows "PathSplit (rooted_path (ws @ [x])) = (rooted_path ws @ ''/'', x)"
  using PathSplit_slash [of x "rooted_path ws"] assms
  by (simp add: plain_name_def rooted_path_def Join_snoc)

lemma Base_rooted:
  assumes "ws \<noteq> []" and "plain_name x"
  shows "Base (rooted_path (ws @ [x])) = x"
proof -
  obtain c y where x: "x = y @ [c]" and "c \<noteq> CHR ''/''"
    using assms(2) by (cases x rule: rev_cases) (auto simp: plain_name_def)
  then have "TrimRightFunc (\<lambda>c. c = CHR ''/'') (rooted_path (ws @ [x])) = rooted_path (ws @ [x])"
    using assms(1) by (simp add: TrimRightFunc_def rooted_path_def Join_snoc)
  then show ?thesis
    using PathSplit_rooted [OF assms] by (simp add: Base_def Let_def) (simp add: rooted_path_def)
qed

lemma show_nat_digits: "show_nat n \<noteq> [] \<and> list_all is_digit (show_nat n)"
proof (induction n rule: show_nat.induct)
  case (1 n)
  have digit: "is_digit (digit_char d)" if "d < 10" for d
  proof -
    have "\<forall>d' \<in> set [0..<10]. is_digit (digit_char d')" by code_simp
    then show ?thesis using that by simp
  qed
  show ?case using 1 digit by (subst (1 2) show_nat.simps) auto
qed

lemma PathSplit_concat: "fst (PathSplit p) @ snd (PathSplit p) = p"
  unfolding PathSplit_def by (simp flip: rev_append)

end
