(* ===== verification/Osimpl.thy ===== *)
theory Osimpl
  imports Link_Store Go_Lines
begin

section \<open>Adapters with logic of their own: internal/iface/osimpl\<close>

text \<open>
  Most adapters of \<open>osimpl\<close> hand a call to the operating system and are the boundary records themselves.
  Here are those that compute something: the path of a kernel parameter, the table of loaded modules, and
  detaching a loop device by its path. The block prober is in the theory of the devices.
\<close>

subsection \<open>sysctl.go\<close>

definition sysctl_path :: "string \<Rightarrow> string \<Rightarrow> string" where
  "sysctl_path root key =
     (let root = (if root = [] then ''/proc/sys'' else root) in PathJoin (root # Split CHR ''.'' key))"

definition SysctlApplier_Set :: "FileSystem \<Rightarrow> string \<Rightarrow> string \<Rightarrow> string \<Rightarrow> unit go" where
  "SysctlApplier_Set fs root key value = WriteFile fs (sysctl_path root key) value mode_644"

subsection \<open>module.go\<close>

text \<open>The keys of the map that the loop fills, in which every value is \<open>true\<close>.\<close>

definition loaded_names :: "string \<Rightarrow> string list" where
  "loaded_names data = remdups (map (\<lambda>l. hd (SplitN CHR '' '' 2 l)) (ScanLines data))"

definition osimpl_LoadedModules :: "FileSystem \<Rightarrow> string list go" where
  "osimpl_LoadedModules fs = pass (ReadFile fs ''/proc/modules'') (\<lambda>data. ok (loaded_names data))"

subsection \<open>loopdetach.go\<close>

record FdSys =
  fd_Open :: "hist \<Rightarrow> string \<Rightarrow> err + nat"
  fd_Close :: "hist \<Rightarrow> nat \<Rightarrow> err + unit"
  fd_IoctlSetInt :: "hist \<Rightarrow> nat \<Rightarrow> nat \<Rightarrow> nat \<Rightarrow> err + unit"
  fd_Dup2 :: "hist \<Rightarrow> nat \<Rightarrow> nat \<Rightarrow> err + unit"

definition osimpl_DetachPath :: "FdSys \<Rightarrow> string \<Rightarrow> unit go" where
  "osimpl_DetachPath fd device =
     check ''open'' (perform (CSys ''open'' [device] []) (\<lambda>h. fd_Open fd h device)) (\<lambda>n.
     bnd (check ''LOOP_CLR_FD'' (perform (CSys ''ioctl'' [] [n, 0x4C01, 0]) (\<lambda>h. fd_IoctlSetInt fd h n 0x4C01 0)) (\<lambda>_. ok ())) (\<lambda>r.
     ignore (perform (CSys ''close'' [] [n]) (\<lambda>h. fd_Close fd h n)) (ret r)))"

subsection \<open>A kernel parameter stays a kernel parameter\<close>

text \<open>Components without a dot are kept by \<open>Clean\<close>, empty ones vanish.\<close>

lemma clean_comps_no_dots:
  "list_all (\<lambda>w. CHR ''.'' \<notin> set w) ws \<Longrightarrow> clean_comps r acc ws = rev (filter (\<lambda>w. w \<noteq> []) ws) @ acc"
proof (induction ws arbitrary: acc)
  case (Cons w ws)
  then have "w \<noteq> ''.''" "w \<noteq> ''..''" by auto
  with Cons show ?case by simp
qed simp

lemma Split_pieces: "w \<in> set (Split d s) \<Longrightarrow> set w \<subseteq> set s - {d}"
proof (induction s arbitrary: w)
  case (Cons c s)
  then show ?case by (cases "Split d s") (fastforce split: if_splits)+
qed simp

lemma Join_chars: "set (Join sep ws) \<subseteq> set sep \<union> (\<Union>w\<in>set ws. set w)"
  by (induction sep ws rule: Join.induct) auto

lemma Clean_no_dots:
  assumes "CHR ''.'' \<notin> set p"
  shows "Clean (CHR ''/'' # p) = rooted_path (filter (\<lambda>w. w \<noteq> []) (Split CHR ''/'' p))"
proof -
  have "list_all (\<lambda>w. CHR ''.'' \<notin> set w) (Split CHR ''/'' p)"
    using Split_pieces assms by (fastforce simp: list_all_iff)
  then show ?thesis
    by (simp add: Clean_def HasPrefix_def rooted_path_def clean_comps_no_dots)
qed

lemma Split_pieces_plain:
  assumes "CHR ''.'' \<notin> set p"
  shows "list_all plain_name (filter (\<lambda>w. w \<noteq> []) (Split CHR ''/'' p))"
proof -
  have "plain_name w" if "w \<in> set (Split CHR ''/'' p)" "w \<noteq> []" for w
    using Split_pieces [OF that(1)] that(2) assms by (auto simp: plain_name_def)
  then show ?thesis by (simp add: list_all_iff)
qed

lemma sysctl_path_default:
  "sysctl_path [] key = Clean (''/proc/sys/'' @ Join ''/'' (Split CHR ''.'' key))"
  by (cases "Split CHR ''.'' key") (simp_all add: sysctl_path_def PathJoin.simps)

text \<open>C35: The name of a kernel parameter is taken apart at its dots, so no component of it can be
  \<open>.\<close> or \<open>..\<close>: whatever key the configuration gives, the file written lies below \<open>/proc/sys\<close>.\<close>

theorem sysctl_contained:
  "\<exists>cs. list_all plain_name cs \<and> sysctl_path [] key = rooted_path ([''proc'', ''sys''] @ cs)"
proof -
  let ?body = "Join ''/'' (Split CHR ''.'' key)"
  let ?cs = "filter (\<lambda>w. w \<noteq> []) (Split CHR ''/'' ?body)"
  have dots: "CHR ''.'' \<notin> set ?body"
    using Join_chars [of "''/''" "Split CHR ''.'' key"] Split_pieces [of _ "CHR ''.''" key] by fastforce
  then have "sysctl_path [] key = rooted_path ([''proc'', ''sys''] @ ?cs)"
    using Clean_no_dots [of "''proc/sys/'' @ ?body"] by (simp add: sysctl_path_default)
  with Split_pieces_plain [OF dots] show ?thesis by blast
qed

end
