(* ===== verification/Flag_Sources.thy ===== *)
theory Flag_Sources
  imports Config_Map Go_Lines
begin

section \<open>Arguments from several sources: internal/flagsource and internal/cmdline\<close>

text \<open>
  \<open>Merge\<close> collects arguments from the kernel command line, a file of quoted strings and the environment.
  \<open>parseToMap\<close> is the second tokeniser of kernel command lines in the repository, beside the one of
  \<open>internal/config/cmdline_reader.go\<close>; both are compared here. The shell-like splitting \<open>shlex.Argv\<close> is code outside the repository:
  the parameter \<open>argv\<close>.
\<close>

subsection \<open>flagsource.go\<close>

definition argv_args :: "(string \<Rightarrow> string list) \<Rightarrow> string option \<Rightarrow> string list go" where
  "argv_args argv val = ok (case val of None \<Rightarrow> [] | Some v \<Rightarrow> if v = [] then [] else argv v)"

definition CmdlineSource_Args :: "(string \<Rightarrow> string list) \<Rightarrow> CmdlineParser \<Rightarrow> string \<Rightarrow> string list go" where
  "CmdlineSource_Args argv parser flagName = bnd (Flag parser flagName) (argv_args argv)"

definition EnvSource_Args :: "(string \<Rightarrow> string list) \<Rightarrow> (hist \<Rightarrow> string \<Rightarrow> string option) \<Rightarrow> string \<Rightarrow> string list go" where
  "EnvSource_Args argv lookupEnv name = bnd (observe (CGetenv name) (\<lambda>h. lookupEnv h name)) (argv_args argv)"

text \<open>The scanning loop of \<open>FileSource.Args\<close>.\<close>

fun source_lines :: "string list \<Rightarrow> string list option" where
  "source_lines [] = Some []"
| "source_lines (text # rest) =
     (let line = TrimSpace text in
      if line = [] \<or> HasPrefix line ''#'' then source_lines rest
      else
        case Unquote line of
          None \<Rightarrow> None
        | Some unquoted \<Rightarrow> map_option (\<lambda>args. unquoted # args) (source_lines rest))"

text \<open>\<open>os.Open\<close> and the reads of the scanner are one \<open>ReadFile\<close>; \<open>errors.Is\<close> looks through wrapped errors.\<close>

definition FileSource_Args :: "FileSystem \<Rightarrow> string \<Rightarrow> string list go" where
  "FileSource_Args fs path =
     bnd (ReadFile fs path) (\<lambda>r. case r of
       Inl e \<Rightarrow> if errors_Is IsNotExist e then ok [] else fail e
     | Inr data \<Rightarrow>
         (case source_lines (ScanLines data) of
            None \<Rightarrow> fail (Msg ''invalid syntax'')
          | Some args \<Rightarrow> ok args))"

fun Merge :: "string list go list \<Rightarrow> string list go" where
  "Merge [] = ok []"
| "Merge (src # sources) = pass src (\<lambda>args. pass (Merge sources) (\<lambda>rest. ok (args @ rest)))"

subsection \<open>cmdline.go\<close>

text \<open>The closure of \<open>parseToMap\<close>: among the ASCII characters the quotation marks are \<open>"\<close> and \<open>'\<close>.\<close>

definition cmdline_sep :: "char option \<Rightarrow> char \<Rightarrow> char option \<times> bool" where
  "cmdline_sep lastQuote c =
     (if Some c = lastQuote then (None, False)
      else if lastQuote \<noteq> None then (lastQuote, False)
      else if c = quote_char \<or> c = CHR 0x27 then (Some c, False)
      else (None, is_space c))"

definition cmdline_pair :: "string \<Rightarrow> string \<times> string" where
  "cmdline_pair flag =
     (if CHR ''='' \<in> set flag
      then (takeWhile (\<lambda>c. c \<noteq> CHR ''='') flag, tl (dropWhile (\<lambda>c. c \<noteq> CHR ''='') flag))
      else (flag, ''1''))"

definition canonicalKey :: "string \<Rightarrow> string" where
  "canonicalKey key = ReplaceAll key ''-'' ''_''"

definition put_flag :: "(string \<rightharpoonup> string) \<Rightarrow> string \<Rightarrow> (string \<rightharpoonup> string)" where
  "put_flag m flag = (case cmdline_pair flag of (key, value) \<Rightarrow> m(canonicalKey key \<mapsto> value, key \<mapsto> value))"

definition parseToMap :: "string \<Rightarrow> (string \<rightharpoonup> string)" where
  "parseToMap raw =
     foldl put_flag (\<lambda>_. None) (filter (\<lambda>flag. flag \<noteq> []) (fields_state cmdline_sep None [] raw))"

subsection \<open>Merging\<close>

text \<open>Merging two lists of sources is merging one after the other.\<close>

lemma Merge_append:
  "Merge (xs @ ys) = pass (Merge xs) (\<lambda>as. pass (Merge ys) (\<lambda>bs. ok (as @ bs)))"
proof (induction xs)
  case Nil
  show ?case by (rule bnd_eqI) (simp_all split: sum.split)
next
  case (Cons x xs)
  show ?case by (rule bnd_eqI) (simp_all add: Cons split: sum.split)
qed

lemma Merge_error: "fst (src h) = Inl e \<Longrightarrow> Merge (src # sources) h = (Inl e, snd (src h))"
  by (simp add: prod_eq_iff)

subsection \<open>Flag files\<close>

text \<open>The lines of a flag file: an argument, or a comment (empty: a blank line).\<close>

fun file_line :: "string + string \<Rightarrow> string" where
  "file_line (Inr arg) = Quote arg"
| "file_line (Inl comment) = (if comment = [] then [] else CHR ''#'' # comment)"

definition file_args :: "(string + string) list \<Rightarrow> string list" where
  "file_args entries = concat (map (\<lambda>e. case e of Inr arg \<Rightarrow> [arg] | Inl _ \<Rightarrow> []) entries)"

lemma Quote_trimmed: "trimmed (Quote s)"
  by (simp add: trimmed_def Quote_def is_space_def quote_char_def)

lemma TrimSpace_comment: "HasPrefix (TrimSpace (CHR ''#'' # c)) ''#''"
proof -
  have "dropWhile is_space (rev (CHR ''#'' # c)) = dropWhile is_space (rev c) @ [CHR ''#'']"
    by (simp add: dropWhile_append is_space_def)
  then show ?thesis
    by (simp add: TrimSpace_def TrimFunc_def TrimLeftFunc_def TrimRightFunc_def HasPrefix_def is_space_def)
qed

lemma source_lines_entries:
  "source_lines (map drop_cr (map file_line entries)) = Some (file_args entries)"
proof (induction entries)
  case (Cons e es)
  show ?case
  proof (cases e)
    case (Inr arg)
    have "drop_cr (Quote arg) = Quote arg" "TrimSpace (Quote arg) = Quote arg"
      by (simp_all add: Quote_trimmed drop_cr_trimmed TrimSpace_trimmed)
    moreover have "Quote arg \<noteq> []" "\<not> HasPrefix (Quote arg) ''#''"
      by (simp_all add: Quote_def HasPrefix_def quote_char_def)
    ultimately show ?thesis using Inr Cons by (simp add: file_args_def Unquote_Quote)
  next
    case (Inl c)
    have "TrimSpace (drop_cr (file_line e)) = [] \<or> HasPrefix (TrimSpace (drop_cr (file_line e))) ''#''"
    proof (cases "c = []")
      case True
      then show ?thesis
        using Inl by (simp add: drop_cr_def TrimSpace_def TrimFunc_def TrimLeftFunc_def TrimRightFunc_def)
    next
      case False
      then have "drop_cr (file_line e) = CHR ''#'' # drop_cr c" using Inl by (simp add: drop_cr_def)
      then show ?thesis using TrimSpace_comment by simp
    qed
    then show ?thesis using Inl Cons by (auto simp: file_args_def)
  qed
qed (simp add: file_args_def)

text \<open>What a flag file says is what its reader returns. A file written with one quoted argument to the
  line, and with blank lines and comments between them, is read back as exactly these arguments in order,
  whatever characters they contain.\<close>

theorem FileSource_roundtrip:
  assumes "fs_ReadFile fs h path = Inr (unlines (map file_line entries))"
    and "\<forall>comment. Inl comment \<in> set entries \<longrightarrow> newline \<notin> set comment"
  shows "fst (FileSource_Args fs path h) = Inr (file_args entries)"
proof -
  have "newline \<notin> set (file_line e)" if "e \<in> set entries" for e
  proof (cases e)
    case (Inl comment)
    then show ?thesis using that assms(2) by auto
  qed (simp add: Quote_one_line)
  then have "ScanLines (unlines (map file_line entries)) = map drop_cr (map file_line entries)"
    by (intro ScanLines_unlines) auto
  then show ?thesis
    using assms(1) source_lines_entries [of entries] by (simp add: FileSource_Args_def ReadFile_def)
qed

theorem FileSource_roundtrip_witness:
  "fst (FileSource_Args (fs_ok\<lparr>fs_ReadFile := (\<lambda>_ _. Inr (unlines (map file_line [Inl ''flags'', Inr ''--a b'', Inr [quote_char]])))\<rparr>)
     ''/flags'' []) = Inr [''--a b'', [quote_char]]"
  using FileSource_roundtrip [of "fs_ok\<lparr>fs_ReadFile := (\<lambda>_ _. Inr (unlines (map file_line [Inl ''flags'', Inr ''--a b'', Inr [quote_char]])))\<rparr>"
      "[]" "''/flags''" "[Inl ''flags'', Inr ''--a b'', Inr [quote_char]]"]
  by (simp add: file_args_def)

subsection \<open>The two tokenisers of the command line\<close>

lemma fields_state_cong:
  "(\<And>q c. c \<in> set s \<Longrightarrow> f q c = g q c) \<Longrightarrow> fields_state f q cur s = fields_state g q cur s"
  by (induction s arbitrary: q cur) auto

definition plain_cmdline :: "string \<Rightarrow> bool" where
  "plain_cmdline raw \<longleftrightarrow> CHR 0x27 \<notin> set raw \<and> CHR 0x0B \<notin> set raw \<and> CHR 0x0C \<notin> set raw"

lemma tokenisers_agree: "plain_cmdline raw \<Longrightarrow> fields_state cmdline_sep None [] raw = splitCmdlineTokens raw"
  unfolding splitCmdlineTokens_def
  by (rule fields_state_cong) (auto simp: cmdline_sep_def token_sep_def plain_cmdline_def is_space_def)

definition names_flag :: "string \<Rightarrow> string \<Rightarrow> bool" where
  "names_flag k flag \<longleftrightarrow> k \<in> {fst (cmdline_pair flag), canonicalKey (fst (cmdline_pair flag))}"

lemma put_flags:
  "foldl put_flag m flags k =
     (if filter (names_flag k) flags = [] then m k
      else Some (snd (cmdline_pair (last (filter (names_flag k) flags)))))"
  by (induction flags arbitrary: m) (auto simp: put_flag_def names_flag_def case_prod_beta)



end
