(* ===== verification/Boot_Init.thy ===== *)
theory Boot_Init
  imports Boot_Bootstrap Boot_Finalize Boot_Modes
begin

section \<open>The boot sequence: internal/boot/init.go and main.go\<close>

text \<open>
  \<open>Init\<close> is the struct of \<open>internal/boot/init.go\<close> with its collaborators as injected actions, so the
  theorems about \<open>Init_Run\<close> hold for every bootstrapper, detector, registry and finalizer.
  \<open>ModeSetterFunc\<close> assigns the finalizer's \<open>Mode\<close>: the finalizer is a function of its mode, and the
  detected mode reaches it when the setter is not \<open>nil\<close>. \<open>Machine\<close> collects what \<open>postChroot\<close> of
  \<open>main.go\<close> takes from the operating system and from the packages it wires together.
\<close>

subsection \<open>init.go\<close>

record Init =
  i_Bootstrap :: "unit go"
  i_ModeDetector :: "string go"
  i_ModeRegistry :: "string \<Rightarrow> err + unit go"
  i_Finalizer :: "string \<Rightarrow> unit go"
  i_FinalizerMode :: string
  i_ExecFunc :: "hist \<Rightarrow> string \<Rightarrow> string list \<Rightarrow> string list \<Rightarrow> err + unit"
  i_Cmdline :: "CmdlineParser option"
  i_RescueFunc :: "hist \<Rightarrow> err + unit"
  i_ConsoleRedirect :: "(hist \<Rightarrow> err + unit) option"
  i_ModeSetter :: bool
  i_Args :: "string list"
  i_Environ :: "hist \<Rightarrow> string list"

definition Init_rescue :: "Init \<Rightarrow> unit io" where
  "Init_rescue i = ignore (perform CRescue (i_RescueFunc i)) (ret ())"

definition Init_setupDebug :: "Init \<Rightarrow> bool io" where
  "Init_setupDebug i =
     (case i_Cmdline i of None \<Rightarrow> ret False | Some cl \<Rightarrow> CmdlineContains cl ''k3os.debug'')"

definition Init_consoleRedirect :: "Init \<Rightarrow> unit io" where
  "Init_consoleRedirect i =
     (case i_ConsoleRedirect i of None \<Rightarrow> ret ()
      | Some redirect \<Rightarrow> ignore (perform CConsoleRedirect redirect) (ret ()))"

definition Init_Run :: "Init \<Rightarrow> unit io" where
  "Init_Run i =
     bnd (i_Bootstrap i) (\<lambda>r.
     case r of Inl _ \<Rightarrow> Init_rescue i | Inr _ \<Rightarrow>
     ignore (Init_setupDebug i)
     (ignore (Init_consoleRedirect i)
     (bnd (i_ModeDetector i) (\<lambda>r.
     case r of Inl _ \<Rightarrow> Init_rescue i | Inr mode \<Rightarrow>
     let finMode = (if i_ModeSetter i then mode else i_FinalizerMode i) in
     (case i_ModeRegistry i mode of Inl _ \<Rightarrow> Init_rescue i | Inr handler \<Rightarrow>
     bnd handler (\<lambda>r.
     case r of Inl _ \<Rightarrow> Init_rescue i | Inr _ \<Rightarrow>
     bnd (i_Finalizer i finMode) (\<lambda>r.
     case r of Inl _ \<Rightarrow> Init_rescue i | Inr _ \<Rightarrow>
     bnd (observe CEnviron (i_Environ i)) (\<lambda>env.
     bnd (perform (CExec ''/sbin/init'' (i_Args i) env) (\<lambda>h. i_ExecFunc i h ''/sbin/init'' (i_Args i) env)) (\<lambda>r.
     case r of Inl _ \<Rightarrow> Init_rescue i | Inr _ \<Rightarrow> ret ())))))))))"

subsection \<open>main.go\<close>

record Machine =
  m_FS :: FileSystem
  m_Cmd :: CommandRunner
  m_Mounter :: Mounter
  m_BlockProber :: BlockProber
  m_PartitionGrower :: PartitionGrower
  m_LoopDetacher :: LoopDetacher
  m_LoopAttacher :: LoopAttacher
  m_Proc :: ProcessExecutor
  m_Copy :: "hist \<Rightarrow> string \<Rightarrow> string \<Rightarrow> err + unit"
  m_CopyPreserve :: "hist \<Rightarrow> string \<Rightarrow> string \<Rightarrow> err + unit"
  m_CopyManifests :: "hist \<Rightarrow> string \<Rightarrow> string \<Rightarrow> err + unit"
  m_KernelVersion :: "err + string"
  m_RCRun :: "hist \<Rightarrow> err + unit"
  m_RunInitrd :: "hist \<Rightarrow> err + unit"
  m_RunBoot :: "hist \<Rightarrow> err + unit"
  m_Cmdline :: CmdlineParser
  m_RandRead :: "hist \<Rightarrow> err + nat list"
  m_VirtDetect :: "hist \<Rightarrow> err + string list"
  m_Statfs :: "hist \<Rightarrow> string \<Rightarrow> err + int"
  m_Getenv :: "hist \<Rightarrow> string \<Rightarrow> string"
  m_Environ :: "hist \<Rightarrow> string list"
  m_Now :: "hist \<Rightarrow> int"
  m_Console :: "hist \<Rightarrow> err + unit"
  m_MountProc :: "hist \<Rightarrow> err + unit"
  m_Verifier :: "hist \<Rightarrow> err + unit"
  m_Args :: "string list"

definition fsTypeName :: "int \<Rightarrow> string" where
  "fsTypeName magic =
     (if magic = 0x01021994 then ''tmpfs''
      else if magic = 0xEF53 then ''ext2/ext3/ext4''
      else if magic = 0x58465342 then ''xfs''
      else if magic = 0x9123683E then ''btrfs''
      else ''unknown'')"

definition statfsCheck :: "Machine \<Rightarrow> hist \<Rightarrow> string \<Rightarrow> err + string" where
  "statfsCheck m h path = (case m_Statfs m h path of Inl e \<Rightarrow> Inl e | Inr t \<Rightarrow> Inr (fsTypeName t))"

fun version_line :: "string list \<Rightarrow> string" where
  "version_line [] = []"
| "version_line (line # ls) =
     (if HasPrefix line ''VERSION_ID='' then Trim (TrimPrefix line ''VERSION_ID='') dquote
      else version_line ls)"

definition readVersionID :: "Machine \<Rightarrow> string io" where
  "readVersionID m =
     bnd (ReadFile (m_FS m) ''/usr/lib/os-release'') (\<lambda>r.
     ret (case r of Inl _ \<Rightarrow> [] | Inr data \<Rightarrow> version_line (Split newline data)))"

text \<open>\<open>binary.LittleEndian.Uint32\<close> of the four bytes read.\<close>

definition cryptoRandUint32 :: "Machine \<Rightarrow> hist \<Rightarrow> err + nat" where
  "cryptoRandUint32 m h =
     (case m_RandRead m h of
        Inl e \<Rightarrow> Inl e
      | Inr bs \<Rightarrow> Inr (bs ! 0 + 2 ^ 8 * bs ! 1 + 2 ^ 16 * bs ! 2 + 2 ^ 24 * bs ! 3))"

definition modeDeps :: "Machine \<Rightarrow> string \<Rightarrow> string \<Rightarrow> Deps" where
  "modeDeps m kver versionID =
     \<lparr>dp_FS = m_FS m, dp_Cmd = m_Cmd m, dp_Mounter = m_Mounter m, dp_BlockProber = m_BlockProber m,
      dp_PartitionGrower = Some (m_PartitionGrower m), dp_LoopDetacher = Some (m_LoopDetacher m),
      dp_Proc = m_Proc m, dp_CopyDir = m_Copy m, dp_KernelVersion = kver, dp_VersionID = versionID,
      dp_Environ = m_Environ m\<rparr>"

definition bootstrapper :: "Machine \<Rightarrow> string \<Rightarrow> Bootstrapper" where
  "bootstrapper m kver =
     \<lparr>bs_FS = m_FS m, bs_Mounter = m_Mounter m, bs_Cmd = m_Cmd m, bs_LoopAttacher = Some (m_LoopAttacher m),
      bs_CopyDir = m_CopyPreserve m, bs_RCRunner = m_RCRun m, bs_ConfigRunner = m_RunInitrd m,
      bs_KernelVersion = kver, bs_Mode = []\<rparr>"

definition boot_finalizer :: "Machine \<Rightarrow> string \<Rightarrow> Finalizer" where
  "boot_finalizer m mode =
     \<lparr>fz_FS = m_FS m, fz_Mounter = m_Mounter m, fz_Cmd = m_Cmd m, fz_BlockProber = m_BlockProber m,
      fz_PartitionGrower = Some (m_PartitionGrower m), fz_Mode = mode, fz_Cmdline = m_Cmdline m,
      fz_RandFunc = cryptoRandUint32 m, fz_VirtDetector = m_VirtDetect m, fz_SleepFunc = True,
      fz_ConfigRunner = m_RunBoot m, fz_ManifestCopier = m_CopyManifests m\<rparr>"

definition boot_detector :: "Machine \<Rightarrow> Detector" where
  "boot_detector m =
     \<lparr>d_Cmdline = m_Cmdline m, d_BlockProber = bp_FindByLabel (m_BlockProber m), d_StatfsChecker = statfsCheck m,
      d_EnvReader = m_Getenv m, d_FileWriter = fs_WriteFile (m_FS m), d_MkdirAll = fs_MkdirAll (m_FS m),
      d_Now = m_Now m, d_Cancelled = (\<lambda>_. False), d_Timeout = 30 * 1000000000,
      d_SleepInterval = 1 * 1000000000, d_StateDir = []\<rparr>"

definition boot_detect :: "nat \<Rightarrow> Machine \<Rightarrow> string go" where
  "boot_detect fuel m =
     bnd (Detect fuel (boot_detector m)) (\<lambda>r. ret (case r of None \<Rightarrow> Inl Diverges | Some r \<Rightarrow> r))"

text \<open>\<open>fuel\<close> bounds the retries of the detector and the unmount loop of the finalizer.\<close>

definition initOrch :: "nat \<Rightarrow> Machine \<Rightarrow> string \<Rightarrow> string \<Rightarrow> bool \<Rightarrow> Init" where
  "initOrch fuel m kver versionID testMode =
     \<lparr>i_Bootstrap = Bootstrapper_Run (bootstrapper m kver),
      i_ModeDetector = boot_detect fuel m,
      i_ModeRegistry = (\<lambda>mode. case Registry_Get mode of
                           Inl e \<Rightarrow> Inl e | Inr ctor \<Rightarrow> Inr (ctor (modeDeps m kver versionID))),
      i_Finalizer = (\<lambda>mode. Finalizer_Run fuel (boot_finalizer m mode)),
      i_FinalizerMode = [],
      i_ExecFunc = (if testMode then (\<lambda>h _ _ _. m_Verifier m h) else pe_Exec (m_Proc m)),
      i_Cmdline = Some (m_Cmdline m),
      i_RescueFunc = (if testMode then m_Verifier m
                      else (\<lambda>h. pe_Exec (m_Proc m) h ''/bin/bash'' [''bash''] (m_Environ m h))),
      i_ConsoleRedirect = Some (m_Console m),
      i_ModeSetter = True, i_Args = m_Args m, i_Environ = m_Environ m\<rparr>"

definition postChroot :: "nat \<Rightarrow> Machine \<Rightarrow> unit io" where
  "postChroot fuel m =
     (let kver = (case m_KernelVersion m of Inl _ \<Rightarrow> ''unknown'' | Inr v \<Rightarrow> v) in
      bnd (readVersionID m) (\<lambda>versionID.
      ignore (perform (CForceMount ''proc'' ''/proc'' ''proc'' []) (m_MountProc m))
      (bnd (CmdlineContains (m_Cmdline m) ''k3os.test_mode'') (\<lambda>testMode.
       Init_Run (initOrch fuel m kver versionID testMode)))))"

subsection \<open>Every boot ends in init or in the rescue shell\<close>

text \<open>
  The specification: the phases in order, as one fallible action that gives the environment for
  \<open>/sbin/init\<close>, and what is done with its outcome.
\<close>

definition boot_phases :: "Init \<Rightarrow> unit go" where
  "boot_phases i =
     pass (i_Bootstrap i) (\<lambda>_.
     ignore (Init_setupDebug i)
     (ignore (Init_consoleRedirect i)
     (pass (i_ModeDetector i) (\<lambda>mode.
      pass (ret (i_ModeRegistry i mode)) (\<lambda>handler.
      pass handler (\<lambda>_.
      i_Finalizer i (if i_ModeSetter i then mode else i_FinalizerMode i)))))))"

definition boot_end :: "Init \<Rightarrow> err + unit \<Rightarrow> unit io" where
  "boot_end i r =
     (case r of
        Inl _ \<Rightarrow> Init_rescue i
      | Inr _ \<Rightarrow>
          bnd (observe CEnviron (i_Environ i)) (\<lambda>env.
          bnd (perform (CExec ''/sbin/init'' (i_Args i) env) (\<lambda>h. i_ExecFunc i h ''/sbin/init'' (i_Args i) env)) (\<lambda>r.
          if isl r then Init_rescue i else ret ())))"

lemma Init_Run_phases: "Init_Run i = bnd (boot_phases i) (boot_end i)"
  by (rule bnd_eqI)
     (simp_all add: Init_Run_def boot_phases_def boot_end_def Let_def Init_rescue_def split: sum.split)

lemma rescue_last [simp]: "snd (Init_rescue i h) = [(CRescue, \<not> isl (i_RescueFunc i h))]"
  by (simp add: Init_rescue_def)

text \<open>C1: The boot sequence never falls through. Whatever the phases, the last thing Init.Run does is
  either a successful exec of /sbin/init or a call of the rescue function; it execs /sbin/init
  last only when every phase (bootstrap, detection, registry, handler, finalization) succeeded,
  and when a phase fails the rescue function is called right after the phases' own events, with
  no attempt to exec.\<close>

theorem Init_Run_ends:
  "(if isl (fst (boot_phases i h))
    then \<exists>b. snd (Init_Run i h) = snd (boot_phases i h) @ [(CRescue, b)]
    else \<exists>env b rest. snd (Init_Run i h) =
           snd (boot_phases i h) @ [(CEnviron, True), (CExec ''/sbin/init'' (i_Args i) env, b)] @ rest
           \<and> (if b then rest = [] else (\<exists>b'. rest = [(CRescue, b')])))"
  by (cases "fst (boot_phases i h)") (auto simp: Init_Run_phases boot_end_def isl_def)

subsection \<open>Detection and registry agree\<close>

locale mode_registry =
  fixes valid :: "string list" and get :: "string \<Rightarrow> err + 'h"
  assumes get_valid: "mode \<in> set valid \<Longrightarrow> \<not> isl (get mode)"
    and get_invalid: "mode \<notin> set valid \<Longrightarrow> isl (get mode)"
begin

lemma get_iff: "isl (get mode) \<longleftrightarrow> mode \<notin> set valid"
  using get_valid get_invalid by blast

end

interpretation modes: mode_registry ValidModes Registry_Get
  by unfold_locales (auto simp: ValidModes_def Registry_Get_def Registry_handlers_def)

text \<open>Detection and dispatch agree on the modes: the registry has a handler exactly for the modes
  Detect can return, so after a successful detection the registry look-up never fails.\<close>

theorem detected_mode_has_handler:
  assumes "fst (Detect fuel d h) = Some (Inr m)"
  shows "\<exists>handler. Registry_Get m = Inr handler \<and> (m, handler) \<in> set Registry_handlers"
proof -
  from assms have "m \<in> set ValidModes" by (rule Detect_valid)
  then have "\<not> isl (Registry_Get m)" by (rule modes.get_valid)
  then show ?thesis
    by (auto simp: Registry_Get_def isl_def split: option.splits dest: map_of_SomeD)
qed

theorem detected_mode_has_handler_witness:
  "\<exists>handler. Registry_Get ''disk'' = Inr handler \<and> (''disk'', handler) \<in> set Registry_handlers"
proof (rule detected_mode_has_handler)
  show "fst (Detect 32 detector_disk []) = Some (Inr ''disk'')" by code_simp
qed

end
