(* ===== verification/Devices.thy ===== *)
theory Devices
  imports Link_Store
begin

section \<open>Block devices: internal/devpopulate, osimpl/block.go and internal/virt\<close>

text \<open>
  \<open>PopulateDev\<close> makes device nodes and the links by label and by UUID; \<open>FindByLabel\<close> resolves such a link
  later, when the disk mode looks for its state partition. The main theorem composes both: a label that
  was probed is found again as the path of its device. \<open>blkid.ProbePath\<close> and \<open>unix.Mkdev\<close> are code outside
  the repository: the fields \<open>ds_ProbePath\<close> and \<open>ds_Mkdev\<close>. Logging is not modelled.
\<close>

subsection \<open>devpopulate.go\<close>

record ProbeInfo =
  pi_Label :: "string option"
  pi_UUID :: "string option"

record DevSys =
  ds_FS :: FileSystem
  ds_ProbePath :: "hist \<Rightarrow> string \<Rightarrow> err + ProbeInfo \<times> ProbeInfo list"
  ds_Mknod :: "hist \<Rightarrow> string \<Rightarrow> nat \<Rightarrow> nat \<Rightarrow> err + unit"
  ds_Mkdev :: "nat \<Rightarrow> nat \<Rightarrow> nat"

record DevOptions =
  do_DevDir :: string
  do_SysBlockDir :: string
  do_CreateNodes :: bool

definition DefaultOptions :: DevOptions where
  "DefaultOptions = \<lparr>do_DevDir = ''/dev'', do_SysBlockDir = ''/sys/class/block'', do_CreateNodes = True\<rparr>"

abbreviation or_empty :: "string option \<Rightarrow> string" where
  "or_empty s \<equiv> (case s of None \<Rightarrow> [] | Some v \<Rightarrow> v)"

text \<open>The loop over nested partitions, entered with both results empty and left when one is not.\<close>

fun probe_parts :: "ProbeInfo list \<Rightarrow> string \<times> string" where
  "probe_parts [] = ([], [])"
| "probe_parts (part # parts) =
     (let label = or_empty (pi_Label part); uuid = or_empty (pi_UUID part) in
      if label \<noteq> [] \<or> uuid \<noteq> [] then (label, uuid) else probe_parts parts)"

definition probe_result :: "ProbeInfo \<times> ProbeInfo list \<Rightarrow> string \<times> string" where
  "probe_result = (\<lambda>(info, parts).
     let label = or_empty (pi_Label info); uuid = or_empty (pi_UUID info) in
     if label = [] \<and> uuid = [] then probe_parts parts else (label, uuid))"

definition Probe :: "DevSys \<Rightarrow> string \<Rightarrow> (string \<times> string) go" where
  "Probe ds devPath =
     check ''probe'' (perform (CSys ''probe'' [devPath] []) (\<lambda>h. ds_ProbePath ds h devPath)) (\<lambda>r.
     ok (probe_result r))"

definition parseMajorMinor :: "string \<Rightarrow> (nat \<times> nat) option" where
  "parseMajorMinor s =
     (case SplitN CHR '':'' 2 s of
        [major, minor] \<Rightarrow>
          (case (ParseUint major 10 32, ParseUint minor 10 32) of
             (Some major, Some minor) \<Rightarrow> Some (major, minor)
           | _ \<Rightarrow> None)
      | _ \<Rightarrow> None)"

text \<open>\<open>S_IFBLK | 0660\<close>.\<close>

definition mode_blk_660 :: nat where "mode_blk_660 = 0x6000 + 432"

definition ensureDeviceNode :: "DevSys \<Rightarrow> string \<Rightarrow> string \<Rightarrow> string \<Rightarrow> unit io" where
  "ensureDeviceNode ds sysBlockDir devDir name =
     (let devPath = PathJoin [devDir, name] in
      bnd (Stat (ds_FS ds) devPath) (\<lambda>s. case s of
        Inr _ \<Rightarrow> ret ()
      | Inl _ \<Rightarrow>
          bnd (ReadFile (ds_FS ds) (PathJoin [sysBlockDir, name, ''dev''])) (\<lambda>r. case r of
            Inl _ \<Rightarrow> ret ()
          | Inr data \<Rightarrow>
              (case parseMajorMinor (TrimSpace data) of
                 None \<Rightarrow> ret ()
               | Some (major, minor) \<Rightarrow>
                   let dev = ds_Mkdev ds major minor in
                   ignore (perform (CMknod devPath mode_blk_660 dev) (\<lambda>h. ds_Mknod ds h devPath mode_blk_660 dev))
                     (ret ())))))"

definition createSymlink :: "FileSystem \<Rightarrow> string \<Rightarrow> string \<Rightarrow> string \<Rightarrow> string \<Rightarrow> unit go" where
  "createSymlink fs devDir subdir name devName =
     (let dir = PathJoin [devDir, ''disk'', subdir] in
      check ''mkdir'' (MkdirAll fs dir mode_755) (\<lambda>_.
      let linkPath = PathJoin [dir, name]; target = PathJoin [''..'', ''..'', devName] in
      ignore (Remove fs linkPath)
      (check ''symlink'' (Symlink fs target linkPath) (\<lambda>_. ok ()))))"

definition isPartition :: "string \<Rightarrow> string \<Rightarrow> bool" where
  "isPartition parentName childName =
     (if length childName \<le> length parentName then False
      else if take (length parentName) childName \<noteq> parentName then False
      else
        let suffix = drop (length parentName) childName in
        is_digit (suffix ! 0) \<or> (suffix ! 0 = CHR ''p'' \<and> 1 < length suffix \<and> is_digit (suffix ! 1)))"

text \<open>Lines 110 to 126: every entry, each followed by its partitions.\<close>

fun device_names :: "FileSystem \<Rightarrow> string \<Rightarrow> DirEntry list \<Rightarrow> string list io" where
  "device_names fs sysBlockDir [] = ret []"
| "device_names fs sysBlockDir (entry # entries) =
     bnd (ReadDir fs (PathJoin [sysBlockDir, de_Name entry])) (\<lambda>r.
     let parts = (case r of Inl _ \<Rightarrow> []
       | Inr es \<Rightarrow> map de_Name (filter (\<lambda>pe. de_IsDir pe \<and> isPartition (de_Name entry) (de_Name pe)) es)) in
     bnd (device_names fs sysBlockDir entries) (\<lambda>names.
     ret (de_Name entry # parts @ names)))"

definition link_if :: "FileSystem \<Rightarrow> string \<Rightarrow> string \<Rightarrow> string \<Rightarrow> string \<Rightarrow> unit io" where
  "link_if fs devDir subdir label name =
     (if label \<noteq> [] then ignore (createSymlink fs devDir subdir label name) (ret ()) else ret ())"

text \<open>Lines 128 to 159, for one device.\<close>

definition populate_device :: "DevSys \<Rightarrow> DevOptions \<Rightarrow> string \<Rightarrow> unit io" where
  "populate_device ds opts name =
     (let devPath = PathJoin [do_DevDir opts, name] in
      ignore (if do_CreateNodes opts then ensureDeviceNode ds (do_SysBlockDir opts) (do_DevDir opts) name else ret ())
      (bnd (Stat (ds_FS ds) devPath) (\<lambda>s. case s of
         Inl _ \<Rightarrow> ret ()
       | Inr _ \<Rightarrow>
           bnd (Probe ds devPath) (\<lambda>r. case r of
             Inl _ \<Rightarrow> ret ()
           | Inr (label, uuid) \<Rightarrow>
               ignore (link_if (ds_FS ds) (do_DevDir opts) ''by-label'' label name)
                 (link_if (ds_FS ds) (do_DevDir opts) ''by-uuid'' uuid name)))))"

definition PopulateDev :: "DevSys \<Rightarrow> DevOptions \<Rightarrow> unit go" where
  "PopulateDev ds opts =
     check ''read sysfs block dir'' (ReadDir (ds_FS ds) (do_SysBlockDir opts)) (\<lambda>entries.
     bnd (device_names (ds_FS ds) (do_SysBlockDir opts) entries) (\<lambda>devNames.
     ignore (foreach devNames (populate_device ds opts)) (ok ())))"

subsection \<open>osimpl/block.go\<close>

definition byLabelDir :: string where
  "byLabelDir = ''/dev/disk/by-label''"

definition osimpl_FindByLabel :: "FileSystem \<Rightarrow> string \<Rightarrow> string go" where
  "osimpl_FindByLabel fs label =
     (if Contains label ''/'' \<or> Contains label ''..'' then fail (Msg ''invalid label'')
      else
        check ''readlink'' (Readlink fs (PathJoin [byLabelDir, label])) (\<lambda>target.
        ok (if IsAbs target then Clean target else Clean (PathJoin [byLabelDir, target]))))"

definition virtual_prefixes :: "string list" where
  "virtual_prefixes = [''loop'', ''ram'', ''dm-'', ''zram'', ''nbd'', ''sr'', ''md'']"

definition osimpl_ListDisks :: "FileSystem \<Rightarrow> string list go" where
  "osimpl_ListDisks fs =
     check ''readdir /sys/block'' (ReadDir fs ''/sys/block'') (\<lambda>entries.
     ok (filter (\<lambda>name. \<not> list_ex (HasPrefix name) virtual_prefixes) (map de_Name entries)))"

subsection \<open>virt/detect.go\<close>

definition containsCI :: "string \<Rightarrow> string \<Rightarrow> bool" where
  "containsCI s substr = Contains (ToLower s) (ToLower substr)"

definition readDMIFile :: "FileSystem \<Rightarrow> string \<Rightarrow> string \<Rightarrow> string io" where
  "readDMIFile fs basePath name =
     bnd (ReadFile fs (basePath @ name)) (\<lambda>r.
     ret (case r of Inl _ \<Rightarrow> [] | Inr data \<Rightarrow> TrimSpace data))"

definition dmi_verdict :: "string \<Rightarrow> string \<Rightarrow> string \<Rightarrow> string list" where
  "dmi_verdict sysVendor productName boardVendor =
     (if containsCI sysVendor ''QEMU'' then [''kvm'']
      else if containsCI sysVendor ''Microsoft'' \<and> containsCI productName ''Virtual Machine'' then [''hyperv'']
      else if containsCI sysVendor ''VMware'' then [''vmware'']
      else if containsCI sysVendor ''innotek'' \<or> containsCI boardVendor ''innotek''
        \<or> (containsCI sysVendor ''Oracle'' \<or> containsCI boardVendor ''Oracle'') \<and> containsCI productName ''VirtualBox''
      then [''virtualbox'']
      else [])"

definition DMIDetector_Detect :: "FileSystem \<Rightarrow> string \<Rightarrow> string list go" where
  "DMIDetector_Detect fs basePath =
     bnd (readDMIFile fs basePath ''sys_vendor'') (\<lambda>sysVendor.
     bnd (readDMIFile fs basePath ''product_name'') (\<lambda>productName.
     bnd (readDMIFile fs basePath ''board_vendor'') (\<lambda>boardVendor.
     ok (dmi_verdict sysVendor productName boardVendor))))"

subsection \<open>Paths of the links\<close>

definition link_path :: "string \<Rightarrow> string \<Rightarrow> string" where
  "link_path subdir name = rooted_path [''dev'', ''disk'', subdir, name]"

lemma plain_subdirs: "plain_name ''dev''" "plain_name ''disk''" "plain_name ''by-label''" "plain_name ''by-uuid''"
  by (simp_all add: plain_name_def)

lemma PathJoin_link:
  assumes "subdir \<in> {''by-label'', ''by-uuid''}" and "plain_name name"
  shows "PathJoin [PathJoin [''/dev'', ''disk'', subdir], name] = link_path subdir name"
proof -
  have dir: "PathJoin [''/dev'', ''disk'', subdir] = rooted_path [''dev'', ''disk'', subdir]"
    using assms(1) by (elim insertE emptyE) (simp_all, code_simp+)
  show ?thesis
    using PathJoin_rooted [of "[''dev'', ''disk'', subdir]" "[name]"] assms plain_subdirs
    unfolding dir link_path_def by auto
qed

lemma link_path_label: "plain_name label \<Longrightarrow> PathJoin [byLabelDir, label] = link_path ''by-label'' label"
proof -
  assume "plain_name label"
  then have "PathJoin [rooted_path [''dev'', ''disk'', ''by-label''], Join ''/'' [label]]
      = rooted_path ([''dev'', ''disk'', ''by-label''] @ [label])"
    using plain_subdirs by (intro PathJoin_rooted) auto
  then show ?thesis by (simp add: byLabelDir_def link_path_def rooted_path_def)
qed

lemma Split_link_path:
  assumes "plain_name a" and "s \<in> {''by-label'', ''by-uuid''}"
  shows "Split CHR ''/'' (link_path s a) = [[], ''dev'', ''disk'', s, a]"
  unfolding link_path_def using assms plain_subdirs by (subst Split_rooted) auto

lemma link_path_inject:
  assumes "plain_name a" and "plain_name b" and "s \<in> {''by-label'', ''by-uuid''}" and "t \<in> {''by-label'', ''by-uuid''}"
  shows "link_path s a = link_path t b \<longleftrightarrow> s = t \<and> a = b"
  by (metis Split_link_path [OF assms(1,3)] Split_link_path [OF assms(2,4)] list.inject)

lemma PathJoin_up: "plain_name dev \<Longrightarrow> PathJoin [''..'', ''..'', dev] = ''../../'' @ dev"
  by (simp add: PathJoin.simps Clean_def HasPrefix_def plain_name_def Split_no_sep)

lemma Clean_up:
  assumes "plain_name dev"
  shows "Clean (PathJoin [byLabelDir, ''../../'' @ dev]) = ''/dev/'' @ dev"
proof -
  have "PathJoin [byLabelDir, ''../../'' @ dev] = rooted_path [''dev'', dev]"
    using assms by (simp add: PathJoin.simps byLabelDir_def Clean_def HasPrefix_def plain_name_def Split_no_sep rooted_path_def)
  then show ?thesis
    using Clean_rooted [of "[''dev'', dev]"] assms plain_subdirs by (auto simp: rooted_path_def)
qed

subsection \<open>From a label to its device\<close>

text \<open>
  \<open>stable_probe ds lab\<close>: probing a device gives the same label at all times, \<open>lab n\<close> for the device
  named \<open>n\<close> (\<open>None\<close> when it cannot be probed); labels and UUIDs are plain names or empty, as the
  probing library delivers them from a well-behaved disk.
\<close>

definition stable_probe :: "DevSys \<Rightarrow> (string \<Rightarrow> string option) \<Rightarrow> bool" where
  "stable_probe ds lab \<longleftrightarrow>
     (\<forall>h n. case ds_ProbePath ds h (''/dev/'' @ n) of
        Inl _ \<Rightarrow> lab n = None
      | Inr r \<Rightarrow> lab n = Some (fst (probe_result r)) \<and>
          (fst (probe_result r) = [] \<or> plain_name (fst (probe_result r))) \<and>
          (snd (probe_result r) = [] \<or> plain_name (snd (probe_result r))))"

text \<open>Links can be made, and the device nodes are there.\<close>

definition writable :: "FileSystem \<Rightarrow> bool" where
  "writable fs \<longleftrightarrow> (\<forall>h d p t. fs_MkdirAll fs h d p = Inr () \<and> fs_Symlink fs h t d = Inr ())"

definition nodes_exist :: "FileSystem \<Rightarrow> string list \<Rightarrow> bool" where
  "nodes_exist fs names \<longleftrightarrow> (\<forall>h. list_all (\<lambda>n. \<not> isl (fs_Stat fs h (''/dev/'' @ n))) names)"

lemma createSymlink_run:
  assumes "writable fs" and "subdir \<in> {''by-label'', ''by-uuid''}" and "plain_name l" and "plain_name n"
  shows "\<exists>b. snd (createSymlink fs ''/dev'' subdir l n h) =
     [(CMkdirAll (PathJoin [''/dev'', ''disk'', subdir]) mode_755, True), (CRemove (link_path subdir l), b),
      (CSymlink (''../../'' @ n) (link_path subdir l), True)]"
  using assms
  by (simp add: createSymlink_def Let_def MkdirAll_def Remove_def Symlink_def writable_def PathJoin_link PathJoin_up)

lemma link_if_links:
  assumes "writable fs" and s: "subdir \<in> {''by-label'', ''by-uuid''}" and l: "l = [] \<or> plain_name l"
    and "plain_name n" and L: "plain_name L"
  shows "links_after st (snd (link_if fs ''/dev'' subdir l n h)) (link_path ''by-label'' L) =
     (if subdir = ''by-label'' \<and> l = L then Some (''../../'' @ n) else st (link_path ''by-label'' L))"
proof (cases "l = []")
  case True
  then show ?thesis using L by (auto simp: link_if_def plain_name_def)
next
  case False
  with l have l: "plain_name l" by blast
  obtain b where "snd (createSymlink fs ''/dev'' subdir l n h) =
     [(CMkdirAll (PathJoin [''/dev'', ''disk'', subdir]) mode_755, True), (CRemove (link_path subdir l), b),
      (CSymlink (''../../'' @ n) (link_path subdir l), True)]"
    using createSymlink_run [OF assms(1) s l assms(4)] by blast
  then show ?thesis
    using False link_path_inject [OF l L s, of "''by-label''"]
    by (auto simp: link_if_def link_effect_def)
qed

lemma ensure_leaves: "emits (leaves p) (ensureDeviceNode ds sysBlockDir devDir name)"
  unfolding ensureDeviceNode_def Let_def Stat_def ReadFile_def case_prod_beta
  by (intro emits_intros; simp add: leaves_def)

lemma PathJoin_dev: "plain_name n \<Longrightarrow> PathJoin [''/dev'', n] = ''/dev/'' @ n"
proof -
  assume "plain_name n"
  then have "PathJoin [rooted_path [''dev''], Join ''/'' [n]] = rooted_path ([''dev''] @ [n])"
    using plain_subdirs by (intro PathJoin_rooted) auto
  then show ?thesis by (simp add: rooted_path_def)
qed

lemma populate_device_links:
  assumes w: "writable (ds_FS ds)" and probe: "stable_probe ds lab" and n: "plain_name n"
    and node: "\<And>h. \<not> isl (fs_Stat (ds_FS ds) h (''/dev/'' @ n))" and L: "plain_name L"
  shows "links_after st (snd (populate_device ds DefaultOptions n h)) (link_path ''by-label'' L) =
     (if lab n = Some L then Some (''../../'' @ n) else st (link_path ''by-label'' L))"
proof -
  let ?e = "snd (ensureDeviceNode ds ''/sys/class/block'' ''/dev'' n h)" and ?p = "link_path ''by-label'' L"
  let ?dev = "''/dev/'' @ n"
  let ?h = "h @ ?e @ [(CStat ?dev, True)]"
  have quiet: "links_after st ?e ?p = st ?p"
    using ensure_leaves [of ?p ds] by (intro links_after_leaves) (simp add: emits_def)
  have stat: "\<exists>i. fs_Stat (ds_FS ds) (h @ ?e) ?dev = Inr i"
    using node [of "h @ ?e"] by (cases "fs_Stat (ds_FS ds) (h @ ?e) ?dev") auto
  show ?thesis
  proof (cases "ds_ProbePath ds ?h ?dev")
    case (Inl e)
    then have "lab n = None" using probe by (auto simp: stable_probe_def split: sum.splits)
    then show ?thesis
      using Inl stat quiet
      by (auto simp: populate_device_def Let_def DefaultOptions_def PathJoin_dev [OF n] Stat_def Probe_def link_effect_def)
  next
    case (Inr r)
    obtain label uuid where r: "probe_result r = (label, uuid)" by (cases "probe_result r")
    have lab: "lab n = Some label" "label = [] \<or> plain_name label" "uuid = [] \<or> plain_name uuid"
      using probe [unfolded stable_probe_def, THEN spec [of _ ?h], THEN spec [of _ n]] unfolding Inr sum.case r fst_conv snd_conv by blast+
    have by_label: "links_after s (snd (link_if (ds_FS ds) ''/dev'' ''by-label'' label n h')) ?p =
        (if label = L then Some (''../../'' @ n) else s ?p)" for s h'
      using link_if_links [OF w _ lab(2) n L] by simp
    have by_uuid: "links_after s (snd (link_if (ds_FS ds) ''/dev'' ''by-uuid'' uuid n h')) ?p = s ?p" for s h'
      using link_if_links [OF w _ lab(3) n L] by simp
    from stat obtain i where "fs_Stat (ds_FS ds) (h @ ?e) ?dev = Inr i" by blast
    then show ?thesis
      using Inr r quiet lab(1)
      by (simp add: populate_device_def Let_def DefaultOptions_def PathJoin_dev [OF n] Stat_def Probe_def
          by_label by_uuid link_effect_def)
  qed
qed

text \<open>The link of a label after a run over several devices: the last device with the label.\<close>

lemma populate_links:
  assumes "writable (ds_FS ds)" and "stable_probe ds lab" and "list_all plain_name names"
    and "nodes_exist (ds_FS ds) names" and "plain_name L"
  shows "links_after st (snd (foreach names (populate_device ds DefaultOptions) h)) (link_path ''by-label'' L) =
     (if filter (\<lambda>n. lab n = Some L) names = [] then st (link_path ''by-label'' L)
      else Some (''../../'' @ last (filter (\<lambda>n. lab n = Some L) names)))"
  using assms(3,4)
proof (induction names arbitrary: st h)
  case (Cons n names)
  have "links_after st' (snd (populate_device ds DefaultOptions n h')) (link_path ''by-label'' L) =
     (if lab n = Some L then Some (''../../'' @ n) else st' (link_path ''by-label'' L))" for st' h'
    using Cons.prems by (intro populate_device_links assms) (simp_all add: nodes_exist_def)
  moreover have "nodes_exist (ds_FS ds) names" "list_all plain_name names"
    using Cons.prems by (simp_all add: nodes_exist_def)
  ultimately show ?case using Cons.IH by auto
qed simp

lemma device_names_leaves: "emits (leaves p) (device_names fs d entries)"
proof (induction entries)
  case Nil
  show ?case unfolding device_names.simps by (rule emits_ret)
next
  case (Cons e es)
  then show ?case
    unfolding device_names.simps Let_def ReadDir_def
    by (intro emits_intros) (simp_all add: leaves_def)
qed

lemma Contains_char: "Contains s [c] \<longleftrightarrow> c \<in> set s"
  by (induction s) (auto simp: HasPrefix_def)

text \<open>C25: The link from a filesystem label to its device survives both translations. After PopulateDev has
  scanned the devices of the system, FindByLabel resolves the label of a probed device to the path of a
  device with that label, the last one scanned.\<close>

theorem PopulateDev_FindByLabel:
  assumes "fs_ReadDir (ds_FS ds) h ''/sys/class/block'' = Inr entries"
    and "names = fst (device_names (ds_FS ds) ''/sys/class/block'' entries (h @ [(CReadDir ''/sys/class/block'', True)]))"
    and "list_all plain_name names" and "nodes_exist (ds_FS ds) names"
    and "writable (ds_FS ds)" and "link_coherent (ds_FS ds) st" and "stable_probe ds lab"
    and "plain_name L" and "\<not> Contains L ''..''" and "\<exists>n \<in> set names. lab n = Some L"
  shows "fst (osimpl_FindByLabel (ds_FS ds) L (h @ snd (PopulateDev ds DefaultOptions h)))
    = Inr (''/dev/'' @ last (filter (\<lambda>n. lab n = Some L) names))"
proof -
  let ?fs = "ds_FS ds" and ?p = "link_path ''by-label'' L"
  let ?r = "[(CReadDir ''/sys/class/block'', True)]"
  let ?d = "snd (device_names ?fs ''/sys/class/block'' entries (h @ ?r))"
  let ?w = "snd (foreach names (populate_device ds DefaultOptions) ((h @ ?r) @ ?d))"
  let ?found = "filter (\<lambda>n. lab n = Some L) names"
  have tr: "snd (PopulateDev ds DefaultOptions h) = ?r @ ?d @ ?w"
    using assms(1,2) by (simp add: PopulateDev_def DefaultOptions_def ReadDir_def)
  have found: "?found \<noteq> []" using assms(10) by (simp add: filter_empty_conv)
  then have last: "last ?found \<in> set names" using last_in_set [OF found] by auto
  have "links_after st (h @ snd (PopulateDev ds DefaultOptions h)) ?p = Some (''../../'' @ last ?found)"
    unfolding tr using found populate_links [OF assms(5,7,3,4,8)] by simp
  then have "fs_Readlink ?fs (h @ snd (PopulateDev ds DefaultOptions h)) ?p = Inr (''../../'' @ last ?found)"
    using assms(6) by (auto simp: link_coherent_def)
  moreover have "\<not> Contains L ''/''"
    using assms(8) by (auto simp: plain_name_def Contains_char)
  moreover have "plain_name (last ?found)" using assms(3) last by (auto simp: list_all_iff)
  ultimately show ?thesis
    using assms(8,9) 
    by (simp add: osimpl_FindByLabel_def Readlink_def link_path_label Clean_up [simplified] IsAbs_def HasPrefix_def)
qed

definition dev_fs :: FileSystem where
  "dev_fs = fs_ok\<lparr>fs_ReadDir := (\<lambda>_ d. Inr (if d = ''/sys/class/block''
       then [\<lparr>de_Name = ''sda'', de_IsDir = True, de_Info = Inr info_dir\<rparr>]
       else [\<lparr>de_Name = ''sda1'', de_IsDir = True, de_Info = Inr info_dir\<rparr>])),
     fs_Readlink := (\<lambda>h p. case links_after (\<lambda>_. None) h p of Some t \<Rightarrow> Inr t | None \<Rightarrow> Inl enoent)\<rparr>"

definition dev_sys :: DevSys where
  "dev_sys = \<lparr>ds_FS = dev_fs,
     ds_ProbePath = (\<lambda>_ p. if p = ''/dev/sda1'' then Inr (\<lparr>pi_Label = Some ''K3OS_STATE'', pi_UUID = None\<rparr>, [])
       else Inl eio),
     ds_Mknod = (\<lambda>_ _ _ _. Inr ()), ds_Mkdev = (\<lambda>major minor. 256 * major + minor)\<rparr>"

theorem PopulateDev_FindByLabel_witness:
  "fst (osimpl_FindByLabel dev_fs ''K3OS_STATE'' (snd (PopulateDev dev_sys DefaultOptions []))) = Inr ''/dev/sda1''"
proof -
  let ?lab = "\<lambda>n. if n = ''sda1'' then Some ''K3OS_STATE'' else None"
  let ?entries = "[\<lparr>de_Name = ''sda'', de_IsDir = True, de_Info = Inr info_dir\<rparr>]"
  have fs: "ds_FS dev_sys = dev_fs" by (simp add: dev_sys_def)
  have names: "[''sda'', ''sda1''] = fst (device_names (ds_FS dev_sys) ''/sys/class/block'' ?entries ([] @ [(CReadDir ''/sys/class/block'', True)]))"
    by code_simp
  have "fs_ReadDir (ds_FS dev_sys) [] ''/sys/class/block'' = Inr ?entries"
    by (simp add: fs dev_fs_def)
  moreover have "list_all plain_name [''sda'', ''sda1'']" "plain_name ''K3OS_STATE''" by (simp_all add: plain_name_def)
  moreover have "nodes_exist (ds_FS dev_sys) [''sda'', ''sda1'']" "writable (ds_FS dev_sys)"
    by (simp_all add: fs dev_fs_def fs_ok_def nodes_exist_def writable_def)
  moreover have "link_coherent (ds_FS dev_sys) (\<lambda>_. None)" by (simp add: fs dev_fs_def link_coherent_def)
  moreover have "stable_probe dev_sys ?lab"
    by (simp add: stable_probe_def dev_sys_def probe_result_def plain_name_def)
  moreover have "\<not> Contains ''K3OS_STATE'' ''..''" by code_simp
  ultimately have "fst (osimpl_FindByLabel (ds_FS dev_sys) ''K3OS_STATE'' ([] @ snd (PopulateDev dev_sys DefaultOptions [])))
      = Inr (''/dev/'' @ last (filter (\<lambda>n. ?lab n = Some ''K3OS_STATE'') [''sda'', ''sda1'']))"
    using PopulateDev_FindByLabel [OF _ names, where st = "\<lambda>_. None" and lab = ?lab and L = "''K3OS_STATE''"] by simp
  then show ?thesis by (simp add: fs)
qed

subsection \<open>A label is not checked when its link is made\<close>

text \<open>
  \<open>FindByLabel\<close> refuses labels with a slash or two dots, \<open>createSymlink\<close> does not: the label of a
  filesystem can name a path outside the directory of links. The call then removes the device node at that
  path and puts a link in its place.
\<close>

lemma label_escapes:
  assumes "fs_MkdirAll fs h ''/dev/disk/by-label'' mode_755 = Inr ()"
  shows "\<exists>b b'. snd (createSymlink fs ''/dev'' ''by-label'' ''../../sda'' ''sdb1'' h) =
     [(CMkdirAll ''/dev/disk/by-label'' mode_755, True), (CRemove ''/dev/sda'', b), (CSymlink ''../../sdb1'' ''/dev/sda'', b')]"
proof -
  have paths: "PathJoin [''/dev'', ''disk'', ''by-label''] = ''/dev/disk/by-label''"
    "PathJoin [''/dev/disk/by-label'', ''../../sda''] = ''/dev/sda''" "PathJoin [''..'', ''..'', ''sdb1''] = ''../../sdb1''"
    by code_simp+
  show ?thesis
    using assms by (simp add: createSymlink_def Let_def paths MkdirAll_def Remove_def Symlink_def split: sum.split)
qed

subsection \<open>Virtualisation\<close>

text \<open>At most one kind of machine is reported, and reading no file at all reports none.\<close>

lemma dmi_verdict_cases: "dmi_verdict v p b \<in> {[], [''kvm''], [''hyperv''], [''vmware''], [''virtualbox'']}"
  by (simp add: dmi_verdict_def)

lemma Detect_no_files:
  "(\<And>h p. isl (fs_ReadFile fs h p)) \<Longrightarrow> fst (DMIDetector_Detect fs base h) = Inr []"
proof -
  assume none: "\<And>h p. isl (fs_ReadFile fs h p)"
  have "fst (readDMIFile fs base n h') = []" for n h'
    using none [of h' "base @ n"] by (cases "fs_ReadFile fs h' (base @ n)") (simp_all add: readDMIFile_def ReadFile_def)
  moreover have "dmi_verdict [] [] [] = []" by code_simp
  ultimately show ?thesis by (simp add: DMIDetector_Detect_def)
qed

end
