(* ===== verification/Modalias.thy ===== *)
theory Modalias
  imports Go_Fixtures Go_Lines "HOL-Library.AList"
begin

section \<open>Kernel module aliases: internal/modalias\<close>

text \<open>
  \<open>Init\<close> reads the table of alias patterns of the running kernel, \<open>Lookup\<close> resolves a device's alias by
  glob matching, \<open>Load\<close> loads the module found. A Go map is an association list with distinct keys; the order
  in which \<open>range\<close> visits it is arbitrary, so \<open>Lookup\<close> takes the entries in the order of the visit. Patterns are
  those of \<open>path.Match\<close>, whose matching is modelled after its documentation; \<open>modprobe.Load\<close> is code outside
  the repository.
\<close>

subsection \<open>path.Match\<close>

datatype glob_term = GStar | GAny | GClass bool "(char \<times> char) list" | GLit char

abbreviation glob_backslash :: char where "glob_backslash \<equiv> CHR 0x5C"

text \<open>\<open>getEsc\<close>: one possibly escaped character of a class; something has to follow it.\<close>

fun get_esc :: "string \<Rightarrow> (char \<times> string) option" where
  "get_esc (c # cs) =
     (if c = CHR ''-'' \<or> c = CHR '']'' then None
      else if c = glob_backslash then
        (case cs of c' # d # rest \<Rightarrow> Some (c', d # rest) | _ \<Rightarrow> None)
      else if cs = [] then None else Some (c, cs))"
| "get_esc [] = None"

lemma get_esc_length: "get_esc s = Some (c, rest) \<Longrightarrow> length rest < length s"
  by (cases s) (auto split: if_splits list.splits)

text \<open>The ranges of a class up to its closing bracket, which cannot come first.\<close>

function class_ranges :: "(char \<times> char) list \<Rightarrow> string \<Rightarrow> ((char \<times> char) list \<times> string) option" where
  "class_ranges acc s =
     (if acc \<noteq> [] \<and> s \<noteq> [] \<and> hd s = CHR '']'' then Some (rev acc, tl s)
      else
        case get_esc s of
          None \<Rightarrow> None
        | Some (lo, rest) \<Rightarrow>
            if hd rest = CHR ''-'' then
              (case get_esc (tl rest) of
                 None \<Rightarrow> None
               | Some (hi, rest') \<Rightarrow> class_ranges ((lo, hi) # acc) rest')
            else class_ranges ((lo, lo) # acc) rest)"
  by pat_completeness auto
termination
  by (relation "measure (\<lambda>(acc, s). length s)") (auto dest!: get_esc_length)

declare class_ranges.simps [simp del]

lemma class_ranges_length: "class_ranges acc s = Some (rs, rest) \<Longrightarrow> length rest \<le> length s"
proof (induction "length s" arbitrary: acc s rule: less_induct)
  case less
  have shorter: "length rest \<le> length s" if "class_ranges acc' s' = Some (rs, rest)" and "length s' < length s" for acc' s'
    using less.hyps [OF that(2,1)] that(2) by simp
  from less.prems show ?case
    by (subst (asm) class_ranges.simps)
      (fastforce split: if_splits option.splits dest: get_esc_length intro: shorter)
qed

function glob_parse :: "string \<Rightarrow> glob_term list option" where
  "glob_parse [] = Some []"
| "glob_parse (c # cs) =
     (if c = CHR ''*'' then map_option (Cons GStar) (glob_parse cs)
      else if c = CHR ''?'' then map_option (Cons GAny) (glob_parse cs)
      else if c = CHR ''['' then
        (let negated = (cs \<noteq> [] \<and> hd cs = CHR ''^''); body = (if negated then tl cs else cs) in
         case class_ranges [] body of
           None \<Rightarrow> None
         | Some (rs, rest) \<Rightarrow> map_option (Cons (GClass negated rs)) (glob_parse rest))
      else if c = glob_backslash then
        (case cs of [] \<Rightarrow> None | c' # rest \<Rightarrow> map_option (Cons (GLit c')) (glob_parse rest))
      else map_option (Cons (GLit c)) (glob_parse cs))"
  by pat_completeness auto
termination
  by (relation "measure length") (auto dest!: class_ranges_length split: if_splits)

fun glob_match :: "glob_term list \<Rightarrow> string \<Rightarrow> bool" where
  "glob_match [] s = (s = [])"
| "glob_match (GStar # ts) [] = glob_match ts []"
| "glob_match (GStar # ts) (c # cs) = (glob_match ts (c # cs) \<or> c \<noteq> CHR ''/'' \<and> glob_match (GStar # ts) cs)"
| "glob_match (GAny # ts) (c # cs) = (c \<noteq> CHR ''/'' \<and> glob_match ts cs)"
| "glob_match (GClass negated rs # ts) (c # cs) =
     (list_ex (\<lambda>(lo, hi). lo \<le> c \<and> c \<le> hi) rs \<noteq> negated \<and> glob_match ts cs)"
| "glob_match (GLit l # ts) (c # cs) = (c = l \<and> glob_match ts cs)"
| "glob_match _ [] = False"

text \<open>\<open>None\<close> is \<open>ErrBadPattern\<close>.\<close>

definition path_Match :: "string \<Rightarrow> string \<Rightarrow> bool option" where
  "path_Match pattern name = map_option (\<lambda>ts. glob_match ts name) (glob_parse pattern)"

subsection \<open>modalias.go\<close>

record ModSys =
  md_FS :: FileSystem
  md_KernelVersion :: "hist \<Rightarrow> err + string"
  md_Load :: "hist \<Rightarrow> string \<Rightarrow> err + unit"

type_synonym aliases = "(string \<times> string) list"

definition getAliasesFile :: "ModSys \<Rightarrow> string go" where
  "getAliasesFile md =
     check ''failed to get kernel version'' (perform (CSys ''uname'' [] []) (md_KernelVersion md)) (\<lambda>kernelVersion.
     let kernelDir = ''/lib/modules/'' @ kernelVersion in
     bnd (Stat (md_FS md) kernelDir) (\<lambda>s. case s of
       Inl e \<Rightarrow> if errors_Is IsNotExist e then fail (Msg ''not found'') else ok (PathJoin [kernelDir, ''modules.alias''])
     | Inr _ \<Rightarrow> ok (PathJoin [kernelDir, ''modules.alias''])))"

text \<open>What one line contributes, and the loop over the lines.\<close>

definition alias_line :: "string \<Rightarrow> (string \<times> string) option" where
  "alias_line text =
     (let line = TrimSpace text in
      if \<not> HasPrefix line ''alias '' then None
      else
        case Fields line of
          _ # aliasPattern # moduleName # _ \<Rightarrow> Some (aliasPattern, moduleName)
        | _ \<Rightarrow> None)"

fun alias_lines :: "aliases \<Rightarrow> string list \<Rightarrow> aliases" where
  "alias_lines lookupTable [] = lookupTable"
| "alias_lines lookupTable (l # ls) =
     (case alias_line l of
        None \<Rightarrow> alias_lines lookupTable ls
      | Some (aliasPattern, moduleName) \<Rightarrow> alias_lines (AList.update aliasPattern moduleName lookupTable) ls)"

definition modalias_Init :: "ModSys \<Rightarrow> aliases go" where
  "modalias_Init md =
     pass (getAliasesFile md) (\<lambda>filename.
     bnd (Stat (md_FS md) filename) (\<lambda>s.
     if (case s of Inl e \<Rightarrow> errors_Is IsNotExist e | Inr _ \<Rightarrow> False) then ok []
     else
       check ''could not open file'' (ReadFile (md_FS md) filename) (\<lambda>data.
       ok (alias_lines [] (ScanLines data)))))"

fun modalias_Lookup :: "aliases \<Rightarrow> string \<Rightarrow> string" where
  "modalias_Lookup [] name = name"
| "modalias_Lookup ((pattern, v) # visit) name =
     (if path_Match pattern name = Some True then v else modalias_Lookup visit name)"

definition modalias_Load :: "ModSys \<Rightarrow> aliases \<Rightarrow> string \<Rightarrow> unit go" where
  "modalias_Load md visit alias =
     (let name = modalias_Lookup visit alias in
      perform (CSys ''modprobe'' [name] []) (\<lambda>h. md_Load md h name))"

subsection \<open>Matching\<close>

text \<open>A pattern without special characters matches itself only; a star behind it matches the rest up to a slash.\<close>

definition literal :: "string \<Rightarrow> bool" where
  "literal p \<longleftrightarrow> list_all (\<lambda>c. c \<notin> {CHR ''*'', CHR ''?'', CHR ''['', glob_backslash}) p"

lemma glob_parse_literal: "literal p \<Longrightarrow> glob_parse (p @ q) = map_option ((@) (map GLit p)) (glob_parse q)"
  by (induction p) (cases "glob_parse q"; auto simp: literal_def)+

lemma glob_match_literal: "glob_match (map GLit p @ ts) s \<longleftrightarrow> (\<exists>r. s = p @ r \<and> glob_match ts r)"
proof (induction p arbitrary: s)
  case (Cons c p)
  then show ?case by (cases s) auto
qed simp

lemma glob_match_star: "glob_match [GStar] s \<longleftrightarrow> CHR ''/'' \<notin> set s"
  by (induction s) auto

lemma path_Match_literal: "literal p \<Longrightarrow> path_Match p s = Some (s = p)"
  using glob_parse_literal [of p "[]"] glob_match_literal [of p "[]" s] by (simp add: path_Match_def)

lemma path_Match_prefix: "literal p \<Longrightarrow> path_Match (p @ ''*'') s = Some (\<exists>r. s = p @ r \<and> CHR ''/'' \<notin> set r)"
  using glob_parse_literal [of p "''*''"] glob_match_literal [of p "[GStar]" s]
  by (simp add: path_Match_def glob_match_star)

subsection \<open>From an alias to its module\<close>

lemma map_of_alias_lines:
  "map_of (alias_lines table ls) p =
     (case rev (filter (\<lambda>l. map_option fst (alias_line l) = Some p) ls) of
        [] \<Rightarrow> map_of table p
      | l # _ \<Rightarrow> map_option snd (alias_line l))"
proof (induction ls arbitrary: table)
  case (Cons l ls)
  then show ?case
    by (cases "alias_line l") (auto simp: update_conv' split: list.split)
qed simp

lemma Lookup_cases:
  "(\<exists>p v. (p, v) \<in> set visit \<and> path_Match p name = Some True \<and> modalias_Lookup visit name = v) \<or>
   (\<forall>(p, v) \<in> set visit. path_Match p name \<noteq> Some True) \<and> modalias_Lookup visit name = name"
  by (induction visit name rule: modalias_Lookup.induct) auto

text \<open>The lines of the file that give a pattern its module.\<close>

definition deciding :: "string list \<Rightarrow> string \<Rightarrow> string list" where
  "deciding ls p = filter (\<lambda>l. map_option fst (alias_line l) = Some p) ls"

lemma alias_table_entry:
  assumes "distinct (map fst visit)" and "set visit = set (alias_lines [] ls)"
  shows "(p, v) \<in> set visit \<longleftrightarrow> deciding ls p \<noteq> [] \<and> map_option snd (alias_line (last (deciding ls p))) = Some v"
proof -
  have dist: "distinct (map fst (alias_lines table ls))" if "distinct (map fst table)" for table
    using that by (induction ls arbitrary: table) (auto simp: distinct_update split: option.split)
  have "(p, v) \<in> set visit \<longleftrightarrow> map_of (alias_lines [] ls) p = Some v"
    using assms(2) dist [of "[]"] by (auto intro: map_of_is_SomeI dest: map_of_SomeD)
  then show ?thesis
    unfolding map_of_alias_lines deciding_def
    by (cases "filter (\<lambda>l. map_option fst (alias_line l) = Some p) ls" rule: rev_cases) auto
qed

text \<open>An alias is resolved by the table of the running kernel. In whatever order the table is visited, Lookup
  gives the module that the last line for some matching pattern names; when no pattern of the file
  matches, the alias itself.\<close>

theorem modalias_resolves:
  assumes "distinct (map fst visit)" and "set visit = set (alias_lines [] ls)"
  shows "(\<exists>p. path_Match p alias = Some True \<and> deciding ls p \<noteq> [] \<and>
            map_option snd (alias_line (last (deciding ls p))) = Some (modalias_Lookup visit alias))
         \<or> (\<forall>p. deciding ls p \<noteq> [] \<longrightarrow> path_Match p alias \<noteq> Some True) \<and> modalias_Lookup visit alias = alias"
proof -
  have module: "\<exists>v. (p, v) \<in> set visit" if "deciding ls p \<noteq> []" for p
  proof -
    have "last (deciding ls p) \<in> set (deciding ls p)" using that by simp
    then show ?thesis
      using alias_table_entry [OF assms, of p] that by (auto simp: deciding_def)
  qed
  from Lookup_cases [of visit "alias"] show ?thesis
  proof
    assume "\<exists>p v. (p, v) \<in> set visit \<and> path_Match p alias = Some True \<and> modalias_Lookup visit alias = v"
    then show ?thesis using alias_table_entry [OF assms] by blast
  next
    assume "(\<forall>(p, v) \<in> set visit. path_Match p alias \<noteq> Some True) \<and> modalias_Lookup visit alias = alias"
    then show ?thesis using module by fast
  qed
qed

definition example_aliases :: "string list" where
  "example_aliases = [''# aliases'', ''alias pci:v8086d* e1000'', ''alias fs-ext4 ext4'', ''alias pci:v8086d* e1000e'']"

theorem modalias_resolves_witness: "modalias_Lookup (alias_lines [] example_aliases) ''pci:v8086d100E'' = ''e1000e''"
proof -
  let ?visit = "alias_lines [] example_aliases" and ?a = "''pci:v8086d100E''"
  have table: "?visit = [(''pci:v8086d*'', ''e1000e''), (''fs-ext4'', ''ext4'')]" by code_simp
  have ext4: "path_Match ''fs-ext4'' ?a = Some False" by code_simp
  have pci: "path_Match ''pci:v8086d*'' ?a = Some True" by code_simp
  have entry: "(p, v) \<in> set ?visit \<longleftrightarrow> deciding example_aliases p \<noteq> [] \<and>
      map_option snd (alias_line (last (deciding example_aliases p))) = Some v" for p v
    by (rule alias_table_entry) (simp_all add: table)
  have "(\<exists>p. path_Match p ?a = Some True \<and> deciding example_aliases p \<noteq> [] \<and>
            map_option snd (alias_line (last (deciding example_aliases p))) = Some (modalias_Lookup ?visit ?a))
         \<or> (\<forall>p. deciding example_aliases p \<noteq> [] \<longrightarrow> path_Match p ?a \<noteq> Some True) \<and> modalias_Lookup ?visit ?a = ?a"
    by (rule modalias_resolves) (simp_all add: table)
  then show ?thesis
  proof
    assume "\<exists>p. path_Match p ?a = Some True \<and> deciding example_aliases p \<noteq> [] \<and>
            map_option snd (alias_line (last (deciding example_aliases p))) = Some (modalias_Lookup ?visit ?a)"
    then obtain p where p: "path_Match p ?a = Some True" and mem: "(p, modalias_Lookup ?visit ?a) \<in> set ?visit"
      unfolding entry by blast
    have only: "m = ''e1000e''" if "(p, m) \<in> set ?visit" for m
      using that p ext4 unfolding table by auto
    show ?thesis using only [OF mem] .
  next
    assume none: "(\<forall>p. deciding example_aliases p \<noteq> [] \<longrightarrow> path_Match p ?a \<noteq> Some True) \<and> modalias_Lookup ?visit ?a = ?a"
    have "(''pci:v8086d*'', ''e1000e'') \<in> set ?visit" by (simp add: table)
    then show ?thesis using none pci unfolding entry by blast
  qed
qed

end
