(* ===== verification/Namespace.thy ===== *)
theory Namespace
  imports Mount Devices Modalias
begin

section \<open>Declarative namespaces: internal/namespace, and the rc stage: internal/cli/rc\<close>

text \<open>
  The creators of \<open>internal/namespace\<close> and their application, with and without recording mounts in a
  pool, and the table \<open>rcNamespace\<close> that the rc stage applies first. The logger is not modelled.
  \<open>unix.Mkdev\<close>, the clock and the loopback interface come from other packages and are fields of \<open>RcSys\<close>;
  \<open>rs_Visit\<close> is the order in which the table of module aliases, a Go map, is visited.
\<close>

subsection \<open>Definitions\<close>

record MountSpec =
  mn_Source :: string
  mn_Target :: string
  mn_FSType :: string
  mn_Flags :: flags
  mn_Data :: string
  mn_Silent :: bool

datatype Creator =
    NDir string nat
  | NMount MountSpec
  | NDev string "32 word" nat nat
  | NSymlink string string
  | NWrite string string

record RcSys =
  rs_FS :: FileSystem
  rs_Mount :: "hist \<Rightarrow> string \<Rightarrow> string \<Rightarrow> string \<Rightarrow> flags \<Rightarrow> string \<Rightarrow> err + unit"
  rs_Mkdev :: "nat \<Rightarrow> nat \<Rightarrow> nat"
  rs_Mknod :: "hist \<Rightarrow> string \<Rightarrow> 32 word \<Rightarrow> nat \<Rightarrow> err + unit"
  rs_Glob :: "hist \<Rightarrow> string \<Rightarrow> err + string list"
  rs_Mod :: ModSys
  rs_Visit :: "hist \<Rightarrow> aliases \<Rightarrow> aliases"
  rs_Dev :: DevSys
  rs_SyncRTC :: "hist \<Rightarrow> err + unit"
  rs_NetInit :: "hist \<Rightarrow> unit"
  rs_Sethostname :: "hist \<Rightarrow> string \<Rightarrow> err + unit"

definition Dir_Create :: "RcSys \<Rightarrow> string \<Rightarrow> nat \<Rightarrow> unit go" where
  "Dir_Create rs name mode = MkdirAll (rs_FS rs) name mode"

definition Mount_Create :: "RcSys \<Rightarrow> MountSpec \<Rightarrow> unit go" where
  "Mount_Create rs m =
     bnd (MkdirAll (rs_FS rs) (mn_Target m) mode_755) (\<lambda>r.
     case r of
       Inl e \<Rightarrow> if mn_Silent m then fail ErrSilentSkip else fail (Wrap (''mount mkdir '' @ mn_Target m) e)
     | Inr _ \<Rightarrow>
         bnd (perform (CSysMount (mn_Source m) (mn_Target m) (mn_FSType m) (unat (mn_Flags m)) (mn_Data m))
            (\<lambda>h. rs_Mount rs h (mn_Source m) (mn_Target m) (mn_FSType m) (mn_Flags m) (mn_Data m))) (\<lambda>r.
         case r of
           Inl e \<Rightarrow> if mn_Silent m then fail ErrSilentSkip
                    else fail (Wrap (''mount '' @ mn_Source m @ '' on '' @ mn_Target m) e)
         | Inr _ \<Rightarrow> ok ()))"

definition AsMountPoint :: "MountSpec \<Rightarrow> Point" where
  "AsMountPoint m =
     \<lparr>pt_Source = mn_Source m, pt_Target = mn_Target m, pt_FSType = mn_FSType m, pt_Flags = mn_Flags m,
      pt_Data = mn_Data m\<rparr>"

definition S_IFCHR :: "32 word" where
  "S_IFCHR = 0x2000"

definition Dev_Create :: "RcSys \<Rightarrow> string \<Rightarrow> 32 word \<Rightarrow> nat \<Rightarrow> nat \<Rightarrow> unit go" where
  "Dev_Create rs name mode major minor =
     (let dev = rs_Mkdev rs major minor in
      bnd (perform (CMknod name (unat (S_IFCHR OR mode)) dev) (\<lambda>h. rs_Mknod rs h name (S_IFCHR OR mode) dev)) (\<lambda>r.
      case r of
        Inl e \<Rightarrow> if IsExist e then ok () else fail (Wrap (''mknod '' @ name) e)
      | Inr _ \<Rightarrow> ok ()))"

definition Symlink_Create :: "RcSys \<Rightarrow> string \<Rightarrow> string \<Rightarrow> unit go" where
  "Symlink_Create rs target newPath =
     bnd (Symlink (rs_FS rs) target newPath) (\<lambda>r.
     case r of
       Inl e \<Rightarrow> if IsExist e then ok () else fail (Wrap (''symlink '' @ newPath @ '' -> '' @ target) e)
     | Inr _ \<Rightarrow> ok ())"

definition Write_Create :: "RcSys \<Rightarrow> string \<Rightarrow> string \<Rightarrow> unit go" where
  "Write_Create rs path content =
     check (''write '' @ path) (WriteFile (rs_FS rs) path content mode_600) (\<lambda>_. ok ())"

fun Create_item :: "RcSys \<Rightarrow> Creator \<Rightarrow> unit go" where
  "Create_item rs (NDir name mode) = Dir_Create rs name mode"
| "Create_item rs (NMount m) = Mount_Create rs m"
| "Create_item rs (NDev name mode major minor) = Dev_Create rs name mode major minor"
| "Create_item rs (NSymlink target newPath) = Symlink_Create rs target newPath"
| "Create_item rs (NWrite path content) = Write_Create rs path content"

fun Apply_loop :: "RcSys \<Rightarrow> Creator list \<Rightarrow> unit io" where
  "Apply_loop rs [] = ret ()"
| "Apply_loop rs (c # cs) = ignore (Create_item rs c) (Apply_loop rs cs)"

definition Apply :: "RcSys \<Rightarrow> Creator list \<Rightarrow> unit go" where
  "Apply rs creators = ignore (Apply_loop rs creators) (ok ())"

text \<open>The mount point a creator that implements \<open>Trackable\<close> records.\<close>

fun trackable :: "Creator \<Rightarrow> Point option" where
  "trackable (NMount m) = Some (AsMountPoint m)"
| "trackable _ = None"

fun track_loop :: "RcSys \<Rightarrow> Creator list \<Rightarrow> Pool option \<Rightarrow> Pool option io" where
  "track_loop rs [] pool = ret pool"
| "track_loop rs (c # cs) pool =
     bnd (Create_item rs c) (\<lambda>r.
     case r of
       Inl _ \<Rightarrow> track_loop rs cs pool
     | Inr _ \<Rightarrow>
         track_loop rs cs
           (case pool of
              None \<Rightarrow> None
            | Some p \<Rightarrow> (case trackable c of Some mp \<Rightarrow> Some (Pool_Add p mp) | None \<Rightarrow> Some p)))"

definition ApplyTracked :: "RcSys \<Rightarrow> Creator list \<Rightarrow> Pool option \<Rightarrow> ((err + unit) \<times> Pool option) io" where
  "ApplyTracked rs creators pool = bnd (track_loop rs creators pool) (\<lambda>p. ret (Inr (), p))"

subsection \<open>The rc stage\<close>

definition mnt :: "string \<Rightarrow> string \<Rightarrow> string \<Rightarrow> flags \<Rightarrow> string \<Rightarrow> bool \<Rightarrow> Creator" where
  "mnt src target fstype fl data silent =
     NMount \<lparr>mn_Source = src, mn_Target = target, mn_FSType = fstype, mn_Flags = fl, mn_Data = data,
       mn_Silent = silent\<rparr>"

definition rcNamespace :: "Creator list" where
  "rcNamespace =
     [mnt ''proc'' ''/proc'' ''proc'' (NODEV OR NOSUID OR NOEXEC OR RELATIME) [] True,
      mnt ''tmpfs'' ''/run'' ''tmpfs'' (NODEV OR NOSUID OR NOEXEC OR RELATIME) ''size=10%,mode=755'' False,
      mnt ''tmpfs'' ''/tmp'' ''tmpfs'' (NODEV OR NOSUID OR NOEXEC OR RELATIME) ''size=10%,mode=1777'' False,
      NDir ''/var/cache'' 493, NDir ''/var/empty'' 365, NDir ''/var/lib'' 493, NDir ''/var/local/bin'' 493,
      NDir ''/var/lock'' 493, NDir ''/var/log'' 493, NDir ''/var/opt'' 493, NDir ''/var/spool'' 493,
      NDir ''/var/tmp'' 1023, NDir ''/home'' 493, NSymlink ''/run'' ''/var/run'',
      mnt ''dev'' ''/dev'' ''devtmpfs'' (NOSUID OR NOEXEC OR RELATIME) ''size=10m,nr_inodes=248418,mode=755'' False,
      NDev ''/dev/console'' 384 5 1, NDev ''/dev/tty1'' 400 4 1, NDev ''/dev/tty'' 438 5 0,
      NDev ''/dev/null'' 438 1 3, NDev ''/dev/kmsg'' 432 1 11,
      NSymlink ''/proc/self/fd'' ''/dev/fd'', NSymlink ''/proc/self/fd/0'' ''/dev/stdin'',
      NSymlink ''/proc/self/fd/1'' ''/dev/stdout'', NSymlink ''/proc/self/fd/2'' ''/dev/stderr'',
      NSymlink ''/proc/kcore'' ''/dev/kcore'',
      NDir ''/dev/mqueue'' 1023, NDir ''/dev/shm'' 1023, NDir ''/dev/pts'' 493,
      mnt ''mqueue'' ''/dev/mqueue'' ''mqueue'' (NOEXEC OR NOSUID OR NODEV) [] False,
      mnt ''shm'' ''/dev/shm'' ''tmpfs'' (NOEXEC OR NOSUID OR NODEV) ''mode=1777'' False,
      mnt ''devpts'' ''/dev/pts'' ''devpts'' (NOEXEC OR NOSUID) ''gid=5,mode=0620'' False,
      mnt ''sysfs'' ''/sys'' ''sysfs'' (NOEXEC OR NOSUID OR NODEV) [] False,
      mnt ''securityfs'' ''/sys/kernel/security'' ''securityfs'' (NOEXEC OR NOSUID OR NODEV) [] True,
      mnt ''debugfs'' ''/sys/kernel/debug'' ''debugfs'' (NOEXEC OR NOSUID OR NODEV) [] True,
      mnt ''configfs'' ''/sys/kernel/config'' ''configfs'' (NOEXEC OR NOSUID OR NODEV) [] True,
      mnt ''fusectl'' ''/sys/fs/fuse/connections'' ''fusectl'' (NOEXEC OR NOSUID OR NODEV) [] True,
      mnt ''selinuxfs'' ''/sys/fs/selinux'' ''selinuxfs'' (NOEXEC OR NOSUID) [] True,
      mnt ''pstore'' ''/sys/fs/pstore'' ''pstore'' (NOEXEC OR NOSUID OR NODEV) [] True,
      mnt ''efivarfs'' ''/sys/firmware/efi/efivars'' ''efivarfs'' (NOEXEC OR NOSUID OR NODEV) [] True,
      mnt ''binfmt_misc'' ''/proc/sys/fs/binfmt_misc'' ''binfmt_misc'' (NOEXEC OR NOSUID OR NODEV) [] True,
      mnt ''cgroup2'' ''/sys/fs/cgroup'' ''cgroup2'' (NODEV OR NOEXEC OR NOSUID) [] False,
      mnt [] ''/'' [] (MS_REC OR SHARED) [] False]"

definition rc_write :: "RcSys \<Rightarrow> string \<Rightarrow> string \<Rightarrow> unit io" where
  "rc_write rs path value = ignore (WriteFile (rs_FS rs) path value mode_600) (ret ())"

definition rc_read :: "RcSys \<Rightarrow> string \<Rightarrow> string io" where
  "rc_read rs path =
     bnd (ReadFile (rs_FS rs) path) (\<lambda>r. ret (case r of Inl _ \<Rightarrow> [] | Inr data \<Rightarrow> TrimSpace data))"

definition rc_readdir :: "RcSys \<Rightarrow> string \<Rightarrow> string list io" where
  "rc_readdir rs path =
     bnd (ReadDir (rs_FS rs) path) (\<lambda>r. ret (case r of Inl _ \<Rightarrow> [] | Inr files \<Rightarrow> map de_Name files))"

definition rc_glob :: "RcSys \<Rightarrow> string \<Rightarrow> string list io" where
  "rc_glob rs pattern =
     bnd (perform (CSys ''glob'' [pattern] []) (\<lambda>h. rs_Glob rs h pattern)) (\<lambda>r.
     ret (case r of Inl _ \<Rightarrow> [] | Inr files \<Rightarrow> files))"

definition rc_exists :: "RcSys \<Rightarrow> string \<Rightarrow> bool io" where
  "rc_exists rs path = bnd (Stat (rs_FS rs) path) (\<lambda>r. ret (\<not> isl r))"

definition modaliases :: "RcSys \<Rightarrow> string list \<Rightarrow> unit io" where
  "modaliases rs paths =
     bnd (modalias_Init (rs_Mod rs)) (\<lambda>r.
     case r of
       Inl _ \<Rightarrow> ret ()
     | Inr ma \<Rightarrow>
         foreach paths (\<lambda>path.
         bnd (rc_read rs path) (\<lambda>content.
         foreach (Fields content) (\<lambda>alias.
         ignore (\<lambda>h. modalias_Load (rs_Mod rs) (rs_Visit rs h ma) alias h) (ret ())))))"

definition doMounts :: "RcSys \<Rightarrow> Pool \<Rightarrow> Pool io" where
  "doMounts rs pool =
     bnd (ApplyTracked rs rcNamespace (Some pool)) (\<lambda>(_, p). ret (case p of Some p \<Rightarrow> p | None \<Rightarrow> pool))"

definition doHotplug :: "RcSys \<Rightarrow> unit io" where
  "doHotplug rs =
     bnd (rc_glob rs ''/sys/bus/*/devices/*/modalias'') (\<lambda>paths.
     ignore (modaliases rs paths)
     (bnd (rc_readdir rs ''/sys/devices'') (\<lambda>files.
      ignore (foreach files (\<lambda>f.
        let uevent = PathJoin [''/sys/devices'', f, ''uevent''] in
        if HasPrefix f ''usb'' then
          bnd (rc_exists rs uevent) (\<lambda>e. if e then rc_write rs uevent ''add'' else ret ())
        else ret ()))
      (ignore (PopulateDev (rs_Dev rs) DefaultOptions) (ret ())))))"

definition doClock :: "RcSys \<Rightarrow> unit io" where
  "doClock rs = ignore (perform (CSys ''SyncRTC'' [] []) (rs_SyncRTC rs)) (ret ())"

definition doResolvConf :: "RcSys \<Rightarrow> unit io" where
  "doResolvConf rs =
     bnd (Readlink (rs_FS rs) ''/etc/resolv.conf'') (\<lambda>r.
     case r of
       Inl _ \<Rightarrow> ret ()
     | Inr link \<Rightarrow>
         ignore (MkdirAll (rs_FS rs) (Dir link) mode_755) (rc_write rs link []))"

definition doLoopback :: "RcSys \<Rightarrow> unit io" where
  "doLoopback rs = observe (CSys ''NetInit'' [] []) (rs_NetInit rs)"

definition set_hostname :: "RcSys \<Rightarrow> string \<Rightarrow> unit io" where
  "set_hostname rs name = ignore (perform (CSetHostname name) (\<lambda>h. rs_Sethostname rs h name)) (ret ())"

definition doHostname :: "RcSys \<Rightarrow> unit io" where
  "doHostname rs =
     bnd (rc_read rs ''/etc/hostname'') (\<lambda>hostname.
     ignore (if hostname \<noteq> [] then set_hostname rs hostname else ret ())
     (bnd (Hostname (rs_FS rs)) (\<lambda>r.
      case r of
        Inl _ \<Rightarrow> ret ()
      | Inr hostname \<Rightarrow>
          if hostname \<noteq> ''(none)'' \<and> hostname \<noteq> [] then ret ()
          else
            bnd (rc_read rs ''/sys/class/net/eth0/address'') (\<lambda>mac.
            if mac = [] then ret ()
            else set_hostname rs (''k3os-'' @ ReplaceAll mac '':'' [])))))"

definition rc_Run :: "RcSys \<Rightarrow> Pool \<Rightarrow> ((err + unit) \<times> Pool) io" where
  "rc_Run rs pool =
     bnd (doMounts rs pool) (\<lambda>pool.
     ignore (doHotplug rs) (ignore (doClock rs) (ignore (doLoopback rs) (ignore (doHostname rs)
     (ignore (doResolvConf rs) (ret (Inr (), pool)))))))"

subsection \<open>The pool records exactly the successful mounts\<close>

text \<open>The creators that succeed, in order.\<close>

fun created :: "RcSys \<Rightarrow> Creator list \<Rightarrow> hist \<Rightarrow> Creator list" where
  "created rs [] h = []"
| "created rs (c # cs) h =
     (let rest = created rs cs (h @ snd (Create_item rs c h)) in
      if isl (fst (Create_item rs c h)) then rest else c # rest)"

lemma track_loop_created:
  "track_loop rs cs pool h =
     (map_option (\<lambda>p. p @ List.map_filter trackable (created rs cs h)) pool, snd (Apply_loop rs cs h))"
proof (induction cs arbitrary: pool h)
  case (Cons c cs)
  show ?case
    by (cases "fst (Create_item rs c h)"; cases pool; cases "trackable c")
       (simp_all add: Cons prod_eq_iff Let_def Pool_Add_def List.map_filter_simps)
qed (simp add: List.map_filter_simps option.map_ident)


subsection \<open>The order of the rc table\<close>

fun item_path :: "Creator \<Rightarrow> string" where
  "item_path (NDir name _) = name"
| "item_path (NMount m) = mn_Target m"
| "item_path (NDev name _ _ _) = name"
| "item_path (NSymlink _ newPath) = newPath"
| "item_path (NWrite path _) = path"

text \<open>
  Mounting a file system hides what is below its target, and what is at it unless that is the
  directory made for it; a mount without a type only changes the propagation of what is there.
\<close>

definition is_dir :: "Creator \<Rightarrow> bool" where
  "is_dir c = (case c of NDir _ _ \<Rightarrow> True | _ \<Rightarrow> False)"

fun hides :: "Creator \<Rightarrow> Creator \<Rightarrow> bool" where
  "hides (NMount m) c =
     (mn_FSType m \<noteq> [] \<and> wipes (mn_Target m) (item_path c) \<and> \<not> (is_dir c \<and> item_path c = mn_Target m))"
| "hides _ c = False"

text \<open>The rc table is in a workable order: no file system it mounts hides an entry created before
  it, so every directory, device node, link and mount it makes stays reachable.\<close>

theorem rcNamespace_order: "sorted_wrt (\<lambda>a b. \<not> hides b a) rcNamespace"
  by code_simp

end
