(* ===== verification/Diskutil.thy ===== *)
theory Diskutil
  imports Go_Fixtures "HOL-Library.Word"
begin

section \<open>Partition tables: internal/diskutil\<close>

text \<open>
  Detection of the partition table and growing a partition. Sector numbers and sizes keep their
  widths: 64 bits for the device, 32 bits for the fields of an MBR entry. The MBR and GPT libraries
  and the block-device calls are fields of \<open>DiskSys\<close>; an MBR table is the list of its four entries,
  a \<open>*os.File\<close> is named by the path it was opened with.
\<close>

subsection \<open>Definitions\<close>

record MbrPart =
  mp_Start :: "32 word"
  mp_Len :: "32 word"
  mp_Empty :: bool

record GptPart =
  gp_FirstLBA :: "64 word"
  gp_LastLBA :: "64 word"

text \<open>\<open>ds_MbrRead\<close> is \<open>mbr.Read\<close>; \<open>ds_GptOpen\<close> to \<open>ds_Resize\<close> are the calls on the GPT library.\<close>

record DiskSys =
  ds_Open :: "hist \<Rightarrow> string \<Rightarrow> err + unit"
  ds_Read :: "hist \<Rightarrow> string \<Rightarrow> nat \<Rightarrow> err + string"
  ds_OpenRW :: "hist \<Rightarrow> string \<Rightarrow> err + unit"
  ds_FileStat :: "hist \<Rightarrow> string \<Rightarrow> err + FileInfo"
  ds_BLKGETSIZE64 :: "hist \<Rightarrow> string \<Rightarrow> err + 64 word"
  ds_MbrRead :: "hist \<Rightarrow> string \<Rightarrow> err + MbrPart list"
  ds_Seek :: "hist \<Rightarrow> string \<Rightarrow> err + unit"
  ds_MbrWrite :: "hist \<Rightarrow> string \<Rightarrow> MbrPart list \<Rightarrow> err + unit"
  ds_Sync :: "hist \<Rightarrow> string \<Rightarrow> err + unit"
  ds_BLKRRPART :: "hist \<Rightarrow> string \<Rightarrow> err + unit"
  ds_GptOpen :: "hist \<Rightarrow> string \<Rightarrow> err + unit"
  ds_GptDevice :: "hist \<Rightarrow> string \<Rightarrow> err + unit"
  ds_GptRead :: "hist \<Rightarrow> string \<Rightarrow> err + unit"
  ds_GptGrowth :: "hist \<Rightarrow> string \<Rightarrow> int \<Rightarrow> err + 64 word"
  ds_GptGrow :: "hist \<Rightarrow> string \<Rightarrow> int \<Rightarrow> 64 word \<Rightarrow> err + unit"
  ds_GptWrite :: "hist \<Rightarrow> string \<Rightarrow> err + unit"
  ds_GptPartitions :: "hist \<Rightarrow> string \<Rightarrow> GptPart list"
  ds_SectorSize :: "hist \<Rightarrow> string \<Rightarrow> 64 word"
  ds_Resize :: "hist \<Rightarrow> string \<Rightarrow> int \<Rightarrow> 64 word \<Rightarrow> 64 word \<Rightarrow> err + unit"

definition dcall :: "string \<Rightarrow> string \<Rightarrow> nat list \<Rightarrow> (hist \<Rightarrow> err + 'a) \<Rightarrow> 'a go" where
  "dcall name device nums answer = perform (CSys name [device] nums) answer"

subsubsection \<open>tabletype.go\<close>

datatype PartitionTableType = PartitionTableGPT | PartitionTableMBR | PartitionTableUnknown

definition mbrSignatureOffset :: nat where "mbrSignatureOffset = 510"
definition mbrPartitionTableOffset :: nat where "mbrPartitionTableOffset = 446"
definition mbrPartitionTypeOffset :: nat where "mbrPartitionTypeOffset = 4"
definition gptHeaderOffset :: nat where "gptHeaderOffset = 512"
definition gptMagic :: string where "gptMagic = ''EFI PART''"
definition minDeviceSize :: nat where "minDeviceSize = gptHeaderOffset + 8"

text \<open>Lines 61 to 75: the decision on the bytes read.\<close>

definition table_type :: "string \<Rightarrow> PartitionTableType" where
  "table_type buf =
     (if buf ! mbrSignatureOffset \<noteq> CHR 0x55 \<or> buf ! (mbrSignatureOffset + 1) \<noteq> CHR 0xAA
      then PartitionTableUnknown
      else
        let firstPartType = buf ! (mbrPartitionTableOffset + mbrPartitionTypeOffset);
            hasGPTMagic = (take 8 (drop gptHeaderOffset buf) = gptMagic) in
        if firstPartType = CHR 0xEE \<and> hasGPTMagic then PartitionTableGPT else PartitionTableMBR)"

definition ProbePartitionTableType :: "DiskSys \<Rightarrow> string \<Rightarrow> PartitionTableType io" where
  "ProbePartitionTableType ds devicePath =
     bnd (dcall ''open'' devicePath [] (\<lambda>h. ds_Open ds h devicePath)) (\<lambda>r.
     case r of
       Inl _ \<Rightarrow> ret PartitionTableUnknown
     | Inr _ \<Rightarrow>
         bnd (dcall ''read'' devicePath [minDeviceSize] (\<lambda>h. ds_Read ds h devicePath minDeviceSize)) (\<lambda>r.
         ignore (dcall ''close'' devicePath [] (\<lambda>_. Inr ()))
         (ret (case r of
                 Inl _ \<Rightarrow> PartitionTableUnknown
               | Inr buf \<Rightarrow> if length buf < minDeviceSize then PartitionTableUnknown else table_type buf))))"

subsubsection \<open>growmbr.go\<close>

definition sectorSize :: "64 word" where
  "sectorSize = 512"

definition getBlockDeviceSize :: "DiskSys \<Rightarrow> string \<Rightarrow> 64 word go" where
  "getBlockDeviceSize ds f =
     pass (dcall ''fstat'' f [] (\<lambda>h. ds_FileStat ds h f)) (\<lambda>info.
     if fi_IsRegular info then ok (word_of_nat (fi_Size info))
     else check ''BLKGETSIZE64'' (dcall ''BLKGETSIZE64'' f [] (\<lambda>h. ds_BLKGETSIZE64 ds h f)) (\<lambda>size. ok size))"

text \<open>Lines 59 to 65, in 64-bit arithmetic.\<close>

definition max_len :: "64 word \<Rightarrow> 32 word \<Rightarrow> 64 word" where
  "max_len totalSectors lbaStart =
     (let maxLen = totalSectors - ucast lbaStart in if maxLen > 0xFFFFFFFF then 0xFFFFFFFF else maxLen)"

definition part_nums :: "MbrPart list \<Rightarrow> nat list" where
  "part_nums parts = concat (map (\<lambda>p. [unat (mp_Start p), unat (mp_Len p)]) parts)"

text \<open>Lines 76 to 100: write the table back, flush, and have the kernel read it again.\<close>

definition write_mbr :: "DiskSys \<Rightarrow> string \<Rightarrow> MbrPart list \<Rightarrow> unit go" where
  "write_mbr ds device parts =
     check ''seek to start'' (dcall ''seek'' device [] (\<lambda>h. ds_Seek ds h device)) (\<lambda>_.
     check ''write MBR'' (dcall ''mbr.Write'' device (part_nums parts) (\<lambda>h. ds_MbrWrite ds h device parts)) (\<lambda>_.
     check ''sync'' (dcall ''fsync'' device [] (\<lambda>h. ds_Sync ds h device)) (\<lambda>_.
     bnd (dcall ''fstat'' device [] (\<lambda>h. ds_FileStat ds h device)) (\<lambda>info.
     case info of
       Inr i \<Rightarrow> if fi_IsRegular i then ok ()
                else check ''BLKRRPART'' (dcall ''BLKRRPART'' device [] (\<lambda>h. ds_BLKRRPART ds h device)) (\<lambda>_. ok ())
     | Inl _ \<Rightarrow> ok ()))))"

text \<open>Lines 33 to 100, on the open device.\<close>

definition grow_mbr_open :: "DiskSys \<Rightarrow> string \<Rightarrow> int \<Rightarrow> unit go" where
  "grow_mbr_open ds device partNum =
     check ''get device size'' (getBlockDeviceSize ds device) (\<lambda>diskSize.
     let totalSectors = diskSize div sectorSize in
     if totalSectors = 0 then fail (Msg ''device has zero size'')
     else
       check ''read MBR'' (dcall ''mbr.Read'' device [] (\<lambda>h. ds_MbrRead ds h device)) (\<lambda>table.
       let i = nat (partNum - 1) in
       if length table \<le> i then fail (Msg ''partition not found in MBR'')
       else if mp_Empty (table ! i) then fail (Msg ''partition is empty'')
       else
         let maxLen = max_len totalSectors (mp_Start (table ! i));
             currentLen = (ucast (mp_Len (table ! i)) :: 64 word) in
         if currentLen \<ge> maxLen then ok ()
         else write_mbr ds device (table[i := (table ! i)\<lparr>mp_Len := ucast maxLen\<rparr>])))"

definition growMBR :: "DiskSys \<Rightarrow> string \<Rightarrow> int \<Rightarrow> unit go" where
  "growMBR ds device partNum =
     (if partNum < 1 \<or> partNum > 4 then fail (Msg ''invalid MBR partition number: must be 1-4'')
      else
        check ''open device'' (dcall ''openrw'' device [] (\<lambda>h. ds_OpenRW ds h device)) (\<lambda>_.
        bnd (grow_mbr_open ds device partNum) (\<lambda>r.
        ignore (dcall ''close'' device [] (\<lambda>_. Inr ())) (ret r))))"

subsubsection \<open>partition.go\<close>

definition gpt_notify :: "DiskSys \<Rightarrow> string \<Rightarrow> int \<Rightarrow> unit io" where
  "gpt_notify ds device partNum =
     bnd (observe (CSys ''gpt.Partitions'' [device] []) (\<lambda>h. ds_GptPartitions ds h device)) (\<lambda>parts.
     let idx = nat (partNum - 1) in
     if idx < length parts then
       bnd (observe (CSys ''GetSectorSize'' [device] []) (\<lambda>h. ds_SectorSize ds h device)) (\<lambda>ss.
       let p = parts ! idx;
           start = gp_FirstLBA p * ss;
           len = (gp_LastLBA p - gp_FirstLBA p + 1) * ss in
       ignore (dcall ''KernelPartitionResize'' device [nat partNum, unat start, unat len]
          (\<lambda>h. ds_Resize ds h device partNum start len)) (ret ()))
     else ret ())"

definition growGPT :: "DiskSys \<Rightarrow> string \<Rightarrow> int \<Rightarrow> unit go" where
  "growGPT ds device partNum =
     check ''open block device'' (dcall ''block.Open'' device [] (\<lambda>h. ds_GptOpen ds h device)) (\<lambda>_.
     bnd (check ''create gpt device'' (dcall ''gpt.Device'' device [] (\<lambda>h. ds_GptDevice ds h device)) (\<lambda>_.
          check ''read GPT'' (dcall ''gpt.Read'' device [] (\<lambda>h. ds_GptRead ds h device)) (\<lambda>_.
          let idx = partNum - 1 in
          check ''check available growth''
            (dcall ''gpt.Growth'' device [nat idx] (\<lambda>h. ds_GptGrowth ds h device idx)) (\<lambda>growth.
          if growth = 0 then ok ()
          else
            check ''grow partition''
              (dcall ''gpt.Grow'' device [nat idx, unat growth] (\<lambda>h. ds_GptGrow ds h device idx growth)) (\<lambda>_.
            check ''write GPT'' (dcall ''gpt.Write'' device [] (\<lambda>h. ds_GptWrite ds h device)) (\<lambda>_.
            ignore (gpt_notify ds device partNum) (ok ())))))))
     (\<lambda>r. ignore (dcall ''close'' device [] (\<lambda>_. Inr ())) (ret r)))"

definition disk_GrowPartition :: "DiskSys \<Rightarrow> string \<Rightarrow> int \<Rightarrow> unit go" where
  "disk_GrowPartition ds device partNum =
     (if partNum < 1 then fail (Msg ''invalid partition number: must be >= 1'')
      else
        bnd (ProbePartitionTableType ds device) (\<lambda>tableType.
        case tableType of
          PartitionTableGPT \<Rightarrow> growGPT ds device partNum
        | PartitionTableMBR \<Rightarrow> growMBR ds device partNum
        | PartitionTableUnknown \<Rightarrow> fail (Msg ''unsupported partition table type'')))"

subsection \<open>Arithmetic of growing\<close>

lemma max_len_bound: "unat (max_len sectors s) \<le> 0xFFFFFFFF"
  by (auto simp: max_len_def Let_def word_less_nat_alt)

lemma max_len_fits: "unat (ucast (max_len sectors s) :: 32 word) = unat (max_len sectors s)"
proof -
  have "unat (max_len sectors s) < 2 ^ 32" using max_len_bound [of sectors s] by simp
  then show ?thesis by (simp add: unsigned_ucast_eq take_bit_nat_eq_self)
qed

lemma unat_ucast_32_64: "unat (ucast (s :: 32 word) :: 64 word) = unat s"
proof -
  have "unat s < 2 ^ 64" using unsigned_less [of s, where 'a = nat] by (simp add: less_le_trans)
  then show ?thesis by (simp add: unsigned_ucast_eq take_bit_nat_eq_self)
qed

lemma max_len_within:
  assumes "unat s \<le> unat sectors"
  shows "unat s + unat (max_len sectors s) \<le> unat sectors"
proof -
  have le: "ucast s \<le> sectors" using assms by (simp add: word_le_nat_alt unat_ucast_32_64)
  have sub: "unat (sectors - ucast s) = unat sectors - unat s"
    using unat_sub [OF le] by (simp add: unat_ucast_32_64)
  have "unat (max_len sectors s) \<le> unat (sectors - ucast s)"
    by (auto simp: max_len_def Let_def word_less_nat_alt)
  then show ?thesis using sub assms by simp
qed

lemma max_len_reaches:
  assumes "unat s \<le> unat sectors" and "unat sectors - unat s \<le> 0xFFFFFFFF"
  shows "unat (max_len sectors s) = unat sectors - unat s"
proof -
  have le: "ucast s \<le> sectors" using assms(1) by (simp add: word_le_nat_alt unat_ucast_32_64)
  show ?thesis
    using unat_sub [OF le] assms(2) by (simp add: max_len_def Let_def word_less_nat_alt unat_ucast_32_64)
qed

text \<open>When the partition starts behind the end of the device, the subtraction wraps around.\<close>

lemma max_len_underflow:
  assumes "unat sectors < unat s"
  shows "unat (max_len sectors s) = 0xFFFFFFFF"
proof -
  have "unat s < 2 ^ 32" using unsigned_less [of s, where 'a = nat] by simp
  then have "unat (sectors - ucast s) > 0xFFFFFFFF"
    using assms by (simp add: unat_sub_if' unat_ucast_32_64)
  then show ?thesis by (simp add: max_len_def Let_def word_less_nat_alt)
qed

subsection \<open>What is written\<close>

definition is_mbr_write :: "event \<Rightarrow> bool" where
  "is_mbr_write ev = (case fst ev of CSys name _ _ \<Rightarrow> name = ''mbr.Write'' | _ \<Rightarrow> False)"

lemma not_mbr_write [simp]:
  "name \<noteq> ''mbr.Write'' \<Longrightarrow> \<not> is_mbr_write (CSys name ss ns, b)"
  by (simp add: is_mbr_write_def)

lemma dcall_quiet:
  "name \<noteq> ''mbr.Write'' \<Longrightarrow> emits (\<lambda>ev. \<not> is_mbr_write ev) (dcall name device ns f)"
  by (auto simp: dcall_def intro!: emits_intros)

lemma getBlockDeviceSize_quiet: "emits (\<lambda>ev. \<not> is_mbr_write ev) (getBlockDeviceSize ds f)"
  unfolding getBlockDeviceSize_def by (intro emits_intros dcall_quiet) simp_all

lemma write_mbr_writes:
  "ev \<in> set (snd (write_mbr ds device parts h)) \<Longrightarrow> is_mbr_write ev \<Longrightarrow>
     fst ev = CSys ''mbr.Write'' [device] (part_nums parts)"
  by (auto simp: write_mbr_def dcall_def split: sum.splits if_splits)

text \<open>
  \<open>grown ds device n sectors table table'\<close>: \<open>table'\<close> is the table read from the device with only the
  length of entry \<open>n\<close> changed, to the largest length the device and the field allow.
\<close>

definition grown :: "int \<Rightarrow> 64 word \<Rightarrow> MbrPart list \<Rightarrow> MbrPart list \<Rightarrow> bool" where
  "grown partNum sectors table table' =
     (let i = nat (partNum - 1) in
      i < length table \<and> \<not> mp_Empty (table ! i) \<and>
      unat (mp_Len (table ! i)) < unat (max_len sectors (mp_Start (table ! i))) \<and>
      table' = table[i := (table ! i)\<lparr>mp_Len := ucast (max_len sectors (mp_Start (table ! i)))\<rparr>])"

lemma grow_mbr_open_writes:
  assumes "ev \<in> set (snd (grow_mbr_open ds device n h))" and "is_mbr_write ev"
  shows "\<exists>h1 h2 size table table'.
     fst (getBlockDeviceSize ds device h1) = Inr size \<and> ds_MbrRead ds h2 device = Inr table \<and>
     grown n (size div sectorSize) table table' \<and> fst ev = CSys ''mbr.Write'' [device] (part_nums table')"
proof -
  have q: "ev \<notin> set (snd (getBlockDeviceSize ds device h))"
    using emitsD [OF getBlockDeviceSize_quiet, of ev] assms(2) by blast
  obtain size where size: "fst (getBlockDeviceSize ds device h) = Inr size"
    using assms q by (cases "fst (getBlockDeviceSize ds device h)") (auto simp: grow_mbr_open_def)
  define h2 where "h2 = h @ snd (getBlockDeviceSize ds device h)"
  obtain table where table: "ds_MbrRead ds h2 device = Inr table"
    using assms q size
    by (cases "ds_MbrRead ds h2 device")
       (auto simp: grow_mbr_open_def dcall_def h2_def Let_def split: if_splits)
  define i where "i = nat (n - 1)"
  let ?L = "max_len (size div sectorSize) (mp_Start (table ! i))"
  let ?T = "table[i := (table ! i)\<lparr>mp_Len := ucast ?L\<rparr>]"
  let ?tr = "h2 @ [(CSys ''mbr.Read'' [device] [], True)]"
  have "i < length table \<and> \<not> mp_Empty (table ! i) \<and> \<not> ucast (mp_Len (table ! i)) \<ge> ?L \<and>
        ev \<in> set (snd (write_mbr ds device ?T ?tr))"
    using assms q size table
    by (auto simp: grow_mbr_open_def dcall_def h2_def i_def Let_def split: if_splits)
  then have "grown n (size div sectorSize) table ?T" and "ev \<in> set (snd (write_mbr ds device ?T ?tr))"
    by (auto simp: grown_def Let_def i_def word_le_nat_alt unat_ucast_32_64)
  then show ?thesis using size table write_mbr_writes assms(2) by blast
qed

lemma growMBR_writes:
  assumes "ev \<in> set (snd (growMBR ds device n h))" and "is_mbr_write ev"
  shows "1 \<le> n \<and> n \<le> 4 \<and> (\<exists>h1 h2 size table table'.
     fst (getBlockDeviceSize ds device h1) = Inr size \<and> ds_MbrRead ds h2 device = Inr table \<and>
     grown n (size div sectorSize) table table' \<and> fst ev = CSys ''mbr.Write'' [device] (part_nums table'))"
proof -
  let ?h = "h @ [(CSys ''openrw'' [device] [], True)]"
  have "ev \<in> set (snd (grow_mbr_open ds device n ?h)) \<and> 1 \<le> n \<and> n \<le> 4"
    using assms by (cases "ds_OpenRW ds h device") (auto simp: growMBR_def dcall_def split: if_splits)
  then show ?thesis using grow_mbr_open_writes assms(2) by blast
qed

lemma growGPT_no_mbr: "emits (\<lambda>ev. \<not> is_mbr_write ev) (growGPT ds device n)"
  unfolding growGPT_def gpt_notify_def Let_def by (intro emits_intros dcall_quiet) simp_all

lemma probe_no_mbr: "emits (\<lambda>ev. \<not> is_mbr_write ev) (ProbePartitionTableType ds device)"
  unfolding ProbePartitionTableType_def by (intro emits_intros dcall_quiet) simp_all

lemma disk_GrowPartition_mbr:
  assumes "ev \<in> set (snd (disk_GrowPartition ds device n h))" and "is_mbr_write ev"
  shows "fst (ProbePartitionTableType ds device h) = PartitionTableMBR \<and>
         ev \<in> set (snd (growMBR ds device n (h @ snd (ProbePartitionTableType ds device h))))"
  using assms emitsD [OF growGPT_no_mbr, of ev ds device n] emitsD [OF probe_no_mbr, of ev ds device]
  by (auto simp: disk_GrowPartition_def split: if_splits PartitionTableType.splits)

subsection \<open>Properties\<close>

text \<open>C10: The MBR is rewritten only on a device whose table was recognised as MBR and for a
  partition number between 1 and 4, and then it is the table just read with one length changed: the
  other entries, and the start of the grown one, stay as they are, the length only increases, and a
  partition that starts on the device still ends on it.\<close>

theorem GrowPartition_mbr_safe:
  assumes "(c, b) \<in> set (snd (disk_GrowPartition ds device n h))" and "is_mbr_write (c, b)"
  shows "fst (ProbePartitionTableType ds device h) = PartitionTableMBR \<and> 1 \<le> n \<and> n \<le> 4 \<and>
    (\<exists>h1 h2 size table p l.
       fst (getBlockDeviceSize ds device h1) = Inr size \<and> ds_MbrRead ds h2 device = Inr table \<and>
       nat (n - 1) < length table \<and> p = table ! nat (n - 1) \<and> \<not> mp_Empty p \<and>
       c = CSys ''mbr.Write'' [device] (part_nums (table[nat (n - 1) := p\<lparr>mp_Len := l\<rparr>])) \<and>
       unat (mp_Len p) < unat l \<and>
       (unat (mp_Start p) \<le> unat size div 512 \<longrightarrow> unat (mp_Start p) + unat l \<le> unat size div 512))"
proof -
  note mbr = disk_GrowPartition_mbr [OF assms]
  then obtain h1 h2 size table table' where
      n: "1 \<le> n" "n \<le> 4" and f: "fst (getBlockDeviceSize ds device h1) = Inr size"
      "ds_MbrRead ds h2 device = Inr table" "grown n (size div sectorSize) table table'"
      "c = CSys ''mbr.Write'' [device] (part_nums table')"
    using growMBR_writes [OF _ assms(2)] by fastforce
  define p where "p = table ! nat (n - 1)"
  define l :: "32 word" where "l = ucast (max_len (size div sectorSize) (mp_Start p))"
  have len: "unat l = unat (max_len (size div sectorSize) (mp_Start p))"
    by (simp add: l_def max_len_fits)
  have sectors: "unat (size div sectorSize) = unat size div 512"
    by (simp add: sectorSize_def unat_div)
  have "nat (n - 1) < length table" "\<not> mp_Empty p" "unat (mp_Len p) < unat l"
      "c = CSys ''mbr.Write'' [device] (part_nums (table[nat (n - 1) := p\<lparr>mp_Len := l\<rparr>]))"
    using f(3,4) len by (simp_all add: grown_def Let_def p_def l_def)
  moreover have "unat (mp_Start p) \<le> unat size div 512 \<longrightarrow> unat (mp_Start p) + unat l \<le> unat size div 512"
    using max_len_within [of "mp_Start p" "size div sectorSize"] len sectors by simp
  ultimately show ?thesis using mbr n f(1,2) p_def by blast
qed

text \<open>A disk image of 1000 sectors with two partitions, on which every call succeeds.\<close>

definition image_table :: "MbrPart list" where
  "image_table =
     [\<lparr>mp_Start = 100, mp_Len = 100, mp_Empty = False\<rparr>, \<lparr>mp_Start = 300, mp_Len = 100, mp_Empty = False\<rparr>,
      \<lparr>mp_Start = 0, mp_Len = 0, mp_Empty = True\<rparr>, \<lparr>mp_Start = 0, mp_Len = 0, mp_Empty = True\<rparr>]"

definition image_sector :: string where
  "image_sector = replicate 510 (CHR 0x00) @ [CHR 0x55, CHR 0xAA] @ replicate 8 (CHR 0x00)"

definition image_disk :: DiskSys where
  "image_disk =
     \<lparr>ds_Open = \<lambda>_ _. Inr (), ds_Read = \<lambda>_ _ _. Inr image_sector, ds_OpenRW = \<lambda>_ _. Inr (),
      ds_FileStat = \<lambda>_ n. Inr \<lparr>fi_Name = n, fi_IsDir = False, fi_IsSymlink = False, fi_IsRegular = True,
                                fi_Perm = mode_644, fi_Size = 512000\<rparr>,
      ds_BLKGETSIZE64 = \<lambda>_ _. Inr 512000, ds_MbrRead = \<lambda>_ _. Inr image_table, ds_Seek = \<lambda>_ _. Inr (),
      ds_MbrWrite = \<lambda>_ _ _. Inr (), ds_Sync = \<lambda>_ _. Inr (), ds_BLKRRPART = \<lambda>_ _. Inr (),
      ds_GptOpen = \<lambda>_ _. Inr (), ds_GptDevice = \<lambda>_ _. Inr (), ds_GptRead = \<lambda>_ _. Inr (),
      ds_GptGrowth = \<lambda>_ _ _. Inr 0, ds_GptGrow = \<lambda>_ _ _ _. Inr (), ds_GptWrite = \<lambda>_ _. Inr (),
      ds_GptPartitions = \<lambda>_ _. [], ds_SectorSize = \<lambda>_ _. 512, ds_Resize = \<lambda>_ _ _ _ _. Inr ()\<rparr>"

lemma image_disk_size: "fst (getBlockDeviceSize image_disk ''img'' h) = Inr 512000"
  by (simp add: getBlockDeviceSize_def dcall_def image_disk_def)

lemma image_probe: "fst (ProbePartitionTableType image_disk ''img'' h) = PartitionTableMBR"
  by (simp add: ProbePartitionTableType_def dcall_def image_disk_def image_sector_def minDeviceSize_def
      gptHeaderOffset_def table_type_def mbrSignatureOffset_def mbrPartitionTableOffset_def
      mbrPartitionTypeOffset_def nth_append gptMagic_def)

lemma write_mbr_event:
  assumes "\<And>h. ds_Seek ds h device = Inr ()" and "\<And>h. ds_MbrWrite ds h device parts = Inr ()"
  shows "(CSys ''mbr.Write'' [device] (part_nums parts), True) \<in> set (snd (write_mbr ds device parts h))"
  using assms by (simp add: write_mbr_def dcall_def)

lemma grow_mbr_open_event:
  assumes "\<And>h. fst (getBlockDeviceSize ds device h) = Inr bytes" and "bytes div sectorSize \<noteq> 0"
    and "\<And>h. ds_MbrRead ds h device = Inr table" and "grown n (bytes div sectorSize) table table'"
    and "\<And>h. ds_Seek ds h device = Inr ()" and "\<And>h. ds_MbrWrite ds h device table' = Inr ()"
  shows "(CSys ''mbr.Write'' [device] (part_nums table'), True) \<in> set (snd (grow_mbr_open ds device n h))"
  using assms(2,3,4) write_mbr_event [of ds device table', OF assms(5,6)]
  by (auto simp: grow_mbr_open_def dcall_def grown_def Let_def assms(1) word_le_nat_alt unat_ucast_32_64)

text \<open>On a device that answers, the partition is grown up to the last sector of the device
  (within what 32 bits can express), whatever the other entries of the table are: an entry that
  starts behind the grown partition ends up inside it.\<close>

theorem growMBR_fills_device:
  assumes "1 \<le> n" and "n \<le> 4" and "\<And>h. ds_OpenRW ds h device = Inr ()"
    and "\<And>h. fst (getBlockDeviceSize ds device h) = Inr bytes"
    and "\<And>h. ds_MbrRead ds h device = Inr table" and "nat (n - 1) < length table"
    and p: "p = table ! nat (n - 1)" "\<not> mp_Empty p"
    and fits: "unat (mp_Start p) + unat (mp_Len p) < unat bytes div 512"
      "unat bytes div 512 - unat (mp_Start p) \<le> 0xFFFFFFFF"
    and "\<And>h. ds_Seek ds h device = Inr ()" and "\<And>h t. ds_MbrWrite ds h device t = Inr ()"
  shows "\<exists>l. (CSys ''mbr.Write'' [device] (part_nums (table[nat (n - 1) := p\<lparr>mp_Len := l\<rparr>])), True)
               \<in> set (snd (growMBR ds device n h)) \<and>
             unat (mp_Start p) + unat l = unat bytes div 512"
proof -
  define l :: "32 word" where "l = ucast (max_len (bytes div sectorSize) (mp_Start p))"
  have sectors: "unat (bytes div sectorSize) = unat bytes div 512"
    by (simp add: sectorSize_def unat_div)
  have len: "unat l = unat bytes div 512 - unat (mp_Start p)"
    using max_len_reaches [of "mp_Start p" "bytes div sectorSize"] fits
    by (simp add: l_def max_len_fits sectors)
  have "unat (mp_Len p) < unat (max_len (bytes div sectorSize) (mp_Start p))"
    using len fits by (simp add: l_def max_len_fits)
  then have "grown n (bytes div sectorSize) table (table[nat (n - 1) := p\<lparr>mp_Len := l\<rparr>])"
    using assms(6) p by (simp add: grown_def Let_def l_def)
  moreover have "bytes div sectorSize \<noteq> 0"
    using fits(1) sectors by (metis not_less_zero unsigned_0)
  ultimately have "(CSys ''mbr.Write'' [device] (part_nums (table[nat (n - 1) := p\<lparr>mp_Len := l\<rparr>])), True)
      \<in> set (snd (grow_mbr_open ds device n (h @ [(CSys ''openrw'' [device] [], True)])))"
    using assms by (intro grow_mbr_open_event) auto
  then show ?thesis using assms(1-3) len fits by (intro exI [of _ l]) (simp add: growMBR_def dcall_def)
qed

theorem growMBR_fills_device_witness:
  "\<exists>l. (CSys ''mbr.Write'' [''img''] (part_nums (image_table[0 := (image_table ! 0)\<lparr>mp_Len := l\<rparr>])), True)
          \<in> set (snd (growMBR image_disk ''img'' 1 [])) \<and>
        unat l = 900 \<and> unat (mp_Start (image_table ! 1)) = 300"
proof -
  have table: "\<And>h. ds_MbrRead image_disk h ''img'' = Inr image_table"
    by (simp add: image_disk_def)
  show ?thesis
    using growMBR_fills_device [of 1 image_disk "''img''" 512000 image_table "image_table ! 0" "[]",
        OF _ _ _ image_disk_size table]
    by (simp add: image_disk_def image_table_def)
qed

text \<open>A write that does happen: the event the previous theorem finds.\<close>

lemma image_grow_event:
  "(CSys ''mbr.Write'' [''img''] (part_nums (image_table[0 := (image_table ! 0)\<lparr>mp_Len := 900\<rparr>])), True)
     \<in> set (snd (disk_GrowPartition image_disk ''img'' 1 []))"
proof -
  have "(CSys ''mbr.Write'' [''img''] (part_nums (image_table[0 := (image_table ! 0)\<lparr>mp_Len := 900\<rparr>])), True)
     \<in> set (snd (growMBR image_disk ''img'' 1 h))" for h
    by (simp add: growMBR_def grow_mbr_open_def write_mbr_def dcall_def getBlockDeviceSize_def
        image_disk_def image_table_def max_len_def sectorSize_def Let_def)
  then show ?thesis by (simp add: disk_GrowPartition_def image_probe)
qed

theorem GrowPartition_mbr_safe_witness:
  "\<exists>c. fst (ProbePartitionTableType image_disk ''img'' []) = PartitionTableMBR \<and>
    (\<exists>h1 h2 bytes table p l.
       fst (getBlockDeviceSize image_disk ''img'' h1) = Inr bytes \<and> ds_MbrRead image_disk h2 ''img'' = Inr table \<and>
       p = table ! 0 \<and> c = CSys ''mbr.Write'' [''img''] (part_nums (table[0 := p\<lparr>mp_Len := l\<rparr>])) \<and>
       unat (mp_Len p) < unat l)"
  using GrowPartition_mbr_safe [OF image_grow_event] by (simp add: is_mbr_write_def) blast

end
