(* ===== verification/Os_Adapters.thy ===== *)
theory Os_Adapters
  imports Cli_Install Osimpl Flag_Sources Boot_Init Namespace Diskutil
begin

section \<open>The production adapters: internal/iface/osimpl, internal/command, internal/cmdline\<close>

text \<open>
  What stands behind the interfaces in the running program. An adapter is a boundary record built from a smaller one:
  running a process, the mount calls, the descriptors, the library that reads the kernel command line. The answer of a method is the result
  of the calls it makes; the caller sees the call of the method as one event.
\<close>

subsection \<open>os.go: the file system\<close>

text \<open>
  The functions of package \<open>os\<close> and the methods of an open file. \<open>os.ReadDir\<close> returns the entries it could read
  together with an error; the adapter gives the error alone.
\<close>

record OsPkg =
  pk_WriteFile :: "hist \<Rightarrow> string \<Rightarrow> string \<Rightarrow> nat \<Rightarrow> err + unit"
  pk_ReadFile :: "hist \<Rightarrow> string \<Rightarrow> err + string"
  pk_MkdirAll :: "hist \<Rightarrow> string \<Rightarrow> nat \<Rightarrow> err + unit"
  pk_Stat :: "hist \<Rightarrow> string \<Rightarrow> err + FileInfo"
  pk_Lstat :: "hist \<Rightarrow> string \<Rightarrow> err + FileInfo"
  pk_Open :: "hist \<Rightarrow> string \<Rightarrow> err + string"
  pk_Create :: "hist \<Rightarrow> string \<Rightarrow> err + string"
  pk_CreateTemp :: "hist \<Rightarrow> string \<Rightarrow> string \<Rightarrow> err + string"
  pk_FileWrite :: "hist \<Rightarrow> string \<Rightarrow> string \<Rightarrow> err + unit"
  pk_FileClose :: "hist \<Rightarrow> string \<Rightarrow> err + unit"
  pk_Chown :: "hist \<Rightarrow> string \<Rightarrow> int \<Rightarrow> int \<Rightarrow> err + unit"
  pk_Chmod :: "hist \<Rightarrow> string \<Rightarrow> nat \<Rightarrow> err + unit"
  pk_Rename :: "hist \<Rightarrow> string \<Rightarrow> string \<Rightarrow> err + unit"
  pk_Remove :: "hist \<Rightarrow> string \<Rightarrow> err + unit"
  pk_RemoveAll :: "hist \<Rightarrow> string \<Rightarrow> err + unit"
  pk_Symlink :: "hist \<Rightarrow> string \<Rightarrow> string \<Rightarrow> err + unit"
  pk_Readlink :: "hist \<Rightarrow> string \<Rightarrow> err + string"
  pk_ReadDir :: "hist \<Rightarrow> string \<Rightarrow> DirEntry list \<times> err option"
  pk_Hostname :: "hist \<Rightarrow> err + string"

definition OSFileSystem_ReadDir :: "OsPkg \<Rightarrow> hist \<Rightarrow> string \<Rightarrow> err + DirEntry list" where
  "OSFileSystem_ReadDir pk h name =
     (case pk_ReadDir pk h name of (entries, err) \<Rightarrow> case err of Some e \<Rightarrow> Inl e | None \<Rightarrow> Inr entries)"

definition OSFileSystem :: "OsPkg \<Rightarrow> FileSystem" where
  "OSFileSystem pk =
     \<lparr>fs_WriteFile = pk_WriteFile pk, fs_ReadFile = pk_ReadFile pk, fs_MkdirAll = pk_MkdirAll pk, fs_Stat = pk_Stat pk,
      fs_Lstat = pk_Lstat pk, fs_Open = pk_Open pk, fs_Create = pk_Create pk, fs_CreateTemp = pk_CreateTemp pk,
      fs_FileWrite = pk_FileWrite pk, fs_FileClose = pk_FileClose pk, fs_Chown = pk_Chown pk, fs_Chmod = pk_Chmod pk,
      fs_Rename = pk_Rename pk, fs_Remove = pk_Remove pk, fs_RemoveAll = pk_RemoveAll pk, fs_Symlink = pk_Symlink pk,
      fs_Readlink = pk_Readlink pk, fs_ReadDir = OSFileSystem_ReadDir pk, fs_Hostname = pk_Hostname pk\<rparr>"

subsection \<open>command.go: running processes\<close>

text \<open>\<open>exec.Cmd\<close>: without an environment of its own a process gets that of its parent. \<open>ex_Run\<close> runs it to its end
  and returns what it wrote to standard output when that was captured.\<close>

record Cmd =
  xc_Name :: string
  xc_Args :: "string list"
  xc_Env :: "string list option"
  xc_Stdin :: "string option"

record ExecSys =
  ex_Run :: "hist \<Rightarrow> Cmd \<Rightarrow> err + string"
  ex_Environ :: "hist \<Rightarrow> string list"

definition exec_Command :: "string \<Rightarrow> string list \<Rightarrow> Cmd" where
  "exec_Command name args = \<lparr>xc_Name = name, xc_Args = args, xc_Env = None, xc_Stdin = None\<rparr>"

definition Cmd_Run :: "ExecSys \<Rightarrow> hist \<Rightarrow> Cmd \<Rightarrow> err + unit" where
  "Cmd_Run ex h c = map_sum id (\<lambda>_. ()) (ex_Run ex h c)"

definition Shell_RunOutput :: "ExecSys \<Rightarrow> hist \<Rightarrow> string \<Rightarrow> string list \<Rightarrow> err + string" where
  "Shell_RunOutput ex h name args = map_sum id TrimSpace (ex_Run ex h (exec_Command name args))"

definition Shell_RunWithStdin :: "ExecSys \<Rightarrow> hist \<Rightarrow> string \<Rightarrow> string \<Rightarrow> string list \<Rightarrow> err + unit" where
  "Shell_RunWithStdin ex h stdin name args = Cmd_Run ex h (exec_Command name args\<lparr>xc_Stdin := Some stdin\<rparr>)"

definition Shell_RunShell :: "ExecSys \<Rightarrow> hist \<Rightarrow> string \<Rightarrow> err + unit" where
  "Shell_RunShell ex h command =
     map_sum (Wrap (''failed to run '' @ command)) id (Cmd_Run ex h (exec_Command ''sh'' [''-c'', command]))"

definition Shell_RunWithEnv :: "ExecSys \<Rightarrow> hist \<Rightarrow> string list \<Rightarrow> string \<Rightarrow> string list \<Rightarrow> err + unit" where
  "Shell_RunWithEnv ex h vars name args =
     Cmd_Run ex h (exec_Command name args\<lparr>xc_Env := Some (ex_Environ ex h @ vars)\<rparr>)"

definition ShellRunner :: "ExecSys \<Rightarrow> CommandRunner" where
  "ShellRunner ex =
     \<lparr>cr_Run = (\<lambda>h name args. Cmd_Run ex h (exec_Command name args)), cr_RunOutput = Shell_RunOutput ex,
      cr_RunWithStdin = Shell_RunWithStdin ex, cr_RunShell = Shell_RunShell ex,
      cr_RunWithEnv = Shell_RunWithEnv ex\<rparr>"

text \<open>\<open>internal/command\<close>: a list of shell commands, and the password of the one user.\<close>

fun ExecuteCommand :: "ExecSys \<Rightarrow> string list \<Rightarrow> unit go" where
  "ExecuteCommand ex [] = ok ()"
| "ExecuteCommand ex (cmd # commands) =
     check (''failed to run '' @ cmd)
       (perform (CRunShell cmd) (\<lambda>h. Cmd_Run ex h (exec_Command ''sh'' [''-c'', cmd])))
       (\<lambda>_. ExecuteCommand ex commands)"

definition command_SetPassword :: "(hist \<Rightarrow> string \<Rightarrow> err + string) \<Rightarrow> FileSystem \<Rightarrow> string \<Rightarrow> unit go" where
  "command_SetPassword hasher fs password =
     (if password = [] then ok () else SetPassword hasher fs ''rancher'' password)"

text \<open>\<open>shadow.HashPassword\<close>; the hasher of the crypt library, its making and its digest are parameters.\<close>

definition HashPassword :: "(err + 'h) \<Rightarrow> ('h \<Rightarrow> string \<Rightarrow> err + 'd) \<Rightarrow> ('d \<Rightarrow> string) \<Rightarrow> string \<Rightarrow> err + string" where
  "HashPassword newHasher hash encode plaintext =
     (case newHasher of
        Inl e \<Rightarrow> Inl (Wrap ''creating SHA-512 crypt hasher'' e)
      | Inr h \<Rightarrow>
          (case hash h plaintext of
             Inl e \<Rightarrow> Inl (Wrap ''generating SHA-512 crypt hash'' e)
           | Inr digest \<Rightarrow> Inr (encode digest)))"

text \<open>\<open>util.DecompressGzip\<close>: reading the header, then the content; the error of closing is only logged.\<close>

definition DecompressGzip :: "(string \<Rightarrow> err + 'r) \<Rightarrow> ('r \<Rightarrow> err + string) \<Rightarrow> string \<Rightarrow> err + string" where
  "DecompressGzip newReader readFrom content =
     (case newReader content of
        Inl e \<Rightarrow> Inl (Wrap ''unable to decode gzip'' e)
      | Inr gzr \<Rightarrow> map_sum (Wrap ''unable to read gzip'') id (readFrom gzr))"

subsection \<open>mount.go, hostname.go, clocksync.go, kernel.go\<close>

definition mount_Unmount :: "(hist \<Rightarrow> string \<Rightarrow> int \<Rightarrow> err + unit) \<Rightarrow> string \<Rightarrow> int \<Rightarrow> unit go" where
  "mount_Unmount umount target flags = perform (CUnmount target flags) (\<lambda>h. umount h target flags)"

definition LinuxMounter :: "MountSys \<Rightarrow> Mounter" where
  "LinuxMounter ms =
     \<lparr>mt_Mount = (\<lambda>h device target mType options. fst (mount_Mount ms device target mType options h)),
      mt_ForceMount = (\<lambda>h device target mType options. fst (mount_ForceMount ms device target mType options h)),
      mt_Mounted = (\<lambda>h target. fst (mount_Mounted ms target h))\<rparr>"

definition osimpl_SetHostname :: "(hist \<Rightarrow> string \<Rightarrow> err + unit) \<Rightarrow> hist \<Rightarrow> string \<Rightarrow> err + unit" where
  "osimpl_SetHostname sethostname h name = sethostname h name"

definition osimpl_LoadModule :: "(hist \<Rightarrow> string \<Rightarrow> string \<Rightarrow> err + unit) \<Rightarrow> hist \<Rightarrow> string \<Rightarrow> string \<Rightarrow> err + unit" where
  "osimpl_LoadModule load h name params = load h name params"

text \<open>\<open>RTCClockSyncer\<close>: the clock device is closed on every path once it is open.\<close>

record RtcSys =
  rt_Open :: "hist \<Rightarrow> err + unit"
  rt_Read :: "hist \<Rightarrow> err + int"
  rt_Close :: "hist \<Rightarrow> err + unit"
  rt_Settimeofday :: "hist \<Rightarrow> int \<Rightarrow> int \<Rightarrow> err + unit"

definition SyncRTC :: "RtcSys \<Rightarrow> unit go" where
  "SyncRTC rt =
     pass (perform (CSys ''OpenRTC'' [] []) (rt_Open rt)) (\<lambda>_.
     bnd (pass (perform (CSys ''ReadRTC'' [] []) (rt_Read rt)) (\<lambda>sec.
          perform (CSys ''settimeofday'' [] [nat sec, 0]) (\<lambda>h. rt_Settimeofday rt h sec 0))) (\<lambda>r.
     ignore (perform (CSys ''CloseRTC'' [] []) (rt_Close rt)) (ret r)))"

text \<open>\<open>unix.ByteSliceToString\<close> ends at the first zero byte of the fixed array.\<close>

definition ByteSliceToString :: "string \<Rightarrow> string" where
  "ByteSliceToString s = takeWhile (\<lambda>c. c \<noteq> CHR 0x00) s"

definition GetKernelVersion :: "(err + string) \<Rightarrow> err + string" where
  "GetKernelVersion uname = map_sum id ByteSliceToString uname"

subsection \<open>block.go: the type of a file system\<close>

text \<open>The library \<open>blkid\<close> reads the device: the parameter \<open>probePath\<close>. An error means that the type is not known.\<close>

definition osimpl_ProbeFS :: "(hist \<Rightarrow> string \<Rightarrow> err + string) \<Rightarrow> hist \<Rightarrow> string \<Rightarrow> string" where
  "osimpl_ProbeFS probePath h device = (case probePath h device of Inl _ \<Rightarrow> [] | Inr name \<Rightarrow> name)"

definition SysfsBlockProber :: "FileSystem \<Rightarrow> (hist \<Rightarrow> string \<Rightarrow> err + string) \<Rightarrow> BlockProber" where
  "SysfsBlockProber fs probePath =
     \<lparr>bp_FindByLabel = (\<lambda>h label. fst (osimpl_FindByLabel fs label h)),
      bp_ListDisks = (\<lambda>h. fst (osimpl_ListDisks fs h)), bp_ProbeFS = osimpl_ProbeFS probePath\<rparr>"

subsection \<open>cmdline.go\<close>

text \<open>\<open>CmdLine\<close> is the parsed command line of the library, with its text and its table; the methods of it that are used are the parameters of the parsers.\<close>

record CmdLine =
  cl_RawText :: string
  cl_AsMap :: "string \<rightharpoonup> string"

record Uroot =
  ur_NewCmdLine :: "hist \<Rightarrow> CmdLine"
  ur_Flag :: "CmdLine \<Rightarrow> string \<Rightarrow> string option"
  ur_ContainsFlag :: "CmdLine \<Rightarrow> string \<Rightarrow> bool"
  ur_Consoles :: "CmdLine \<Rightarrow> string list"

definition cmdline_New :: "Uroot \<Rightarrow> CmdlineParser" where
  "cmdline_New u =
     \<lparr>cp_Flag = (\<lambda>h name. ur_Flag u (ur_NewCmdLine u h) name),
      cp_Contains = (\<lambda>h name. ur_ContainsFlag u (ur_NewCmdLine u h) name),
      cp_Consoles = (\<lambda>h. ur_Consoles u (ur_NewCmdLine u h)), cp_Raw = (\<lambda>h. cl_RawText (ur_NewCmdLine u h))\<rparr>"

definition static_CmdLine :: "string \<Rightarrow> CmdLine" where
  "static_CmdLine raw = \<lparr>cl_RawText = raw, cl_AsMap = parseToMap raw\<rparr>"

definition NewFromString :: "Uroot \<Rightarrow> string \<Rightarrow> CmdlineParser" where
  "NewFromString u raw =
     \<lparr>cp_Flag = (\<lambda>_ name. ur_Flag u (static_CmdLine raw) name),
      cp_Contains = (\<lambda>_ name. ur_ContainsFlag u (static_CmdLine raw) name),
      cp_Consoles = (\<lambda>_. ur_Consoles u (static_CmdLine raw)), cp_Raw = (\<lambda>_. cl_RawText (static_CmdLine raw))\<rparr>"

subsection \<open>namespace.go: how a creator is shown\<close>

fun show_octal :: "nat \<Rightarrow> string" where
  "show_octal n = (if n < 8 then [digit_char n] else show_octal (n div 8) @ [digit_char (n mod 8)])"

declare show_octal.simps [simp del]

text \<open>\<open>%04o\<close>.\<close>

definition octal4 :: "nat \<Rightarrow> string" where
  "octal4 n = replicate (4 - length (show_octal n)) CHR ''0'' @ show_octal n"

definition Dir_String :: "string \<Rightarrow> nat \<Rightarrow> string" where
  "Dir_String name mode = ''dir{'' @ name @ '' '' @ octal4 mode @ ''}''"

definition Mount_String :: "MountSpec \<Rightarrow> string" where
  "Mount_String m = ''mount{'' @ mn_Source m @ '' on '' @ mn_Target m @ '' type '' @ mn_FSType m @ ''}''"

definition Dev_String :: "string \<Rightarrow> nat \<Rightarrow> nat \<Rightarrow> string" where
  "Dev_String name major minor = ''dev{'' @ name @ '' '' @ Itoa (int major) @ '':'' @ Itoa (int minor) @ ''}''"

definition Symlink_String :: "string \<Rightarrow> string \<Rightarrow> string" where
  "Symlink_String target newPath = ''symlink{'' @ newPath @ '' -> '' @ target @ ''}''"

definition Write_String :: "string \<Rightarrow> string" where
  "Write_String path = ''write{'' @ path @ ''}''"

fun Creator_String :: "Creator \<Rightarrow> string" where
  "Creator_String (NDir name mode) = Dir_String name mode"
| "Creator_String (NMount m) = Mount_String m"
| "Creator_String (NDev name mode major minor) = Dev_String name major minor"
| "Creator_String (NSymlink target newPath) = Symlink_String target newPath"
| "Creator_String (NWrite path content) = Write_String path"

subsection \<open>questions.go: text for the terminal\<close>

text \<open>The stream is standard output when that is a terminal. The operands are strings, which \<open>fmt.Print\<close> puts together as they are and
  \<open>fmt.Println\<close> with a space between them; formatting is the argument \<open>sprintf\<close>.\<close>

definition PrintToTerm :: "(hist \<Rightarrow> bool) \<Rightarrow> string list \<Rightarrow> unit io" where
  "PrintToTerm isTerminal texts =
     bnd (observe (CSys ''isatty'' [] []) isTerminal) (\<lambda>terminal.
     observe (CSys (if terminal then ''stdout'' else ''stderr'') [concat texts] []) (\<lambda>_. ()))"

definition PrintlnToTerm :: "(hist \<Rightarrow> bool) \<Rightarrow> string list \<Rightarrow> unit io" where
  "PrintlnToTerm isTerminal texts =
     bnd (observe (CSys ''isatty'' [] []) isTerminal) (\<lambda>terminal.
     observe (CSys (if terminal then ''stdout'' else ''stderr'') [Join '' '' texts @ [newline]] []) (\<lambda>_. ()))"

definition PrintfToTerm :: "(hist \<Rightarrow> bool) \<Rightarrow> (string \<Rightarrow> string list \<Rightarrow> string) \<Rightarrow> string \<Rightarrow> string list \<Rightarrow> unit io" where
  "PrintfToTerm isTerminal sprintf msg format =
     bnd (observe (CSys ''isatty'' [] []) isTerminal) (\<lambda>terminal.
     observe (CSys (if terminal then ''stdout'' else ''stderr'') [sprintf msg format] []) (\<lambda>_. ()))"

subsection \<open>Other platforms: unsupported.go\<close>

definition unsupported :: "string \<Rightarrow> err" where
  "unsupported operation = Msg (operation @ '' is only supported on linux'')"

definition other_Mounter :: Mounter where
  "other_Mounter =
     \<lparr>mt_Mount = (\<lambda>_ _ _ _ _. Inl (unsupported ''mount'')), mt_ForceMount = (\<lambda>_ _ _ _ _. Inl (unsupported ''force mount'')),
      mt_Mounted = (\<lambda>_ _. Inl (unsupported ''mounted''))\<rparr>"

definition other_Unmount :: "hist \<Rightarrow> string \<Rightarrow> int \<Rightarrow> err + unit" where
  "other_Unmount h target flags = Inl (unsupported ''unmount'')"

definition other_LoadedModules :: "hist \<Rightarrow> err + string list" where
  "other_LoadedModules h = Inl (unsupported ''loaded modules'')"

definition other_LoadModule :: "hist \<Rightarrow> string \<Rightarrow> string \<Rightarrow> err + unit" where
  "other_LoadModule h name params = Inl (unsupported ''load module'')"

definition other_SysctlSet :: "hist \<Rightarrow> string \<Rightarrow> string \<Rightarrow> err + unit" where
  "other_SysctlSet h key value = Inl (unsupported ''set sysctl'')"

definition other_SetHostname :: "hist \<Rightarrow> string \<Rightarrow> err + unit" where
  "other_SetHostname h name = Inl (unsupported ''set hostname'')"

definition other_Detect :: "hist \<Rightarrow> err + string list" where
  "other_Detect h = Inr []"

subsection \<open>The adapters in place\<close>

text \<open>
  What the operating system and the libraries provide. \<open>NewDefaultApplier\<close> and the part of \<open>postChroot\<close> that makes the
  dependencies put the adapters over it.
\<close>

definition realProcessExecutor :: "(hist \<Rightarrow> string \<Rightarrow> string \<Rightarrow> err + unit) \<Rightarrow>
    (hist \<Rightarrow> string \<Rightarrow> string list \<Rightarrow> string list \<Rightarrow> err + unit) \<Rightarrow> ProcessExecutor" where
  "realProcessExecutor pivotRoot exec = \<lparr>pe_PivotRoot = pivotRoot, pe_Exec = exec\<rparr>"

record Os =
  os_Pkg :: OsPkg
  os_Exec :: ExecSys
  os_Mount :: MountSys
  os_Fd :: FdSys
  os_Disk :: DiskSys
  os_PivotRoot :: "hist \<Rightarrow> string \<Rightarrow> string \<Rightarrow> err + unit"
  os_ExecProc :: "hist \<Rightarrow> string \<Rightarrow> string list \<Rightarrow> string list \<Rightarrow> err + unit"
  os_Uroot :: Uroot
  os_Modprobe :: "hist \<Rightarrow> string \<Rightarrow> string \<Rightarrow> err + unit"
  os_Sethostname :: "hist \<Rightarrow> string \<Rightarrow> err + unit"
  os_hasher :: "hist \<Rightarrow> string \<Rightarrow> err + string"
  os_Net :: Net
  os_gunzip :: "string \<Rightarrow> err + string"
  os_ProbePath :: "hist \<Rightarrow> string \<Rightarrow> err + string"
  os_Uname :: "err + string"
  os_Rc :: RcSys
  os_Libs :: ConfigLibs

definition os_FS :: "Os \<Rightarrow> FileSystem" where
  "os_FS os = OSFileSystem (os_Pkg os)"

text \<open>The version of the binary, unless the build sets another.\<close>

definition version_Version :: string where
  "version_Version = ''HEAD''"

definition NewDefaultApplier :: "Os \<Rightarrow> Applier" where
  "NewDefaultApplier os =
     \<lparr>ap_FS = os_FS os, ap_Cmd = ShellRunner (os_Exec os),
      ap_LoadedModules = (\<lambda>h. fst (osimpl_LoadedModules (os_FS os) h)), ap_LoadModule = osimpl_LoadModule (os_Modprobe os),
      ap_SysctlSet = (\<lambda>h key value. fst (SysctlApplier_Set (os_FS os) [] key value h)),
      ap_SetHostname = osimpl_SetHostname (os_Sethostname os), ap_hasher = os_hasher os, ap_Net = os_Net os, ap_OS = os_FS os,
      ap_gunzip = os_gunzip os, ap_modePrefix = [], ap_Version = version_Version\<rparr>"

definition default_ConfigCmd :: "Os \<Rightarrow> ConfigCmd \<Rightarrow> ConfigCmd" where
  "default_ConfigCmd os c = c\<lparr>cm_Libs := os_Libs os, cm_Applier := NewDefaultApplier os\<rparr>"

text \<open>\<open>virt.NewDMIDetector().Detect\<close>.\<close>

definition dmi_Detect :: "FileSystem \<Rightarrow> hist \<Rightarrow> err + string list" where
  "dmi_Detect fs h = fst (DMIDetector_Detect fs ''/sys/class/dmi/id/'' h)"

definition boot_Machine :: "Os \<Rightarrow> ConfigCmd \<Rightarrow> Machine \<Rightarrow> Machine" where
  "boot_Machine os c m =
     m\<lparr>m_FS := os_FS os, m_Cmd := ShellRunner (os_Exec os), m_Mounter := LinuxMounter (os_Mount os),
       m_BlockProber := SysfsBlockProber (os_FS os) (os_ProbePath os),
       m_LoopDetacher := \<lparr>ld_DetachPath = (\<lambda>h d. fst (osimpl_DetachPath (os_Fd os) d h))\<rparr>,
       m_PartitionGrower := \<lparr>pg_GrowPartition = (\<lambda>h d n. fst (disk_GrowPartition (os_Disk os) d n h))\<rparr>,
       m_Proc := realProcessExecutor (os_PivotRoot os) (os_ExecProc os),
       m_KernelVersion := GetKernelVersion (os_Uname os), m_RCRun := (\<lambda>h. fst (fst (rc_Run (os_Rc os) NewPool h))),
       m_RunInitrd := (\<lambda>h. fst (RunInitrd (default_ConfigCmd os c) h)),
       m_RunBoot := (\<lambda>h. fst (RunBoot (default_ConfigCmd os c) h)),
       m_Cmdline := cmdline_New (os_Uroot os), m_VirtDetect := dmi_Detect (os_FS os)\<rparr>"

subsection \<open>Environments\<close>

text \<open>What a process sees: its own environment or its parent's, and of several entries with one name the last.\<close>

definition child_env :: "ExecSys \<Rightarrow> hist \<Rightarrow> Cmd \<Rightarrow> string list" where
  "child_env ex h c = (case xc_Env c of None \<Rightarrow> ex_Environ ex h | Some vars \<Rightarrow> vars)"

fun seen_value :: "string list \<Rightarrow> string \<Rightarrow> string option" where
  "seen_value [] k = None"
| "seen_value (v # vs) k =
     (case seen_value vs k of
        Some x \<Rightarrow> Some x
      | None \<Rightarrow> if HasPrefix v (k @ ''='') then Some (drop (length k + 1) v) else None)"

lemma seen_value_append:
  "seen_value (us @ vs) k = (case seen_value vs k of None \<Rightarrow> seen_value us k | Some x \<Rightarrow> Some x)"
  by (induction us) (auto split: option.split)

lemma ExecuteCommand_shell: "ExecuteCommand ex cmds = foreach_go cmds (RunShell (ShellRunner ex))"
proof (induction cmds)
  case (Cons cmd cmds)
  have "check (''failed to run '' @ cmd) (perform (CRunShell cmd) (\<lambda>h. Cmd_Run ex h (exec_Command ''sh'' [''-c'', cmd]))) k h
      = pass (RunShell (ShellRunner ex) cmd) k h" for k :: "unit \<Rightarrow> unit go" and h
    by (cases "Cmd_Run ex h (exec_Command ''sh'' [''-c'', cmd])")
       (simp_all add: prod_eq_iff RunShell_def ShellRunner_def Shell_RunShell_def)
  then show ?case by (simp add: Cons fun_eq_iff)
qed simp

text \<open>The k3s script gets the settings of the configuration, whatever the environment of the program holds: started
  through the production runner, the process has the token and the server of the configuration in its environment when they are set,
  is told not to start the service when no restart is wanted and where the binary is when it is part of the image, and keeps the other variables of the program.\<close>

lemma k3s_script_environment:
  "\<exists>c. cr_RunWithEnv (ShellRunner ex) h (k3s_vars cfg k3sExists k3sLocalExists restart) name args = Cmd_Run ex h c
     \<and> xc_Name c = name \<and> xc_Args c = args
     \<and> (let k = cc_K3OS cfg; seen = seen_value (child_env ex h c); outer = seen_value (ex_Environ ex h) in
        seen ''K3S_TOKEN'' = (if k3_Token k = [] then outer ''K3S_TOKEN'' else Some (k3_Token k))
        \<and> seen ''K3S_URL'' = (if k3_ServerURL k = [] then outer ''K3S_URL'' else Some (k3_ServerURL k))
        \<and> seen ''INSTALL_K3S_SKIP_START'' = (if restart then outer ''INSTALL_K3S_SKIP_START'' else Some ''true'')
        \<and> seen ''INSTALL_K3S_BIN_DIR'' = (if k3sExists then Some ''/sbin'' else outer ''INSTALL_K3S_BIN_DIR'')
        \<and> seen ''PATH'' = outer ''PATH'')"
proof -
  let ?vars = "k3s_vars cfg k3sExists k3sLocalExists restart"
  let ?c = "exec_Command name args\<lparr>xc_Env := Some (ex_Environ ex h @ ?vars)\<rparr>"
  have seen: "seen_value (child_env ex h ?c) v = (case seen_value ?vars v of None \<Rightarrow> seen_value (ex_Environ ex h) v | Some x \<Rightarrow> Some x)" for v
    by (simp add: child_env_def seen_value_append)
  have token: "seen_value ?vars ''K3S_TOKEN'' = (if k3_Token (cc_K3OS cfg) = [] then None else Some (k3_Token (cc_K3OS cfg)))"
    and url: "seen_value ?vars ''K3S_URL'' = (if k3_ServerURL (cc_K3OS cfg) = [] then None else Some (k3_ServerURL (cc_K3OS cfg)))"
    and start: "seen_value ?vars ''INSTALL_K3S_SKIP_START'' = (if restart then None else Some ''true'')"
    and dir: "seen_value ?vars ''INSTALL_K3S_BIN_DIR'' = (if k3sExists then Some ''/sbin'' else None)"
    and path: "seen_value ?vars ''PATH'' = None"
    by (simp_all add: k3s_vars_def Let_def seen_value_append HasPrefix_def)
  have "cr_RunWithEnv (ShellRunner ex) h ?vars name args = Cmd_Run ex h ?c \<and> xc_Name ?c = name \<and> xc_Args ?c = args"
    by (simp add: ShellRunner_def Shell_RunWithEnv_def exec_Command_def)
  then show ?thesis
    unfolding Let_def by (intro exI [of _ ?c]) (simp add: seen token url start dir path)
qed

subsection \<open>Links of services\<close>

text \<open>The paths of the links that are made or tried, and actions that make the links of a list in its order up to the first that fails.\<close>

fun link_of :: "event \<Rightarrow> string list" where
  "link_of (CSymlink target newname, b) = [newname]"
| "link_of _ = []"

definition link_paths :: "hist \<Rightarrow> string list" where
  "link_paths tr = concat (map link_of tr)"

definition linking :: "string list \<Rightarrow> unit go \<Rightarrow> bool" where
  "linking ps m \<longleftrightarrow> (\<forall>h. prefix (link_paths (snd (m h))) ps \<and> (isl (fst (m h)) \<or> link_paths (snd (m h)) = ps))"

lemma link_paths_append [simp]: "link_paths (tr @ us) = link_paths tr @ link_paths us"
  by (simp add: link_paths_def)

lemma linking_pass:
  assumes "linking ps m" and "linking qs n"
  shows "linking (ps @ qs) (pass m (\<lambda>_. n))"
  unfolding linking_def
proof (intro allI)
  fix h
  have m: "prefix (link_paths (snd (m h))) ps \<and> (isl (fst (m h)) \<or> link_paths (snd (m h)) = ps)"
    using assms(1) unfolding linking_def by blast
  have n: "prefix (link_paths (snd (n h'))) qs \<and> (isl (fst (n h')) \<or> link_paths (snd (n h')) = qs)" for h'
    using assms(2) unfolding linking_def by blast
  show "prefix (link_paths (snd (pass m (\<lambda>_. n) h))) (ps @ qs)
      \<and> (isl (fst (pass m (\<lambda>_. n) h)) \<or> link_paths (snd (pass m (\<lambda>_. n) h)) = ps @ qs)"
    using m n by (cases "fst (m h)") (auto intro: prefix_prefix)
qed

lemma linking_foreach: "(\<And>x. linking (f x) (g x)) \<Longrightarrow> linking (concat (map f xs)) (foreach_go xs g)"
proof (induction xs)
  case Nil
  show ?case by (simp add: linking_def link_paths_def)
next
  case (Cons x xs)
  then show ?case by (simp add: linking_pass)
qed

lemma linking_service:
  "linking [''/etc/runlevels/'' @ level @ ''/'' @ svc] (link_service f level svc)"
  "linking [''/etc/runlevels/boot/'' @ svc] (link_vm_service f svc)"
  by (auto simp: linking_def link_paths_def link_service_def link_vm_service_def Symlink_def isl_def Let_def split: sum.split)

definition runlevel_links :: "string list" where
  "runlevel_links = concat (map (\<lambda>(level, services). map (\<lambda>svc. ''/etc/runlevels/'' @ level @ ''/'' @ svc) services) runlevels)"

definition guest_links :: "string list \<Rightarrow> string list" where
  "guest_links ts = concat (map (\<lambda>vt. map (\<lambda>svc. ''/etc/runlevels/boot/'' @ svc) (vm_services vt)) ts)"

lemma linking_runlevels:
  "linking runlevel_links (foreach_go runlevels (\<lambda>(level, services). foreach_go services (link_service f level)))"
proof -
  have "linking (map (\<lambda>svc. ''/etc/runlevels/'' @ level @ ''/'' @ svc) services) (foreach_go services (link_service f level))"
    for level services
    using linking_foreach [of "\<lambda>svc. [''/etc/runlevels/'' @ level @ ''/'' @ svc]" "link_service f level" services]
      linking_service(1) by (simp add: concat_map_singleton)
  then show ?thesis
    unfolding runlevel_links_def by (intro linking_foreach) (simp add: case_prod_beta)
qed

lemma linking_guests: "linking (guest_links ts) (foreach_go ts (\<lambda>vt. foreach_go (vm_services vt) (link_vm_service f)))"
proof -
  have "linking (map (\<lambda>svc. ''/etc/runlevels/boot/'' @ svc) services) (foreach_go services (link_vm_service f))" for services
    using linking_foreach [of "\<lambda>svc. [''/etc/runlevels/boot/'' @ svc]" "link_vm_service f" services]
      linking_service(2) by (simp add: concat_map_singleton)
  then show ?thesis
    unfolding guest_links_def by (intro linking_foreach)
qed

text \<open>The verdict of the detector is one name at most, so no service is in two lists.\<close>

lemma dmi_Detect_cases:
  "dmi_Detect fs h \<in> Inr ` {[], [''kvm''], [''hyperv''], [''vmware''], [''virtualbox'']}"
  using dmi_verdict_cases by (auto simp: dmi_Detect_def DMIDetector_Detect_def readDMIFile_def)

lemma links_distinct:
  "ts \<in> {[], [''kvm''], [''hyperv''], [''vmware''], [''virtualbox'']} \<Longrightarrow> distinct (runlevel_links @ guest_links ts)"
proof -
  have "distinct (runlevel_links @ guest_links [])" "distinct (runlevel_links @ guest_links [''kvm''])"
    "distinct (runlevel_links @ guest_links [''hyperv''])" "distinct (runlevel_links @ guest_links [''vmware''])"
    "distinct (runlevel_links @ guest_links [''virtualbox''])"
    by code_simp+
  then show "ts \<in> {[], [''kvm''], [''hyperv''], [''vmware''], [''virtualbox'']} \<Longrightarrow> distinct (runlevel_links @ guest_links ts)"
    by auto
qed

text \<open>C33: With the production detector of virtual machines, setting up the services never makes a link twice: whatever the
  firmware tables say and wherever the step fails, the links it tries are the beginning of one list without repetition,
  so a link is never refused because this step made it before.\<close>

theorem services_linked_once:
  "distinct (link_paths (snd (Fin_SetupServices (boot_finalizer (boot_Machine os c m) mode) h)))"
proof -
  let ?f = "boot_finalizer (boot_Machine os c m) mode"
  let ?levels = "foreach_go runlevels (\<lambda>(level, services). foreach_go services (link_service ?f level))"
  let ?guests = "\<lambda>ts. foreach_go ts (\<lambda>vt. foreach_go (vm_services vt) (link_vm_service ?f))"
  have detect: "fz_VirtDetector ?f = dmi_Detect (os_FS os)" by (simp add: boot_finalizer_def boot_Machine_def)
  obtain ts where ts: "dmi_Detect (os_FS os) (h @ snd (?levels h)) = Inr ts"
    and verdict: "ts \<in> {[], [''kvm''], [''hyperv''], [''vmware''], [''virtualbox'']}"
    using dmi_Detect_cases by blast
  have "prefix (link_paths (snd (Fin_SetupServices ?f h))) (runlevel_links @ guest_links ts)"
  proof (cases "fst (?levels h)")
    case (Inl e)
    then show ?thesis
      using linking_runlevels [of ?f, unfolded linking_def, rule_format, of h]
      unfolding Fin_SetupServices_def by (simp add: prefix_prefix)
  next
    case (Inr u)
    then have "snd (Fin_SetupServices ?f h) = snd (?levels h) @ (CVirtDetect, True) # snd (?guests ts (h @ snd (?levels h) @ [(CVirtDetect, True)]))"
      unfolding Fin_SetupServices_def by (simp add: detect ts)
    moreover have "link_paths (snd (?levels h)) = runlevel_links"
      using linking_runlevels [of ?f, unfolded linking_def, rule_format, of h] Inr by simp
    ultimately show ?thesis
      using linking_guests [of ts ?f] unfolding linking_def by (simp add: link_paths_def)
  qed
  with links_distinct [OF verdict] show ?thesis
    unfolding prefix_def by (metis distinct_append)
qed

end
