(* ===== verification/Transferroot.thy ===== *)
theory Transferroot
  imports Go_Fixtures "HOL-Library.Word"
begin

unbundle bit_operations_syntax

section \<open>Moving the root file system: internal/transferroot\<close>

text \<open>
  When the root is a ram file system, \<open>Relocate\<close> copies it to a new tmpfs, file by file and removing each file
  behind it, and executes the binary again there. \<open>filepath.Walk\<close> is modelled over the answers of \<open>lstat\<close> and
  of directory reads; its fuel bounds the depth of the tree, and every theorem holds for any fuel. A file mode
  is the 32-bit word of \<open>os.FileMode\<close>. Copying the contents of one open file to another is one call.
\<close>

subsection \<open>File modes\<close>

definition ModeDir :: "32 word" where "ModeDir = push_bit 31 1"
definition ModeSymlink :: "32 word" where "ModeSymlink = push_bit 27 1"
definition ModeDevice :: "32 word" where "ModeDevice = push_bit 26 1"
definition ModeNamedPipe :: "32 word" where "ModeNamedPipe = push_bit 25 1"
definition ModeSocket :: "32 word" where "ModeSocket = push_bit 24 1"
definition ModeCharDevice :: "32 word" where "ModeCharDevice = push_bit 21 1"
definition ModeIrregular :: "32 word" where "ModeIrregular = push_bit 19 1"

definition ModeType :: "32 word" where
  "ModeType = ModeDir OR ModeSymlink OR ModeNamedPipe OR ModeSocket OR ModeDevice OR ModeCharDevice OR ModeIrregular"

definition IsDir :: "32 word \<Rightarrow> bool" where
  "IsDir m \<longleftrightarrow> m AND ModeDir \<noteq> 0"

definition IsRegular :: "32 word \<Rightarrow> bool" where
  "IsRegular m \<longleftrightarrow> m AND ModeType = 0"

record TFileInfo =
  ti_Mode :: "32 word"
  ti_Dev :: nat
  ti_Rdev :: nat
  ti_Uid :: nat
  ti_Gid :: nat
  ti_Atim :: nat
  ti_Mtim :: nat

subsection \<open>The operating system, and filepath.Walk\<close>

record TRSys =
  ts_Lstat :: "hist \<Rightarrow> string \<Rightarrow> err + TFileInfo"
  ts_Stat :: "hist \<Rightarrow> string \<Rightarrow> err + TFileInfo"
  ts_ReadDirNames :: "hist \<Rightarrow> string \<Rightarrow> err + string list"
  ts_Readlink :: "hist \<Rightarrow> string \<Rightarrow> err + string"
  ts_Sys :: "hist \<Rightarrow> string \<Rightarrow> string list \<Rightarrow> nat list \<Rightarrow> err + unit"
  ts_FS :: FileSystem
  ts_Getenv :: "hist \<Rightarrow> string \<Rightarrow> string"
  ts_Environ :: "hist \<Rightarrow> string list"
  ts_StatfsType :: "hist \<Rightarrow> err + int"
  ts_Exec :: "hist \<Rightarrow> string \<Rightarrow> string list \<Rightarrow> string list \<Rightarrow> err + unit"

definition tsys :: "TRSys \<Rightarrow> string \<Rightarrow> string list \<Rightarrow> nat list \<Rightarrow> unit go" where
  "tsys ts name strs nums = perform (CSys name strs nums) (\<lambda>h. ts_Sys ts h name strs nums)"

definition SkipDir :: err where
  "SkipDir = Msg ''skip this directory''"

text \<open>
  A callback gets the path and the file information, or the error that \<open>lstat\<close> or the directory read had.
\<close>

type_synonym walkfn = "string \<Rightarrow> err + TFileInfo \<Rightarrow> unit go"

definition lstat :: "TRSys \<Rightarrow> string \<Rightarrow> TFileInfo go" where
  "lstat ts p = perform (CLstat p) (\<lambda>h. ts_Lstat ts h p)"

fun walk_entries :: "(string \<Rightarrow> TFileInfo \<Rightarrow> unit go) \<Rightarrow> TRSys \<Rightarrow> walkfn \<Rightarrow> string \<Rightarrow> string list \<Rightarrow> unit go" where
  "walk_entries walk ts f path [] = ok ()"
| "walk_entries walk ts f path (name # names) =
     (let filename = PathJoin [path, name] in
      bnd (lstat ts filename) (\<lambda>l. case l of
        Inl e \<Rightarrow>
          bnd (f filename (Inl e)) (\<lambda>r.
          if isl r \<and> r \<noteq> Inl SkipDir then ret r else walk_entries walk ts f path names)
      | Inr info \<Rightarrow>
          bnd (walk filename info) (\<lambda>r.
          if isl r \<and> (\<not> IsDir (ti_Mode info) \<or> r \<noteq> Inl SkipDir) then ret r
          else walk_entries walk ts f path names)))"

fun walk :: "nat \<Rightarrow> TRSys \<Rightarrow> walkfn \<Rightarrow> string \<Rightarrow> TFileInfo \<Rightarrow> unit go" where
  "walk 0 ts f path info = fail Diverges"
| "walk (Suc fuel) ts f path info =
     (if \<not> IsDir (ti_Mode info) then f path (Inr info)
      else
        bnd (perform (CReadDir path) (\<lambda>h. ts_ReadDirNames ts h path)) (\<lambda>names. case names of
          Inl e \<Rightarrow> f path (Inl e)
        | Inr names \<Rightarrow>
            pass (f path (Inr info)) (\<lambda>_. walk_entries (walk fuel ts f) ts f path names)))"

definition Walk :: "nat \<Rightarrow> TRSys \<Rightarrow> string \<Rightarrow> walkfn \<Rightarrow> unit go" where
  "Walk fuel ts root f =
     bnd (lstat ts root) (\<lambda>l.
     bnd (case l of Inl e \<Rightarrow> f root (Inl e) | Inr info \<Rightarrow> walk fuel ts f root info) (\<lambda>r.
     if r = Inl SkipDir then ok () else ret r))"

subsection \<open>transferroot.go\<close>

definition copyMetadata :: "TRSys \<Rightarrow> TFileInfo \<Rightarrow> string \<Rightarrow> unit go" where
  "copyMetadata ts info path =
     pass (tsys ts ''lchown'' [path] [ti_Uid info, ti_Gid info]) (\<lambda>_.
     pass (tsys ts ''utimensat'' [path] [ti_Atim info, ti_Mtim info]) (\<lambda>_.
     if ti_Mode info AND ModeSymlink = 0 then Chmod (ts_FS ts) path (unat (ti_Mode info)) else ok ()))"

text \<open>Lines 67 to 96.\<close>

definition copy_dir :: "TRSys \<Rightarrow> nat \<Rightarrow> string \<Rightarrow> walkfn" where
  "copy_dir ts rootDev newRoot path r =
     (case r of
        Inl e \<Rightarrow> fail e
      | Inr info \<Rightarrow>
          if \<not> IsDir (ti_Mode info) then ok ()
          else
            let dest = PathJoin [newRoot, path] in
            pass (if path = ''/'' then Chmod (ts_FS ts) newRoot (unat (ti_Mode info))
                  else tsys ts ''mkdir'' [dest] [unat (ti_Mode info)]) (\<lambda>_.
            pass (copyMetadata ts info dest) (\<lambda>_.
            if rootDev \<noteq> ti_Dev info then fail SkipDir else ok ())))"

text \<open>Lines 118 to 138: a regular file; it is removed when its contents are copied and both files closed.\<close>

definition move_regular :: "TRSys \<Rightarrow> TFileInfo \<Rightarrow> string \<Rightarrow> string \<Rightarrow> unit go" where
  "move_regular ts info path dest =
     pass (tsys ts ''openfile'' [dest] [unat (ti_Mode info)]) (\<lambda>_.
     pass (tsys ts ''open'' [path] []) (\<lambda>_.
     pass (tsys ts ''copybuffer'' [path, dest] []) (\<lambda>_.
     pass (tsys ts ''close'' [path] []) (\<lambda>_.
     pass (tsys ts ''close'' [dest] []) (\<lambda>_.
     ignore (Remove (ts_FS ts) path) (ok ()))))))"

text \<open>Lines 103 to 166.\<close>

definition move_file :: "TRSys \<Rightarrow> nat \<Rightarrow> string \<Rightarrow> walkfn" where
  "move_file ts rootDev newRoot path r =
     (case r of
        Inl e \<Rightarrow> fail e
      | Inr info \<Rightarrow>
          let m = ti_Mode info; dest = PathJoin [newRoot, path] in
          if rootDev \<noteq> ti_Dev info \<and> IsDir m then fail SkipDir
          else if IsDir m then ok ()
          else
            pass (if IsRegular m then move_regular ts info path dest
                  else if m AND ModeSymlink = ModeSymlink then
                    pass (perform (CReadlink path) (\<lambda>h. ts_Readlink ts h path)) (\<lambda>link.
                    tsys ts ''symlink'' [link, dest] [])
                  else if m AND ModeDevice = ModeDevice then tsys ts ''mknod'' [dest] [unat m, ti_Rdev info]
                  else if m AND ModeNamedPipe = ModeNamedPipe then tsys ts ''mkfifo'' [dest] [unat m]
                  else if m AND ModeSocket = ModeSocket then fail (Msg ''unsupported socket on rootfs'')
                  else fail (Msg ''unknown file type'')) (\<lambda>_.
            copyMetadata ts info dest))"

text \<open>Lines 175 to 198.\<close>

definition delete_rest :: "TRSys \<Rightarrow> nat \<Rightarrow> walkfn" where
  "delete_rest ts rootDev path r =
     (case r of
        Inl e \<Rightarrow> fail e
      | Inr info \<Rightarrow>
          if path = ''/'' then ok ()
          else if IsDir (ti_Mode info) then
            if rootDev \<noteq> ti_Dev info then fail SkipDir
            else ignore (RemoveAll (ts_FS ts) path) (fail SkipDir)
          else ignore (Remove (ts_FS ts) path) (ok ()))"

definition copyFS :: "nat \<Rightarrow> TRSys \<Rightarrow> string \<Rightarrow> unit go" where
  "copyFS fuel ts newRoot =
     pass (perform (CStat ''/'') (\<lambda>h. ts_Stat ts h ''/'')) (\<lambda>info.
     let rootDev = ti_Dev info in
     pass (tsys ts ''mount'' [''rootfs'', newRoot, ''tmpfs''] []) (\<lambda>_.
     pass (Walk fuel ts ''/'' (copy_dir ts rootDev newRoot)) (\<lambda>_.
     pass (Walk fuel ts ''/'' (move_file ts rootDev newRoot)) (\<lambda>_.
     pass (tsys ts ''chdir'' [newRoot] []) (\<lambda>_.
     pass (Walk fuel ts ''/'' (delete_rest ts rootDev)) (\<lambda>_.
     pass (tsys ts ''mount-move'' [''.'', ''/''] []) (\<lambda>_.
     pass (tsys ts ''chroot'' [''.''] []) (\<lambda>_.
     tsys ts ''chdir'' [''/''] []))))))))"

definition relocated :: string where "relocated = ''K3OS_RELOCATED''"
definition nextInit :: string where "nextInit = ''/init''"
definition ramfsMagic :: int where "ramfsMagic = -2054924042"
definition tmpfsMagic :: int where "tmpfsMagic = 0x01021994"

text \<open>\<open>Inr True\<close>: the process was replaced; \<open>Inr False\<close>: Relocate returned; \<open>Inl\<close>: the process exited with an error.\<close>

definition Relocate :: "nat \<Rightarrow> TRSys \<Rightarrow> bool go" where
  "Relocate fuel ts =
     bnd (observe (CGetenv relocated) (\<lambda>h. ts_Getenv ts h relocated)) (\<lambda>v.
     if v = ''true'' then ignore (observe (CSys ''unsetenv'' [relocated] []) (\<lambda>_. ())) (ok False)
     else
       pass (perform (CStatfs ''.'') (ts_StatfsType ts)) (\<lambda>ty.
       if ty = ramfsMagic \<or> ty = tmpfsMagic then
         pass (MkdirAll (ts_FS ts) ''/mnt'' mode_755) (\<lambda>_.
         pass (copyFS fuel ts ''/mnt'') (\<lambda>_.
         bnd (observe CEnviron (ts_Environ ts)) (\<lambda>vars.
         let vars' = vars @ [relocated @ ''=true''] in
         pass (perform (CExec nextInit [nextInit] vars') (\<lambda>h. ts_Exec ts h nextInit [nextInit] vars')) (\<lambda>_.
         ok True))))
       else ok False))"

subsection \<open>No file is lost\<close>

text \<open>\<open>guards P Q m\<close>: in every run of \<open>m\<close> an event with \<open>P\<close> comes after one with \<open>Q\<close>.\<close>

definition guards :: "(event \<Rightarrow> bool) \<Rightarrow> (event \<Rightarrow> bool) \<Rightarrow> 'a io \<Rightarrow> bool" where
  "guards P Q m \<longleftrightarrow> (\<forall>h. guarded P Q (snd (m h)))"

lemma guards_none: "emits (\<lambda>ev. \<not> P ev) m \<Longrightarrow> guards P Q m"
  by (simp add: guards_def emits_def guarded_none)

lemma guards_perform: "(\<And>b. \<not> P (c, b)) \<Longrightarrow> guards P Q (perform c a)"
  by (simp add: guards_def)

lemma guards_ret: "guards P Q (ret x)"
  by (simp add: guards_def)

lemma guards_bnd: "guards P Q m \<Longrightarrow> (\<And>x. guards P Q (k x)) \<Longrightarrow> guards P Q (bnd m k)"
  by (simp add: guards_def)

lemma guards_pass: "guards P Q m \<Longrightarrow> (\<And>x. guards P Q (k x)) \<Longrightarrow> guards P Q (pass m k)"
  by (simp add: guards_def split: sum.split)

lemma guards_ignore: "guards P Q m \<Longrightarrow> guards P Q k \<Longrightarrow> guards P Q (ignore m k)"
  by (simp add: guards_def)

lemma guards_if: "guards P Q m \<Longrightarrow> guards P Q n \<Longrightarrow> guards P Q (if b then m else n)"
  by simp

lemma guards_sum: "(\<And>e. guards P Q (f e)) \<Longrightarrow> (\<And>v. guards P Q (g v)) \<Longrightarrow> guards P Q (case x of Inl e \<Rightarrow> f e | Inr v \<Rightarrow> g v)"
  by (simp split: sum.split)

lemma guards_after:
  assumes "\<And>b. \<not> P (c, b)" and "Q (c, True)"
  shows "guards P Q (pass (perform c a) k)"
  using assms by (simp add: guards_def split: sum.split)

lemmas guards_rules = guards_ret guards_bnd guards_pass guards_ignore guards_if guards_sum guards_perform

lemma guards_Walk:
  assumes f: "\<And>p r. guards P Q (f p r)" and P: "\<And>p b. \<not> P (CLstat p, b)" "\<And>p b. \<not> P (CReadDir p, b)"
  shows "guards P Q (Walk fuel ts root f)"
proof -
  have entries: "guards P Q (walk_entries w ts f path names)" if "\<And>p i. guards P Q (w p i)" for w path names
  proof (induction names)
    case Nil
    show ?case unfolding walk_entries.simps by (rule guards_ret)
  next
    case (Cons n ns)
    then show ?case
      unfolding walk_entries.simps Let_def lstat_def using that P f by (intro guards_rules) auto
  qed
  have walk: "guards P Q (walk fuel ts f path info)" for path info
  proof (induction fuel arbitrary: path info)
    case 0
    show ?case unfolding walk.simps by (rule guards_ret)
  next
    case (Suc n)
    then show ?case
      unfolding walk.simps using P f by (intro guards_rules entries) auto
  qed
  show ?thesis
    unfolding Walk_def lstat_def using P f walk by (intro guards_rules) auto
qed

text \<open>The two ways a file can go: after its contents were copied, or after the root was changed to the copy.\<close>

definition saved :: "string \<Rightarrow> string \<Rightarrow> event \<Rightarrow> bool" where
  "saved newRoot p ev \<longleftrightarrow> ev = (CSys ''copybuffer'' [p, PathJoin [newRoot, p]] [], True) \<or> ev = (CSys ''chdir'' [newRoot] [], True)"

lemma copyMetadata_keeps: "guards (\<lambda>ev. fst ev = CRemove p) Q (copyMetadata ts info path)"
  unfolding copyMetadata_def tsys_def Chmod_def by (intro guards_rules) auto

lemma copy_dir_keeps: "guards (\<lambda>ev. fst ev = CRemove p) Q (copy_dir ts dev newRoot path r)"
  unfolding copy_dir_def Let_def tsys_def Chmod_def by (intro guards_rules copyMetadata_keeps) auto

lemma move_regular_keeps:
  "guards (\<lambda>ev. fst ev = CRemove p) (saved newRoot p) (move_regular ts info path (PathJoin [newRoot, path]))"
proof (cases "path = p")
  case True
  have copied: "guards (\<lambda>ev. fst ev = CRemove p) (saved newRoot p)
      (pass (tsys ts ''copybuffer'' [p, PathJoin [newRoot, p]] []) k)" for k :: "unit \<Rightarrow> unit go"
    unfolding tsys_def by (rule guards_after) (simp_all add: saved_def)
  have other: "guards (\<lambda>ev. fst ev = CRemove p) (saved newRoot p) (tsys ts name strs nums)" for name strs nums
    unfolding tsys_def by (rule guards_perform) simp
  show ?thesis
    unfolding move_regular_def True by (intro copied guards_pass other)
next
  case False
  then show ?thesis
    unfolding move_regular_def tsys_def Remove_def by (intro guards_rules) auto
qed

lemma move_file_keeps: "guards (\<lambda>ev. fst ev = CRemove p) (saved newRoot p) (move_file ts dev newRoot path r)"
  unfolding move_file_def Let_def tsys_def
  by (intro guards_rules move_regular_keeps copyMetadata_keeps) auto

lemma copyFS_keeps: "guards (\<lambda>ev. fst ev = CRemove p) (saved newRoot p) (copyFS fuel ts newRoot)"
proof -
  have switched: "guards (\<lambda>ev. fst ev = CRemove p) (saved newRoot p) (pass (tsys ts ''chdir'' [newRoot] []) k)"
    for k :: "unit \<Rightarrow> unit go"
    unfolding tsys_def by (rule guards_after) (simp_all add: saved_def)
  have other: "guards (\<lambda>ev. fst ev = CRemove p) (saved newRoot p) (tsys ts name strs nums)" for name strs nums
    unfolding tsys_def by (rule guards_perform) simp
  show ?thesis
    unfolding copyFS_def Let_def
    by (intro switched guards_pass guards_perform guards_Walk copy_dir_keeps move_file_keeps other) simp_all
qed

text \<open>Whole directories go, and the new binary starts, only after the change to the copied root.\<close>

definition wipes_tree :: "event \<Rightarrow> bool" where
  "wipes_tree ev \<longleftrightarrow> (\<exists>q. fst ev = CRemoveAll q)"

lemma copyFS_wipes: "guards wipes_tree (\<lambda>ev. ev = (CSys ''chdir'' [newRoot] [], True)) (copyFS fuel ts newRoot)"
proof -
  let ?Q = "\<lambda>ev. ev = (CSys ''chdir'' [newRoot] [], True)"
  have switched: "guards wipes_tree ?Q (pass (tsys ts ''chdir'' [newRoot] []) k)" for k :: "unit \<Rightarrow> unit go"
    unfolding tsys_def by (rule guards_after) (simp_all add: wipes_tree_def)
  have other: "guards wipes_tree ?Q (tsys ts name strs nums)" for name strs nums
    unfolding tsys_def by (rule guards_perform) (simp add: wipes_tree_def)
  have meta: "guards wipes_tree ?Q (copyMetadata ts info path)" for info path
    unfolding copyMetadata_def Chmod_def by (intro guards_rules other) (simp_all add: wipes_tree_def)
  have "guards wipes_tree ?Q (copy_dir ts dev newRoot path r)" for dev path r
    unfolding copy_dir_def Let_def Chmod_def by (intro guards_rules other meta) (simp_all add: wipes_tree_def)
  moreover have "guards wipes_tree ?Q (move_file ts dev newRoot path r)" for dev path r
    unfolding move_file_def move_regular_def Let_def Remove_def
    by (intro guards_rules other meta) (simp_all add: wipes_tree_def)
  ultimately show ?thesis
    unfolding copyFS_def Let_def
    by (intro switched guards_pass guards_perform guards_Walk other) (simp_all add: wipes_tree_def)
qed

lemma guards_observe: "\<not> P (c, True) \<Longrightarrow> guards P Q (observe c a)"
  by (simp add: guards_def)

lemma Relocate_guards:
  assumes "guards P Q (copyFS fuel ts ''/mnt'')"
    and P: "\<And>c b. c \<in> {CGetenv relocated, CSys ''unsetenv'' [relocated] [], CStatfs ''.'', CMkdirAll ''/mnt'' mode_755, CEnviron} \<Longrightarrow> \<not> P (c, b)"
    and "\<And>vars b. \<not> P (CExec nextInit [nextInit] vars, b)"
  shows "guards P Q (Relocate fuel ts)"
  unfolding Relocate_def Let_def MkdirAll_def
  by (intro guards_rules guards_observe assms P) simp_all

text \<open>\<open>performs Q m\<close>: a run of \<open>m\<close> that succeeds has an event with \<open>Q\<close>.\<close>

definition performs :: "(event \<Rightarrow> bool) \<Rightarrow> 'a go \<Rightarrow> bool" where
  "performs Q m \<longleftrightarrow> (\<forall>h v. fst (m h) = Inr v \<longrightarrow> list_ex Q (snd (m h)))"

lemma performs_pass_left: "performs Q m \<Longrightarrow> performs Q (pass m k)"
  by (auto simp: performs_def split: sum.splits)

lemma performs_pass_right: "(\<And>x. performs Q (k x)) \<Longrightarrow> performs Q (pass m k)"
  by (auto simp: performs_def split: sum.splits)

definition moved_root :: "event \<Rightarrow> bool" where
  "moved_root ev \<longleftrightarrow> ev = (CSys ''mount-move'' [''.'', ''/''] [], True)"

lemma copyFS_moved: "performs moved_root (copyFS fuel ts newRoot)"
proof -
  have "performs moved_root (tsys ts ''mount-move'' [''.'', ''/''] [])"
    by (auto simp: performs_def tsys_def moved_root_def)
  then show ?thesis
    unfolding copyFS_def Let_def
    by (rule performs_pass_right [OF performs_pass_right [OF performs_pass_right [OF performs_pass_right
          [OF performs_pass_right [OF performs_pass_right [OF performs_pass_left]]]]]])
qed

definition starts :: "event \<Rightarrow> bool" where
  "starts ev \<longleftrightarrow> (\<exists>p args vars. fst ev = CExec p args vars)"

text \<open>The kinds of call that copying the root makes, and the names of its system calls.\<close>

definition copy_call :: "call \<Rightarrow> bool" where
  "copy_call c \<longleftrightarrow> (\<exists>p q n ss ns. c \<in> {CStat p, CLstat p, CReadDir p, CReadlink p, CChmod p n, CRemove p, CRemoveAll p}
     \<or> c = CSys q ss ns \<and> q \<noteq> ''pivot_root'')"

lemma copyFS_calls:
  assumes "\<And>c b. copy_call c \<Longrightarrow> \<not> P (c, b)"
  shows "guards P Q (copyFS fuel ts newRoot)"
proof -
  have other: "guards P Q (tsys ts name strs nums)" if "name \<noteq> ''pivot_root''" for name strs nums
    unfolding tsys_def using that by (intro guards_perform assms) (simp add: copy_call_def)
  have meta: "guards P Q (copyMetadata ts info path)" for info path
    unfolding copyMetadata_def Chmod_def by (intro guards_rules other assms) (simp_all add: copy_call_def)
  have "guards P Q (copy_dir ts dev newRoot path r)" "guards P Q (move_file ts dev newRoot path r)"
      "guards P Q (delete_rest ts dev path r)" for dev path r
    unfolding copy_dir_def move_file_def move_regular_def delete_rest_def Let_def Chmod_def Remove_def RemoveAll_def
    by (intro guards_rules other meta assms; simp add: copy_call_def)+
  then show ?thesis
    unfolding copyFS_def Let_def
    by (intro guards_rules guards_Walk other assms) (simp_all add: copy_call_def)
qed

lemma copyFS_no_start: "guards starts Q (copyFS fuel ts newRoot)"
  by (rule copyFS_calls) (auto simp: starts_def copy_call_def)

lemma Relocate_starts: "guards starts moved_root (Relocate fuel ts)"
proof -
  have exec: "guards starts moved_root (pass (copyFS fuel ts ''/mnt'') k)" for k :: "unit \<Rightarrow> bool go"
    using copyFS_moved [of fuel ts "''/mnt''"] copyFS_no_start [of moved_root fuel ts "''/mnt''"]
    by (auto simp: guards_def performs_def split: sum.split)
  show ?thesis
    unfolding Relocate_def Let_def MkdirAll_def
    by (intro exec guards_rules guards_observe) (simp_all add: starts_def)
qed


subsection \<open>Relocating once\<close>

text \<open>\<open>os.Getenv\<close> of the new process: the first entry with the key.\<close>

fun env_value :: "string list \<Rightarrow> string \<Rightarrow> string" where
  "env_value [] key = []"
| "env_value (kv # kvs) key = (if HasPrefix kv (key @ ''='') then drop (length key + 1) kv else env_value kvs key)"

lemma env_value_append:
  "list_all (\<lambda>kv. \<not> HasPrefix kv (key @ ''='')) kvs \<Longrightarrow> env_value (kvs @ ws) key = env_value ws key"
  by (induction kvs) auto

text \<open>The environment that reaches the new process.\<close>

definition bad_start :: "TRSys \<Rightarrow> event \<Rightarrow> bool" where
  "bad_start ts ev \<longleftrightarrow> (\<exists>q args vars. fst ev = CExec q args vars \<and>
     \<not> (q = nextInit \<and> (\<exists>h. vars = ts_Environ ts h @ [relocated @ ''=true''])))"

lemma guarded_False: "guarded P (\<lambda>_. False) tr \<longleftrightarrow> list_all (\<lambda>ev. \<not> P ev) tr"
  by (induction tr) auto

lemma guards_observed:
  "\<not> P (c, True) \<Longrightarrow> (\<And>h. guards P Q (k (a h))) \<Longrightarrow> guards P Q (bnd (observe c a) k)"
  by (simp add: guards_def)

lemma Relocate_env: "guards (bad_start ts) (\<lambda>_. False) (Relocate fuel ts)"
proof -
  have copy: "guards (bad_start ts) (\<lambda>_. False) (copyFS fuel ts ''/mnt'')"
    using copyFS_no_start [of "\<lambda>_. False" fuel ts "''/mnt''"]
    by (auto simp: guards_def guarded_False list_all_iff bad_start_def starts_def)
  show ?thesis
    unfolding Relocate_def Let_def MkdirAll_def
    by (intro guards_observed copy guards_rules guards_observe) (auto simp: bad_start_def)
qed

text \<open>The root is relocated once. The process that Relocate starts is /init with an environment in which the
  next call of Relocate only clears the marker and returns, provided the environment did not set the marker
  before: the first entry of an environment counts.\<close>

theorem Relocate_once:
  assumes "(CExec q args vars, b) \<in> set (snd (Relocate fuel ts h))"
    and "\<forall>h. list_all (\<lambda>kv. \<not> HasPrefix kv (relocated @ ''='')) (ts_Environ ts h)"
    and "ts_Getenv ts' = (\<lambda>_. env_value vars)"
  shows "q = nextInit \<and> Relocate fuel' ts' h' =
     (Inr False, [(CGetenv relocated, True), (CSys ''unsetenv'' [relocated] [], True)])"
proof -
  have "\<not> bad_start ts (CExec q args vars, b)"
    using Relocate_env [of ts fuel] assms(1) by (auto simp: guards_def guarded_False list_all_iff)
  then obtain h1 where "q = nextInit" and vars: "vars = ts_Environ ts h1 @ [relocated @ ''=true'']"
    by (auto simp: bad_start_def)
  moreover have "env_value vars relocated = ''true''"
    using assms(2) by (simp add: vars env_value_append HasPrefix_def)
  ultimately show ?thesis
    using assms(3) by (simp add: Relocate_def prod_eq_iff)
qed

definition ts_ok :: TRSys where
  "ts_ok = \<lparr>ts_Lstat = (\<lambda>_ _. Inr \<lparr>ti_Mode = 420, ti_Dev = 1, ti_Rdev = 0, ti_Uid = 0, ti_Gid = 0, ti_Atim = 0, ti_Mtim = 0\<rparr>),
     ts_Stat = (\<lambda>_ _. Inr \<lparr>ti_Mode = ModeDir, ti_Dev = 1, ti_Rdev = 0, ti_Uid = 0, ti_Gid = 0, ti_Atim = 0, ti_Mtim = 0\<rparr>),
     ts_ReadDirNames = (\<lambda>_ _. Inr []), ts_Readlink = (\<lambda>_ _. Inr ''x''), ts_Sys = (\<lambda>_ _ _ _. Inr ()),
     ts_FS = fs_ok, ts_Getenv = (\<lambda>_ _. []), ts_Environ = (\<lambda>_. [''HOME=/'']), ts_StatfsType = (\<lambda>_. Inr tmpfsMagic),
     ts_Exec = (\<lambda>_ _ _ _. Inr ())\<rparr>"

theorem Relocate_once_witness:
  "(CExec nextInit [nextInit] [''HOME=/'', ''K3OS_RELOCATED=true''], True) \<in> set (snd (Relocate 2 ts_ok [])) \<and>
   Relocate 2 (ts_ok\<lparr>ts_Getenv := (\<lambda>_. env_value [''HOME=/'', ''K3OS_RELOCATED=true''])\<rparr>) [] =
     (Inr False, [(CGetenv relocated, True), (CSys ''unsetenv'' [relocated] [], True)])"
proof -
  have "snd (Relocate 2 ts_ok []) = butlast (snd (Relocate 2 ts_ok []))
      @ [(CExec nextInit [nextInit] [''HOME=/'', ''K3OS_RELOCATED=true''], True)]"
    by code_simp
  then have exec: "(CExec nextInit [nextInit] [''HOME=/'', ''K3OS_RELOCATED=true''], True) \<in> set (snd (Relocate 2 ts_ok []))"
    by (metis in_set_conv_decomp)
  from Relocate_once [OF this, of "ts_ok\<lparr>ts_Getenv := (\<lambda>_. env_value [''HOME=/'', ''K3OS_RELOCATED=true''])\<rparr>" 2 "[]"]
  show ?thesis using exec by (simp add: ts_ok_def relocated_def HasPrefix_def)
qed

subsection \<open>Ram file systems and device nodes\<close>

text \<open>
  \<open>statfs\<close> reports the type of a ramfs as the positive number \<open>0x858458F6\<close> where the field has 64 bits. The
  constant of the code is that number read as 32-bit signed, so there a ramfs root is not relocated.
\<close>

lemma ramfs_not_relocated:
  assumes "ts_Getenv ts h relocated \<noteq> ''true''"
    and "\<And>h. ts_StatfsType ts h = Inr 0x858458F6"
  shows "fst (Relocate fuel ts h) = Inr False" and "sint (0x858458F6 :: 32 word) = ramfsMagic"
  using assms by (simp_all add: Relocate_def ramfsMagic_def tmpfsMagic_def)

text \<open>
  \<open>unix.Mknod\<close> gets the bits of \<open>os.FileMode\<close>, whose type bits are the upper ones: below, permissions and the
  bits 19 to 31. In the bits where \<open>mknod\<close> looks for the type of the file, \<open>S_IFMT\<close>, the mode is zero, which
  the system call takes for a regular file.
\<close>

lemma device_mode_untyped:
  fixes m :: "32 word"
  assumes "m AND NOT (0x1FF OR push_bit 19 (mask 13)) = 0"
  shows "m AND 0xF000 = 0"
proof -
  have bits: "NOT (0x1FF OR push_bit 19 (mask 13)) AND 0xF000 = (0xF000 :: 32 word)"
    by code_simp
  have "m AND 0xF000 = m AND (NOT (0x1FF OR push_bit 19 (mask 13)) AND 0xF000)"
    unfolding bits ..
  also have "\<dots> = (m AND NOT (0x1FF OR push_bit 19 (mask 13))) AND 0xF000"
    by (rule and.assoc [symmetric])
  also have "\<dots> = 0" unfolding assms by simp
  finally show ?thesis .
qed

end
