(* ===== verification/Loopdev.thy ===== *)
theory Loopdev
  imports Go_Fixtures "HOL-Library.Word" "HOL-Library.Multiset"
begin

unbundle bit_operations_syntax

section \<open>Loop devices: internal/loopdev\<close>

text \<open>
  Attaching a file to a loop device and detaching it. \<open>syscaller\<close> and \<open>deviceFinder\<close> are the fields of
  \<open>LoopSys\<close>; of \<open>loop_info64\<close> the code sets the offset and the flags, the other fields are kept as a
  parameter \<open>li_Rest\<close>. The second part models the methods of one device as steps of concurrent callers:
  \<open>enterchroot.Mount\<close> calls \<open>SetAutoclear\<close> in a goroutine while \<open>Detach\<close> is deferred.
\<close>

subsection \<open>Definitions\<close>

record loopInfo64 =
  li_Offset :: "64 word"
  li_Flags :: "32 word"
  li_Rest :: string

record LoopSys =
  ls_Open :: "hist \<Rightarrow> string \<Rightarrow> bool \<Rightarrow> err + nat"
  ls_Close :: "hist \<Rightarrow> nat \<Rightarrow> err + unit"
  ls_SetInt :: "hist \<Rightarrow> nat \<Rightarrow> nat \<Rightarrow> nat \<Rightarrow> err + unit"
  ls_GetStatus64 :: "hist \<Rightarrow> nat \<Rightarrow> err + loopInfo64"
  ls_SetStatus64 :: "hist \<Rightarrow> nat \<Rightarrow> loopInfo64 \<Rightarrow> err + unit"
  ls_FindDevice :: "hist \<Rightarrow> err + string"

definition loopSetFd :: nat where "loopSetFd = 0x4C00"
definition loopClrFd :: nat where "loopClrFd = 0x4C01"
definition flagReadOnly :: "32 word" where "flagReadOnly = 1"
definition flagAutoclear :: "32 word" where "flagAutoclear = 4"

text \<open>
  The production \<open>syscaller\<close>: \<open>lr_Ioctl\<close> is the raw call with a pointer to the structure, which returns the error number and the
  structure as the kernel leaves it; \<open>lr_Error\<close> is the error that a number stands for.
\<close>

record LoopRaw =
  lr_Open :: "hist \<Rightarrow> string \<Rightarrow> bool \<Rightarrow> err + nat"
  lr_Close :: "hist \<Rightarrow> nat \<Rightarrow> err + unit"
  lr_IoctlSetInt :: "hist \<Rightarrow> nat \<Rightarrow> nat \<Rightarrow> nat \<Rightarrow> err + unit"
  lr_Ioctl :: "hist \<Rightarrow> nat \<Rightarrow> nat \<Rightarrow> loopInfo64 \<Rightarrow> nat \<times> loopInfo64"
  lr_Error :: "nat \<Rightarrow> err"
  lr_FindDevice :: "hist \<Rightarrow> err + string"

definition loopSetStatus64 :: nat where "loopSetStatus64 = 0x4C04"
definition loopGetStatus64 :: nat where "loopGetStatus64 = 0x4C05"

definition zero_info :: loopInfo64 where
  "zero_info = \<lparr>li_Offset = 0, li_Flags = 0, li_Rest = []\<rparr>"

definition raw_status :: "LoopRaw \<Rightarrow> hist \<Rightarrow> nat \<Rightarrow> nat \<Rightarrow> loopInfo64 \<Rightarrow> err + loopInfo64" where
  "raw_status lr h fd req info =
     (case lr_Ioctl lr h fd req info of
        (errno, info') \<Rightarrow> if errno \<noteq> 0 then Inl (lr_Error lr errno) else Inr info')"

definition realSyscaller :: "LoopRaw \<Rightarrow> LoopSys" where
  "realSyscaller lr =
     \<lparr>ls_Open = lr_Open lr, ls_Close = lr_Close lr, ls_SetInt = lr_IoctlSetInt lr,
      ls_GetStatus64 = (\<lambda>h fd. raw_status lr h fd loopGetStatus64 zero_info),
      ls_SetStatus64 = (\<lambda>h fd info. map_sum id (\<lambda>_. ()) (raw_status lr h fd loopSetStatus64 info)),
      ls_FindDevice = lr_FindDevice lr\<rparr>"

text \<open>An open call is an event only with the descriptor it gave, so that descriptors can be followed.\<close>

definition lopen :: "LoopSys \<Rightarrow> string \<Rightarrow> bool \<Rightarrow> nat go" where
  "lopen sc p writable h =
     (case ls_Open sc h p writable of
        Inl e \<Rightarrow> (Inl e, [(CSys ''open'' [p] [if writable then 1 else 0], False)])
      | Inr fd \<Rightarrow> (Inr fd, [(CSys ''open'' [p] [if writable then 1 else 0, fd], True)]))"

definition lclose :: "LoopSys \<Rightarrow> nat \<Rightarrow> unit go" where
  "lclose sc fd = perform (CSys ''close'' [] [fd]) (\<lambda>h. ls_Close sc h fd)"

definition lsetint :: "LoopSys \<Rightarrow> nat \<Rightarrow> nat \<Rightarrow> nat \<Rightarrow> unit go" where
  "lsetint sc fd req val = perform (CSys ''ioctl'' [] [fd, req, val]) (\<lambda>h. ls_SetInt sc h fd req val)"

definition lgetstatus :: "LoopSys \<Rightarrow> nat \<Rightarrow> loopInfo64 go" where
  "lgetstatus sc fd = perform (CSys ''LOOP_GET_STATUS64'' [] [fd]) (\<lambda>h. ls_GetStatus64 sc h fd)"

definition lsetstatus :: "LoopSys \<Rightarrow> nat \<Rightarrow> loopInfo64 \<Rightarrow> unit go" where
  "lsetstatus sc fd info =
     perform (CSys ''LOOP_SET_STATUS64'' [] [fd, unat (li_Offset info), unat (li_Flags info)])
       (\<lambda>h. ls_SetStatus64 sc h fd info)"

record Device =
  dv_path :: string
  dv_fd :: nat
  dv_closed :: bool

text \<open>Lines 137 to 172: what happens while the backing file is open.\<close>

definition attach_open :: "LoopSys \<Rightarrow> nat \<Rightarrow> 64 word \<Rightarrow> bool \<Rightarrow> Device go" where
  "attach_open sc backingFd offset readOnly =
     check ''finding free loop device'' (perform (CSys ''FindDevice'' [] []) (ls_FindDevice sc)) (\<lambda>loopPath.
     if \<not> HasPrefix loopPath ''/dev/loop'' then fail (Msg ''unexpected loop device path'')
     else
       check ''opening loop device'' (lopen sc loopPath True) (\<lambda>loopFd.
       bnd (lsetint sc loopFd loopSetFd backingFd) (\<lambda>r. case r of
         Inl e \<Rightarrow> ignore (lclose sc loopFd) (fail (Wrap ''LOOP_SET_FD'' e))
       | Inr _ \<Rightarrow>
           let info = \<lparr>li_Offset = offset, li_Flags = (if readOnly then 0 OR flagReadOnly else 0), li_Rest = []\<rparr> in
           bnd (lsetstatus sc loopFd info) (\<lambda>r. case r of
             Inl e \<Rightarrow>
               ignore (lsetint sc loopFd loopClrFd 0)
               (ignore (lclose sc loopFd)
               (fail (Wrap ''LOOP_SET_STATUS64'' e)))
           | Inr _ \<Rightarrow> ok \<lparr>dv_path = loopPath, dv_fd = loopFd, dv_closed = False\<rparr>))))"

definition Attacher_Attach :: "LoopSys \<Rightarrow> string \<Rightarrow> 64 word \<Rightarrow> bool \<Rightarrow> Device go" where
  "Attacher_Attach sc backingFile offset readOnly =
     check ''opening backing file'' (lopen sc backingFile (\<not> readOnly)) (\<lambda>backingFd.
     bnd (attach_open sc backingFd offset readOnly) (\<lambda>r.
     ignore (lclose sc backingFd) (ret r)))"

text \<open>The methods of a device return its new state.\<close>

definition Device_Detach :: "LoopSys \<Rightarrow> Device \<Rightarrow> ((err + unit) \<times> Device) io" where
  "Device_Detach sc d =
     (if dv_closed d then ret (Inr (), d)
      else
        bnd (lsetint sc (dv_fd d) loopClrFd 0) (\<lambda>r. case r of
          Inl e \<Rightarrow> ret (Inl (Wrap ''LOOP_CLR_FD'' e), d\<lparr>dv_closed := False\<rparr>)
        | Inr _ \<Rightarrow>
            bnd (lclose sc (dv_fd d)) (\<lambda>r. case r of
              Inl e \<Rightarrow> ret (Inl (Wrap ''closing loop device fd'' e), d\<lparr>dv_closed := True\<rparr>)
            | Inr _ \<Rightarrow> ret (Inr (), d\<lparr>dv_closed := True\<rparr>))))"

definition Device_SetAutoclear :: "LoopSys \<Rightarrow> Device \<Rightarrow> unit go" where
  "Device_SetAutoclear sc d =
     (if dv_closed d then ok ()
      else
        check ''LOOP_GET_STATUS64'' (lgetstatus sc (dv_fd d)) (\<lambda>info.
        check ''LOOP_SET_STATUS64'' (lsetstatus sc (dv_fd d) (info\<lparr>li_Flags := li_Flags info OR flagAutoclear\<rparr>)) (\<lambda>_.
        ok ())))"

subsection \<open>Descriptors left open\<close>

text \<open>The descriptors that are open after the events; a close that reports an error has closed too.\<close>

fun fd_effect :: "nat multiset \<Rightarrow> event \<Rightarrow> nat multiset" where
  "fd_effect fds (CSys name ss ns, b) =
     (if name = ''open'' \<and> b then add_mset (last ns) fds
      else if name = ''close'' then fds - {# hd ns #}
      else fds)"
| "fd_effect fds _ = fds"

definition open_fds :: "nat multiset \<Rightarrow> hist \<Rightarrow> nat multiset" where
  "open_fds fds tr = fold (\<lambda>ev s. fd_effect s ev) tr fds"

lemma open_fds_simps [simp]:
  "open_fds fds [] = fds" "open_fds fds (ev # tr) = open_fds (fd_effect fds ev) tr"
  "open_fds fds (tr @ us) = open_fds (open_fds fds tr) us"
  by (simp_all add: open_fds_def)

lemmas loop_calls = lopen_def lclose_def lsetint_def lgetstatus_def lsetstatus_def

lemma attach_open_fds:
  "open_fds fds (snd (attach_open sc backingFd offset ro h)) =
     (case fst (attach_open sc backingFd offset ro h) of Inl _ \<Rightarrow> fds | Inr d \<Rightarrow> add_mset (dv_fd d) fds)"
  by (auto simp: attach_open_def loop_calls Let_def split: sum.split)

text \<open>C18: Attaching leaks no file descriptor: whatever fails, every descriptor opened is closed again, and
  after a success exactly the descriptor of the new device stays open.\<close>

theorem Attach_no_leak:
  "open_fds fds (snd (Attacher_Attach sc file offset ro h)) =
     (case fst (Attacher_Attach sc file offset ro h) of Inl _ \<Rightarrow> fds | Inr d \<Rightarrow> add_mset (dv_fd d) fds)"
  by (auto simp: Attacher_Attach_def loop_calls attach_open_fds split: sum.split)

subsection \<open>Concurrent calls of Detach and SetAutoclear\<close>

text \<open>
  The calls in flight on one device, each with the place it has reached. A place is named by the next
  operation on shared state: the compare-and-swap, the \<open>LOOP_CLR_FD\<close> request, the store that reverts the
  flag, the close, and for \<open>SetAutoclear\<close> the load of the flag and the two status requests. \<open>cd_stale\<close>
  counts requests made on a descriptor that is closed.
\<close>

datatype place =
    DetachSwap | DetachClear | DetachRevert | DetachClose
  | AutoLoad | AutoGet | AutoSet | Returned

record cdev =
  cd_closed :: bool
  cd_clears :: nat
  cd_closes :: nat
  cd_stale :: nat
  cd_calls :: "place multiset"

definition move :: "place \<Rightarrow> place \<Rightarrow> cdev \<Rightarrow> cdev" where
  "move p q s = s\<lparr>cd_calls := add_mset q (cd_calls s - {# p #})\<rparr>"

definition use_fd :: "cdev \<Rightarrow> cdev" where
  "use_fd s = s\<lparr>cd_stale := cd_stale s + (if cd_closes s = 0 then 0 else 1)\<rparr>"

inductive dstep :: "cdev \<Rightarrow> cdev \<Rightarrow> bool" where
  swap_won: "DetachSwap \<in># cd_calls s \<Longrightarrow> \<not> cd_closed s \<Longrightarrow>
     dstep s (move DetachSwap DetachClear (s\<lparr>cd_closed := True\<rparr>))"
| swap_lost: "DetachSwap \<in># cd_calls s \<Longrightarrow> cd_closed s \<Longrightarrow> dstep s (move DetachSwap Returned s)"
| clear_ok: "DetachClear \<in># cd_calls s \<Longrightarrow>
     dstep s (move DetachClear DetachClose (use_fd s\<lparr>cd_clears := cd_clears s + 1\<rparr>))"
| clear_failed: "DetachClear \<in># cd_calls s \<Longrightarrow> dstep s (move DetachClear DetachRevert (use_fd s))"
| revert: "DetachRevert \<in># cd_calls s \<Longrightarrow> dstep s (move DetachRevert Returned (s\<lparr>cd_closed := False\<rparr>))"
| close: "DetachClose \<in># cd_calls s \<Longrightarrow>
     dstep s (move DetachClose Returned (use_fd s\<lparr>cd_closes := cd_closes s + 1\<rparr>))"
| auto_skip: "AutoLoad \<in># cd_calls s \<Longrightarrow> cd_closed s \<Longrightarrow> dstep s (move AutoLoad Returned s)"
| auto_load: "AutoLoad \<in># cd_calls s \<Longrightarrow> \<not> cd_closed s \<Longrightarrow> dstep s (move AutoLoad AutoGet s)"
| get_ok: "AutoGet \<in># cd_calls s \<Longrightarrow> dstep s (move AutoGet AutoSet (use_fd s))"
| get_failed: "AutoGet \<in># cd_calls s \<Longrightarrow> dstep s (move AutoGet Returned (use_fd s))"
| set_done: "AutoSet \<in># cd_calls s \<Longrightarrow> dstep s (move AutoSet Returned (use_fd s))"

text \<open>An attached device on which \<open>n\<close> calls of \<open>Detach\<close> and \<open>m\<close> of \<open>SetAutoclear\<close> start.\<close>

definition attached :: "nat \<Rightarrow> nat \<Rightarrow> cdev" where
  "attached n m = \<lparr>cd_closed = False, cd_clears = 0, cd_closes = 0, cd_stale = 0,
     cd_calls = replicate_mset n DetachSwap + replicate_mset m AutoLoad\<rparr>"

definition dev_inv :: "cdev \<Rightarrow> bool" where
  "dev_inv s \<longleftrightarrow>
     count (cd_calls s) DetachClear + count (cd_calls s) DetachRevert + cd_clears s = (if cd_closed s then 1 else 0) \<and>
     cd_clears s = count (cd_calls s) DetachClose + cd_closes s"

lemma dev_inv_attached: "dev_inv (attached n m)"
  by (simp add: dev_inv_def attached_def)

lemma dev_inv_step: "dstep s t \<Longrightarrow> dev_inv s \<Longrightarrow> dev_inv t"
  by (induction rule: dstep.induct)
     (auto simp: dev_inv_def move_def use_fd_def dest!: multi_member_split split: if_splits)

lemma dev_inv_reachable: "dstep\<^sup>*\<^sup>* (attached n m) s \<Longrightarrow> dev_inv s"
  by (induction rule: rtranclp_induct) (auto intro: dev_inv_attached dev_inv_step)

text \<open>C16: However calls of \<open>Detach\<close> and \<open>SetAutoclear\<close> on a device interleave, and whichever of their
  requests fail, the device is cleared at most once, its descriptor is closed at most once and only
  after it was cleared, and no \<open>Detach\<close> uses the descriptor once it is closed.\<close>

theorem detach_exclusive:
  assumes "dstep\<^sup>*\<^sup>* (attached n m) s"
  shows "cd_closes s \<le> cd_clears s \<and> cd_clears s \<le> 1 \<and> (cd_clears s = 1 \<longrightarrow> cd_closed s) \<and>
    (cd_closes s = 1 \<longrightarrow> DetachClear \<notin># cd_calls s \<and> DetachRevert \<notin># cd_calls s \<and> DetachClose \<notin># cd_calls s)"
  using dev_inv_reachable [OF assms]
  by (auto simp: dev_inv_def not_in_iff split: if_splits)

text \<open>The goroutine of \<open>SetAutoclear\<close> can read the flag before and use the descriptor after \<open>Detach\<close> closed it.\<close>

lemmas dstep_one = r_into_rtranclp [of dstep]
lemmas dstep_more = rtranclp.rtrancl_into_rtrancl [of dstep]

lemma autoclear_race: "\<exists>s. dstep\<^sup>*\<^sup>* (attached 1 1) s \<and> 0 < cd_stale s"
proof -
  let ?s0 = "attached 1 1"
  let ?s1 = "move AutoLoad AutoGet ?s0"
  let ?s2 = "move DetachSwap DetachClear (?s1\<lparr>cd_closed := True\<rparr>)"
  let ?s3 = "move DetachClear DetachClose (use_fd ?s2\<lparr>cd_clears := cd_clears ?s2 + 1\<rparr>)"
  let ?s4 = "move DetachClose Returned (use_fd ?s3\<lparr>cd_closes := cd_closes ?s3 + 1\<rparr>)"
  let ?s5 = "move AutoGet AutoSet (use_fd ?s4)"
  have "dstep\<^sup>*\<^sup>* ?s0 ?s1" by (rule dstep_one, rule auto_load) (simp_all add: attached_def)
  then have "dstep\<^sup>*\<^sup>* ?s0 ?s2" by (rule dstep_more) (rule swap_won, simp_all add: attached_def move_def)
  then have "dstep\<^sup>*\<^sup>* ?s0 ?s3" by (rule dstep_more) (rule clear_ok, simp add: move_def)
  then have "dstep\<^sup>*\<^sup>* ?s0 ?s4" by (rule dstep_more) (rule close, simp add: move_def)
  then have "dstep\<^sup>*\<^sup>* ?s0 ?s5" by (rule dstep_more) (rule get_ok, simp add: attached_def move_def use_fd_def)
  moreover have "0 < cd_stale ?s5" by (simp add: attached_def move_def use_fd_def)
  ultimately show ?thesis by blast
qed

theorem detach_exclusive_witness:
  "cd_clears (move DetachSwap DetachClear (attached 2 1\<lparr>cd_closed := True\<rparr>)) \<le> 1"
  using detach_exclusive [OF dstep_one [OF swap_won [of "attached 2 1"]]]
  by (simp add: attached_def)

text \<open>A call of the sequential \<open>Detach\<close> is a run of the steps of one call.\<close>

lemma Detach_simulated:
  fixes sc :: LoopSys and d :: Device and h :: hist
  defines "run \<equiv> Device_Detach sc d h"
  assumes "cd_closed s = dv_closed d" and "cd_calls s = {# DetachSwap #}"
  shows "\<exists>t. dstep\<^sup>*\<^sup>* s t \<and> cd_calls t = {# Returned #} \<and> cd_closed t = dv_closed (snd (fst run))"
proof -
  let ?s1 = "move DetachSwap DetachClear (s\<lparr>cd_closed := True\<rparr>)"
  let ?s2 = "move DetachClear DetachRevert (use_fd ?s1)"
  let ?s3 = "move DetachClear DetachClose (use_fd ?s1\<lparr>cd_clears := cd_clears ?s1 + 1\<rparr>)"
  have lost: "dstep\<^sup>*\<^sup>* s (move DetachSwap Returned s)" if "cd_closed s"
    by (rule dstep_one, rule swap_lost) (simp_all add: assms(3) that)
  have won: "dstep\<^sup>*\<^sup>* s ?s1" if "\<not> cd_closed s"
    by (rule dstep_one, rule swap_won) (simp_all add: assms(3) that)
  have reverted: "dstep\<^sup>*\<^sup>* s (move DetachRevert Returned (?s2\<lparr>cd_closed := False\<rparr>))" if "\<not> cd_closed s"
    by (rule dstep_more [OF dstep_more [OF won [OF that] clear_failed] revert]) (simp_all add: move_def)
  have closed: "dstep\<^sup>*\<^sup>* s (move DetachClose Returned (use_fd ?s3\<lparr>cd_closes := cd_closes ?s3 + 1\<rparr>))" if "\<not> cd_closed s"
    by (rule dstep_more [OF dstep_more [OF won [OF that] clear_ok] close]) (simp_all add: move_def)
  consider (skip) "dv_closed d" "dv_closed (snd (fst run))"
    | (undone) "\<not> dv_closed d" "\<not> dv_closed (snd (fst run))" | (detached) "\<not> dv_closed d" "dv_closed (snd (fst run))"
    by (cases "dv_closed d"; cases "dv_closed (snd (fst run))") (auto simp: run_def Device_Detach_def)
  then show ?thesis
  proof cases
    case skip
    then show ?thesis using lost assms(2,3)
      by (intro exI [of _ "move DetachSwap Returned s"]) (simp add: move_def)
  next
    case undone
    then show ?thesis using reverted assms(2,3)
      by (intro exI [of _ "move DetachRevert Returned (?s2\<lparr>cd_closed := False\<rparr>)"]) (simp add: move_def use_fd_def)
  next
    case detached
    then show ?thesis using closed assms(2,3)
      by (intro exI [of _ "move DetachClose Returned (use_fd ?s3\<lparr>cd_closes := cd_closes ?s3 + 1\<rparr>)"])
         (simp add: move_def use_fd_def)
  qed
qed

end
