(* ===== verification/Enterchroot.thy ===== *)
theory Enterchroot
  imports Mount Loopdev
begin

section \<open>Entering the root file system: internal/enterchroot\<close>

text \<open>
  The first stage of the boot: find the image (a file beside the binary, or appended to it after a
  magic string), attach it to a loop device, mount it, pivot into it and execute the binary again.
  \<open>EnterSys\<close> collects the operating system; reading a file gives the list of the results of successive
  \<open>Read\<close> calls, an empty rest of the list being the end of the file. \<open>Setenv\<close> and the start of a goroutine are
  events; \<open>Getenv\<close> is a function of the history. Logging is not modelled.
\<close>

subsection \<open>Definitions\<close>

record SysProcAttr =
  sp_Cloneflags :: "64 word"
  sp_Unshareflags :: "64 word"
  sp_Pdeathsig :: nat

definition CLONE_NEWNS :: "64 word" where "CLONE_NEWNS = 0x20000"
definition CLONE_NEWUTS :: "64 word" where "CLONE_NEWUTS = 0x4000000"
definition CLONE_NEWIPC :: "64 word" where "CLONE_NEWIPC = 0x8000000"
definition CLONE_NEWPID :: "64 word" where "CLONE_NEWPID = 0x20000000"
definition SIGKILL :: nat where "SIGKILL = 9"

record EnterSys =
  es_FS :: FileSystem
  es_MS :: MountSys
  es_Loop :: LoopSys
  es_Getenv :: "hist \<Rightarrow> string \<Rightarrow> string"
  es_Environ :: "hist \<Rightarrow> string list"
  es_Reads :: "hist \<Rightarrow> (err + string) list"
  es_Sys :: "hist \<Rightarrow> string \<Rightarrow> string list \<Rightarrow> err + unit"
  es_Mknod :: "hist \<Rightarrow> string \<Rightarrow> nat \<Rightarrow> nat \<Rightarrow> err + unit"
  es_DebugFlag :: "hist \<Rightarrow> string \<Rightarrow> bool"
  es_Exec :: "hist \<Rightarrow> string \<Rightarrow> string list \<Rightarrow> string list \<Rightarrow> err + unit"
  es_Spawn :: "hist \<Rightarrow> string \<Rightarrow> string list \<Rightarrow> string list \<Rightarrow> SysProcAttr \<Rightarrow> err + unit"
  es_Self :: string
  es_Arg0 :: string
  es_Pid1 :: bool
  es_DebugCmdline :: string

definition Getenv :: "EnterSys \<Rightarrow> string \<Rightarrow> string io" where
  "Getenv es k = observe (CGetenv k) (\<lambda>h. es_Getenv es h k)"

definition Setenv :: "string \<Rightarrow> string \<Rightarrow> unit io" where
  "Setenv k v = observe (CSys ''setenv'' [k, v] []) (\<lambda>_. ())"

definition Unsetenv :: "string \<Rightarrow> unit io" where
  "Unsetenv k = observe (CSys ''unsetenv'' [k] []) (\<lambda>_. ())"

definition sys :: "EnterSys \<Rightarrow> string \<Rightarrow> string list \<Rightarrow> unit go" where
  "sys es name args = perform (CSys name args []) (\<lambda>h. es_Sys es h name args)"

definition exec :: "EnterSys \<Rightarrow> string \<Rightarrow> string list \<Rightarrow> unit go" where
  "exec es p args =
     bnd (observe CEnviron (es_Environ es)) (\<lambda>vars.
     perform (CExec p args vars) (\<lambda>h. es_Exec es h p args vars))"

subsubsection \<open>ensureloop.go\<close>

definition mountProc :: "EnterSys \<Rightarrow> unit go" where
  "mountProc es =
     bnd (mount_Mounted (es_MS es) ''/proc'') (\<lambda>r.
     if r = Inr True then ok ()
     else
       pass (MkdirAll (es_FS es) ''/proc'' mode_755) (\<lambda>_.
       mount_ForceMount (es_MS es) ''proc'' ''/proc'' ''proc'' []))"

definition mountDev :: "EnterSys \<Rightarrow> unit go" where
  "mountDev es =
     bnd (ReadDir (es_FS es) ''/dev'') (\<lambda>r.
     if (case r of Inr files \<Rightarrow> 2 < length files | Inl _ \<Rightarrow> False) then ok ()
     else
       pass (MkdirAll (es_FS es) ''/dev'' mode_755) (\<lambda>_.
       mount_ForceMount (es_MS es) ''none'' ''/dev'' ''devtmpfs'' []))"

text \<open>\<open>dev := (major << 8) | (minor & 0xff) | ((minor & 0xfff00) << 12)\<close>, on 64-bit integers.\<close>

definition devno :: "64 word \<Rightarrow> 64 word \<Rightarrow> 64 word" where
  "devno major minor =
     (push_bit 8 major) OR (minor AND 0xff) OR (push_bit 12 (minor AND 0xfff00))"

definition enter_mknod :: "EnterSys \<Rightarrow> string \<Rightarrow> nat \<Rightarrow> 64 word \<Rightarrow> 64 word \<Rightarrow> unit go" where
  "enter_mknod es p mode major minor =
     bnd (Stat (es_FS es) p) (\<lambda>r. case r of
       Inr _ \<Rightarrow> ok ()
     | Inl _ \<Rightarrow>
         let dev = unat (devno major minor) in
         perform (CMknod p mode dev) (\<lambda>h. es_Mknod es h p mode dev))"

definition mode_chr_700 :: nat where "mode_chr_700 = 448 + 0x2000"
definition mode_blk_700 :: nat where "mode_blk_700 = 448 + 0x6000"

definition ensureloop :: "EnterSys \<Rightarrow> unit go" where
  "ensureloop es =
     check ''failed to mount proc'' (mountProc es) (\<lambda>_.
     check ''failed to mount dev'' (mountDev es) (\<lambda>_.
     pass (enter_mknod es ''/dev/loop-control'' mode_chr_700 10 237) (\<lambda>_.
     foreach_go [0..<7] (\<lambda>i.
       enter_mknod es (''/dev/loop'' @ show_nat i) mode_blk_700 7 (word_of_nat i)))))"

subsubsection \<open>enter.go: finding the image\<close>

definition magic :: string where
  "magic = ''_SQMAGIC_''"

text \<open>
  The inner loop over the bytes of a buffer: \<open>found\<close> bytes of \<open>test\<close> have matched, \<open>offset\<close> bytes of the
  file are consumed. \<open>Inl\<close> is the position behind the match, \<open>Inr\<close> the state after the buffer.
\<close>

fun scan_buf :: "string \<Rightarrow> nat \<Rightarrow> nat \<Rightarrow> string \<Rightarrow> nat + nat \<times> nat" where
  "scan_buf test offset found [] = Inr (offset, found)"
| "scan_buf test offset found (b # bs) =
     (if b = test ! found then
        (if found + 1 = length test then Inl (offset + 1) else scan_buf test (offset + 1) (found + 1) bs)
      else scan_buf test (offset + 1) 0 bs)"

fun scan_reads :: "string \<Rightarrow> nat \<Rightarrow> nat \<Rightarrow> (err + string) list \<Rightarrow> err + nat option" where
  "scan_reads test offset found [] = Inr None"
| "scan_reads test offset found (Inl e # rs) = Inl e"
| "scan_reads test offset found (Inr buf # rs) =
     (case scan_buf test offset found buf of
        Inl pos \<Rightarrow> Inr (Some pos)
      | Inr (offset', found') \<Rightarrow> scan_reads test offset' found' rs)"

definition inFile :: "EnterSys \<Rightarrow> (string \<times> nat) go" where
  "inFile es =
     pass (Open (es_FS es) (es_Self es)) (\<lambda>f.
     bnd (observe (CSys ''read'' [es_Self es] []) (es_Reads es)) (\<lambda>rs.
     ignore (FileClose (es_FS es) f)
     (case scan_reads (ToLower magic) 0 0 rs of
        Inl e \<Rightarrow> fail e
      | Inr (Some pos) \<Rightarrow> ok (es_Self es, pos)
      | Inr None \<Rightarrow> fail (Msg ''failed to find image in file''))))"

fun first_root :: "FileSystem \<Rightarrow> string list \<Rightarrow> string option io" where
  "first_root fs [] = ret None"
| "first_root fs (p # ps) = bnd (Stat fs p) (\<lambda>r. if isl r then first_root fs ps else ret (Some p))"

definition findRoot :: "EnterSys \<Rightarrow> (string \<times> nat) go" where
  "findRoot es =
     bnd (Getenv es ''ENTER_ROOT'') (\<lambda>root.
     if root \<noteq> [] then ok (root, 0)
     else
       bnd (first_root (es_FS es) [es_Arg0 es @ ''.root'', es_Arg0 es @ ''.squashfs'']) (\<lambda>r.
       case r of Some p \<Rightarrow> ok (p, 0) | None \<Rightarrow> inFile es))"

subsubsection \<open>enter.go: Mount\<close>

definition isDebug :: "EnterSys \<Rightarrow> bool io" where
  "isDebug es =
     bnd (Getenv es ''ENTER_DEBUG'') (\<lambda>v.
     if v = ''true'' then ret True
     else if es_DebugCmdline es = [] then ret False
     else observe (CCmdlineContains (es_DebugCmdline es)) (\<lambda>h. es_DebugFlag es h (es_DebugCmdline es)))"

text \<open>
  Lines 136 to 155: \<open>Inr True\<close> when the process was replaced (no deferred call runs then). The child
  process runs in new namespaces; its start and its end are one call.
\<close>

definition child_attr :: SysProcAttr where
  "child_attr = \<lparr>sp_Cloneflags = CLONE_NEWPID OR CLONE_NEWUTS OR CLONE_NEWIPC, sp_Unshareflags = CLONE_NEWNS, sp_Pdeathsig = SIGKILL\<rparr>"

definition enter_root :: "EnterSys \<Rightarrow> string list \<Rightarrow> bool go" where
  "enter_root es args =
     (let argv = ''enter-root'' # tl args in
      if es_Pid1 es then check ''failed to exec enter-root'' (exec es (es_Arg0 es) argv) (\<lambda>_. ok True)
      else
        bnd (observe CEnviron (es_Environ es)) (\<lambda>vars.
        pass (perform (CRunWithEnv vars (es_Arg0 es) argv) (\<lambda>h. es_Spawn es h (es_Arg0 es) argv vars child_attr)) (\<lambda>_.
        ok False)))"

definition enter_Mount :: "EnterSys \<Rightarrow> string \<Rightarrow> string list \<Rightarrow> bool go" where
  "enter_Mount es dataDir args =
     pass (ensureloop es) (\<lambda>_.
     bnd (isDebug es) (\<lambda>debug.
     ignore (if debug then Setenv ''ENTER_DEBUG'' ''true'' else ret ())
     (pass (findRoot es) (\<lambda>(root, offset).
     ignore (Setenv ''ENTER_DATA'' dataDir)
     (ignore (Setenv ''ENTER_ROOT'' root)
     (check ''failed to find root'' (Stat (es_FS es) root) (\<lambda>stat.
     if fi_IsDir stat then enter_root es args
     else
       check ''creating loopback device'' (Attacher_Attach (es_Loop es) root (word_of_nat offset) True) (\<lambda>dev.
       ignore (Setenv ''ENTER_DEVICE'' (dv_path dev))
       (ignore (observe (CSys ''go SetAutoclear'' [dv_path dev] [3]) (\<lambda>_. ()))
       (bnd (enter_root es args) (\<lambda>r.
       if r = Inr True then ret r
       else ignore (Device_Detach (es_Loop es) dev) (ret r))))))))))))"

subsubsection \<open>enter.go: run\<close>

definition inProcFS :: "EnterSys \<Rightarrow> bool io" where
  "inProcFS es =
     bnd (ReadFile (es_FS es) ''/proc/filesystems'') (\<lambda>r.
     ret (case r of Inl _ \<Rightarrow> False | Inr bytes \<Rightarrow> Contains bytes ''squashfs''))"

definition squashfs_unsupported :: string where
  "squashfs_unsupported = ''this kernel does not support squashfs''"

definition checkSquashfs :: "EnterSys \<Rightarrow> unit go" where
  "checkSquashfs es = bnd (inProcFS es) (\<lambda>found. if \<not> found then fail (Msg squashfs_unsupported) else ok ())"

definition mount_usr :: "EnterSys \<Rightarrow> string \<Rightarrow> string \<Rightarrow> string \<Rightarrow> unit go" where
  "mount_usr es root device usr =
     (if device = [] then
        check ''failed to bind mount'' (mount_Mount (es_MS es) root usr ''none'' ''bind'') (\<lambda>_. ok ())
      else
        bnd (checkSquashfs es) (\<lambda>squashErr.
        bnd (mount_Mount (es_MS es) device usr ''squashfs'' ''ro'') (\<lambda>r. case r of
          Inl e \<Rightarrow>
            let err = Wrap ''mounting squashfs'' e in
            fail (if isl squashErr then Wrap squashfs_unsupported err else err)
        | Inr _ \<Rightarrow> ok ())))"

definition enter_symlink :: "EnterSys \<Rightarrow> string \<Rightarrow> unit go" where
  "enter_symlink es p =
     bnd (Lstat (es_FS es) p) (\<lambda>r.
     if (case r of Inl e \<Rightarrow> IsNotExist e | Inr _ \<Rightarrow> False)
     then check ''failed to symlink'' (Symlink (es_FS es) (PathJoin [''usr'', p]) p) (\<lambda>_. ok ())
     else ok ())"

definition symlinks :: "string list" where
  "symlinks = [''lib'', ''bin'', ''sbin'']"

text \<open>Lines 272 to 312: the switch to the new root.\<close>

definition enter_pivot :: "EnterSys \<Rightarrow> unit go" where
  "enter_pivot es =
     bnd (Readlink (es_FS es) (es_Self es)) (\<lambda>r.
     let self = (case r of Inl _ \<Rightarrow> ''/.base/k3os/system/k3os/current/k3os'' | Inr resolved \<Rightarrow> ''/.base'' @ resolved) in
     check ''pivot_root failed'' (sys es ''pivot_root'' [''.'', ''.base'']) (\<lambda>_.
     check ''making . private'' (mount_ForceMount (es_MS es) [] ''.'' ''none'' ''rprivate'') (\<lambda>_.
     pass (sys es ''chroot'' [''/'']) (\<lambda>_.
     pass (sys es ''chdir'' [''/'']) (\<lambda>_.
     ignore (Unsetenv ''ENTER_ROOT'')
     (ignore (Unsetenv ''ENTER_DATA'')
     (ignore (Unsetenv ''ENTER_DEVICE'')
     (exec es self [''/init'']))))))))"

definition enter_run :: "EnterSys \<Rightarrow> string \<Rightarrow> unit go" where
  "enter_run es data =
     check ''checking mounted'' (mount_Mounted (es_MS es) data) (\<lambda>mounted.
     pass (if mounted then ok ()
           else
             check ''mkdir'' (MkdirAll (es_FS es) data mode_755) (\<lambda>_.
             check ''remounting data'' (mount_Mount (es_MS es) data data ''none'' ''rbind'') (\<lambda>_. ok ()))) (\<lambda>_.
     bnd (Getenv es ''ENTER_ROOT'') (\<lambda>root.
     bnd (Getenv es ''ENTER_DEVICE'') (\<lambda>device.
     let usr = PathJoin [data, ''usr'']; dotRoot = PathJoin [data, ''.base''] in
     pass (foreach_go [usr, dotRoot]
       (\<lambda>d. check ''failed to make dir'' (MkdirAll (es_FS es) d mode_755) (\<lambda>_. ok ()))) (\<lambda>_.
     pass (mount_usr es root device usr) (\<lambda>_.
     pass (sys es ''chdir'' [data]) (\<lambda>_.
     pass (foreach_go symlinks (enter_symlink es)) (\<lambda>_.
     enter_pivot es))))))))"

subsubsection \<open>enter.go: Enter\<close>

text \<open>A limit that cannot be set is reported and otherwise ignored.\<close>

definition setResourceLimit :: "EnterSys \<Rightarrow> string \<Rightarrow> string \<Rightarrow> string \<Rightarrow> unit io" where
  "setResourceLimit es resource cur maximum = ignore (sys es ''setrlimit'' [resource, cur, maximum]) (ret ())"

definition enter_Enter :: "EnterSys \<Rightarrow> unit go" where
  "enter_Enter es =
     ignore (Getenv es ''ENTER_DEBUG'')
     (ignore (setResourceLimit es ''RLIMIT_NOFILE'' ''1048576'' ''1048576'')
     (ignore (setResourceLimit es ''RLIMIT_NPROC'' ''RLIM_INFINITY'' ''RLIM_INFINITY'')
     (ignore (setResourceLimit es ''RLIMIT_MEMLOCK'' ''67108864'' ''67108864'')
     (bnd (Getenv es ''ENTER_DATA'') (enter_run es)))))"

subsection \<open>Finding the image\<close>

lemma scan_buf_append:
  "scan_buf test offset found (xs @ ys) =
     (case scan_buf test offset found xs of Inl pos \<Rightarrow> Inl pos | Inr (o', f') \<Rightarrow> scan_buf test o' f' ys)"
  by (induction test offset found xs rule: scan_buf.induct) auto

text \<open>The result does not depend on how the file is cut into buffers.\<close>

lemma scan_reads_concat:
  "scan_reads test offset found (map Inr bufs) =
     Inr (case scan_buf test offset found (concat bufs) of Inl pos \<Rightarrow> Some pos | Inr _ \<Rightarrow> None)"
  by (induction bufs arbitrary: offset found) (auto simp: scan_buf_append split: sum.split)

lemma suffix_take_extend:
  "suffix (take found test) pre \<Longrightarrow> found < length test \<Longrightarrow> suffix (take (Suc found) test) (pre @ [test ! found])"
  by (simp add: take_Suc_conv_app_nth suffix_def)

text \<open>
  The state of the scan after the bytes \<open>pre\<close>: the last \<open>found\<close> of them are the beginning of \<open>test\<close>.
\<close>

lemma scan_buf_result:
  assumes "file = pre @ bs" and "length pre = offset" and "found < length test" and "suffix (take found test) pre"
  shows "case scan_buf test offset found bs of
      Inl pos \<Rightarrow> pos \<le> length file \<and> suffix test (take pos file)
    | Inr (offset', found') \<Rightarrow> offset' = length file \<and> found' < length test \<and> suffix (take found' test) file"
  using assms
proof (induction test offset found bs arbitrary: pre rule: scan_buf.induct)
  case (2 test offset found b bs)
  show ?case
  proof (cases "b = test ! found")
    case True
    have ext: "suffix (take (Suc found) test) (pre @ [b])"
      using suffix_take_extend 2(5,6) True by metis
    show ?thesis
    proof (cases "found + 1 = length test")
      case True
      then show ?thesis using ext 2(3,4) \<open>b = test ! found\<close> by simp
    next
      case False
      then show ?thesis using 2(1) [OF True False, of "pre @ [b]"] 2(3-5) ext True by simp
    qed
  next
    case False
    have "test \<noteq> []" using 2(5) by auto
    then show ?thesis using 2(2) [OF False, of "pre @ [b]"] 2(3-5) False by simp
  qed
qed simp

lemma scan_whole:
  "k < length test \<Longrightarrow> scan_buf test offset k (drop k test @ v) = Inl (offset + (length test - k))"
proof (induction "length test - k" arbitrary: k offset)
  case (Suc n)
  have d: "drop k test = test ! k # drop (Suc k) test" using Suc.prems by (simp add: Cons_nth_drop_Suc)
  show ?case
  proof (cases "Suc k = length test")
    case False
    then show ?thesis using Suc.hyps(1) [of "Suc k" "offset + 1"] Suc.hyps(2) Suc.prems by (simp add: d)
  qed (simp add: d)
qed simp

lemma scan_sound:
  assumes "test \<noteq> []" and "scan_buf test 0 0 bs = Inl pos"
  shows "pos \<le> length bs \<and> suffix test (take pos bs)"
  using scan_buf_result [of bs "[]" bs 0 0 test] assms by simp

lemma scan_complete:
  assumes "test \<noteq> []" and "\<And>k. 0 < k \<Longrightarrow> k < length test \<Longrightarrow> \<not> suffix (take k test) u"
  shows "\<exists>pos \<le> length u + length test. scan_buf test 0 0 (u @ test @ v) = Inl pos"
proof (cases "scan_buf test 0 0 u")
  case (Inl pos)
  then show ?thesis using scan_sound [OF assms(1) Inl] by (auto simp: scan_buf_append intro!: exI [of _ pos])
next
  case (Inr st)
  obtain o' f' where st: "st = (o', f')" by (cases st)
  have "o' = length u" "f' < length test" "suffix (take f' test) u"
    using scan_buf_result [of u "[]" u 0 0 test] assms(1) Inr st by simp_all
  moreover from this have "f' = 0" using assms(2) by blast
  ultimately show ?thesis
    using scan_whole [of 0 test "length u" v] assms(1) Inr st by (simp add: scan_buf_append)
qed

definition magic_bytes :: string where
  "magic_bytes = ''_sqmagic_''"

lemma magic_bytes_length: "length magic_bytes = 9" "magic_bytes \<noteq> []"
  by (simp_all add: magic_bytes_def)

lemma inFile_run:
  assumes "fs_Open (es_FS es) h (es_Self es) = Inr f" and "\<And>h. es_Reads es h = map Inr bufs"
  shows "fst (inFile es h) = (case scan_buf magic_bytes 0 0 (concat bufs) of
      Inl pos \<Rightarrow> Inr (es_Self es, pos) | Inr _ \<Rightarrow> Inl (Msg ''failed to find image in file''))"
proof -
  have "ToLower magic = magic_bytes" by code_simp
  then show ?thesis
    using assms by (simp add: inFile_def Open_def scan_reads_concat split: sum.split)
qed

text \<open>C26: The search for the image appended to the binary does not depend on the buffer boundaries; a
  position it returns lies directly behind the magic string; and it finds an image in front of whose
  magic string no beginning of another one is left open.\<close>

theorem inFile_search:
  assumes "fs_Open (es_FS es) h (es_Self es) = Inr f" and "\<And>h. es_Reads es h = map Inr bufs"
  shows "(\<forall>pos. fst (inFile es h) = Inr (es_Self es, pos) \<longrightarrow>
            pos \<le> length (concat bufs) \<and> suffix magic_bytes (take pos (concat bufs))) \<and>
         (\<forall>u v. concat bufs = u @ magic_bytes @ v \<longrightarrow>
            (\<forall>k. 0 < k \<longrightarrow> k < 9 \<longrightarrow> \<not> suffix (take k magic_bytes) u) \<longrightarrow>
            (\<exists>pos \<le> length u + 9. fst (inFile es h) = Inr (es_Self es, pos)))"
proof (intro conjI allI impI)
  note run = inFile_run [OF assms]
  fix pos assume "fst (inFile es h) = Inr (es_Self es, pos)"
  then have "scan_buf magic_bytes 0 0 (concat bufs) = Inl pos" by (simp add: run split: sum.splits)
  then show "pos \<le> length (concat bufs)" and "suffix magic_bytes (take pos (concat bufs))"
    using scan_sound [of magic_bytes "concat bufs" pos] magic_bytes_length by fastforce+
next
  fix u v assume "concat bufs = u @ magic_bytes @ v"
    and "\<forall>k. 0 < k \<longrightarrow> k < 9 \<longrightarrow> \<not> suffix (take k magic_bytes) u"
  then have "\<exists>pos \<le> length u + 9. scan_buf magic_bytes 0 0 (concat bufs) = Inl pos"
    using scan_complete [of magic_bytes u v] by (simp add: magic_bytes_length)
  then show "\<exists>pos \<le> length u + 9. fst (inFile es h) = Inr (es_Self es, pos)"
    by (auto simp: inFile_run [OF assms])
qed

text \<open>An underscore in front of the magic string hides the image: the scan restarts behind it.\<close>

lemma inFile_misses: "scan_buf magic_bytes 0 0 (''_'' @ magic_bytes) = Inr (10, 1)"
  by code_simp

definition enter_sys :: "string list \<Rightarrow> EnterSys" where
  "enter_sys bufs = \<lparr>es_FS = fs_ok, es_MS = mountsys_ok,
     es_Loop = \<lparr>ls_Open = \<lambda>_ _ _. Inr 3, ls_Close = \<lambda>_ _. Inr (), ls_SetInt = \<lambda>_ _ _ _. Inr (),
       ls_GetStatus64 = \<lambda>_ _. Inl eio, ls_SetStatus64 = \<lambda>_ _ _. Inr (), ls_FindDevice = \<lambda>_. Inr ''/dev/loop0''\<rparr>,
     es_Getenv = \<lambda>_ _. [], es_Environ = \<lambda>_. [], es_Reads = \<lambda>_. map Inr bufs, es_Sys = \<lambda>_ _ _. Inr (),
     es_Mknod = \<lambda>_ _ _ _. Inr (), es_DebugFlag = \<lambda>_ _. False, es_Exec = \<lambda>_ _ _ _. Inr (),
     es_Spawn = \<lambda>_ _ _ _ _. Inr (), es_Self = ''/k3os'', es_Arg0 = ''k3os'', es_Pid1 = True, es_DebugCmdline = []\<rparr>"

theorem inFile_search_witness:
  "\<exists>pos \<le> 11. fst (inFile (enter_sys [''ab_sqm'', ''agic_x'']) []) = Inr (''/k3os'', pos)"
proof -
  let ?bufs = "[''ab_sqm'', ''agic_x'']"
  have "\<forall>k \<in> set [1..<9]. \<not> suffix (take k magic_bytes) ''ab''" by code_simp
  then have free: "\<forall>k. 0 < k \<longrightarrow> k < 9 \<longrightarrow> \<not> suffix (take k magic_bytes) ''ab''" by simp
  have bin: "concat ?bufs = ''ab'' @ magic_bytes @ ''x''" by (simp add: magic_bytes_def)
  have "fs_Open (es_FS (enter_sys ?bufs)) [] (es_Self (enter_sys ?bufs)) = Inr ''/k3os''"
    and "\<And>h. es_Reads (enter_sys ?bufs) h = map Inr ?bufs" and self: "es_Self (enter_sys ?bufs) = ''/k3os''"
    by (simp_all add: enter_sys_def fs_ok_def)
  from inFile_search [OF this(1,2)] free bin
  have "\<exists>pos \<le> length ''ab'' + 9. fst (inFile (enter_sys ?bufs) []) = Inr (es_Self (enter_sys ?bufs), pos)" by blast
  then show ?thesis by (simp add: self)
qed

subsection \<open>Switching to the new root\<close>

text \<open>
  When the switch succeeds it ends in the execution of the binary, from below the old root, as
  \<open>/init\<close>, directly after the pivot, the change of propagation, the chroot and the clearing of the variables.
\<close>

definition switched :: "EnterSys \<Rightarrow> hist \<Rightarrow> bool" where
  "switched es tr \<longleftrightarrow> (\<exists>us self vars.
     tr = us @ [(CSys ''pivot_root'' [''.'', ''.base''] [], True),
                (CSysMount [] ''.'' ''none'' (unat RPRIVATE) [], True),
                (CSys ''chroot'' [''/''] [], True), (CSys ''chdir'' [''/''] [], True),
                (CSys ''unsetenv'' [''ENTER_ROOT''] [], True), (CSys ''unsetenv'' [''ENTER_DATA''] [], True),
                (CSys ''unsetenv'' [''ENTER_DEVICE''] [], True), (CEnviron, True),
                (CExec (''/.base'' @ self) [''/init''] vars, True)])"

lemma rprivate_mount:
  "mount_ForceMount ms [] ''.'' ''none'' ''rprivate'' = sys_mount ms [] ''.'' ''none'' RPRIVATE []"
proof -
  have "parseOptions ''rprivate'' = (RPRIVATE, [])" by code_simp
  moreover have "RPRIVATE AND BIND \<noteq> BIND" by code_simp
  ultimately show ?thesis
    by (intro bnd_eqI) (auto simp: mount_ForceMount_def mount_call_def resolveDevice_def HasPrefix_def
        split: sum.split)
qed

lemma switched_append: "switched es tr \<Longrightarrow> switched es (us @ tr)"
  unfolding switched_def by (metis append.assoc)

lemma enter_pivot_switched:
  assumes "fst (enter_pivot es h) = Inr ()"
  shows "switched es (snd (enter_pivot es h))"
proof -
  have self: "\<exists>s. (case r of Inl _ \<Rightarrow> ''/.base/k3os/system/k3os/current/k3os'' | Inr v \<Rightarrow> ''/.base'' @ v) = ''/.base'' @ s"
    for r :: "err + string"
    by (cases r) auto
  show ?thesis
    using assms self [of "fst (Readlink (es_FS es) (es_Self es) h)"]
    unfolding switched_def enter_pivot_def rprivate_mount
    by (auto simp: sys_def exec_def Unsetenv_def sys_mount_def Readlink_def Let_def pass_Inr check_Inr
        simp del: fst_pass fst_check)
qed

text \<open>\<open>finishes es m\<close>: when \<open>m\<close> succeeds, its last events are those of the switch.\<close>

definition finishes :: "EnterSys \<Rightarrow> unit go \<Rightarrow> bool" where
  "finishes es m \<longleftrightarrow> (\<forall>h. fst (m h) = Inr () \<longrightarrow> switched es (snd (m h)))"

lemma finishes_check: "(\<And>x. finishes es (k x)) \<Longrightarrow> finishes es (check c m k)"
  by (auto simp: finishes_def check_Inr simp del: fst_check intro!: switched_append)

lemma finishes_pass: "(\<And>x. finishes es (k x)) \<Longrightarrow> finishes es (pass m k)"
  by (auto simp: finishes_def pass_Inr simp del: fst_pass intro!: switched_append)

lemma finishes_bnd: "(\<And>x. finishes es (k x)) \<Longrightarrow> finishes es (bnd m k)"
  by (auto simp: finishes_def intro!: switched_append)

lemma finishes_ignore: "finishes es k \<Longrightarrow> finishes es (ignore m k)"
  by (auto simp: finishes_def intro!: switched_append)

lemma enter_run_finishes: "finishes es (enter_run es data)"
proof -
  have "finishes es (enter_pivot es)" by (simp add: finishes_def enter_pivot_switched)
  then show ?thesis
    unfolding enter_run_def Let_def by (intro finishes_check finishes_pass finishes_bnd)
qed

lemma enter_Enter_switched: "fst (enter_Enter es h) = Inr () \<Longrightarrow> switched es (snd (enter_Enter es h))"
proof -
  have "finishes es (enter_Enter es)"
    unfolding enter_Enter_def by (intro finishes_ignore finishes_bnd enter_run_finishes)
  then show "fst (enter_Enter es h) = Inr () \<Longrightarrow> switched es (snd (enter_Enter es h))"
    by (simp add: finishes_def)
qed

end
