(* ===== verification/Initrd.thy ===== *)
theory Initrd
  imports Boot_Init Transferroot Enterchroot Osimpl
begin

section \<open>The two stages of the init process: main.go\<close>

text \<open>
  The same binary is the init of the initramfs and the init of the real root. \<open>initrd\<close> of \<open>main.go\<close> tells
  the stages apart by the directory that \<open>pivot_root\<close> leaves behind. Before the switch it moves the root
  off the ramfs, makes it writable and enters the new root; after it, it runs the boot sequence. An
  error value is \<open>os.Exit(1)\<close>. The entry points of the binary are in the theory of the command line.
\<close>

definition postChrootSentinel :: string where
  "postChrootSentinel = ''/.base''"

definition initrd_pre :: "nat \<Rightarrow> TRSys \<Rightarrow> EnterSys \<Rightarrow> string list \<Rightarrow> bool go" where
  "initrd_pre fuel ts es args =
     pass (Relocate fuel ts) (\<lambda>replaced.
     if replaced then ok True
     else
       ignore (mount_Mount (es_MS es) [] ''/'' ''none'' ''rw,remount'')
       (enter_Mount (es\<lparr>es_DebugCmdline := ''k3os.debug''\<rparr>) ''./k3os/data'' args))"

definition initrd :: "nat \<Rightarrow> Machine \<Rightarrow> TRSys \<Rightarrow> EnterSys \<Rightarrow> bool go" where
  "initrd fuel m ts es =
     bnd (Stat (m_FS m) postChrootSentinel) (\<lambda>r.
     if isl r then initrd_pre fuel ts es (m_Args m)
     else bnd (postChroot fuel m) (\<lambda>_. ok False))"

text \<open>The console becomes the standard streams; its own descriptor is closed when one of them cannot be set.\<close>

fun dup_streams :: "FdSys \<Rightarrow> nat \<Rightarrow> nat list \<Rightarrow> unit go" where
  "dup_streams fd n [] = ok ()"
| "dup_streams fd n (k # ks) =
     bnd (perform (CSys ''dup2'' [] [n, k]) (\<lambda>h. fd_Dup2 fd h n k)) (\<lambda>r. case r of
       Inl e \<Rightarrow> ignore (perform (CSys ''close'' [] [n]) (\<lambda>h. fd_Close fd h n)) (fail e)
     | Inr _ \<Rightarrow> dup_streams fd n ks)"

definition consoleRedirect :: "FdSys \<Rightarrow> unit go" where
  "consoleRedirect fd =
     pass (perform (CSys ''open'' [''/dev/console''] []) (\<lambda>h. fd_Open fd h ''/dev/console'')) (\<lambda>n.
     dup_streams fd n [0, 1, 2])"

subsection \<open>The first stage ends in another program\<close>

text \<open>The put-old directory of the pivot, seen from the new root, is what \<open>initrd\<close> looks for.\<close>

lemma sentinel_is_put_old: "PathJoin [''/'', ''.base''] = postChrootSentinel"
  by code_simp

text \<open>\<open>concludes Q m\<close>: when \<open>m\<close> succeeds with \<open>x\<close>, the trace it leaves satisfies \<open>Q x\<close>.\<close>

definition concludes :: "('a \<Rightarrow> hist \<Rightarrow> bool) \<Rightarrow> 'a go \<Rightarrow> bool" where
  "concludes Q m \<longleftrightarrow> (\<forall>h x. fst (m h) = Inr x \<longrightarrow> Q x (snd (m h)))"

definition suffix_closed :: "('a \<Rightarrow> hist \<Rightarrow> bool) \<Rightarrow> bool" where
  "suffix_closed Q \<longleftrightarrow> (\<forall>x us tr. Q x tr \<longrightarrow> Q x (us @ tr))"

lemma concludes_bnd: "suffix_closed Q \<Longrightarrow> (\<And>x. concludes Q (k x)) \<Longrightarrow> concludes Q (bnd m k)"
  by (auto simp: concludes_def suffix_closed_def)

lemma concludes_ignore: "suffix_closed Q \<Longrightarrow> concludes Q k \<Longrightarrow> concludes Q (ignore m k)"
  by (auto simp: concludes_def suffix_closed_def)

lemma concludes_pass: "suffix_closed Q \<Longrightarrow> (\<And>x. concludes Q (k x)) \<Longrightarrow> concludes Q (pass m k)"
  by (auto simp: concludes_def suffix_closed_def pass_Inr simp del: fst_pass)

lemma concludes_check: "suffix_closed Q \<Longrightarrow> (\<And>x. concludes Q (k x)) \<Longrightarrow> concludes Q (check c m k)"
  by (auto simp: concludes_def suffix_closed_def check_Inr simp del: fst_check)

lemma concludes_then:
  assumes "concludes P m"
    and "\<And>x us. P x us \<Longrightarrow> concludes (\<lambda>y tr. Q y (us @ tr)) (k x)"
  shows "concludes Q (pass m k)"
  using assms unfolding concludes_def by (fastforce simp: pass_Inr simp del: fst_pass)

lemma concludes_if: "concludes Q m \<Longrightarrow> concludes Q n \<Longrightarrow> concludes Q (if b then m else n)"
  by simp

lemmas concludes_rules = concludes_check concludes_pass concludes_ignore concludes_bnd concludes_if

text \<open>
  The process was replaced: by \<open>/init\<close> told that the root was moved, or by the binary itself under the
  name that enters the new root.
\<close>

definition replaced :: "EnterSys \<Rightarrow> string list \<Rightarrow> hist \<Rightarrow> bool" where
  "replaced es args tr \<longleftrightarrow> (\<exists>us p argv vars. tr = us @ [(CExec p argv vars, True)]
     \<and> (p = nextInit \<and> argv = [nextInit] \<and> relocated @ ''=true'' \<in> set vars
        \<or> p = es_Arg0 es \<and> argv = ''enter-root'' # tl args))"

lemma replaced_append: "replaced es args tr \<Longrightarrow> replaced es args (us @ tr)"
  unfolding replaced_def by (metis append.assoc)

text \<open>What the first stage promises of its result, which says whether the process was replaced.\<close>

definition handed_over :: "EnterSys \<Rightarrow> string list \<Rightarrow> bool \<Rightarrow> hist \<Rightarrow> bool" where
  "handed_over es args b tr \<longleftrightarrow> (if b then replaced es args tr else \<not> es_Pid1 es)"

lemma replaced_closed:
  "suffix_closed (\<lambda>b tr. b \<longrightarrow> replaced es args tr)" "suffix_closed (handed_over es args)"
  by (auto simp: suffix_closed_def replaced_append handed_over_def)

text \<open>The two ways, one by one: \<open>moved_over\<close> after a relocation, \<open>entered_over\<close> to enter the new root.\<close>

definition moved_over :: "TRSys \<Rightarrow> hist \<Rightarrow> bool" where
  "moved_over ts tr \<longleftrightarrow>
     (\<exists>us h. tr = us @ [(CExec nextInit [nextInit] (ts_Environ ts h @ [relocated @ ''=true'']), True)])"

definition entered_over :: "EnterSys \<Rightarrow> string list \<Rightarrow> bool \<Rightarrow> hist \<Rightarrow> bool" where
  "entered_over es args b tr \<longleftrightarrow>
     (if b then \<exists>us vars. tr = us @ [(CExec (es_Arg0 es) (''enter-root'' # tl args) vars, True)] else \<not> es_Pid1 es)"

lemma moved_over_closed: "suffix_closed (\<lambda>b tr. b \<longrightarrow> moved_over ts tr)"
  unfolding suffix_closed_def moved_over_def by (metis append.assoc)

lemma entered_over_closed: "suffix_closed (entered_over es args)"
  unfolding suffix_closed_def entered_over_def by (metis append.assoc)

lemma concludes_observe:
  "suffix_closed Q \<Longrightarrow> (\<And>h. concludes Q (k (a h))) \<Longrightarrow> concludes Q (bnd (observe c a) k)"
  by (simp add: concludes_def suffix_closed_def) (metis append_Cons append_Nil)

lemma Relocate_moved: "concludes (\<lambda>b tr. b \<longrightarrow> moved_over ts tr) (Relocate fuel ts)"
proof -
  have start: "concludes (\<lambda>b tr. b \<longrightarrow> moved_over ts tr)
      (let vars' = ts_Environ ts h @ [relocated @ ''=true''] in
       pass (perform (CExec nextInit [nextInit] vars') (\<lambda>h. ts_Exec ts h nextInit [nextInit] vars')) (\<lambda>_. ok True))" for h
    by (auto simp: concludes_def moved_over_def Let_def pass_Inr simp del: fst_pass)
  have stay: "concludes (\<lambda>b tr. b \<longrightarrow> moved_over ts tr) (ok False)"
    by (simp add: concludes_def)
  show ?thesis
    unfolding Relocate_def
    by (intro start stay concludes_observe concludes_pass concludes_ignore concludes_if moved_over_closed)
qed

lemma moved_replaced: "moved_over ts tr \<Longrightarrow> replaced es args tr"
  unfolding moved_over_def replaced_def by (metis in_set_conv_decomp)

lemma entered_handed: "entered_over es args b tr \<Longrightarrow> handed_over es args b tr"
  unfolding entered_over_def handed_over_def replaced_def by (cases b) auto

lemma Relocate_concludes: "concludes (\<lambda>b tr. b \<longrightarrow> replaced es args tr) (Relocate fuel ts)"
  using Relocate_moved [of ts fuel] moved_replaced unfolding concludes_def by blast

lemma enter_root_concludes: "concludes (entered_over es args) (enter_root es args)"
  by (auto simp: concludes_def entered_over_def enter_root_def exec_def check_Inr pass_Inr Let_def
      simp del: fst_check fst_pass)

lemma enter_Mount_entered: "concludes (entered_over es args) (enter_Mount es dataDir args)"
proof -
  note root = enter_root_concludes [of es args]
  have loop: "concludes (entered_over es args)
      (bnd (enter_root es args) (\<lambda>r. if r = Inr True then ret r else ignore (Device_Detach ls dev) (ret r)))" for ls dev
    using root by (auto simp: concludes_def entered_over_def)
  have cases: "concludes (entered_over es args) (case x of (root, offset) \<Rightarrow> f root offset)"
    if "\<And>root offset. concludes (entered_over es args) (f root offset)" for x f
    using that by (cases x) simp
  show ?thesis
    unfolding enter_Mount_def
    by (intro root loop cases concludes_rules entered_over_closed)
qed

lemma enter_Mount_concludes: "concludes (handed_over es args) (enter_Mount es dataDir args)"
  using enter_Mount_entered [of es args dataDir] entered_handed unfolding concludes_def by blast

lemma initrd_pre_concludes: "concludes (handed_over es args) (initrd_pre fuel ts es args)"
proof -
  let ?es = "es\<lparr>es_DebugCmdline := ''k3os.debug''\<rparr>"
  have "handed_over ?es args = handed_over es args"
    by (simp add: handed_over_def replaced_def fun_eq_iff)
  with enter_Mount_concludes [of ?es args "''./k3os/data''"]
  have enter: "concludes (handed_over es args)
      (ignore (mount_Mount (es_MS es) [] ''/'' ''none'' ''rw,remount'') (enter_Mount ?es ''./k3os/data'' args))"
    by (simp add: concludes_ignore replaced_closed)
  show ?thesis
    unfolding initrd_pre_def
  proof (rule concludes_then [OF Relocate_concludes])
    fix b us assume "b \<longrightarrow> replaced es args us"
    then have "handed_over es args b us" if b using that by (simp add: handed_over_def)
    with enter show "concludes (\<lambda>x tr. handed_over es args x (us @ tr))
        (if b then ok True
         else ignore (mount_Mount (es_MS es) [] ''/'' ''none'' ''rw,remount'') (enter_Mount ?es ''./k3os/data'' args))"
      using replaced_closed(2) by (cases b) (simp_all add: concludes_def suffix_closed_def)
  qed
qed

text \<open>
  The second half of the hand-over: a successful \<open>Enter\<close> ends in the pivot that leaves the old root at
  the sentinel and in the execution of the binary, from below it, as \<open>/init\<close>.
\<close>

lemma Enter_hands_over:
  assumes "fst (enter_Enter es h) = Inr ()"
  shows "\<exists>us vs self vars. snd (enter_Enter es h) = us @ (CSys ''pivot_root'' [''.'', ''.base''] [], True) # vs
    @ [(CExec (postChrootSentinel @ self) [''/init''] vars, True)]"
proof -
  from enter_Enter_switched [OF assms] obtain us self vars where
    "snd (enter_Enter es h) = us @ (CSys ''pivot_root'' [''.'', ''.base''] [], True) #
       [(CSysMount [] ''.'' ''none'' (unat RPRIVATE) [], True),
        (CSys ''chroot'' [''/''] [], True), (CSys ''chdir'' [''/''] [], True),
        (CSys ''unsetenv'' [''ENTER_ROOT''] [], True), (CSys ''unsetenv'' [''ENTER_DATA''] [], True),
        (CSys ''unsetenv'' [''ENTER_DEVICE''] [], True), (CEnviron, True)] @
       [(CExec (''/.base'' @ self) [''/init''] vars, True)]"
    unfolding switched_def by auto
  then show ?thesis unfolding postChrootSentinel_def by blast
qed

text \<open>The console stays open exactly when all three streams were set.\<close>

lemma consoleRedirect_closes:
  assumes "fd_Open fd h ''/dev/console'' = Inr n"
  shows "isl (fst (consoleRedirect fd h)) \<longleftrightarrow> (\<exists>b. last (snd (consoleRedirect fd h)) = (CSys ''close'' [] [n], b))"
  using assms by (auto simp: consoleRedirect_def isl_def split: sum.split)

text \<open>The two stages of init. When the sentinel exists, \<open>initrd\<close> goes straight to the boot
  sequence: nothing is relocated, mounted or entered before it. When it does not, the first stage
  either exits with an error, or it ends in replacing the process (by \<open>/init\<close> with the marker that
  prevents a second relocation, or by the binary under the name \<open>enter-root\<close>), or the process is not
  PID 1 and the new root was entered by a child: as PID 1 it never falls through to its end.\<close>

lemma initrd_stages:
  "if isl (fst (Stat (m_FS m) postChrootSentinel h))
   then case fst (initrd fuel m ts es h) of
          Inl _ \<Rightarrow> True
        | Inr b \<Rightarrow> if b then replaced es (m_Args m) (snd (initrd fuel m ts es h)) else \<not> es_Pid1 es
   else \<exists>h'. snd (initrd fuel m ts es h) = (CStat postChrootSentinel, True) # snd (postChroot fuel m h')"
proof (cases "isl (fst (Stat (m_FS m) postChrootSentinel h))")
  case True
  then show ?thesis
    using initrd_pre_concludes [of es "m_Args m" fuel ts]
    by (auto simp: initrd_def concludes_def handed_over_def replaced_append split: sum.split if_splits)
next
  case False
  then show ?thesis by (auto simp: initrd_def Stat_def)
qed

end
