(* ===== verification/System_Component.thy ===== *)
theory System_Component
  imports Mount Link_Store
begin

section \<open>Versions of system components: internal/system/component.go\<close>

text \<open>
  A component is a directory with one subdirectory per version and the symbolic links \<open>current\<close> and
  \<open>previous\<close>. \<open>CopyComponent\<close> brings a version from one tree into another and makes it current. The
  theorem says what a crash can leave: at every point of the run the link \<open>current\<close> is the old one, or it
  names a version whose directory was completely copied and moved into place before.

  \<open>copy.Copy\<close> is a package outside the repository: whether it succeeds is the field \<open>us_Copy\<close>. The two
  errors that \<open>os.MkdirTemp\<close> and \<open>os.Stat\<close> can return are answers of the boundary records; logging is not
  modelled.
\<close>

subsection \<open>Definitions\<close>

record UpgradeSys =
  us_FS :: FileSystem
  us_MS :: MountSys
  us_MkdirTemp :: "hist \<Rightarrow> string \<Rightarrow> string \<Rightarrow> err + string"
  us_Copy :: "hist \<Rightarrow> string \<Rightarrow> string \<Rightarrow> err + unit"

definition VersionCurrent :: string where "VersionCurrent = ''current''"
definition VersionPrevious :: string where "VersionPrevious = ''previous''"

definition MkdirTemp :: "UpgradeSys \<Rightarrow> string \<Rightarrow> string \<Rightarrow> string go" where
  "MkdirTemp us d pat = perform (CSys ''mkdirtemp'' [d, pat] []) (\<lambda>h. us_MkdirTemp us h d pat)"

definition copy_Copy :: "UpgradeSys \<Rightarrow> string \<Rightarrow> string \<Rightarrow> unit go" where
  "copy_Copy us src dst = perform (CCopyDir src dst) (\<lambda>h. us_Copy us h src dst)"

text \<open>A deferred call runs after the action, whatever its result.\<close>

definition defer_call :: "'b io \<Rightarrow> 'a io \<Rightarrow> 'a io" where
  "defer_call d m = bnd m (\<lambda>r. ignore d (ret r))"

text \<open>\<open>Inl (e, info)\<close> is the error \<open>e\<close>, beside which the last branch returns the file information too.\<close>

definition StatComponentVersion ::
    "FileSystem \<Rightarrow> string \<Rightarrow> string \<Rightarrow> string \<Rightarrow> ((err \<times> FileInfo option) + FileInfo) io" where
  "StatComponentVersion fs root key alias =
     (let aliasPath = PathJoin [root, key, alias] in
      bnd (Stat fs aliasPath) (\<lambda>a. case a of
        Inl e \<Rightarrow> ret (Inl (e, None))
      | Inr aliasInfo \<Rightarrow>
          if \<not> fi_IsDir aliasInfo then ret (Inl (Msg ''not a directory'', None))
          else
            bnd (Readlink fs aliasPath) (\<lambda>l. case l of
              Inl e \<Rightarrow> ret (Inl (e, None))
            | Inr version \<Rightarrow>
                bnd (Stat fs (PathJoin [root, key, version])) (\<lambda>v. case v of
                  Inl e \<Rightarrow> ret (Inl (e, None))
                | Inr versionInfo \<Rightarrow>
                    ret (if \<not> fi_IsDir versionInfo then Inl (Msg ''not a directory'', Some versionInfo)
                         else Inr versionInfo)))))"

definition stat_info :: "(err \<times> FileInfo option) + FileInfo \<Rightarrow> FileInfo option" where
  "stat_info r = (case r of Inl (_, info) \<Rightarrow> info | Inr info \<Rightarrow> Some info)"

text \<open>Lines 105 to 130: the new version is moved into place and made current.\<close>

definition copy_finish ::
    "UpgradeSys \<Rightarrow> FileInfo \<Rightarrow> string \<Rightarrow> string \<Rightarrow> string \<Rightarrow> string \<Rightarrow> string \<Rightarrow> bool go" where
  "copy_finish us srcInfo dstTemp dstPath dstPrevPath dstCurrPath dstCurrTemp =
     pass (Rename (us_FS us) dstTemp dstPath) (\<lambda>_.
     ignore (Chmod (us_FS us) dstPath (fi_Perm srcInfo))
     (ignore (Remove (us_FS us) dstPrevPath)
     (ignore (copy_Copy us dstCurrPath dstPrevPath)
     (pass (Rename (us_FS us) dstCurrTemp dstCurrPath) (\<lambda>_. ok True)))))"

text \<open>Lines 90 to 130: an old directory of the same version is moved out of the way first.\<close>

definition copy_place ::
    "UpgradeSys \<Rightarrow> FileInfo \<Rightarrow> string \<Rightarrow> string \<Rightarrow> string \<Rightarrow> string \<Rightarrow> string \<Rightarrow> bool go" where
  "copy_place us srcInfo dstTemp dstPath dstPrevPath dstCurrPath dstCurrTemp =
     (let finish = copy_finish us srcInfo dstTemp dstPath dstPrevPath dstCurrPath dstCurrTemp;
          dstExist = dstPath @ ''.old'' in
      bnd (Stat (us_FS us) dstPath) (\<lambda>s. case s of
        Inl _ \<Rightarrow> finish
      | Inr dstInfo \<Rightarrow>
          if fi_IsDir dstInfo then
            pass (Rename (us_FS us) dstPath dstExist) (\<lambda>_.
            defer_call (Rename (us_FS us) dstExist dstPath) finish)
          else ignore (Remove (us_FS us) dstPath) finish))"

text \<open>Lines 66 to 130.\<close>

definition copy_version :: "UpgradeSys \<Rightarrow> string \<Rightarrow> string \<Rightarrow> string \<Rightarrow> FileInfo \<Rightarrow> bool go" where
  "copy_version us src dst key srcInfo =
     (let srcPath = PathJoin [src, key, fi_Name srcInfo];
          dstPath = PathJoin [dst, key, fi_Name srcInfo];
          dstPrevPath = PathJoin [dst, key, VersionPrevious];
          dstCurrPath = PathJoin [dst, key, VersionCurrent];
          dstCurrTemp = dstCurrPath @ ''.tmp'' in
      pass (Symlink (us_FS us) (Base dstPath) dstCurrTemp) (\<lambda>_.
      defer_call (Remove (us_FS us) dstCurrTemp)
      (pass (MkdirTemp us (fst (PathSplit dstPath)) (snd (PathSplit dstPath))) (\<lambda>dstTemp.
       defer_call (RemoveAll (us_FS us) dstTemp)
       (pass (copy_Copy us srcPath dstTemp) (\<lambda>_.
        copy_place us srcInfo dstTemp dstPath dstPrevPath dstCurrPath dstCurrTemp))))))"

definition CopyComponent :: "UpgradeSys \<Rightarrow> string \<Rightarrow> string \<Rightarrow> bool \<Rightarrow> string \<Rightarrow> bool go" where
  "CopyComponent us src dst remount key =
     bnd (StatComponentVersion (us_FS us) src key VersionCurrent) (\<lambda>s. case s of
       Inl (e, _) \<Rightarrow> fail e
     | Inr srcInfo \<Rightarrow>
         bnd (StatComponentVersion (us_FS us) dst key VersionCurrent) (\<lambda>d.
         if map_option fi_Name (stat_info d) = Some (fi_Name srcInfo) then ok False
         else
           pass (if remount then mount_ForceMount (us_MS us) [] dst ''none'' ''remount,rw'' else ok ()) (\<lambda>_.
           copy_version us src dst key srcInfo)))"

subsection \<open>Paths of a component\<close>

definition component_dir :: "string \<Rightarrow> string \<Rightarrow> string list \<Rightarrow> bool" where
  "component_dir root key ds \<longleftrightarrow> root = rooted_path ds \<and> ds \<noteq> [] \<and> list_all plain_name (key # ds)"

lemma component_path:
  assumes "component_dir root key ds" and "plain_name x"
  shows "PathJoin [root, key, x] = rooted_path (ds @ [key, x])"
proof -
  have "PathJoin [root, key, x] = PathJoin [root, Join ''/'' [key, x]]"
    using assms(1) by (simp add: component_dir_def PathJoin.simps rooted_path_def)
  also have "\<dots> = rooted_path (ds @ [key, x])"
    using assms PathJoin_rooted [of ds "[key, x]"] by (auto simp: component_dir_def list_all_iff)
  finally show ?thesis .
qed

lemma wipes_component:
  assumes "component_dir root key ds" and "plain_name x" and "plain_name y"
  shows "wipes (rooted_path (ds @ [key, x])) (rooted_path (ds @ [key, y])) \<longleftrightarrow> x = y"
  using assms wipes_rooted [of "ds @ [key, x]" "ds @ [key, y]"]
  by (auto simp: component_dir_def list_all_iff)

subsection \<open>Runs with one switch of a link\<close>

text \<open>
  \<open>switch_run cur tmp prev R r tr\<close>: the events \<open>tr\<close> of an action with result \<open>r\<close> leave the link \<open>cur\<close> alone
  and the result is not true, or exactly one event changes \<open>cur\<close>, a rename of \<open>tmp\<close> to it, whose success
  decides the result; the events before it satisfy \<open>R\<close> and leave both links alone, those after it leave
  \<open>cur\<close> and \<open>prev\<close> alone.
\<close>

inductive switch_run :: "string \<Rightarrow> string \<Rightarrow> string \<Rightarrow> (hist \<Rightarrow> bool) \<Rightarrow> err + bool \<Rightarrow> hist \<Rightarrow> bool"
  for cur tmp prev R where
  link_kept: "list_all (leaves cur) tr \<Longrightarrow> r \<noteq> Inr True \<Longrightarrow> switch_run cur tmp prev R r tr"
| link_switched: "list_all (leaves cur) pre \<Longrightarrow> list_all (leaves tmp) pre \<Longrightarrow> R pre \<Longrightarrow>
    list_all (leaves cur) post \<Longrightarrow> list_all (leaves prev) post \<Longrightarrow> (r = Inr True \<longleftrightarrow> b) \<Longrightarrow>
    switch_run cur tmp prev R r (pre @ (CRename tmp cur, b) # post)"

definition switches :: "string \<Rightarrow> string \<Rightarrow> string \<Rightarrow> (hist \<Rightarrow> bool) \<Rightarrow> bool go \<Rightarrow> bool" where
  "switches cur tmp prev R m \<longleftrightarrow> (\<forall>h. switch_run cur tmp prev R (fst (m h)) (snd (m h)))"

lemma switch_run_before:
  assumes "switch_run cur tmp prev R r tr" and "list_all (leaves cur) us" and "list_all (leaves tmp) us"
    and "\<And>pre. R pre \<Longrightarrow> R' (us @ pre)"
  shows "switch_run cur tmp prev R' r (us @ tr)"
  using assms(1)
proof cases
  case link_kept
  then show ?thesis using assms(2) by (intro switch_run.link_kept) simp_all
next
  case (link_switched pre post b)
  then show ?thesis
    using assms(2-4) switch_run.link_switched [of cur "us @ pre" tmp R' post prev r b] by simp
qed

lemma switch_run_after:
  assumes "switch_run cur tmp prev R r tr" and "list_all (leaves cur) us" and "list_all (leaves prev) us"
  shows "switch_run cur tmp prev R r (tr @ us)"
  using assms(1)
proof cases
  case link_kept
  then show ?thesis using assms(2) by (intro switch_run.link_kept) simp_all
next
  case (link_switched pre post b)
  then show ?thesis
    using assms(2,3) switch_run.link_switched [of cur pre tmp R "post @ us" prev r b] by simp
qed

lemma switches_fail: "switches cur tmp prev R (fail e)"
  by (simp add: switches_def switch_run.link_kept)

lemma switches_bnd_val:
  assumes "emits (leaves cur) m" and "emits (leaves tmp) m" and "yields Q m"
    and "\<And>x. Q x \<Longrightarrow> switches cur tmp prev R (k x)" and "\<And>us pre. R pre \<Longrightarrow> R (us @ pre)"
  shows "switches cur tmp prev R (bnd m k)"
  using assms by (auto simp: switches_def emits_def yields_def intro!: switch_run_before [where R = R])

lemma switches_bnd:
  assumes "emits (leaves cur) m" and "emits (leaves tmp) m" and "\<And>x. switches cur tmp prev R (k x)"
    and "\<And>us pre. R pre \<Longrightarrow> R (us @ pre)"
  shows "switches cur tmp prev R (bnd m k)"
  using assms by (intro switches_bnd_val [where Q = "\<lambda>_. True"]) (simp_all add: yields_def)

lemma switches_pass_val:
  assumes "emits (leaves cur) m" and "emits (leaves tmp) m" and "yields (\<lambda>r. \<forall>x. r = Inr x \<longrightarrow> Q x) m"
    and "\<And>x. Q x \<Longrightarrow> switches cur tmp prev R (k x)" and "\<And>us pre. R pre \<Longrightarrow> R (us @ pre)"
  shows "switches cur tmp prev R (pass m k)"
  unfolding pass_def
  using assms by (intro switches_bnd_val [where Q = "\<lambda>r. \<forall>x. r = Inr x \<longrightarrow> Q x"])
    (auto simp: switches_fail split: sum.split)

lemma switches_pass:
  assumes "emits (leaves cur) m" and "emits (leaves tmp) m" and "\<And>x. switches cur tmp prev R (k x)"
    and "\<And>us pre. R pre \<Longrightarrow> R (us @ pre)"
  shows "switches cur tmp prev R (pass m k)"
  using assms by (intro switches_pass_val [where Q = "\<lambda>_. True"]) (simp_all add: yields_def)

lemma switches_ignore:
  assumes "emits (leaves cur) m" and "emits (leaves tmp) m" and "switches cur tmp prev R k"
    and "\<And>us pre. R pre \<Longrightarrow> R (us @ pre)"
  shows "switches cur tmp prev R (ignore m k)"
  unfolding ignore_def using assms by (intro switches_bnd) auto

lemma switches_defer:
  assumes "emits (leaves cur) d" and "emits (leaves prev) d" and "switches cur tmp prev R m"
  shows "switches cur tmp prev R (defer_call d m)"
  using assms by (auto simp: switches_def emits_def defer_call_def intro!: switch_run_after)

subsection \<open>The switch to a new version\<close>

text \<open>
  \<open>version_installed src dst key v tr\<close>: in \<open>tr\<close> the version \<open>v\<close> was copied completely to some directory
  which was then renamed to the directory of the version.
\<close>

definition version_installed :: "string \<Rightarrow> string \<Rightarrow> string \<Rightarrow> string \<Rightarrow> hist \<Rightarrow> bool" where
  "version_installed src dst key v tr \<longleftrightarrow>
     (\<exists>t us ws. tr = us @ (CCopyDir (PathJoin [src, key, v]) t, True) # ws
        \<and> (CRename t (PathJoin [dst, key, v]), True) \<in> set ws)"

definition renamed_then_kept :: "string \<Rightarrow> string \<Rightarrow> string \<Rightarrow> string \<Rightarrow> hist \<Rightarrow> bool" where
  "renamed_then_kept t path cur prev pre \<longleftrightarrow>
     (\<exists>us b. pre = us @ [(CCopyDir cur prev, b)] \<and> (CRename t path, True) \<in> set us)"

lemma renamed_then_kept_before:
  "renamed_then_kept t path cur prev pre \<Longrightarrow> renamed_then_kept t path cur prev (us @ pre)"
  unfolding renamed_then_kept_def by (metis Un_iff append.assoc set_append)

text \<open>The paths of one run are pairwise apart: what is at one is not moved with another.\<close>

definition apart :: "string list \<Rightarrow> bool" where
  "apart ps \<longleftrightarrow> distinct ps \<and> (\<forall>x \<in> set ps. \<forall>y \<in> set ps. wipes x y \<longrightarrow> x = y)"

lemma apart_wipes: "apart ps \<Longrightarrow> x \<in> set ps \<Longrightarrow> y \<in> set ps \<Longrightarrow> wipes x y \<longleftrightarrow> x = y"
  by (auto simp: apart_def wipes_def)

lemma apart_distinct: "apart ps \<Longrightarrow> distinct ps" "apart ps \<Longrightarrow> distinct (rev ps)"
  by (auto simp: apart_def)

lemma copy_finish_switches:
  assumes "apart [cur, tmp, prev, path, old, t]"
  shows "switches cur tmp prev (renamed_then_kept t path cur prev) (copy_finish us info t path prev cur tmp)"
  unfolding switches_def
proof
  fix h
  note apart = apart_wipes [OF assms] apart_distinct [OF assms]
  let ?m = "copy_finish us info t path prev cur tmp"
  show "switch_run cur tmp prev (renamed_then_kept t path cur prev) (fst (?m h)) (snd (?m h))"
  proof (cases "fs_Rename (us_FS us) h t path")
    case (Inl e)
    then show ?thesis
      using apart by (intro link_kept) (simp_all add: copy_finish_def Rename_def leaves_def)
  next
    case (Inr u)
    then obtain b1 b2 b3 b4 where tr: "snd (?m h) =
        [(CRename t path, True), (CChmod path (fi_Perm info), b1), (CRemove prev, b2), (CCopyDir cur prev, b3)]
          @ (CRename tmp cur, b4) # []" and r: "fst (?m h) = Inr True \<longleftrightarrow> b4"
      by (simp add: copy_finish_def Rename_def Chmod_def Remove_def copy_Copy_def split: sum.split)
    show ?thesis
      unfolding tr using apart r
      by (intro link_switched) (simp_all add: leaves_def renamed_then_kept_def)
  qed
qed

lemma copy_place_switches:
  assumes "apart [cur, tmp, prev, path, path @ ''.old'', t]"
  shows "switches cur tmp prev (renamed_then_kept t path cur prev) (copy_place us info t path prev cur tmp)"
proof -
  note apart = apart_wipes [OF assms] apart_distinct [OF assms]
  note fin = copy_finish_switches [OF assms, of us info]
  note rules = switches_bnd switches_pass switches_ignore switches_defer emits_perform renamed_then_kept_before
  have aside: "switches cur tmp prev (renamed_then_kept t path cur prev)
      (pass (Rename (us_FS us) path (path @ ''.old'')) (\<lambda>_.
        defer_call (Rename (us_FS us) (path @ ''.old'') path) (copy_finish us info t path prev cur tmp)))"
    unfolding Rename_def using apart
    by (intro rules fin) (simp_all add: leaves_def)
  have del: "switches cur tmp prev (renamed_then_kept t path cur prev)
      (ignore (Remove (us_FS us) path) (copy_finish us info t path prev cur tmp))"
    unfolding Remove_def using apart
    by (intro rules fin) (simp_all add: leaves_def)
  show ?thesis
    unfolding copy_place_def Let_def Stat_def using aside del fin
    by (intro rules) (simp_all add: leaves_def split: sum.split)
qed

text \<open>The events before the switch: copied, moved into place, and the old link kept as the previous one.\<close>

definition prepared :: "string \<Rightarrow> string \<Rightarrow> string \<Rightarrow> string \<Rightarrow> hist \<Rightarrow> bool" where
  "prepared srcPath path cur prev pre \<longleftrightarrow>
     (\<exists>t us ws b. pre = us @ (CCopyDir srcPath t, True) # ws @ [(CCopyDir cur prev, b)]
        \<and> (CRename t path, True) \<in> set ws)"

lemma prepared_before: "prepared srcPath path cur prev pre \<Longrightarrow> prepared srcPath path cur prev (us @ pre)"
  unfolding prepared_def by (metis append.assoc)

lemma prepared_copied:
  "renamed_then_kept t path cur prev pre \<Longrightarrow> prepared srcPath path cur prev ((CCopyDir srcPath t, True) # pre)"
  unfolding prepared_def renamed_then_kept_def by (metis append_Nil)

lemma copied_switches:
  assumes "apart [cur, tmp, prev, path, path @ ''.old'', t]"
  shows "switches cur tmp prev (prepared srcPath path cur prev)
     (pass (copy_Copy us srcPath t) (\<lambda>_. copy_place us info t path prev cur tmp))"
  unfolding switches_def
proof
  fix h
  note apart = apart_wipes [OF assms] apart_distinct [OF assms]
  have run: "switch_run cur tmp prev (renamed_then_kept t path cur prev)
      (fst (copy_place us info t path prev cur tmp h')) (snd (copy_place us info t path prev cur tmp h'))" for h'
    using copy_place_switches [OF assms] by (simp add: switches_def)
  let ?m = "pass (copy_Copy us srcPath t) (\<lambda>_. copy_place us info t path prev cur tmp)"
  show "switch_run cur tmp prev (prepared srcPath path cur prev) (fst (?m h)) (snd (?m h))"
  proof (cases "us_Copy us h srcPath t")
    case (Inl e)
    then show ?thesis
      using apart by (intro link_kept) (simp_all add: copy_Copy_def leaves_def)
  next
    case (Inr u)
    have "switch_run cur tmp prev (prepared srcPath path cur prev) (fst (?m h))
        ([(CCopyDir srcPath t, True)] @ snd (copy_place us info t path prev cur tmp (h @ [(CCopyDir srcPath t, True)])))"
      by (rule switch_run_before [where R = "renamed_then_kept t path cur prev"])
         (use Inr apart run in \<open>simp_all add: copy_Copy_def leaves_def prepared_copied\<close>)
    then show ?thesis using Inr by (simp add: copy_Copy_def)
  qed
qed

text \<open>What the operating system promises: names of files, version links and temporary directories.\<close>

definition stat_names :: "FileSystem \<Rightarrow> bool" where
  "stat_names fs \<longleftrightarrow> (\<forall>h p info. fs_Stat fs h p = Inr info \<longrightarrow> fi_Name info = Base p)"

definition version_name :: "string \<Rightarrow> bool" where
  "version_name v \<longleftrightarrow> plain_name v \<and> v \<notin> {''current'', ''current.tmp'', ''previous''}"

definition version_links :: "FileSystem \<Rightarrow> bool" where
  "version_links fs \<longleftrightarrow> (\<forall>h p v. fs_Readlink fs h p = Inr v \<longrightarrow> version_name v)"

definition temp_dirs :: "UpgradeSys \<Rightarrow> bool" where
  "temp_dirs us \<longleftrightarrow> (\<forall>h d pat t. us_MkdirTemp us h d pat = Inr t \<longrightarrow>
     (\<exists>n. t = d @ pat @ show_nat n))"

lemma component_paths_apart:
  assumes dir: "component_dir dst key ds" and v: "version_name v"
  shows "apart [PathJoin [dst, key, ''current''], PathJoin [dst, key, ''current''] @ ''.tmp'',
     PathJoin [dst, key, ''previous''], PathJoin [dst, key, v], PathJoin [dst, key, v] @ ''.old'',
     PathJoin [dst, key, v] @ show_nat n]"
proof -
  let ?p = "\<lambda>x. rooted_path (ds @ [key, x])"
  let ?ns = "[''current'', ''current.tmp'', ''previous'', v, v @ ''.old'', v @ show_nat n]"
  have last: "is_digit (last (v @ show_nat n))" "show_nat n \<noteq> []"
    using show_nat_digits [of n] by (auto simp: list_all_iff)
  have "\<forall>x \<in> {''.'', ''..'', ''current'', ''current.tmp'', ''previous'', v @ ''.old''}. \<not> is_digit (last x)"
    by (simp add: is_digit_def)
  then have temp: "v @ show_nat n \<notin> {''.'', ''..'', ''current'', ''current.tmp'', ''previous'', v @ ''.old''}"
    using last(1) by blast
  have "v @ show_nat n \<notin> set [''current'', ''current.tmp'', ''previous'', v, v @ ''.old'']"
    using last(2) temp by simp
  moreover have "distinct [''current'', ''current.tmp'', ''previous'', v, v @ ''.old'']"
    using v by (auto simp: version_name_def)
  ultimately have distinct: "distinct ?ns" by auto
  have plain: "list_all plain_name ?ns"
    using v temp show_nat_digits [of n] by (auto simp: version_name_def plain_name_def list_all_iff is_digit_def)
  have suffix: "?p x @ s = ?p (x @ s)" for x s
    using rooted_path_suffix [of "ds @ [key]" x s] by simp
  have paths: "[PathJoin [dst, key, ''current''], PathJoin [dst, key, ''current''] @ ''.tmp'',
     PathJoin [dst, key, ''previous''], PathJoin [dst, key, v], PathJoin [dst, key, v] @ ''.old'',
     PathJoin [dst, key, v] @ show_nat n] = map ?p ?ns"
    using plain by (simp add: component_path [OF dir] suffix)
  have wipes: "wipes (?p x) (?p y) \<longleftrightarrow> x = y" if "x \<in> set ?ns" and "y \<in> set ?ns" for x y
    using wipes_component [OF dir] plain that unfolding list_all_iff by blast
  have "inj_on ?p (set ?ns)"
    using wipes by (intro inj_onI) (metis wipes_def)
  then have "distinct (map ?p ?ns)" using distinct unfolding distinct_map by blast
  then show ?thesis
    unfolding paths apart_def using wipes by auto
qed

lemma copy_version_body:
  assumes dir: "component_dir dst key ds" and v: "version_name v" and temp: "temp_dirs us"
  defines "cur \<equiv> PathJoin [dst, key, ''current'']" and "prev \<equiv> PathJoin [dst, key, ''previous'']"
    and "path \<equiv> PathJoin [dst, key, v]"
  shows "switches cur (cur @ ''.tmp'') prev (prepared srcPath path cur prev)
     (defer_call (Remove (us_FS us) (cur @ ''.tmp''))
       (pass (MkdirTemp us (fst (PathSplit path)) (snd (PathSplit path))) (\<lambda>t.
        defer_call (RemoveAll (us_FS us) t)
        (pass (copy_Copy us srcPath t) (\<lambda>_. copy_place us info t path prev cur (cur @ ''.tmp''))))))"
proof -
  let ?Q = "\<lambda>t. \<exists>n. t = path @ show_nat n"
  have apart: "apart [cur, cur @ ''.tmp'', prev, path, path @ ''.old'', path @ show_nat n]" for n
    unfolding cur_def prev_def path_def by (rule component_paths_apart [OF dir v])
  have names: "yields (\<lambda>r. \<forall>t. r = Inr t \<longrightarrow> ?Q t) (MkdirTemp us (fst (PathSplit path)) (snd (PathSplit path)))"
    using temp PathSplit_concat [of path]
    by (auto simp: MkdirTemp_def temp_dirs_def yields_def) (metis append.assoc)
  have body: "switches cur (cur @ ''.tmp'') prev (prepared srcPath path cur prev)
      (defer_call (RemoveAll (us_FS us) t)
        (pass (copy_Copy us srcPath t) (\<lambda>_. copy_place us info t path prev cur (cur @ ''.tmp''))))"
    if "?Q t" for t
  proof -
    from that obtain n where t: "t = path @ show_nat n" by blast
    show ?thesis
      unfolding t RemoveAll_def
      using apart_wipes [OF apart [of n]] apart_distinct [OF apart [of n]]
      by (intro switches_defer emits_perform copied_switches apart) (simp_all add: leaves_def)
  qed
  have "cur @ ''.tmp'' \<noteq> cur" "cur @ ''.tmp'' \<noteq> prev"
    using apart_distinct(1) [OF apart [of 0]] by auto
  then show ?thesis
    unfolding Remove_def
    by (intro switches_defer emits_perform switches_pass_val [OF _ _ names] body prepared_before)
       (simp_all add: leaves_def MkdirTemp_def emits_def)
qed

text \<open>
  \<open>safe_update st src dst key h r tr\<close>: the statement of the theorem below, for a run that starts after the
  history \<open>h\<close> with the links \<open>st\<close>, returns \<open>r\<close> and adds the events \<open>tr\<close>.
\<close>

definition safe_update ::
    "links \<Rightarrow> string \<Rightarrow> string \<Rightarrow> string \<Rightarrow> hist \<Rightarrow> err + bool \<Rightarrow> hist \<Rightarrow> bool" where
  "safe_update st src dst key h r tr \<longleftrightarrow>
     (let cur = PathJoin [dst, key, ''current'']; prev = PathJoin [dst, key, ''previous''];
          now = (\<lambda>tr. links_after st (h @ tr));
          switched = (\<lambda>tr. \<exists>v. now tr cur = Some v \<and> version_installed src dst key v tr)
      in (\<forall>pre post. tr = pre @ post \<longrightarrow> now pre cur = now [] cur \<or> switched pre)
       \<and> (if r = Inr True
          then switched tr \<and> (now tr prev = now [] cur \<or> (CCopyDir cur prev, False) \<in> set tr)
          else now tr cur = now [] cur))"

lemma version_installed_before:
  "version_installed src dst key v tr \<Longrightarrow> version_installed src dst key v (us @ tr)"
  unfolding version_installed_def by (metis append.assoc)

lemma version_installed_after:
  "version_installed src dst key v tr \<Longrightarrow> version_installed src dst key v (tr @ us)"
  unfolding version_installed_def by (metis (no_types, opaque_lifting) Un_iff append.assoc append_Cons set_append)

lemma prepared_installed:
  "prepared (PathJoin [src, key, v]) (PathJoin [dst, key, v]) cur prev pre \<Longrightarrow> version_installed src dst key v pre"
  unfolding prepared_def version_installed_def
  by (metis (no_types, opaque_lifting) Un_iff set_append)

lemma safe_update_kept:
  assumes "list_all (leaves (PathJoin [dst, key, ''current''])) tr" and "r \<noteq> Inr True"
  shows "safe_update st src dst key h r tr"
  using assms by (auto simp: safe_update_def Let_def links_after_leaves)

lemma prefix_cases:
  assumes "us @ tr = pre @ post"
  obtains ws where "us = pre @ ws" | ws where "pre = us @ ws" "tr = ws @ post"
  using assms by (auto simp: append_eq_append_conv2)

lemma safe_update_before:
  assumes safe: "safe_update st src dst key (h @ us) r tr"
    and us: "list_all (leaves (PathJoin [dst, key, ''current''])) us"
  shows "safe_update st src dst key h r (us @ tr)"
proof -
  let ?cur = "PathJoin [dst, key, ''current'']"
  have cur: "links_after st (h @ us) ?cur = links_after st h ?cur"
    using links_after_leaves [OF us] by simp
  have "links_after st (h @ pre) ?cur = links_after st h ?cur \<or>
      (\<exists>v. links_after st (h @ pre) ?cur = Some v \<and> version_installed src dst key v pre)"
    if split: "us @ tr = pre @ post" for pre post
    using split
  proof (rule prefix_cases)
    fix ws assume "us = pre @ ws"
    then have "list_all (leaves ?cur) pre" using us by simp
    then show ?thesis by (simp add: links_after_leaves)
  next
    fix ws assume pre: "pre = us @ ws" and "tr = ws @ post"
    then have "links_after st ((h @ us) @ ws) ?cur = links_after st (h @ us) ?cur \<or>
      (\<exists>v. links_after st ((h @ us) @ ws) ?cur = Some v \<and> version_installed src dst key v ws)"
      using safe unfolding safe_update_def Let_def by (metis append_Nil2)
    then show ?thesis
      using cur version_installed_before [of src dst key _ ws us] unfolding pre by auto
  qed
  then show ?thesis
    using safe cur version_installed_before [of src dst key _ tr us]
    unfolding safe_update_def Let_def by (auto split: if_splits)
qed

lemma safe_update_switch:
  assumes run: "switch_run cur tmp prev (prepared (PathJoin [src, key, v]) (PathJoin [dst, key, v]) cur prev) r tr"
    and cur: "cur = PathJoin [dst, key, ''current'']" and prev: "prev = PathJoin [dst, key, ''previous'']"
    and tmp: "links_after st h tmp = Some v" and apart: "\<not> wipes tmp prev" "\<not> wipes cur prev"
  shows "safe_update st src dst key h r tr"
  using run
proof cases
  case link_kept
  then show ?thesis unfolding cur by (rule safe_update_kept)
next
  case (link_switched pre post b)
  let ?now = "\<lambda>tr. links_after st (h @ tr)"
  have kept: "?now us cur = ?now [] cur" if "pre = us @ ws" for us ws
    using link_switched(2) that by (simp add: links_after_leaves)
  have "?now pre tmp = Some v" using tmp link_switched(3) by (simp add: links_after_leaves)
  then have after: "?now (pre @ (CRename tmp cur, b) # us) cur = (if b then Some v else ?now [] cur)"
    if "post = us @ ws" for us ws
    using link_switched(5) that kept [of pre "[]"]
    by (simp add: links_after_leaves link_effect_renamed) (simp add: link_effect_def)
  have installed: "version_installed src dst key v (pre @ us)" for us
    using prepared_installed [OF link_switched(4)] by (rule version_installed_after)
  have crash: "?now us cur = ?now [] cur \<or> (\<exists>v. ?now us cur = Some v \<and> version_installed src dst key v us)"
    if "tr = us @ ws" for us ws
  proof -
    have "pre @ (CRename tmp cur, b) # post = us @ ws" using that link_switched(1) by simp
    then show ?thesis
    proof (rule prefix_cases)
      fix zs assume us: "us = pre @ zs" and zs: "(CRename tmp cur, b) # post = zs @ ws"
      show ?thesis
      proof (cases zs)
        case Nil
        then show ?thesis using kept [of pre "[]"] us by simp
      next
        case (Cons ev ys)
        then have "us = pre @ (CRename tmp cur, b) # ys" and "post = ys @ ws" using us zs by auto
        then show ?thesis using after installed by (cases b) auto
      qed
    qed (use kept in blast)
  qed
  have "?now tr prev = ?now [] cur \<or> (CCopyDir cur prev, False) \<in> set tr"
  proof -
    obtain us d where pre: "pre = us @ [(CCopyDir cur prev, d)]"
      using link_switched(4) unfolding prepared_def by (metis append.assoc append_Cons)
    have "?now tr prev = ?now pre prev"
      using link_switched(1,6) apart
      by (simp add: links_after_leaves link_effect_leaves leaves_def)
    moreover have "?now pre prev = ?now us cur" if d
      using that by (simp add: pre link_effect_copied)
    ultimately show ?thesis using kept [OF pre] pre link_switched(1) by (cases d) auto
  qed
  then show ?thesis
    using crash after [of post "[]"] installed link_switched(1,7)
    unfolding safe_update_def Let_def cur prev by (cases b) auto
qed

lemma copy_version_safe:
  assumes dir: "component_dir dst key ds" and v: "version_name (fi_Name info)" and temp: "temp_dirs us"
  shows "safe_update st src dst key h (fst (copy_version us src dst key info h)) (snd (copy_version us src dst key info h))"
proof -
  let ?v = "fi_Name info"
  let ?cur = "PathJoin [dst, key, ''current'']" and ?prev = "PathJoin [dst, key, ''previous'']"
  let ?path = "PathJoin [dst, key, ?v]" and ?src = "PathJoin [src, key, ?v]"
  let ?tmp = "?cur @ ''.tmp''"
  let ?body = "defer_call (Remove (us_FS us) ?tmp)
       (pass (MkdirTemp us (fst (PathSplit ?path)) (snd (PathSplit ?path))) (\<lambda>t.
        defer_call (RemoveAll (us_FS us) t)
        (pass (copy_Copy us ?src t) (\<lambda>_. copy_place us info t ?path ?prev ?cur ?tmp))))"
  have base: "Base ?path = ?v"
    using Base_rooted [of "ds @ [key]" ?v] component_path [OF dir] v by (simp add: version_name_def)
  have run: "copy_version us src dst key info = pass (Symlink (us_FS us) ?v ?tmp) (\<lambda>_. ?body)"
    unfolding copy_version_def Let_def base VersionCurrent_def VersionPrevious_def ..
  note apart = component_paths_apart [OF dir v, of 0]
  show ?thesis
  proof (cases "fs_Symlink (us_FS us) h ?v ?tmp")
    case (Inl e)
    then show ?thesis
      unfolding run by (intro safe_update_kept) (simp_all add: Symlink_def leaves_def)
  next
    case (Inr u)
    let ?h = "h @ [(CSymlink ?v ?tmp, True)]"
    have "safe_update st src dst key ?h (fst (?body ?h)) (snd (?body ?h))"
    proof (rule safe_update_switch)
      show "switch_run ?cur ?tmp ?prev (prepared ?src ?path ?cur ?prev) (fst (?body ?h)) (snd (?body ?h))"
        using copy_version_body [OF dir v temp] by (simp add: switches_def)
      show "links_after st ?h ?tmp = Some ?v" by (simp add: link_effect_def)
      show "\<not> wipes ?tmp ?prev" "\<not> wipes ?cur ?prev"
        using apart_wipes [OF apart] apart_distinct(1) [OF apart] by auto
    qed simp_all
    then have "safe_update st src dst key h (fst (?body ?h)) ([(CSymlink ?v ?tmp, True)] @ snd (?body ?h))"
      by (rule safe_update_before) (simp add: leaves_def)
    then show ?thesis unfolding run using Inr by (simp add: Symlink_def)
  qed
qed

lemma StatComponentVersion_name:
  assumes "stat_names fs" and "version_links fs" and dir: "component_dir root key ds"
    and "fst (StatComponentVersion fs root key alias h) = Inr info"
  shows "version_name (fi_Name info)"
proof -
  obtain v h1 h2 where v: "fs_Readlink fs h1 (PathJoin [root, key, alias]) = Inr v"
    and i: "fs_Stat fs h2 (PathJoin [root, key, v]) = Inr info"
    using assms(4)
    by (auto simp: StatComponentVersion_def Let_def Stat_def Readlink_def split: sum.splits if_splits)
  have "version_name v" using assms(2) v by (auto simp: version_links_def)
  moreover from this have "Base (PathJoin [root, key, v]) = v"
    using Base_rooted [of "ds @ [key]" v] component_path [OF dir] by (simp add: version_name_def)
  ultimately show ?thesis using assms(1) i by (simp add: stat_names_def)
qed

lemma quiet_events:
  "emits (leaves p) (StatComponentVersion fs root key alias)"
  "emits (leaves p) (mount_ForceMount ms device target mType options)"
  unfolding StatComponentVersion_def mount_ForceMount_def mount_call_def resolveDevice_def sys_mount_def Let_def
    Stat_def Readlink_def case_prod_beta
  by (intro emits_intros conjI impI; simp add: leaves_def)+

definition updates :: "links \<Rightarrow> string \<Rightarrow> string \<Rightarrow> string \<Rightarrow> bool go \<Rightarrow> bool" where
  "updates st src dst key m \<longleftrightarrow> (\<forall>h. safe_update st src dst key h (fst (m h)) (snd (m h)))"

lemma updates_ret: "r \<noteq> Inr True \<Longrightarrow> updates st src dst key (ret r)"
  by (simp add: updates_def safe_update_kept)

lemma updates_bnd:
  assumes "emits (leaves (PathJoin [dst, key, ''current''])) m"
    and "\<And>h. updates st src dst key (k (fst (m h)))"
  shows "updates st src dst key (bnd m k)"
  using assms by (auto simp: emits_def updates_def intro!: safe_update_before)

lemma updates_pass:
  assumes "emits (leaves (PathJoin [dst, key, ''current''])) m" and "\<And>x. updates st src dst key (k x)"
  shows "updates st src dst key (pass m k)"
  unfolding pass_def using assms by (intro updates_bnd) (auto simp: updates_ret split: sum.split)

text \<open>C5: An update of a component cannot leave it broken. Wherever the run of CopyComponent is cut off, the
  link current of the destination is as it was, or it names a version that was copied completely and moved
  into place before. When CopyComponent reports that it copied, current is such a version and previous is
  the version that was current before (or copying that link failed); when it reports an error, or that there
  was nothing to do, current is as it was.\<close>

theorem CopyComponent_safe:
  assumes "component_dir src key ss" and "component_dir dst key ds"
    and "stat_names (us_FS us)" and "version_links (us_FS us)" and "temp_dirs us"
  shows "let (r, tr) = CopyComponent us src dst remount key h;
             cur = PathJoin [dst, key, ''current'']; prev = PathJoin [dst, key, ''previous''];
             now = (\<lambda>tr. links_after st (h @ tr));
             switched = (\<lambda>tr. \<exists>v. now tr cur = Some v \<and> version_installed src dst key v tr)
         in (\<forall>pre post. tr = pre @ post \<longrightarrow> now pre cur = now [] cur \<or> switched pre)
          \<and> (if r = Inr True
             then switched tr \<and> (now tr prev = now [] cur \<or> (CCopyDir cur prev, False) \<in> set tr)
             else now tr cur = now [] cur)"
proof -
  let ?cur = "PathJoin [dst, key, ''current'']"
  have version: "updates st src dst key (copy_version us src dst key info)"
    if "fst (StatComponentVersion (us_FS us) src key VersionCurrent h) = Inr info" for info h
    using StatComponentVersion_name [OF assms(3,4,1) that] copy_version_safe [OF assms(2) _ assms(5)]
    by (simp add: updates_def)
  have remount: "emits (leaves ?cur)
      (if remount then mount_ForceMount (us_MS us) [] dst ''none'' ''remount,rw'' else ok ())"
    by (simp add: quiet_events emits_ret)
  have "updates st src dst key (CopyComponent us src dst remount key)"
    unfolding CopyComponent_def
  proof (rule updates_bnd [OF quiet_events(1)])
    fix h
    show "updates st src dst key
       (case fst (StatComponentVersion (us_FS us) src key VersionCurrent h) of Inl (e, _) \<Rightarrow> fail e
        | Inr srcInfo \<Rightarrow>
            bnd (StatComponentVersion (us_FS us) dst key VersionCurrent) (\<lambda>d.
            if map_option fi_Name (stat_info d) = Some (fi_Name srcInfo) then ok False
            else pass (if remount then mount_ForceMount (us_MS us) [] dst ''none'' ''remount,rw'' else ok ())
                   (\<lambda>_. copy_version us src dst key srcInfo)))"
      using version [of h] remount
      by (auto intro!: updates_bnd updates_pass quiet_events updates_ret split: sum.split)
  qed
  then show ?thesis
    unfolding updates_def safe_update_def Let_def case_prod_beta by (rule spec)
qed

definition upgrade_fs :: FileSystem where
  "upgrade_fs = fs_ok\<lparr>fs_Stat := (\<lambda>_ p. Inr (info_dir\<lparr>fi_Name := Base p\<rparr>)),
     fs_Readlink := (\<lambda>_ p. Inr (if HasPrefix p ''/new'' then ''v2'' else ''v1''))\<rparr>"

definition upgrade_ok :: UpgradeSys where
  "upgrade_ok = \<lparr>us_FS = upgrade_fs, us_MS = \<lparr>ms_FS = upgrade_fs, ms_Mount = (\<lambda>_ _ _ _ _ _. Inr ())\<rparr>,
     us_MkdirTemp = (\<lambda>_ d pat. Inr (d @ pat @ show_nat 7)), us_Copy = (\<lambda>_ _ _. Inr ())\<rparr>"

lemma upgrade_ok_promises:
  "stat_names (us_FS upgrade_ok)" "version_links (us_FS upgrade_ok)" "temp_dirs upgrade_ok"
  by (auto simp: upgrade_ok_def upgrade_fs_def fixture_defs stat_names_def version_links_def version_name_def
      plain_name_def temp_dirs_def split: if_splits)

lemma component_dir_example: "component_dir ''/new/system'' ''k3os'' [''new'', ''system'']"
  "component_dir ''/old/system'' ''k3os'' [''old'', ''system'']"
  by (simp_all add: component_dir_def rooted_path_def plain_name_def)

theorem CopyComponent_safe_witness:
  "fst (CopyComponent upgrade_ok ''/new/system'' ''/old/system'' True ''k3os'' []) = Inr True \<and>
   (\<exists>v. links_after (\<lambda>_. None) (snd (CopyComponent upgrade_ok ''/new/system'' ''/old/system'' True ''k3os'' []))
        (PathJoin [''/old/system'', ''k3os'', ''current'']) = Some v \<and>
      version_installed ''/new/system'' ''/old/system'' ''k3os'' v
        (snd (CopyComponent upgrade_ok ''/new/system'' ''/old/system'' True ''k3os'' [])))"
proof -
  have "fst (CopyComponent upgrade_ok ''/new/system'' ''/old/system'' True ''k3os'' []) = Inr True"
    by code_simp
  then show ?thesis
    using CopyComponent_safe [OF component_dir_example upgrade_ok_promises,
        where remount = True and h = "[]" and st = "\<lambda>_. None"]
    by (auto simp: Let_def case_prod_beta)
qed

subsection \<open>What is left behind\<close>

text \<open>
  A directory of the same version is moved to a name with the suffix \<open>.old\<close>. The deferred rename back fails
  when the new version is in place, and no call of the run removes the directory: it stays, and the next
  update to the same version has to rename onto it.
\<close>

lemma old_version_stays:
  assumes "prev \<noteq> path @ ''.old''"
  shows "emits (\<lambda>ev. fst ev \<noteq> CRemove (path @ ''.old'') \<and> fst ev \<noteq> CRemoveAll (path @ ''.old''))
     (copy_place us info t path prev cur tmp)"
  unfolding copy_place_def copy_finish_def defer_call_def Let_def copy_Copy_def Stat_def Rename_def Remove_def Chmod_def
  using assms by (intro emits_intros; simp)

text \<open>A run that reports a copy has switched the link.\<close>

definition switch_event :: "string \<Rightarrow> event \<Rightarrow> bool" where
  "switch_event cur ev \<longleftrightarrow> (\<exists>t. ev = (CRename t cur, True))"

definition achieves :: "(event \<Rightarrow> bool) \<Rightarrow> bool go \<Rightarrow> bool" where
  "achieves P m \<longleftrightarrow> (\<forall>h. fst (m h) = Inr True \<longrightarrow> list_ex P (snd (m h)))"

lemma achieves_ret: "r \<noteq> Inr True \<Longrightarrow> achieves P (ret r)"
  by (simp add: achieves_def)

lemma achieves_bnd: "(\<And>x. achieves P (k x)) \<Longrightarrow> achieves P (bnd m k)"
  by (simp add: achieves_def)

lemma achieves_pass: "(\<And>x. achieves P (k x)) \<Longrightarrow> achieves P (pass m k)"
  by (simp add: achieves_def split: sum.split)

lemma achieves_ignore: "achieves P k \<Longrightarrow> achieves P (ignore m k)"
  by (simp add: achieves_def)

lemma achieves_defer: "achieves P m \<Longrightarrow> achieves P (defer_call d m)"
  by (simp add: achieves_def defer_call_def)

lemma achieves_if: "achieves P m \<Longrightarrow> achieves P n \<Longrightarrow> achieves P (if b then m else n)"
  by simp

lemma achieves_sum: "(\<And>e. achieves P (f e)) \<Longrightarrow> (\<And>v. achieves P (g v)) \<Longrightarrow> achieves P (case x of Inl e \<Rightarrow> f e | Inr v \<Rightarrow> g v)"
  by (simp split: sum.split)

lemma CopyComponent_switched:
  "achieves (switch_event (PathJoin [dst, key, ''current''])) (CopyComponent us src dst remount key)"
proof -
  have final: "achieves (switch_event cur) (pass (Rename fs tmp cur) (\<lambda>_. ok True))" for fs tmp cur
    by (simp add: achieves_def Rename_def switch_event_def split: sum.split)
  show ?thesis
    unfolding CopyComponent_def copy_version_def copy_place_def copy_finish_def Let_def VersionCurrent_def case_prod_beta
    by (intro final achieves_bnd achieves_pass achieves_ignore achieves_defer achieves_if achieves_sum achieves_ret) simp_all
qed

end
