(* ===== verification/Upgrade.thy ===== *)
theory Upgrade
  imports System_Component
begin

section \<open>The upgrade command: internal/cli/upgrade/upgrade.go\<close>

text \<open>
  Components are copied under an exclusive lock, and the machine is rebooted only when one of them was
  switched to a new version. \<open>UpgradeRun\<close> adds to the boundary of the components the lock file, the
  system calls and the command runner. Flag parsing and help texts belong to a package outside the
  repository; \<open>upgradeOpts\<close> holds the values it stores.
\<close>

subsection \<open>Definitions\<close>

record upgradeOpts =
  uo_upgradeK3OS :: bool
  uo_upgradeK3S :: bool
  uo_upgradeKernel :: bool
  uo_upgradeRootFS :: bool
  uo_doRemount :: bool
  uo_doSync :: bool
  uo_doReboot :: bool
  uo_sourceDir :: string
  uo_destinationDir :: string
  uo_lockFile :: string

record UpgradeRun =
  ur_US :: UpgradeSys
  ur_OpenLock :: "hist \<Rightarrow> string \<Rightarrow> err + unit"
  ur_Flock :: "hist \<Rightarrow> string \<Rightarrow> nat \<Rightarrow> err + unit"
  ur_LookPath :: "hist \<Rightarrow> string \<Rightarrow> err + string"
  ur_Sys :: "hist \<Rightarrow> string \<Rightarrow> string list \<Rightarrow> err + unit"
  ur_Cmd :: CommandRunner

text \<open>The \<open>Before\<close> hook: the options as it leaves them.\<close>

definition upgrade_Before :: "upgradeOpts \<Rightarrow> err + upgradeOpts" where
  "upgrade_Before opts =
     (if uo_destinationDir opts = uo_sourceDir opts then Inl (Msg ''the destination cannot be the source'')
      else
        let opts' = (if uo_upgradeRootFS opts then opts\<lparr>uo_upgradeK3S := True, uo_upgradeK3OS := True\<rparr> else opts) in
        if \<not> uo_upgradeK3OS opts' \<and> \<not> uo_upgradeK3S opts' \<and> \<not> uo_upgradeKernel opts'
        then Inl (Msg ''must specify components to upgrade'')
        else Inr opts')"

definition validateSystemRoot :: "FileSystem \<Rightarrow> string \<Rightarrow> unit go" where
  "validateSystemRoot fs root =
     pass (Stat fs root) (\<lambda>info. if fi_IsDir info then ok () else fail (Msg ''not a directory''))"

abbreviation LOCK_EX_NB :: nat where "LOCK_EX_NB \<equiv> 6"
abbreviation LOCK_UN :: nat where "LOCK_UN \<equiv> 8"

definition Flock :: "UpgradeRun \<Rightarrow> string \<Rightarrow> nat \<Rightarrow> unit go" where
  "Flock ur f how = perform (CSys ''flock'' [f] [how]) (\<lambda>h. ur_Flock ur h f how)"

definition ur_call :: "UpgradeRun \<Rightarrow> string \<Rightarrow> string list \<Rightarrow> unit go" where
  "ur_call ur name args = perform (CSys name args []) (\<lambda>h. ur_Sys ur h name args)"

text \<open>The components asked for, in the order of the code.\<close>

definition upgrade_keys :: "upgradeOpts \<Rightarrow> string list" where
  "upgrade_keys opts =
     (if uo_upgradeK3OS opts then [''k3os''] else []) @
     (if uo_upgradeK3S opts then [''k3s''] else []) @
     (if uo_upgradeKernel opts then [''kernel''] else [])"

text \<open>
  Lines 150 to 175: an error is logged and the next component is tried; after the first copy the
  destination is not remounted again. The result is \<open>atLeastOneComponentCopied\<close>.
\<close>

fun upgrade_components :: "UpgradeSys \<Rightarrow> string \<Rightarrow> string \<Rightarrow> string list \<Rightarrow> bool \<Rightarrow> bool \<Rightarrow> bool io" where
  "upgrade_components us src dst [] doRemount copied = ret copied"
| "upgrade_components us src dst (key # keys) doRemount copied =
     bnd (CopyComponent us src dst doRemount key) (\<lambda>r.
     if r = Inr True then upgrade_components us src dst keys False True
     else upgrade_components us src dst keys doRemount copied)"

definition reboot_args :: "string list" where
  "reboot_args = [''-m'', ''-u'', ''-i'', ''-n'', ''-p'', ''-t'', ''1'', ''reboot'']"

definition upgrade_reboot :: "UpgradeRun \<Rightarrow> upgradeOpts \<Rightarrow> unit go" where
  "upgrade_reboot ur opts =
     bnd (perform (CSys ''lookpath'' [''nsenter''] []) (\<lambda>h. ur_LookPath ur h ''nsenter'')) (\<lambda>l.
     pass (if isl l \<and> uo_destinationDir opts \<noteq> RootPath [] then
             let root = Clean (PathJoin [uo_destinationDir opts, ''..'', ''..'']) in
             pass (ur_call ur ''chroot'' [root]) (\<lambda>_. ur_call ur ''chdir'' [''/''])
           else ok ()) (\<lambda>_.
     Run (ur_Cmd ur) ''nsenter'' reboot_args))"

definition upgrade_locked :: "UpgradeRun \<Rightarrow> upgradeOpts \<Rightarrow> unit go" where
  "upgrade_locked ur opts =
     bnd (upgrade_components (ur_US ur) (uo_sourceDir opts) (uo_destinationDir opts) (upgrade_keys opts)
       (uo_doRemount opts) False) (\<lambda>copied.
     ignore (if copied \<and> uo_doSync opts then observe (CSys ''sync'' [] []) (\<lambda>_. ()) else ret ())
     (if copied \<and> uo_doReboot opts then upgrade_reboot ur opts else ok ()))"

definition upgrade_Run :: "UpgradeRun \<Rightarrow> upgradeOpts \<Rightarrow> unit go" where
  "upgrade_Run ur opts =
     (let lf = uo_lockFile opts; fs = us_FS (ur_US ur) in
      pass (validateSystemRoot fs (uo_sourceDir opts)) (\<lambda>_.
      pass (validateSystemRoot fs (uo_destinationDir opts)) (\<lambda>_.
      pass (perform (CSys ''open'' [lf] []) (\<lambda>h. ur_OpenLock ur h lf)) (\<lambda>_.
      defer_call (FileClose fs lf)
      (pass (Flock ur lf LOCK_EX_NB) (\<lambda>_.
       defer_call (Flock ur lf LOCK_UN) (upgrade_locked ur opts)))))))"

subsection \<open>The lock and the reboot\<close>

text \<open>Calls that change the disk, and calls that only look.\<close>

definition changes :: "event \<Rightarrow> bool" where
  "changes ev =
     (case fst ev of
        CStat _ \<Rightarrow> False | CReadlink _ \<Rightarrow> False | CFileClose _ \<Rightarrow> False
      | CSys name _ _ \<Rightarrow> name \<notin> {''open'', ''flock'', ''lookpath''}
      | _ \<Rightarrow> True)"

definition lock_event :: "string \<Rightarrow> event \<Rightarrow> bool" where
  "lock_event lf ev \<longleftrightarrow> ev = (CSys ''flock'' [lf] [LOCK_EX_NB], True)"

definition unlocks :: "string \<Rightarrow> event \<Rightarrow> bool" where
  "unlocks lf ev \<longleftrightarrow> fst ev = CSys ''flock'' [lf] [LOCK_UN] \<or> fst ev = CFileClose lf"

definition reboots :: "event \<Rightarrow> bool" where
  "reboots ev \<longleftrightarrow> fst ev = CRun ''nsenter'' reboot_args"

lemma validate_quiet: "emits (\<lambda>ev. \<not> changes ev \<and> \<not> reboots ev) (validateSystemRoot fs root)"
  unfolding validateSystemRoot_def Stat_def by (intro emits_intros) (simp_all add: changes_def reboots_def)

text \<open>Nothing between the lock and its release gives the lock up, and no component reboots the machine.\<close>

definition works :: "string \<Rightarrow> event \<Rightarrow> bool" where
  "works lf ev \<longleftrightarrow> \<not> unlocks lf ev \<and> \<not> reboots ev"

lemma copy_finish_works: "emits (works lf) (copy_finish us info t path prev cur tmp)"
  unfolding copy_finish_def copy_Copy_def Rename_def Chmod_def Remove_def
  by (intro emits_intros; simp add: works_def unlocks_def reboots_def)

lemma copy_place_works: "emits (works lf) (copy_place us info t path prev cur tmp)"
  unfolding copy_place_def Let_def defer_call_def Stat_def Rename_def Remove_def
  by (intro emits_intros copy_finish_works; simp add: works_def unlocks_def reboots_def)

lemma copy_version_works: "emits (works lf) (copy_version us src dst key info)"
  unfolding copy_version_def Let_def defer_call_def copy_Copy_def MkdirTemp_def Symlink_def Remove_def RemoveAll_def
  by (intro emits_intros copy_place_works; simp add: works_def unlocks_def reboots_def)

lemma CopyComponent_works: "emits (works lf) (CopyComponent us src dst remount key)"
  unfolding CopyComponent_def StatComponentVersion_def mount_ForceMount_def mount_call_def resolveDevice_def
    sys_mount_def Let_def case_prod_beta Stat_def Readlink_def
  by (intro emits_intros conjI impI copy_version_works; simp add: works_def unlocks_def reboots_def)

lemma upgrade_components_works: "emits (works lf) (upgrade_components us src dst keys remount copied)"
  by (induction keys arbitrary: remount copied) (auto intro!: emits_intros CopyComponent_works)

lemma upgrade_components_switched:
  "fst (upgrade_components us src dst keys remount copied h) \<Longrightarrow> \<not> copied \<Longrightarrow>
     list_ex (\<lambda>ev. \<exists>key \<in> set keys. switch_event (PathJoin [dst, key, ''current'']) ev)
       (snd (upgrade_components us src dst keys remount copied h))"
proof (induction keys arbitrary: remount copied h)
  case (Cons key keys)
  let ?m = "CopyComponent us src dst remount key"
  show ?case
  proof (cases "fst (?m h) = Inr True")
    case True
    then have "list_ex (switch_event (PathJoin [dst, key, ''current''])) (snd (?m h))"
      using CopyComponent_switched [of dst key us src remount] by (simp add: achieves_def)
    then show ?thesis by (auto simp: list_ex_iff)
  next
    case False
    then show ?thesis using Cons by (fastforce simp: list_ex_iff)
  qed
qed simp

lemma upgrade_reboot_works: "emits (\<lambda>ev. \<not> unlocks lf ev) (upgrade_reboot ur opts)"
  unfolding upgrade_reboot_def ur_call_def Run_def Let_def
  by (intro emits_intros conjI impI; simp add: unlocks_def)

lemma upgrade_locked_keeps_lock: "emits (\<lambda>ev. \<not> unlocks lf ev) (upgrade_locked ur opts)"
proof -
  have "emits (\<lambda>ev. \<not> unlocks lf ev)
      (upgrade_components (ur_US ur) src dst keys remount copied)" for src dst keys remount copied
    using upgrade_components_works [of lf] by (rule emits_weaken) (simp add: works_def)
  then show ?thesis
    unfolding upgrade_locked_def
    by (intro emits_intros upgrade_reboot_works; simp add: unlocks_def)
qed

abbreviation switched_one :: "upgradeOpts \<Rightarrow> event \<Rightarrow> bool" where
  "switched_one opts ev \<equiv>
     \<exists>key \<in> set (upgrade_keys opts). switch_event (PathJoin [uo_destinationDir opts, key, ''current'']) ev"

lemma upgrade_locked_reboot: "guarded reboots (switched_one opts) (snd (upgrade_locked ur opts h))"
proof -
  let ?c = "upgrade_components (ur_US ur) (uo_sourceDir opts) (uo_destinationDir opts) (upgrade_keys opts)
     (uo_doRemount opts) False"
  have quiet: "guarded reboots (switched_one opts) (snd (?c h))"
    using upgrade_components_works [of "[]"] by (intro guarded_none) (auto simp: emits_def works_def list_all_iff)
  show ?thesis
  proof (cases "fst (?c h)")
    case True
    then show ?thesis
      unfolding upgrade_locked_def using quiet upgrade_components_switched [OF True] by simp
  next
    case False
    then show ?thesis unfolding upgrade_locked_def using quiet by simp
  qed
qed

text \<open>
  A run in three parts: before the lock is held, while it is held, after it was released.
\<close>

definition exclusive :: "upgradeOpts \<Rightarrow> hist \<Rightarrow> bool" where
  "exclusive opts tr \<longleftrightarrow>
     (\<exists>pre mid post. tr = pre @ mid @ post
        \<and> list_all (\<lambda>ev. \<not> changes ev) pre \<and> list_all (\<lambda>ev. \<not> changes ev) post
        \<and> (mid = [] \<or> pre \<noteq> [] \<and> lock_event (uo_lockFile opts) (last pre))
        \<and> list_all (\<lambda>ev. \<not> unlocks (uo_lockFile opts) ev) mid
        \<and> guarded reboots (switched_one opts) tr)"

lemma changes_reboots: "\<not> changes ev \<Longrightarrow> \<not> reboots ev"
  by (rule notI) (simp add: changes_def reboots_def)

lemma quiet_no_reboot: "list_all (\<lambda>ev. \<not> changes ev) tr \<Longrightarrow> guarded reboots Q tr"
  unfolding list_all_iff by (rule guarded_none) (metis changes_reboots list_all_iff)

lemma exclusive_quiet: "list_all (\<lambda>ev. \<not> changes ev) tr \<Longrightarrow> exclusive opts tr"
  unfolding exclusive_def
  by (rule exI [of _ tr], rule exI [of _ "[]"], rule exI [of _ "[]"]) (simp add: quiet_no_reboot)

lemma exclusive_before:
  assumes "exclusive opts tr" and us: "list_all (\<lambda>ev. \<not> changes ev) us"
  shows "exclusive opts (us @ tr)"
proof -
  from assms(1) obtain pre mid post where parts: "tr = pre @ mid @ post"
    "list_all (\<lambda>ev. \<not> changes ev) pre" "list_all (\<lambda>ev. \<not> changes ev) post"
    "mid = [] \<or> pre \<noteq> [] \<and> lock_event (uo_lockFile opts) (last pre)"
    "list_all (\<lambda>ev. \<not> unlocks (uo_lockFile opts) ev) mid" "guarded reboots (switched_one opts) tr"
    unfolding exclusive_def by blast
  have "guarded reboots (switched_one opts) us"
    using us by (rule quiet_no_reboot)
  then have "guarded reboots (switched_one opts) (us @ tr)"
    unfolding guarded_append using parts(6) by blast
  moreover have "us @ tr = (us @ pre) @ mid @ post" using parts(1) by simp
  moreover have "list_all (\<lambda>ev. \<not> changes ev) (us @ pre)" using parts(2) us by simp
  moreover have "mid = [] \<or> us @ pre \<noteq> [] \<and> lock_event (uo_lockFile opts) (last (us @ pre))"
    using parts(4) by (elim disjE conjE) simp_all
  ultimately show ?thesis
    unfolding exclusive_def using parts(3,5) by blast
qed

lemma exclusive_pass:
  assumes "emits (\<lambda>ev. \<not> changes ev) m" and "\<And>x h. exclusive opts (snd (k x h))"
  shows "exclusive opts (snd (pass m k h))"
proof -
  have "list_all (\<lambda>ev. \<not> changes ev) (snd (m h))" using assms(1) by (simp add: emits_def)
  then show ?thesis
    using assms(2) by (cases "fst (m h)") (simp_all add: exclusive_before exclusive_quiet)
qed

text \<open>C6: An upgrade changes the disk only while it holds its lock, and reboots only into something new. The
  run has a first and a last part in which no call changes anything; between them the lock file was locked
  by the last call before, and nothing gives it up; and a reboot is started only after the link current of
  one of the components asked for was switched.\<close>

theorem upgrade_Run_exclusive:
  "\<exists>pre mid post. snd (upgrade_Run ur opts h) = pre @ mid @ post
     \<and> list_all (\<lambda>ev. \<not> changes ev) pre \<and> list_all (\<lambda>ev. \<not> changes ev) post
     \<and> (mid = [] \<or> pre \<noteq> [] \<and> lock_event (uo_lockFile opts) (last pre))
     \<and> list_all (\<lambda>ev. \<not> unlocks (uo_lockFile opts) ev) mid
     \<and> guarded reboots
         (\<lambda>ev. \<exists>key \<in> set (upgrade_keys opts). switch_event (PathJoin [uo_destinationDir opts, key, ''current'']) ev)
         (snd (upgrade_Run ur opts h))"
proof -
  let ?lf = "uo_lockFile opts" and ?fs = "us_FS (ur_US ur)"
  let ?locked = "defer_call (FileClose ?fs ?lf) (pass (Flock ur ?lf LOCK_EX_NB) (\<lambda>_.
       defer_call (Flock ur ?lf LOCK_UN) (upgrade_locked ur opts)))"
  have locked: "exclusive opts (snd (?locked h))" for h
  proof (cases "ur_Flock ur h ?lf LOCK_EX_NB")
    case (Inl e)
    then show ?thesis
      by (intro exclusive_quiet) (simp add: defer_call_def Flock_def FileClose_def changes_def)
  next
    case (Inr u)
    let ?pre = "[(CSys ''flock'' [?lf] [LOCK_EX_NB], True)]"
    let ?mid = "snd (upgrade_locked ur opts (h @ ?pre))"
    obtain b1 b2 where tr: "snd (?locked h) = ?pre @ ?mid @ [(CSys ''flock'' [?lf] [LOCK_UN], b1), (CFileClose ?lf, b2)]"
      using Inr by (simp add: defer_call_def Flock_def FileClose_def)
    have "list_all (\<lambda>ev. \<not> unlocks ?lf ev) ?mid"
      using upgrade_locked_keeps_lock by (simp add: emits_def)
    moreover have "guarded reboots (switched_one opts) (snd (?locked h))"
      unfolding tr using upgrade_locked_reboot [of opts ur "h @ ?pre"] by (simp add: reboots_def)
    ultimately show ?thesis
      unfolding exclusive_def
      by - (rule exI [of _ ?pre], rule exI [of _ ?mid], rule exI, rule conjI [OF tr],
        simp add: changes_def lock_event_def)
  qed
  have "exclusive opts (snd (upgrade_Run ur opts h))"
    unfolding upgrade_Run_def Let_def
    by (intro exclusive_pass locked emits_weaken [OF validate_quiet] emits_perform) (simp_all add: changes_def)
  then show ?thesis unfolding exclusive_def .
qed

text \<open>The options that reach the run name two different roots and at least one component.\<close>

lemma upgrade_Before_ok:
  "upgrade_Before opts = Inr opts' \<Longrightarrow>
     uo_destinationDir opts' \<noteq> uo_sourceDir opts' \<and> upgrade_keys opts' \<noteq> []
     \<and> (uo_upgradeRootFS opts \<longrightarrow> prefix [''k3os'', ''k3s''] (upgrade_keys opts'))"
  by (auto simp: upgrade_Before_def upgrade_keys_def Let_def split: if_splits)

end
