(* ===== verification/Cli_App.thy ===== *)
theory Cli_App
  imports Initrd Upgrade Cli_Install Namespace
begin

section \<open>The command line and the entry points: internal/cli and main.go\<close>

text \<open>
  The sub-commands with their flags, what they run, and the dispatch of \<open>main\<close>: the binary is init, the
  program that enters the new root, or the command line tool, by the name it is called with. Parsing the arguments
  and showing help belong to a library: the parameter \<open>parse\<close> stands for what it makes of them, the command
  called and the values it stored in the destinations of the flags, or an error. The library runs the \<open>Before\<close> hook of a command and, when
  that returns no error, its action. \<open>reexec.Init\<close> runs the function registered under the name of the process, if there is one.
\<close>

subsection \<open>Flags and commands\<close>

datatype FlagKind = BoolFlag | StringFlag string bool

text \<open>\<open>StringFlag value required\<close> has a default value.\<close>

record Flag =
  fg_Name :: string
  fg_Sources :: "string list"
  fg_Kind :: FlagKind
  fg_Hidden :: bool

record Command =
  cmd_Name :: string
  cmd_Aliases :: "string list"
  cmd_Flags :: "Flag list"
  cmd_Hidden :: bool

record FlagVals =
  fv_Bool :: "string \<Rightarrow> bool"
  fv_String :: "string \<Rightarrow> string"

definition bool_flag :: "string \<Rightarrow> string list \<Rightarrow> bool \<Rightarrow> Flag" where
  "bool_flag name env hidden = \<lparr>fg_Name = name, fg_Sources = env, fg_Kind = BoolFlag, fg_Hidden = hidden\<rparr>"

definition string_flag :: "string \<Rightarrow> string list \<Rightarrow> string \<Rightarrow> bool \<Rightarrow> bool \<Rightarrow> Flag" where
  "string_flag name env val required hidden =
     \<lparr>fg_Name = name, fg_Sources = env, fg_Kind = StringFlag val required, fg_Hidden = hidden\<rparr>"

definition rc_Command :: Command where
  "rc_Command = \<lparr>cmd_Name = ''rc'', cmd_Aliases = [], cmd_Flags = [], cmd_Hidden = False\<rparr>"

definition config_Command :: Command where
  "config_Command = \<lparr>cmd_Name = ''config'', cmd_Aliases = [''cfg''],
     cmd_Flags = [bool_flag ''initrd'' [] False, bool_flag ''boot'' [] False, bool_flag ''install'' [] False,
                  bool_flag ''dump'' [] False, bool_flag ''dump-json'' [] False],
     cmd_Hidden = False\<rparr>"

text \<open>The destinations of the flags of \<open>config\<close>.\<close>

definition config_flags :: "FlagVals \<Rightarrow> ConfigFlags" where
  "config_flags v = \<lparr>cf_initrd = fv_Bool v ''initrd'', cf_bootPhase = fv_Bool v ''boot'',
     cf_installPhase = fv_Bool v ''install'', cf_dump = fv_Bool v ''dump'', cf_dumpJSON = fv_Bool v ''dump-json''\<rparr>"

definition install_Command :: "string \<Rightarrow> Command" where
  "install_Command m = \<lparr>cmd_Name = ''install'', cmd_Aliases = [], cmd_Flags = [], cmd_Hidden = (m = ''local'')\<rparr>"

definition upgrade_Command :: Command where
  "upgrade_Command = \<lparr>cmd_Name = ''upgrade'', cmd_Aliases = [],
     cmd_Flags =
       [bool_flag ''k3os'' [''K3OS_UPGRADE_K3OS''] True,
        bool_flag ''k3s'' [''K3OS_UPGRADE_K3S''] True,
        bool_flag ''kernel'' [''K3OS_UPGRADE_KERNEL''] False,
        bool_flag ''rootfs'' [''K3OS_UPGRADE_ROOTFS''] False,
        bool_flag ''remount'' [''K3OS_UPGRADE_REMOUNT''] False,
        bool_flag ''sync'' [''K3OS_UPGRADE_SYNC''] False,
        bool_flag ''reboot'' [''K3OS_UPGRADE_REBOOT''] False,
        string_flag ''source'' [''K3OS_UPGRADE_SOURCE''] (RootPath []) True False,
        string_flag ''destination'' [''K3OS_UPGRADE_DESTINATION''] (RootPath []) True False,
        string_flag ''lock-file'' [''K3OS_UPGRADE_LOCK_FILE''] (StatePath [''upgrade.lock'']) False True],
     cmd_Hidden = False\<rparr>"

definition upgrade_flags :: "FlagVals \<Rightarrow> upgradeOpts" where
  "upgrade_flags v = \<lparr>uo_upgradeK3OS = fv_Bool v ''k3os'', uo_upgradeK3S = fv_Bool v ''k3s'',
     uo_upgradeKernel = fv_Bool v ''kernel'', uo_upgradeRootFS = fv_Bool v ''rootfs'',
     uo_doRemount = fv_Bool v ''remount'', uo_doSync = fv_Bool v ''sync'', uo_doReboot = fv_Bool v ''reboot'',
     uo_sourceDir = fv_String v ''source'', uo_destinationDir = fv_String v ''destination'',
     uo_lockFile = fv_String v ''lock-file''\<rparr>"

text \<open>The root command: its name, its one flag and its sub-commands, of which \<open>install\<close> depends on the mode.\<close>

definition app_Name :: string where
  "app_Name = ''k3os''"

definition app_Flags :: "Flag list" where
  "app_Flags = [bool_flag ''debug'' [''K3OS_DEBUG''] False]"

definition app_Commands :: "string \<Rightarrow> Command list" where
  "app_Commands m = [rc_Command, config_Command, install_Command m, upgrade_Command]"

subsection \<open>What the commands run\<close>

record CliSys =
  cs_Getuid :: "hist \<Rightarrow> nat"
  cs_Rc :: RcSys
  cs_Config :: ConfigCmd
  cs_Install :: InstallSys
  cs_Input :: input
  cs_Upgrade :: UpgradeRun

definition must_be_root :: "CliSys \<Rightarrow> unit go" where
  "must_be_root cs =
     bnd (observe (CSys ''getuid'' [] []) (cs_Getuid cs)) (\<lambda>uid.
     if uid \<noteq> 0 then fail (Msg ''must be run as root'') else ok ())"

definition run_rc :: "CliSys \<Rightarrow> unit go" where
  "run_rc cs = pass (must_be_root cs) (\<lambda>_. bnd (rc_Run (cs_Rc cs) NewPool) (\<lambda>(r, _). ret r))"

definition run_config :: "CliSys \<Rightarrow> FlagVals \<Rightarrow> unit go" where
  "run_config cs v = pass (must_be_root cs) (\<lambda>_. config_Main (cs_Config cs) (config_flags v))"

definition run_install :: "CliSys \<Rightarrow> unit go" where
  "run_install cs = pass (must_be_root cs) (\<lambda>_. cliinstall_Run (cs_Install cs) (cs_Input cs))"

definition run_upgrade :: "CliSys \<Rightarrow> FlagVals \<Rightarrow> unit go" where
  "run_upgrade cs v =
     (case upgrade_Before (upgrade_flags v) of
        Inl e \<Rightarrow> fail e
      | Inr opts \<Rightarrow> upgrade_Run (cs_Upgrade cs) opts)"

definition run_command :: "CliSys \<Rightarrow> string \<Rightarrow> FlagVals \<Rightarrow> unit go" where
  "run_command cs name v =
     (if name = cmd_Name rc_Command then run_rc cs
      else if name = cmd_Name config_Command then run_config cs v
      else if name = cmd_Name (install_Command []) then run_install cs
      else if name = cmd_Name upgrade_Command then run_upgrade cs v
      else ok ())"

subsection \<open>main\<close>

datatype Entry = InitEntry | EnterEntry

definition registered :: "(string \<times> Entry) list" where
  "registered = [(''/init'', InitEntry), (''/sbin/init'', InitEntry), (''enter-root'', EnterEntry)]"

definition findCommand :: "Command list \<Rightarrow> string \<Rightarrow> Command option" where
  "findCommand cmds name = find (\<lambda>c. cmd_Name c = name \<or> name \<in> set (cmd_Aliases c)) cmds"

definition command_args :: "Command list \<Rightarrow> string list \<Rightarrow> string list" where
  "command_args cmds argv =
     (let p = Base (hd argv) in
      app_Name # (if p \<noteq> app_Name \<and> findCommand cmds p \<noteq> None then [p] else []) @ tl argv)"

text \<open>The command line tool; reading the mode is part of building the commands, and its error is dropped.\<close>

definition cli_main ::
    "(Command list \<Rightarrow> string list \<Rightarrow> err + string \<times> FlagVals) \<Rightarrow> CliSys \<Rightarrow> string list \<Rightarrow> unit go" where
  "cli_main parse cs argv =
     bnd (mode_Get (is_Mode (cs_Install cs)) []) (\<lambda>m.
     let cmds = app_Commands (case m of Inl _ \<Rightarrow> [] | Inr s \<Rightarrow> s) in
     case parse cmds (command_args cmds argv) of
       Inl e \<Rightarrow> fail e
     | Inr (name, v) \<Rightarrow> run_command cs name v)"

text \<open>The result of \<open>main_run\<close> says whether the process was replaced.\<close>

definition main_run ::
    "nat \<Rightarrow> Machine \<Rightarrow> TRSys \<Rightarrow> EnterSys \<Rightarrow> (string list \<Rightarrow> unit go) \<Rightarrow> bool go" where
  "main_run fuel m ts es cli =
     (case map_of registered (hd (m_Args m)) of
        Some InitEntry \<Rightarrow> initrd fuel m ts es
      | Some EnterEntry \<Rightarrow> pass (enter_Enter es) (\<lambda>_. ok True)
      | None \<Rightarrow> pass (cli (m_Args m)) (\<lambda>_. ok False))"

subsection \<open>Names\<close>

text \<open>No two commands share a name or an alias, and none has the name of the binary.\<close>

definition names_of :: "Command \<Rightarrow> string list" where
  "names_of c = cmd_Name c # cmd_Aliases c"

lemma names_distinct: "distinct (app_Name # concat (map names_of (app_Commands m)))"
  by (simp add: names_of_def app_Commands_def app_Name_def rc_Command_def config_Command_def install_Command_def
      upgrade_Command_def)

lemma findCommand_names:
  "distinct (concat (map names_of cmds)) \<Longrightarrow> c \<in> set cmds \<Longrightarrow> name \<in> set (names_of c) \<Longrightarrow> findCommand cmds name = Some c"
  by (induction cmds) (auto simp: findCommand_def names_of_def)

text \<open>The binary can be called by the name of a command. For every sub-command and every name or alias of it,
  a call through a link of that name hands the library the same arguments as a call that gives the name as the first
  argument, and the name belongs to that command alone.\<close>

lemma multicall:
  assumes "c \<in> set (app_Commands m)" and "name \<in> set (cmd_Name c # cmd_Aliases c)" and "Base p = name"
  shows "command_args (app_Commands m) (p # args) = command_args (app_Commands m) (app_Name # name # args)
    \<and> findCommand (app_Commands m) name = Some c"
proof -
  have find: "findCommand (app_Commands m) name = Some c"
    using names_distinct [of m] assms(1,2) by (intro findCommand_names) (simp_all add: names_of_def)
  have "name \<noteq> app_Name"
    using names_distinct [of m] assms(1,2) by (fastforce simp: names_of_def)
  moreover have "Base app_Name = app_Name" by code_simp
  ultimately show ?thesis using find assms(3) by (simp add: command_args_def)
qed

lemma multicall_example:
  "command_args (app_Commands ''local'') [''/sbin/cfg'', ''--dump''] = [''k3os'', ''cfg'', ''--dump'']"
proof -
  have "Base ''/sbin/cfg'' = ''cfg''" by code_simp
  then have "command_args (app_Commands ''local'') [''/sbin/cfg'', ''--dump'']
      = command_args (app_Commands ''local'') (app_Name # ''cfg'' # [''--dump''])"
    using multicall [of config_Command "''local''" "''cfg''" "''/sbin/cfg''" "[''--dump'']"]
    by (simp add: app_Commands_def config_Command_def)
  also have "\<dots> = [''k3os'', ''cfg'', ''--dump'']" by code_simp
  finally show ?thesis .
qed

subsection \<open>Who may call what\<close>

lemma must_be_root_other:
  "cs_Getuid cs h \<noteq> 0 \<Longrightarrow> pass (must_be_root cs) k h = (Inl (Msg ''must be run as root''), [(CSys ''getuid'' [] [], True)])"
  by (simp add: must_be_root_def prod_eq_iff)

lemma mode_Get_reads:
  "snd (mode_Get fs [] h) = [(CReadFile ''/run/k3os/mode'', \<not> isl (fst (ReadFile fs ''/run/k3os/mode'' h)))]"
proof -
  have path: "PathJoin [PathJoin [], StatePath [''mode'']] = ''/run/k3os/mode''" by code_simp
  show ?thesis
    unfolding mode_Get_def path by (auto simp: ReadFile_def isl_def split: sum.split)
qed

text \<open>C34: Without root the command line tool changes nothing, the upgrade apart, which has no such test: whatever the
  library makes of the arguments, when the user is not root a call of \<open>rc\<close>, \<open>config\<close> or \<open>install\<close> fails with the error that says
  so, after reading the mode and asking for the user and before any other call.\<close>

theorem cli_needs_root:
  assumes "\<And>h. cs_Getuid cs h \<noteq> 0" and "name \<in> {''rc'', ''config'', ''install''}"
    and "\<And>m. \<exists>v. parse (app_Commands m) (command_args (app_Commands m) argv) = Inr (name, v)"
  shows "\<exists>b. cli_main parse cs argv h =
    (Inl (Msg ''must be run as root''), [(CReadFile ''/run/k3os/mode'', b), (CSys ''getuid'' [] [], True)])"
proof -
  have run: "run_command cs name v h' = (Inl (Msg ''must be run as root''), [(CSys ''getuid'' [] [], True)])" for h' v
    using assms(1,2)
    by (auto simp: run_command_def run_rc_def run_config_def run_install_def must_be_root_other rc_Command_def
        config_Command_def install_Command_def)
  have "(case parse (app_Commands m) (command_args (app_Commands m) argv) of
      Inl e \<Rightarrow> fail e | Inr (name, v) \<Rightarrow> run_command cs name v) h' =
    (Inl (Msg ''must be run as root''), [(CSys ''getuid'' [] [], True)])" for m h'
    using assms(3) [of m] run by auto
  then show ?thesis
    unfolding cli_main_def Let_def by (simp add: prod_eq_iff mode_Get_reads)
qed

theorem cli_needs_root_witness:
  "\<forall>cs. \<exists>b. cli_main (\<lambda>cmds args. Inr (args ! 1, \<lparr>fv_Bool = \<lambda>f. f = ''dump'', fv_String = \<lambda>_. []\<rparr>))
      (cs\<lparr>cs_Getuid := \<lambda>_. 1000\<rparr>) [''/sbin/config'', ''--dump''] [] =
    (Inl (Msg ''must be run as root''), [(CReadFile ''/run/k3os/mode'', b), (CSys ''getuid'' [] [], True)])"
proof (intro allI)
  fix cs :: CliSys
  have "Base ''/sbin/config'' = ''config''" by code_simp
  then have "command_args (app_Commands m) [''/sbin/config'', ''--dump''] ! 1 = ''config''" for m
    by (simp add: command_args_def app_Name_def app_Commands_def findCommand_def rc_Command_def config_Command_def)
  then show "\<exists>b. cli_main (\<lambda>cmds args. Inr (args ! 1, \<lparr>fv_Bool = \<lambda>f. f = ''dump'', fv_String = \<lambda>_. []\<rparr>))
      (cs\<lparr>cs_Getuid := \<lambda>_. 1000\<rparr>) [''/sbin/config'', ''--dump''] [] =
    (Inl (Msg ''must be run as root''), [(CReadFile ''/run/k3os/mode'', b), (CSys ''getuid'' [] [], True)])"
    by (intro cli_needs_root [where name = "''config''"]) simp_all
qed

subsection \<open>The chain of processes\<close>

text \<open>C2: The entry points fit together. Called by a name registered for init, with the sentinel in place, the binary
  goes straight to the boot sequence: nothing is relocated, mounted or entered before it. Without the sentinel it exits with an error, or it ends in replacing
  itself by a process whose name is again registered, for init and then with the marker that prevents a second relocation, or for entering the
  root; only when it is not PID 1 does it return. Called by the name for entering the root, it exits with an error or it ends in
  replacing itself, after the pivot that puts the old root at the sentinel and from below it, by a process whose name is registered for init.\<close>

theorem main_stages:
  "case map_of registered (hd (m_Args m)) of
     None \<Rightarrow> main_run fuel m ts es cli = pass (cli (m_Args m)) (\<lambda>_. ok False)
   | Some EnterEntry \<Rightarrow>
       (case fst (main_run fuel m ts es cli h) of
          Inl _ \<Rightarrow> True
        | Inr b \<Rightarrow> b \<and> (\<exists>us vs self argv vars. snd (main_run fuel m ts es cli h) =
              us @ (CSys ''pivot_root'' [''.'', ''.base''] [], True) # vs @ [(CExec (postChrootSentinel @ self) argv vars, True)]
            \<and> map_of registered (hd argv) = Some InitEntry))
   | Some InitEntry \<Rightarrow>
       (if isl (fst (Stat (m_FS m) postChrootSentinel h))
        then case fst (main_run fuel m ts es cli h) of
               Inl _ \<Rightarrow> True
             | Inr b \<Rightarrow>
                 if b then \<exists>us p argv vars. snd (main_run fuel m ts es cli h) = us @ [(CExec p argv vars, True)]
                   \<and> (map_of registered (hd argv) = Some InitEntry \<and> relocated @ ''=true'' \<in> set vars
                      \<or> map_of registered (hd argv) = Some EnterEntry)
                 else \<not> es_Pid1 es
        else \<exists>h'. snd (main_run fuel m ts es cli h) = (CStat postChrootSentinel, True) # snd (postChroot fuel m h'))"
proof (cases "map_of registered (hd (m_Args m))")
  case None
  then show ?thesis by (simp add: main_run_def)
next
  case (Some entry)
  show ?thesis
  proof (cases entry)
    case InitEntry
    have next_entry: "map_of registered nextInit = Some InitEntry" "map_of registered ''enter-root'' = Some EnterEntry"
      by (simp_all add: registered_def nextInit_def)
    have run: "main_run fuel m ts es cli = initrd fuel m ts es"
      using Some InitEntry by (simp add: main_run_def)
    have handed: "replaced es args tr \<Longrightarrow> \<exists>us p argv vars. tr = us @ [(CExec p argv vars, True)]
        \<and> (map_of registered (hd argv) = Some InitEntry \<and> relocated @ ''=true'' \<in> set vars
           \<or> map_of registered (hd argv) = Some EnterEntry)" for args tr
      unfolding replaced_def using next_entry by (metis list.sel(1))
    show ?thesis
      using initrd_stages [where m = m and h = h and fuel = fuel and ts = ts and es = es]
        handed [of "m_Args m" "snd (initrd fuel m ts es h)"]
      unfolding run by (simp add: Some InitEntry split: if_splits sum.splits) blast
  next
    case EnterEntry
    have self: "map_of registered ''/init'' = Some InitEntry" by (simp add: registered_def)
    have run: "main_run fuel m ts es cli = pass (enter_Enter es) (\<lambda>_. ok True)"
      using Some EnterEntry by (simp add: main_run_def)
    show ?thesis
    proof (cases "fst (enter_Enter es h)")
      case (Inl e)
      then show ?thesis unfolding run by (simp add: Some EnterEntry)
    next
      case (Inr u)
      then obtain us vs self vars where "snd (enter_Enter es h) = us @ (CSys ''pivot_root'' [''.'', ''.base''] [], True) # vs
          @ [(CExec (postChrootSentinel @ self) [''/init''] vars, True)]"
        using Enter_hands_over [of es h] by auto
      with Inr self show ?thesis
        unfolding run by (simp add: Some EnterEntry) (metis list.sel(1))
    qed
  qed
qed

end
