(* ===== verification/Boot_Chain.thy ===== *)
theory Boot_Chain
  imports Cli_App
begin

section \<open>The chain of processes as a state machine\<close>

text \<open>
  One run of the binary is described by \<open>main_run\<close>; a boot is a chain of such runs, in which each process replaces itself by the
  next. What the operating system adds is that the new process gets the arguments and the environment of the
  call, and that a pivot leaves the old root at the sentinel. The chain refines a machine with four stages, which
  never returns to an earlier one.
\<close>

subsection \<open>The abstract machine\<close>

datatype stage = Initial | Moved | Entering | Booting | Tool

inductive stage_step :: "stage \<Rightarrow> stage \<Rightarrow> bool" where
  relocate: "stage_step Initial Moved"
| enter_unmoved: "stage_step Initial Entering"
| enter_moved: "stage_step Moved Entering"
| pivot: "stage_step Entering Booting"

inductive_cases stage_step_from [elim!]:
  "stage_step Initial t" "stage_step Moved t" "stage_step Entering t" "stage_step Booting t" "stage_step Tool t"

fun steps_left :: "stage \<Rightarrow> nat" where
  "steps_left Initial = 3"
| "steps_left Moved = 2"
| "steps_left Entering = 1"
| "steps_left Booting = 0"
| "steps_left Tool = 0"

lemma stage_step_less: "stage_step s t \<Longrightarrow> steps_left t < steps_left s"
  by (cases s) auto

lemma stage_steps_bound: "(stage_step ^^ n) s t \<Longrightarrow> n + steps_left t \<le> steps_left s"
proof (induction n arbitrary: t)
  case (Suc n)
  then obtain u where "(stage_step ^^ n) s u" and "stage_step u t" by auto
  with Suc.IH [of u] stage_step_less [of u t] show ?case by simp
qed simp

subsection \<open>The processes\<close>

record Proc =
  pc_Machine :: Machine
  pc_TR :: TRSys
  pc_Enter :: EnterSys
  pc_Hist :: hist

definition sentinel :: "Proc \<Rightarrow> bool" where
  "sentinel P \<longleftrightarrow> \<not> isl (fst (Stat (m_FS (pc_Machine P)) postChrootSentinel (pc_Hist P)))"

definition stage_of :: "Proc \<Rightarrow> stage" where
  "stage_of P =
     (case map_of registered (hd (m_Args (pc_Machine P))) of
        None \<Rightarrow> Tool
      | Some EnterEntry \<Rightarrow> Entering
      | Some InitEntry \<Rightarrow>
          if sentinel P then Booting
          else if ts_Getenv (pc_TR P) (pc_Hist P @ [(CStat postChrootSentinel, False)]) relocated = ''true'' then Moved
          else Initial)"

definition run_proc :: "nat \<Rightarrow> (string list \<Rightarrow> unit go) \<Rightarrow> Proc \<Rightarrow> (err + bool) \<times> hist" where
  "run_proc fuel cli P = main_run fuel (pc_Machine P) (pc_TR P) (pc_Enter P) cli (pc_Hist P)"

abbreviation pivot_event :: event where
  "pivot_event \<equiv> (CSys ''pivot_root'' [''.'', ''.base''] [], True)"

text \<open>
  One process after the other: the run ends in a successful \<open>execve\<close>, whose arguments and environment the new process has, and
  the sentinel exists for it when it existed before or when the run pivoted.
\<close>

inductive replaces :: "nat \<Rightarrow> (string list \<Rightarrow> unit go) \<Rightarrow> Proc \<Rightarrow> Proc \<Rightarrow> bool" for fuel cli where
  "fst (run_proc fuel cli P) = Inr True \<Longrightarrow>
   snd (run_proc fuel cli P) = us @ [(CExec p argv vars, True)] \<Longrightarrow>
   m_Args (pc_Machine P') = argv \<Longrightarrow>
   ts_Getenv (pc_TR P') = (\<lambda>_. env_value vars) \<Longrightarrow>
   sentinel P' = (sentinel P \<or> pivot_event \<in> set us) \<Longrightarrow>
   replaces fuel cli P P'"

text \<open>The environment of the first process does not mention the marker of the relocation.\<close>

definition unmarked :: "Proc \<Rightarrow> bool" where
  "unmarked P \<longleftrightarrow> (stage_of P = Initial \<longrightarrow>
     (\<forall>h. list_all (\<lambda>kv. \<not> HasPrefix kv (relocated @ ''='')) (ts_Environ (pc_TR P) h)))"

subsection \<open>One run\<close>

lemma Relocate_no_pivot: "pivot_event \<notin> set (snd (Relocate fuel ts h))"
proof -
  have copy: "guards (\<lambda>ev. ev = pivot_event) (\<lambda>_. False) (copyFS fuel ts ''/mnt'')"
    by (rule copyFS_calls) (auto simp: copy_call_def)
  have "guards (\<lambda>ev. ev = pivot_event) (\<lambda>_. False) (Relocate fuel ts)"
    unfolding Relocate_def Let_def MkdirAll_def
    by (intro copy guards_rules guards_observe) simp_all
  then show ?thesis by (auto simp: guards_def guarded_False list_all_iff)
qed

lemma Relocate_marked:
  "ts_Getenv ts h relocated = ''true'' \<Longrightarrow> fst (Relocate fuel ts h) = Inr False"
  by (simp add: Relocate_def)

lemma initrd_pre_cases:
  assumes "fst (initrd_pre fuel ts es args h) = Inr True"
  obtains (moved) "fst (Relocate fuel ts h) = Inr True" "snd (initrd_pre fuel ts es args h) = snd (Relocate fuel ts h)"
    | (entered) us vars where
      "snd (initrd_pre fuel ts es args h) = us @ [(CExec (es_Arg0 es) (''enter-root'' # tl args) vars, True)]"
proof -
  let ?enter = "ignore (mount_Mount (es_MS es) [] ''/'' ''none'' ''rw,remount'')
    (enter_Mount (es\<lparr>es_DebugCmdline := ''k3os.debug''\<rparr>) ''./k3os/data'' args)"
  have "entered_over (es\<lparr>es_DebugCmdline := ''k3os.debug''\<rparr>) args = entered_over es args"
    by (simp add: entered_over_def fun_eq_iff)
  then have enter: "concludes (entered_over es args) ?enter"
    using enter_Mount_entered [of "es\<lparr>es_DebugCmdline := ''k3os.debug''\<rparr>" args "''./k3os/data''"]
    by (simp add: concludes_ignore entered_over_closed)
  from assms obtain b where b: "fst (Relocate fuel ts h) = Inr b"
    and rest: "fst ((if b then ok True else ?enter) (h @ snd (Relocate fuel ts h))) = Inr True"
    unfolding initrd_pre_def by (auto simp: pass_Inr simp del: fst_pass)
  have trace: "snd (initrd_pre fuel ts es args h) =
      snd (Relocate fuel ts h) @ snd ((if b then ok True else ?enter) (h @ snd (Relocate fuel ts h)))"
    unfolding initrd_pre_def by (simp add: b)
  show thesis
  proof (cases b)
    case True
    with b trace show thesis by (intro moved) simp_all
  next
    case False
    with rest have "fst (?enter (h @ snd (Relocate fuel ts h))) = Inr True" by (simp only: if_False)
    then have "entered_over es args True (snd (?enter (h @ snd (Relocate fuel ts h))))"
      using enter unfolding concludes_def by blast
    then obtain us vars where "snd (?enter (h @ snd (Relocate fuel ts h))) =
        us @ [(CExec (es_Arg0 es) (''enter-root'' # tl args) vars, True)]"
      unfolding entered_over_def by auto
    with False trace show thesis by (intro entered [of "snd (Relocate fuel ts h) @ us"]) simp
  qed
qed

text \<open>What a process that was replaced has done, by its entry point.\<close>

lemma run_proc_enter:
  assumes "map_of registered (hd (m_Args (pc_Machine P))) = Some EnterEntry" and "fst (run_proc fuel cli P) = Inr True"
  obtains us vs p vars where "snd (run_proc fuel cli P) = us @ pivot_event # vs @ [(CExec p [''/init''] vars, True)]"
proof -
  have run: "run_proc fuel cli P = pass (enter_Enter (pc_Enter P)) (\<lambda>_. ok True) (pc_Hist P)"
    using assms(1) by (simp add: run_proc_def main_run_def)
  then have "fst (enter_Enter (pc_Enter P) (pc_Hist P)) = Inr ()"
    using assms(2) by (auto simp: pass_Inr simp del: fst_pass)
  moreover from this have "snd (run_proc fuel cli P) = snd (enter_Enter (pc_Enter P) (pc_Hist P))" by (simp add: run)
  ultimately show thesis using Enter_hands_over that by metis
qed

lemma run_proc_init:
  assumes "map_of registered (hd (m_Args (pc_Machine P))) = Some InitEntry" and "fst (run_proc fuel cli P) = Inr True"
  shows "\<not> sentinel P"
    and "fst (initrd_pre fuel (pc_TR P) (pc_Enter P) (m_Args (pc_Machine P)) (pc_Hist P @ [(CStat postChrootSentinel, False)])) = Inr True"
    and "snd (run_proc fuel cli P) = (CStat postChrootSentinel, False) #
      snd (initrd_pre fuel (pc_TR P) (pc_Enter P) (m_Args (pc_Machine P)) (pc_Hist P @ [(CStat postChrootSentinel, False)]))"
proof -
  have run: "run_proc fuel cli P = initrd fuel (pc_Machine P) (pc_TR P) (pc_Enter P) (pc_Hist P)"
    using assms(1) by (simp add: run_proc_def main_run_def)
  then show absent: "\<not> sentinel P"
    using assms(2) by (cases "isl (fst (Stat (m_FS (pc_Machine P)) postChrootSentinel (pc_Hist P)))")
      (simp_all add: sentinel_def initrd_def Stat_def)
  then show "fst (initrd_pre fuel (pc_TR P) (pc_Enter P) (m_Args (pc_Machine P)) (pc_Hist P @ [(CStat postChrootSentinel, False)])) = Inr True"
    "snd (run_proc fuel cli P) = (CStat postChrootSentinel, False) #
      snd (initrd_pre fuel (pc_TR P) (pc_Enter P) (m_Args (pc_Machine P)) (pc_Hist P @ [(CStat postChrootSentinel, False)]))"
    using assms(2) run by (simp_all add: sentinel_def initrd_def Stat_def)
qed

subsection \<open>The chain refines the machine\<close>

lemma relocated_stage:
  assumes "map_of registered (hd (m_Args (pc_Machine P))) = Some InitEntry" and "\<not> sentinel P"
    and "fst (Relocate fuel (pc_TR P) (pc_Hist P @ [(CStat postChrootSentinel, False)])) = Inr True"
    and "us @ [(CExec p argv vars, True)] =
      (CStat postChrootSentinel, False) # snd (Relocate fuel (pc_TR P) (pc_Hist P @ [(CStat postChrootSentinel, False)]))"
    and "m_Args (pc_Machine P') = argv" and "ts_Getenv (pc_TR P') = (\<lambda>_. env_value vars)"
    and "sentinel P' = (sentinel P \<or> pivot_event \<in> set us)" and "unmarked P"
  shows "stage_step (stage_of P) (stage_of P')"
proof -
  let ?h = "pc_Hist P @ [(CStat postChrootSentinel, False)]"
  have "ts_Getenv (pc_TR P) ?h relocated \<noteq> ''true''"
    using assms(3) Relocate_marked [of "pc_TR P" ?h fuel] by auto
  then have initial: "stage_of P = Initial" using assms(1,2) by (simp add: stage_of_def)
  from Relocate_moved [of "pc_TR P" fuel] assms(3) obtain us' h' where moved: "snd (Relocate fuel (pc_TR P) ?h) =
      us' @ [(CExec nextInit [nextInit] (ts_Environ (pc_TR P) h' @ [relocated @ ''=true'']), True)]"
    unfolding concludes_def moved_over_def by blast
  with assms(4) have us: "us = (CStat postChrootSentinel, False) # us'" and argv: "argv = [nextInit]"
    and vars: "vars = ts_Environ (pc_TR P) h' @ [relocated @ ''=true'']" by (simp_all flip: append_Cons)
  have "pivot_event \<notin> set us"
    using Relocate_no_pivot [of fuel "pc_TR P" ?h] moved us by auto
  moreover have "env_value vars relocated = ''true''"
    using assms(8) initial by (simp add: vars unmarked_def env_value_append HasPrefix_def)
  moreover have "map_of registered nextInit = Some InitEntry" by (simp add: registered_def nextInit_def)
  ultimately have "stage_of P' = Moved" using assms(2,5,6,7) argv by (simp add: stage_of_def)
  with initial show ?thesis by (simp add: relocate)
qed

lemma replaces_stage:
  assumes "replaces fuel cli P P'" and "unmarked P"
  shows "stage_step (stage_of P) (stage_of P')"
  using assms(1)
proof cases
  case (1 us p argv vars)
  have entries: "map_of registered ''/init'' = Some InitEntry" "map_of registered ''enter-root'' = Some EnterEntry"
    by (simp_all add: registered_def)
  show ?thesis
  proof (cases "map_of registered (hd (m_Args (pc_Machine P)))")
    case None
    then have "run_proc fuel cli P = pass (cli (m_Args (pc_Machine P))) (\<lambda>_. ok False) (pc_Hist P)"
      by (simp add: run_proc_def main_run_def)
    with 1 show ?thesis by (auto simp: pass_Inr simp del: fst_pass)
  next
    case (Some entry)
    show ?thesis
    proof (cases entry)
      case EnterEntry
      with Some 1 obtain us' vs p' vars' where
        "us @ [(CExec p argv vars, True)] = us' @ pivot_event # vs @ [(CExec p' [''/init''] vars', True)]"
        using run_proc_enter [of P fuel cli] by metis
      then have "argv = [''/init'']" and "us = us' @ pivot_event # vs" by (simp_all flip: append_Cons append_assoc)
      with 1 entries have "stage_of P' = Booting" by (simp add: stage_of_def)
      moreover have "stage_of P = Entering" using Some EnterEntry by (simp add: stage_of_def)
      ultimately show ?thesis by (simp add: pivot)
    next
      case InitEntry
      with Some 1 have init: "map_of registered (hd (m_Args (pc_Machine P))) = Some InitEntry" by simp
      note run = run_proc_init [OF init 1(1)]
      show ?thesis
        using run(2)
      proof (cases rule: initrd_pre_cases)
        case moved
        then have "us @ [(CExec p argv vars, True)] =
            (CStat postChrootSentinel, False) # snd (Relocate fuel (pc_TR P) (pc_Hist P @ [(CStat postChrootSentinel, False)]))"
          using 1(2) run(3) by simp
        with moved(1) 1 assms(2) show ?thesis
          by (intro relocated_stage [OF init run(1) moved(1)]) simp_all
      next
        case (entered us' vars')
        with 1 run(3) have "argv = ''enter-root'' # tl (m_Args (pc_Machine P))"
          by (simp flip: append_Cons)
        with 1 entries have "stage_of P' = Entering" by (simp add: stage_of_def)
        then show ?thesis
          using init run(1) by (auto simp: stage_of_def intro: stage_step.intros)
      qed
    qed
  qed
qed

lemma stage_step_not_initial: "stage_step s t \<Longrightarrow> t \<noteq> Initial"
  by (cases s) auto

lemma replaces_chain:
  "(replaces fuel cli ^^ n) P P' \<Longrightarrow> unmarked P \<Longrightarrow> (stage_step ^^ n) (stage_of P) (stage_of P') \<and> unmarked P'"
proof (induction n arbitrary: P')
  case (Suc n)
  then obtain Q where Q: "(replaces fuel cli ^^ n) P Q" and step: "replaces fuel cli Q P'" by auto
  with Suc have IH: "(stage_step ^^ n) (stage_of P) (stage_of Q)" "unmarked Q" by auto
  with step have last: "stage_step (stage_of Q) (stage_of P')" by (simp add: replaces_stage)
  then have "unmarked P'" using stage_step_not_initial unfolding unmarked_def by blast
  with IH(1) last show ?case by auto
qed simp


text \<open>A first process on a ram file system, and the process that follows it.\<close>

definition first_proc :: "Machine \<Rightarrow> EnterSys \<Rightarrow> Proc" where
  "first_proc m es = \<lparr>pc_Machine = m\<lparr>m_Args := [''/init''], m_FS := fs_ok\<lparr>fs_Stat := \<lambda>_ _. Inl (OsErr ENOENT [])\<rparr>\<rparr>,
     pc_TR = ts_ok, pc_Enter = es, pc_Hist = []\<rparr>"

definition second_proc :: "Machine \<Rightarrow> EnterSys \<Rightarrow> Proc" where
  "second_proc m es = (first_proc m es)\<lparr>pc_TR := ts_ok\<lparr>ts_Getenv := \<lambda>_. env_value [''HOME=/'', ''K3OS_RELOCATED=true'']\<rparr>\<rparr>"

lemma first_proc_relocates: "replaces 2 cli (first_proc m es) (second_proc m es)"
proof -
  let ?h = "[(CStat postChrootSentinel, False)]"
  have entry: "map_of registered ''/init'' = Some InitEntry" by (simp add: registered_def)
  have run: "Relocate 2 ts_ok ?h = (Inr True, butlast (snd (Relocate 2 ts_ok ?h)) @
      [(CExec nextInit [nextInit] [''HOME=/'', ''K3OS_RELOCATED=true''], True)])"
    by code_simp
  have "run_proc 2 cli (first_proc m es) =
      (Inr True, ((CStat postChrootSentinel, False) # butlast (snd (Relocate 2 ts_ok ?h))) @
        [(CExec nextInit [nextInit] [''HOME=/'', ''K3OS_RELOCATED=true''], True)])"
    using run by (simp add: run_proc_def main_run_def first_proc_def entry initrd_def initrd_pre_def Stat_def prod_eq_iff)
  moreover have "\<not> sentinel (first_proc m es)" "\<not> sentinel (second_proc m es)"
    by (simp_all add: sentinel_def first_proc_def second_proc_def Stat_def)
  moreover have "pivot_event \<notin> set ((CStat postChrootSentinel, False) # butlast (snd (Relocate 2 ts_ok ?h)))"
    using Relocate_no_pivot [of 2 ts_ok ?h] by (auto dest: in_set_butlastD)
  ultimately show ?thesis
    by (intro replaces.intros [where us = "(CStat postChrootSentinel, False) # butlast (snd (Relocate 2 ts_ok ?h))"
          and p = nextInit and argv = "[nextInit]" and vars = "[''HOME=/'', ''K3OS_RELOCATED=true'']"])
       (simp_all add: second_proc_def first_proc_def nextInit_def)
qed


end
