(* ===== verification/Spec2Isabelle.thy ===== *)
theory Spec2Isabelle
  imports Boot_Disk_Props Boot_Finalize_Props Testmode Config_Env User_Account Os_Adapters Boot_Chain
begin

text \<open>
  \<^bold>\<open>k3os-bin: a verification of the k3OS system binary\<close>

  The binary is the init process of a small Linux distribution, its upgrade tool and its configuration
  tool. As init it runs twice. In the initramfs (\<open>main.go\<close>, \<open>internal/transferroot\<close>, \<open>internal/enterchroot\<close>)
  it moves the root off the ram file system, mounts the system image and pivots into it. After the pivot
  (\<open>internal/boot\<close>) it bootstraps the system, detects the boot mode, runs the handler of the mode,
  finalizes the system and executes \<open>/sbin/init\<close>; whatever fails on the way ends in a rescue shell. The handler of
  the disk mode pivots once more, into the installed system, and starts there in mode local. The configuration
  (\<open>internal/config\<close>) is merged from files, the kernel command line and the data source, and applied in phases
  (\<open>internal/cc\<close>). Upgrades copy versioned components under a lock (\<open>internal/system\<close>, \<open>internal/cli/upgrade\<close>).

  \<^bold>\<open>How the code is modelled.\<close> The Go code reaches the operating system only through injected
  interfaces and package functions. These are records of functions here, as \<open>internal/iface/iface.go\<close> has them. An
  effectful function is an action: it takes the history of all calls made so far and returns its result
  and the calls it made, each with whether it succeeded (\<open>Go_Effects\<close>). A boundary function may answer
  as it likes, depending on that history, so a theorem about every record is one about every behaviour of
  the operating system, failures included. Errors are values of the type \<open>err\<close> and results \<open>err + 'a\<close>; a
  returned Go error is \<open>Inl\<close>. Deferred calls are written where they run. An error holds its fixed text and the errors it
  wraps, not the values formatted into it. Strings are byte lists and letter classes those of ASCII.
  Maps with an iteration order are association lists; machine integers keep their width as words where
  they can overflow. Code that is not in the repository (YAML, map merging, SHA-crypt, blkid, the MBR and GPT libraries,
  shlex, HTTP) is a parameter, with what is used of it as named hypotheses.

  \<^bold>\<open>Fuel.\<close> Loops that the environment can keep alive take fuel: the retries of mode detection, the
  unmounting of \<open>/.base\<close>, the walk over a directory tree. Running out of it is the error \<open>Diverges\<close> or the value \<open>None\<close>. For detection and
  unmounting, theorems show how much fuel is enough (the deadline divided by the interval, plus two; the
  depth of the mount stack, plus one). What is shown of the walk holds for any fuel. Prompts read a finite input and need none.

  \<^bold>\<open>The theories.\<close>

  \<^item> Library: \<open>Go_Strings\<close>, \<open>Go_Path\<close>, \<open>Go_Quote\<close>, \<open>Go_Encoding\<close>, \<open>Go_Lines\<close> (the standard packages
    strings, strconv, path, base64, bufio as far as used), \<open>Go_Effects\<close> (actions, boundary records, the
    rules \<open>emits\<close> and \<open>yields\<close> about traces), \<open>Go_Fixtures\<close> (concrete systems for witnesses), \<open>File_Store\<close> and
    \<open>Link_Store\<close> (what a trace does to file contents and to symbolic links; the locale \<open>atomic_writer\<close>).

  \<^item> Boot: \<open>Boot_Phases\<close> (the step loop and the locale \<open>phase_runner\<close>), \<open>Boot_Bootstrap\<close>
    (\<open>boot/bootstrap\<close>), \<open>Boot_Detect\<close> (\<open>internal/mode\<close>), \<open>Partition_Names\<close> (device paths, the locale
    \<open>partition_splitter\<close>), \<open>Boot_Modes\<close> and \<open>Boot_Disk_Props\<close> (\<open>boot/modes\<close>), \<open>Boot_Finalize\<close> and
    \<open>Boot_Finalize_Props\<close> (\<open>boot/finalize\<close>), \<open>Boot_Init\<close> (\<open>boot/init.go\<close>, the wiring of \<open>main.go\<close>, the locale
    \<open>mode_registry\<close>), \<open>Testmode\<close> (\<open>boot/testmode\<close>), \<open>User_Account\<close> (the account that the bootstrapper writes, as the
    appliers of the configuration read it).

  \<^item> First stage: \<open>Transferroot\<close>, \<open>Enterchroot\<close>, \<open>Loopdev\<close>, and \<open>Initrd\<close> (\<open>initrd\<close> of \<open>main.go\<close>, which composes them
    with the boot sequence).

  \<^item> Devices and mounts: \<open>Mount\<close>, \<open>Namespace\<close> (\<open>internal/namespace\<close> and the rc command), \<open>Devices\<close>
    (\<open>devpopulate\<close>, the block prober, \<open>virt\<close>), \<open>Modalias\<close>, \<open>Diskutil\<close>, \<open>Osimpl\<close>.

  \<^item> Production: \<open>Os_Adapters\<close>, the adapters of \<open>internal/iface/osimpl\<close>, \<open>internal/command\<close> and \<open>internal/cmdline\<close> as boundary records
    built from smaller ones, and the applier and the machine made of them (\<open>NewDefaultApplier\<close>, \<open>postChroot\<close>).

  \<^item> Configuration: \<open>Config_Map\<close> (nested maps with the locale \<open>nested_store\<close>, the command line reader),
    \<open>Config_Names\<close>, \<open>Config_Read\<close>, \<open>Config_Env\<close> (the configuration as environment variables), \<open>Flag_Sources\<close>, \<open>Cc_Files\<close> (shadow, writefile, ssh, hostname), \<open>Cc_Apply\<close>
    (\<open>internal/cc\<close>), \<open>Questions\<close> and \<open>Cli_Install\<close> (the installer's dialogue).

  \<^item> Upgrades: \<open>System_Component\<close> (\<open>system/component.go\<close>) and \<open>Upgrade\<close> (\<open>cli/upgrade\<close>).

  \<^item> Command line: \<open>Cli_App\<close> (\<open>cli/app\<close>, the \<open>Command\<close> functions with their flags, and \<open>main\<close>, which is init, the program that
    enters the root, or the command line tool by the name of the process), and \<open>Boot_Chain\<close> (the processes that replace one another
    from the first init to the boot sequence, as a refinement of a machine with four stages).

  \<^bold>\<open>What is shown.\<close> Control flow of the boot: it ends in init or rescue, each process of the chain replaces itself by one that
  is registered for the next stage and their sequence refines an abstract machine that never goes back, detection and unmounting terminate, waiting is bounded. Safety of what destroys data: the state
  partition is resized only while unmounted, takeover and relocation remove only what may go and when it
  may go, an MBR is rewritten only within the device, the installer starts only when confirmed. Atomicity: an interrupted
  upgrade leaves a complete current version, \<open>/etc/shadow\<close> is replaced whole, keys are only added. Concurrency: interleaved
  calls of \<open>Detach\<close> close a loop device once (a step relation with an invariant), an upgrade changes the disk only under its
  lock. Composition: the account that the bootstrapper writes is
  the one that the steps for keys and the password find; the detector of virtual machines and the setup of services together link no service
  twice; the commands of the tool need root. Data: the environment of the installer is exactly the configuration; precedence, normal form and round trips of the configuration, agreement of the two command line parsers, agreement of link
  writing and link reading by label. Lemmas beside these record where the code departs from its intent or its
  comments (a directory that is never removed, a label that leaves its directory, a marker the image search misses, and others).

  \<^bold>\<open>Not modelled.\<close> What the operating system does with a call is not modelled where no theorem needs it: the functions of package os, of package
  syscall and of the process package are the fields of boundary records, over which \<open>OSFileSystem\<close> and the other adapters are defined. Parsing of arguments,
  help and the flag for debug output belong to the command line library and to logging. Log messages and the texts shown by prompts have no effect on what is done
  and are left out. Decompression, the crypt hash, the decoder of the mapstructure library, YAML and the parser of the u-root library are
  parameters. The functions under \<open>src/\<close> that remain without a definition are constructors that only store their arguments, methods that
  return a field or hand a call on as it is, and the formatting of messages; the fields of the records stand for them.
\<close>

section \<open>Properties of the whole boot\<close>

text \<open>Wiring, modes and the mode file: what \<open>postChroot\<close> composes.\<close>

definition modeFile :: string where
  "modeFile = ''/run/k3os/mode''"

lemma cleanup_writes_mode:
  assumes "fst (Fin_Cleanup f h) = Inr ()" and "fz_Mode f \<noteq> []"
  shows "\<exists>tr. snd (Fin_Cleanup f h) = tr @ [(CWriteFile modeFile (fz_Mode f @ [newline]) mode_644, True)]"
  using assms
  by (auto simp: Fin_Cleanup_def cleanup_mode_def modeFile_def MkdirAll_def WriteFile_def split: sum.splits if_splits)

lemma finalizer_writes_mode:
  assumes "fst (Finalizer_Run fuel f h) = Inr ()" and "fz_Mode f \<noteq> []"
  shows "\<exists>tr. snd (Finalizer_Run fuel f h) = tr @ [(CWriteFile modeFile (fz_Mode f @ [newline]) mode_644, True)]"
proof -
  let ?us = "butlast (finalize_steps fuel f)"
  have steps: "finalize_steps fuel f = ?us @ [(''Cleanup'', Fin_Cleanup f)]"
    by (simp add: finalize_steps_def)
  note run = finalizer.step_done [OF assms(1) steps]
  from cleanup_writes_mode [OF run(1) assms(2)] show ?thesis
    unfolding run(2) by (metis append.assoc append_Nil2 steps_trace.simps(1))
qed

lemma boot_phases_mode:
  assumes "fst (boot_phases i h) = Inr ()"
  obtains mode handler h1 h2 h3 tr where
    "fst (i_ModeDetector i h1) = Inr mode" and "i_ModeRegistry i mode = Inr handler"
    and "fst (handler h2) = Inr ()"
    and "fst (i_Finalizer i (if i_ModeSetter i then mode else i_FinalizerMode i) h3) = Inr ()"
    and "snd (boot_phases i h) = tr @ snd (i_Finalizer i (if i_ModeSetter i then mode else i_FinalizerMode i) h3)"
  using assms that by (auto simp: boot_phases_def split: sum.splits)

lemma boot_detect_valid: "fst (boot_detect fuel m h) = Inr mode \<Longrightarrow> mode \<in> set ValidModes"
  by (auto simp: boot_detect_def intro: Detect_valid split: option.splits)

text \<open>The handlers that can succeed are those of the modes that stay in the running process.\<close>

lemma handler_success_modes:
  assumes "mode \<in> set ValidModes" and "Registry_Get mode = Inr ctor" and "fst (ctor dp h) = Inr ()"
  shows "mode \<in> {''local'', ''live'', ''install''}"
proof (rule ccontr)
  assume "mode \<notin> {''local'', ''live'', ''install''}"
  with assms(1) consider "mode = ''disk''" | "mode = ''shell''"
    unfolding ValidModes_def by (simp only: list.set insert_iff empty_iff) blast
  then have "isl (fst (ctor dp h))"
  proof cases
    case 1
    then have "ctor = DiskHandler_Execute" using assms(2) by (simp add: Registry_Get_def Registry_handlers_def)
    then show ?thesis using yieldsD [OF DiskHandler_fails] by blast
  next
    case 2
    then have "ctor = ShellHandler_Execute" using assms(2) by (simp add: Registry_Get_def Registry_handlers_def)
    then show ?thesis using yieldsD [OF ShellHandler_fails] by blast
  qed
  then show False using assms(3) by simp
qed

lemma Init_Run_exec_last:
  assumes "snd (Init_Run i h) = tr @ [(CExec p args env, True)]"
  shows "fst (boot_phases i h) = Inr () \<and> tr = snd (boot_phases i h) @ [(CEnviron, True)]"
  using assms
  by (cases "fst (boot_phases i h)") (auto simp: Init_Run_phases boot_end_def split: if_splits)

lemma initOrch_fields:
  "i_ModeDetector (initOrch fuel m kver vid test) = boot_detect fuel m"
  "i_ModeRegistry (initOrch fuel m kver vid test) mode =
     (case Registry_Get mode of Inl e \<Rightarrow> Inl e | Inr c \<Rightarrow> Inr (c (modeDeps m kver vid)))"
  "i_Finalizer (initOrch fuel m kver vid test) mode = Finalizer_Run fuel (boot_finalizer m mode)"
  "i_ModeSetter (initOrch fuel m kver vid test)"
  "i_Bootstrap (initOrch fuel m kver vid test) = Bootstrapper_Run (bootstrapper m kver)"
  "i_Args (initOrch fuel m kver vid test) = m_Args m" "i_Environ (initOrch fuel m kver vid test) = m_Environ m"
  "i_ExecFunc (initOrch fuel m kver vid False) = pe_Exec (m_Proc m)"
  by (simp_all add: initOrch_def)


text \<open>A machine that boots into live mode from the command line, with every call succeeding.\<close>

definition machine_live :: Machine where
  "machine_live = \<lparr>m_FS = fs_ok, m_Cmd = cmd_ok, m_Mounter = mounter_ok, m_BlockProber = prober_ok,
     m_PartitionGrower = grower_ok, m_LoopDetacher = detacher_ok, m_LoopAttacher = attacher_ok,
     m_Proc = proc_ok, m_Copy = (\<lambda>_ _ _. Inr ()), m_CopyPreserve = (\<lambda>_ _ _. Inr ()),
     m_CopyManifests = (\<lambda>_ _ _. Inr ()), m_KernelVersion = Inr ''5.15'', m_RCRun = (\<lambda>_. Inr ()),
     m_RunInitrd = (\<lambda>_. Inr ()), m_RunBoot = (\<lambda>_. Inr ()),
     m_Cmdline = cmdline_none\<lparr>cp_Flag := (\<lambda>_ n. if n = ''k3os.mode'' then Some ''live'' else None)\<rparr>,
     m_RandRead = (\<lambda>_. Inr [1, 2, 3, 4]), m_VirtDetect = (\<lambda>_. Inr []), m_Statfs = (\<lambda>_ _. Inr 0),
     m_Getenv = (\<lambda>_ _. []), m_Environ = (\<lambda>_. []), m_Now = (\<lambda>_. 0), m_Console = (\<lambda>_. Inr ()),
     m_MountProc = (\<lambda>_. Inr ()), m_Verifier = (\<lambda>_. Inr ()), m_Args = [''/init'']\<rparr>"

lemma machine_live_bootstrap: "never_fails (Bootstrapper_Run (bootstrapper machine_live k))"
proof -
  have "\<forall>s \<in> set (bootstrap_steps (bootstrapper machine_live k)). never_fails (snd s)"
    by (simp add: bootstrap_steps_def Bootstrap_SetupEtc_def Bootstrap_SetupModules_def replaceInFile_def
        appendLine_def Bootstrap_SetupUsers_def Bootstrap_SetupRC_def Bootstrap_SetupDirs_def kernel_device_def
        Bootstrap_SetupKernel_def Bootstrap_SetupConfig_def bootstrapper_def machine_live_def Let_def
        never_fails_intros)
  then show ?thesis unfolding Bootstrapper_Run_def by (rule run_steps_never_fails)
qed

lemma machine_live_finalize: "never_fails (Finalizer_Run 1 (boot_finalizer machine_live ''live''))"
proof -
  define f where "f = boot_finalizer machine_live ''live''"
  have fields: "fz_FS f = fs_ok" "fz_Mounter f = mounter_ok" "fz_Cmd f = cmd_ok" "fz_Mode f = ''live''"
    "fz_ConfigRunner f = (\<lambda>_. Inr ())" "fz_ManifestCopier f = (\<lambda>_ _ _. Inr ())"
    by (simp_all add: f_def boot_finalizer_def machine_live_def)
  have rand: "never_fails (perform CRand (fz_RandFunc f))"
    by (simp add: never_fails_def f_def boot_finalizer_def cryptoRandUint32_def machine_live_def)
  have loop: "never_fails (umount_loop 1 f)"
    by (simp add: never_fails_def fields Mounted_def mounter_ok_def)
  have root: "never_fails (Fin_SetupRoot f)"
    by (simp add: never_fails_def Fin_SetupRoot_def fields Stat_def fs_ok_def)
  have clean: "never_fails (Fin_Cleanup f)"
    by (simp add: never_fails_def Fin_Cleanup_def cleanup_mode_def fields ReadDir_def MkdirAll_def WriteFile_def
        fs_ok_def)
  have "\<forall>s \<in> set (finalize_steps 1 f). never_fails (snd s)"
    by (simp add: finalize_steps_def Fin_SetupMounts_def Fin_GrowLive_def Fin_SetupHostname_def Fin_SetupHosts_def
        Fin_SetupTTYs_def append_file_def root clean Fin_SetupSudoers_def link_service_def
        link_vm_service_def Fin_SetupServices_def link_if_configured_def Fin_SetupConfig_def
        Fin_SetupManifests_def Fin_SetupStateDirs_def fields loop rand
        Let_def never_fails_intros del: umount_loop.simps One_nat_def foreach_go.simps split: prod.split)
  then show ?thesis unfolding Finalizer_Run_def f_def by (rule run_steps_never_fails)
qed

lemma machine_live_phases: "fst (boot_phases (initOrch 1 machine_live k v False) h) = Inr ()"
proof -
  let ?i = "initOrch 1 machine_live k v False"
  have det: "fst (boot_detect 1 machine_live h') = Inr ''live''" for h'
    by (simp add: boot_detect_def Detect_def Flag_def CmdlineContains_def boot_detector_def machine_live_def
        cmdline_none_def Detector_finalize_def ValidModes_def Let_def fs_ok_def)
  have "never_fails (Live_SetupBase (modeDeps machine_live k v))"
    by (simp add: never_fails_def Live_SetupBase_def modeDeps_def machine_live_def FindByLabel_def MountFS_def
        prober_ok_def mounter_ok_def Let_def)
  then have live: "never_fails (LiveHandler_Execute (modeDeps machine_live k v))"
    by (simp add: LiveHandler_Execute_def LiveSetup_Run_def Live_SetupKernel_def
        Live_SetupPasswd_def Live_SetupMotd_def modeDeps_def machine_live_def Let_def never_fails_intros)
  have reg: "Registry_Get ''live'' = Inr LiveHandler_Execute"
    by (simp add: Registry_Get_def Registry_handlers_def)
  have unit: "fst (act h') = Inr ()" if "never_fails act" for act :: "unit go" and h'
    using never_failsD [OF that, of h'] by (cases "fst (act h')") auto
  show ?thesis
    by (simp add: boot_phases_def initOrch_fields det reg unit [OF live] unit [OF machine_live_bootstrap]
        unit [OF machine_live_finalize] del: One_nat_def)
qed

lemma machine_live_boots:
  "snd (Init_Run (initOrch 1 machine_live k v False) h) =
     (snd (boot_phases (initOrch 1 machine_live k v False) h) @ [(CEnviron, True)])
     @ [(CExec ''/sbin/init'' [''/init''] [], True)]"
proof -
  have "m_Args machine_live = [''/init'']" "m_Environ machine_live h' = []"
    "pe_Exec (m_Proc machine_live) h' p args env = Inr ()" for h' p args env
    by (simp_all add: machine_live_def proc_ok_def)
  then show ?thesis
    by (simp add: Init_Run_phases boot_end_def machine_live_phases initOrch_fields del: One_nat_def)
qed


subsection \<open>The mode file\<close>

text \<open>C38: The mode survives its file: what Detect writes to the mode file (the bare mode) and what the
  finalizer's Cleanup writes last (the mode and a newline) are both read back by mode.Get as
  the mode, for each of the five modes.\<close>

theorem mode_file_roundtrip:
  assumes "m \<in> set ValidModes" and "fz_Mode f = m" and "fst (Fin_Cleanup f h) = Inr ()"
    and "fst (last (snd (Fin_Cleanup f h))) = CWriteFile path content perm"
    and "fs_ReadFile fs h' (PathJoin [PathJoin pre, path]) = Inr written" and "written \<in> {content, m}"
  shows "path = StatePath [''mode''] \<and> fst (mode_Get fs pre h') = Inr m"
proof -
  have path: "modeFile = StatePath [''mode'']" by code_simp
  have "fz_Mode f \<noteq> []" using assms(1,2) by (auto simp: ValidModes_def)
  with cleanup_writes_mode [OF assms(3)] assms(2,4)
  have w: "path = modeFile" "content = m @ [newline]" by auto
  have "TrimSpace written = m"
    using assms(1,6) by (auto simp: w ValidModes_def string_eval)
  then show ?thesis
    using assms(5) w by (simp add: path mode_Get_def ReadFile_def)
qed

definition fin_local :: Finalizer where
  "fin_local = fin_live\<lparr>fz_Mode := ''local''\<rparr>"

theorem mode_file_roundtrip_witness:
  "modeFile = StatePath [''mode'']
   \<and> fst (mode_Get (fs_ok\<lparr>fs_ReadFile := (\<lambda>_ _. Inr (''local'' @ [newline]))\<rparr>) [''/''] []) = Inr ''local''"
proof (rule mode_file_roundtrip)
  show "''local'' \<in> set ValidModes" by (simp add: ValidModes_def)
  show "fz_Mode fin_local = ''local''" by (simp add: fin_local_def)
  show "fst (Fin_Cleanup fin_local []) = Inr ()" by code_simp
  show "fst (last (snd (Fin_Cleanup fin_local []))) = CWriteFile modeFile (''local'' @ [newline]) mode_644"
    by code_simp
  show "fs_ReadFile (fs_ok\<lparr>fs_ReadFile := (\<lambda>_ _. Inr (''local'' @ [newline]))\<rparr>) []
      (PathJoin [PathJoin [''/''], modeFile]) = Inr (''local'' @ [newline])" by simp
  show "''local'' @ [newline] \<in> {''local'' @ [newline], ''local''}" by blast
qed

end
